(* ===== verification/Gw_Prelude.thy ===== *)
theory Gw_Prelude
  imports Main "HOL-Library.State_Monad"
begin

text \<open>
  Shared vocabulary of the development.  A Go method that reads or changes the outside world
  is a value of \<open>('w, 'a) state\<close> (HOL-Library's \<open>State_Monad\<close>): given the world it returns
  its result and the new world.  A Go pair \<open>(value, err)\<close> is the sum \<open>'e + 'a\<close>, the error
  on the left.  This theory holds the two idioms every component uses, \<open>try_bind\<close> for
  \<open>if err != nil \<lbrace> return ..., err \<rbrace>\<close> and \<open>lift_state\<close> for running an operation on one
  part of the world, and the frame calculus (\<open>preserves\<close>) by which the component proofs show
  which part of the world an operation leaves alone.
\<close>

named_theorems frame_intros \<open>rules that show an operation preserves a part of the world\<close>
named_theorems keep_intros \<open>rules that show an operation keeps an invariant of the world\<close>
named_theorems port_defs \<open>definitions of the adapters that provide a port\<close>

subsection \<open>Results, errors and early returns\<close>

abbreviation ret :: "'a \<Rightarrow> ('w, 'a) state" where
  "ret \<equiv> State_Monad.return"

abbreviation result_of :: "('w, 'a) state \<Rightarrow> 'w \<Rightarrow> 'a" where
  "result_of m w \<equiv> fst (run_state m w)"

abbreviation world_after :: "('w, 'a) state \<Rightarrow> 'w \<Rightarrow> 'w" where
  "world_after m w \<equiv> snd (run_state m w)"

definition try_bind ::
    "('w, 'e + 'a) state \<Rightarrow> ('a \<Rightarrow> ('w, 'e + 'b) state) \<Rightarrow> ('w, 'e + 'b) state" where
  "try_bind m f = m \<bind> (\<lambda>r. case r of Inl e \<Rightarrow> ret (Inl e) | Inr x \<Rightarrow> f x)"

lemma run_try_bind [simp]:
  "run_state (try_bind m f) w =
     (case run_state m w of (Inl e, w') \<Rightarrow> (Inl e, w') | (Inr x, w') \<Rightarrow> run_state (f x) w')"
  by (auto simp: try_bind_def split: prod.splits sum.splits)

lemma run_state_if [simp]:
  "run_state (if b then m else n) w = (if b then run_state m w else run_state n w)"
  by simp

subsection \<open>Operations on one part of the world\<close>

definition lift_state ::
    "('w \<Rightarrow> 'v) \<Rightarrow> ('v \<Rightarrow> 'w \<Rightarrow> 'w) \<Rightarrow> ('v, 'a) state \<Rightarrow> ('w, 'a) state" where
  "lift_state get put m =
     State (\<lambda>w. case run_state m (get w) of (a, v) \<Rightarrow> (a, put v w))"

lemma run_lift_state [simp]:
  "run_state (lift_state get put m) w =
     (case run_state m (get w) of (a, v) \<Rightarrow> (a, put v w))"
  by (simp add: lift_state_def)

definition read_state :: "('w \<Rightarrow> 'a) \<Rightarrow> ('w, 'a) state" where
  "read_state f = State (\<lambda>w. (f w, w))"

lemma run_read_state [simp]: "run_state (read_state f) w = (f w, w)"
  by (simp add: read_state_def)

definition modify_state :: "('w \<Rightarrow> 'w) \<Rightarrow> ('w, unit) state" where
  "modify_state f = State (\<lambda>w. ((), f w))"

lemma run_modify_state [simp]: "run_state (modify_state f) w = ((), f w)"
  by (simp add: modify_state_def)

subsection \<open>Frames\<close>

text \<open>\<open>preserves f m\<close>: whatever the world, \<open>m\<close> does not change what \<open>f\<close> reads from it.\<close>

definition preserves :: "('w \<Rightarrow> 'v) \<Rightarrow> ('w, 'a) state \<Rightarrow> bool" where
  "preserves f m \<longleftrightarrow> (\<forall>w. f (world_after m w) = f w)"

lemma preservesI: "(\<And>w. f (world_after m w) = f w) \<Longrightarrow> preserves f m"
  by (simp add: preserves_def)

lemma preservesD: "preserves f m \<Longrightarrow> f (world_after m w) = f w"
  by (simp add: preserves_def)

lemma preserves_run: "preserves f m \<Longrightarrow> run_state m w = (a, w') \<Longrightarrow> f w' = f w"
  by (metis preservesD snd_conv)

lemma preserves_ret [frame_intros, simp]: "preserves f (ret a)"
  by (simp add: preserves_def)

lemma preserves_read [frame_intros, simp]: "preserves f (read_state g)"
  by (simp add: preserves_def)

lemma preserves_bind [frame_intros]:
  assumes "preserves f m" and "\<And>a. preserves f (k a)"
  shows "preserves f (m \<bind> k)"
  using assms by (auto simp: preserves_def split: prod.splits) (metis snd_conv)

lemma preserves_try_bind [frame_intros]:
  assumes "preserves f m" and "\<And>a. preserves f (k a)"
  shows "preserves f (try_bind m k)"
  unfolding try_bind_def using assms by (auto intro!: preserves_bind split: sum.splits)

lemma preserves_if [frame_intros]:
  "(b \<Longrightarrow> preserves f m) \<Longrightarrow> (\<not> b \<Longrightarrow> preserves f n) \<Longrightarrow> preserves f (if b then m else n)"
  by simp

lemma preserves_case_sum [frame_intros]:
  "(\<And>x. r = Inl x \<Longrightarrow> preserves f (m x)) \<Longrightarrow> (\<And>y. r = Inr y \<Longrightarrow> preserves f (n y)) \<Longrightarrow>
     preserves f (case r of Inl x \<Rightarrow> m x | Inr y \<Rightarrow> n y)"
  by (cases r) auto

lemma preserves_case_option [frame_intros]:
  "(r = None \<Longrightarrow> preserves f m) \<Longrightarrow> (\<And>y. r = Some y \<Longrightarrow> preserves f (n y)) \<Longrightarrow>
     preserves f (case r of None \<Rightarrow> m | Some y \<Rightarrow> n y)"
  by (cases r) auto

lemma preserves_case_prod [frame_intros]:
  "(\<And>a b. p = (a, b) \<Longrightarrow> preserves f (m a b)) \<Longrightarrow> preserves f (case p of (a, b) \<Rightarrow> m a b)"
  by (cases p) auto

lemma preserves_let [frame_intros]:
  "(\<And>x. x = e \<Longrightarrow> preserves f (m x)) \<Longrightarrow> preserves f (let x = e in m x)"
  by simp

lemma preserves_lift:
  assumes "\<And>v w. f (put v w) = f w"
  shows "preserves f (lift_state get put m)"
  using assms by (auto simp: preserves_def split: prod.splits)

lemma preserves_modify: "(\<And>w. f (g w) = f w) \<Longrightarrow> preserves f (modify_state g)"
  by (simp add: preserves_def)

subsection \<open>Invariants\<close>

text \<open>\<open>keeps I m\<close>: from a world that satisfies \<open>I\<close>, \<open>m\<close> goes to a world that satisfies it.\<close>

definition keeps :: "('w \<Rightarrow> bool) \<Rightarrow> ('w, 'a) state \<Rightarrow> bool" where
  "keeps I m \<longleftrightarrow> (\<forall>w. I w \<longrightarrow> I (world_after m w))"

lemma keepsI: "(\<And>w. I w \<Longrightarrow> I (world_after m w)) \<Longrightarrow> keeps I m"
  by (simp add: keeps_def)

lemma keepsD: "keeps I m \<Longrightarrow> I w \<Longrightarrow> I (world_after m w)"
  by (simp add: keeps_def)

lemma keeps_run: "keeps I m \<Longrightarrow> run_state m w = (a, w') \<Longrightarrow> I w \<Longrightarrow> I w'"
  using keepsD [of I m w] by simp

lemma preserves_keeps: "preserves f m \<Longrightarrow> (\<And>w w'. f w' = f w \<Longrightarrow> I w \<Longrightarrow> I w') \<Longrightarrow> keeps I m"
  unfolding keeps_def preserves_def by blast

lemma keeps_ret [keep_intros, simp]: "keeps I (ret a)"
  by (simp add: keeps_def)

lemma keeps_read [keep_intros, simp]: "keeps I (read_state g)"
  by (simp add: keeps_def)

lemma keeps_bind [keep_intros]:
  assumes "keeps I m" and "\<And>a. keeps I (k a)"
  shows "keeps I (m \<bind> k)"
  using assms by (auto simp: keeps_def split: prod.splits)

text \<open>The continuation only has to keep the invariant on results the first operation can give.\<close>

lemma keeps_bind_result:
  assumes "keeps I m"
    and "\<And>w a w'. I w \<Longrightarrow> run_state m w = (a, w') \<Longrightarrow> I w' \<Longrightarrow> I (world_after (k a) w')"
  shows "keeps I (m \<bind> k)"
proof (rule keepsI)
  fix w assume w: "I w"
  obtain a w' where run: "run_state m w = (a, w')" by (cases "run_state m w")
  with assms(1) w have "I w'" by (blast intro: keeps_run)
  with assms(2) [OF w run] run show "I (world_after (m \<bind> k) w)" by simp
qed

lemma keeps_try_bind [keep_intros]:
  assumes "keeps I m" and "\<And>a. keeps I (k a)"
  shows "keeps I (try_bind m k)"
  unfolding try_bind_def using assms by (auto intro!: keeps_bind split: sum.splits)

lemma keeps_if [keep_intros]:
  "(b \<Longrightarrow> keeps I m) \<Longrightarrow> (\<not> b \<Longrightarrow> keeps I n) \<Longrightarrow> keeps I (if b then m else n)"
  by simp

lemma keeps_case_sum [keep_intros]:
  "(\<And>x. r = Inl x \<Longrightarrow> keeps I (m x)) \<Longrightarrow> (\<And>y. r = Inr y \<Longrightarrow> keeps I (n y)) \<Longrightarrow>
     keeps I (case r of Inl x \<Rightarrow> m x | Inr y \<Rightarrow> n y)"
  by (cases r) auto

lemma keeps_case_option [keep_intros]:
  "(r = None \<Longrightarrow> keeps I m) \<Longrightarrow> (\<And>y. r = Some y \<Longrightarrow> keeps I (n y)) \<Longrightarrow>
     keeps I (case r of None \<Rightarrow> m | Some y \<Rightarrow> n y)"
  by (cases r) auto

lemma keeps_case_prod [keep_intros]:
  "(\<And>a b. p = (a, b) \<Longrightarrow> keeps I (m a b)) \<Longrightarrow> keeps I (case p of (a, b) \<Rightarrow> m a b)"
  by (cases p) auto

lemma keeps_let [keep_intros]: "(\<And>x. x = e \<Longrightarrow> keeps I (m x)) \<Longrightarrow> keeps I (let x = e in m x)"
  by simp

end
