(* ===== verification/Go_Strings.thy ===== *)
theory Go_Strings
  imports Gw_Prelude
begin

text \<open>
  Go strings as the gateway uses them.  A Go string is a sequence of bytes; here it is a
  \<^typ>\<open>string\<close> whose characters are those bytes (UTF-8 where the text is not ASCII).  The theory
  translates the functions of packages \<open>strings\<close> and \<open>strconv\<close> the gateway calls:
  \<open>TrimSpace\<close> with the UTF-8 encodings of the Unicode white space, \<open>ToLower\<close> (the Unicode case
  table beyond ASCII is the argument \<open>uni\<close>), \<open>HasPrefix\<close>, \<open>TrimPrefix\<close>, \<open>Split\<close>, \<open>TrimRight\<close>
  and the decimal and hexadecimal renderings.
\<close>

abbreviation byte_val :: "char \<Rightarrow> nat" where
  "byte_val c \<equiv> of_char c"

lemmas char_eval = char_of_eq_iff take_bit_eq_mod

definition bytes_of :: "nat list \<Rightarrow> string" where
  "bytes_of ns = map char_of ns"

subsection \<open>Prefixes and splitting\<close>

fun strip_prefix :: "string \<Rightarrow> string \<Rightarrow> string option" where
  "strip_prefix [] s = Some s"
| "strip_prefix (p # ps) [] = None"
| "strip_prefix (p # ps) (c # cs) = (if p = c then strip_prefix ps cs else None)"

definition HasPrefix :: "string \<Rightarrow> string \<Rightarrow> bool" where
  "HasPrefix s p = (strip_prefix p s \<noteq> None)"

definition TrimPrefix :: "string \<Rightarrow> string \<Rightarrow> string" where
  "TrimPrefix s p = (case strip_prefix p s of Some r \<Rightarrow> r | None \<Rightarrow> s)"

lemma strip_prefix_Some [simp]: "strip_prefix p s = Some r \<longleftrightarrow> s = p @ r"
  by (induction p s rule: strip_prefix.induct) auto

lemma strip_prefix_append [simp]: "strip_prefix p (p @ r) = Some r"
  by simp

lemma strip_prefix_None: "strip_prefix p s = None \<longleftrightarrow> (\<forall>r. s \<noteq> p @ r)"
  by (metis not_None_eq strip_prefix_Some)

lemma strip_prefix_length:
  "strip_prefix p s = Some r \<Longrightarrow> length s = length p + length r"
  by simp

lemma HasPrefix_iff: "HasPrefix s p \<longleftrightarrow> (\<exists>r. s = p @ r)"
  by (auto simp: HasPrefix_def strip_prefix_None)

lemma TrimPrefix_append [simp]: "TrimPrefix (p @ r) p = r"
  by (simp add: TrimPrefix_def)

lemma HasPrefix_append [simp]: "HasPrefix (p @ r) p"
  by (simp add: HasPrefix_def)

lemma HasPrefix_TrimPrefix: "HasPrefix s p \<Longrightarrow> p @ TrimPrefix s p = s"
  by (auto simp: HasPrefix_iff)

text \<open>\<open>strings.Split(s, sep)\<close> for a separator of one byte.\<close>

fun split_on :: "char \<Rightarrow> string \<Rightarrow> string list" where
  "split_on sep [] = [[]]"
| "split_on sep (c # cs) =
     (if c = sep then [] # split_on sep cs
      else case split_on sep cs of [] \<Rightarrow> [[c]] | w # ws \<Rightarrow> (c # w) # ws)"

lemma split_on_nonempty [simp]: "split_on sep s \<noteq> []"
  by (induction s) (auto split: list.splits)

lemma hd_split_on: "hd (split_on sep s) = takeWhile (\<lambda>c. c \<noteq> sep) s"
proof (induction s)
  case (Cons c cs)
  then show ?case by (cases "split_on sep cs") auto
qed simp

text \<open>\<open>strings.Join\<close> with a separator of one byte.\<close>

fun join_with :: "char \<Rightarrow> string list \<Rightarrow> string" where
  "join_with sep [] = []"
| "join_with sep [x] = x"
| "join_with sep (x # y # ys) = x @ sep # join_with sep (y # ys)"

lemma length_join_ge: "\<forall>x \<in> set xs. x \<noteq> [] \<Longrightarrow> length xs \<le> length (join_with c xs)"
proof (induction c xs rule: join_with.induct)
  case (2 c x)
  then show ?case by (cases x) auto
next
  case (3 c x y ys)
  then have "1 \<le> length x" by (cases x) auto
  with 3 show ?case by simp
qed simp

definition TrimRight_char :: "char \<Rightarrow> string \<Rightarrow> string" where
  "TrimRight_char c s = rev (dropWhile (\<lambda>d. d = c) (rev s))"

subsection \<open>TrimSpace\<close>

text \<open>
  The encodings of the code points that \<open>unicode.IsSpace\<close> accepts: six ASCII bytes, U+0085,
  U+00A0, U+1680, U+2000 to U+200A, U+2028, U+2029, U+202F, U+205F and U+3000.  None is a prefix
  or a suffix of another, and each starts with a lead byte, so trimming whole encodings is
  trimming whole runes, also in a string that is not valid UTF-8.
\<close>

definition space_encodings :: "string list" where
  "space_encodings =
     map bytes_of
      ([[9], [10], [11], [12], [13], [32], [194, 133], [194, 160], [225, 154, 128]] @
       map (\<lambda>b. [226, 128, b])
         [128, 129, 130, 131, 132, 133, 134, 135, 136, 137, 138, 168, 169, 175] @
       [[226, 129, 159], [227, 128, 128]])"

fun strip_any :: "string list \<Rightarrow> string \<Rightarrow> string option" where
  "strip_any [] s = None"
| "strip_any (p # ps) s = (case strip_prefix p s of Some r \<Rightarrow> Some r | None \<Rightarrow> strip_any ps s)"

lemma strip_any_Some: "strip_any ps s = Some r \<Longrightarrow> \<exists>p \<in> set ps. s = p @ r"
  by (induction ps) (auto split: option.splits)

lemma strip_any_None: "strip_any ps s = None \<longleftrightarrow> (\<forall>p \<in> set ps. \<forall>r. s \<noteq> p @ r)"
  by (induction ps) (auto simp: strip_prefix_None split: option.splits)

function trim_with :: "string list \<Rightarrow> string \<Rightarrow> string" where
  "trim_with ps s =
     (case strip_any ps s of
        None \<Rightarrow> s
      | Some r \<Rightarrow> if length r < length s then trim_with ps r else s)"
  by pat_completeness auto
termination
  by (relation "measure (\<lambda>(ps, s). length s)") auto

declare trim_with.simps [simp del]

definition TrimLeftSpace :: "string \<Rightarrow> string" where
  "TrimLeftSpace s = trim_with space_encodings s"

definition TrimRightSpace :: "string \<Rightarrow> string" where
  "TrimRightSpace s = rev (trim_with (map rev space_encodings) (rev s))"

definition TrimSpace :: "string \<Rightarrow> string" where
  "TrimSpace s = TrimRightSpace (TrimLeftSpace s)"

definition starts_trimmed :: "string list \<Rightarrow> string \<Rightarrow> bool" where
  "starts_trimmed ps s \<longleftrightarrow> strip_any ps s = None"

lemma trim_with_id: "starts_trimmed ps s \<Longrightarrow> trim_with ps s = s"
  by (simp add: trim_with.simps [of ps s] starts_trimmed_def)

lemma trim_with_trimmed: "[] \<notin> set ps \<Longrightarrow> starts_trimmed ps (trim_with ps s)"
proof (induction ps s rule: trim_with.induct)
  case (1 ps s)
  show ?case
  proof (cases "strip_any ps s")
    case None
    then show ?thesis by (simp add: trim_with.simps [of ps s] starts_trimmed_def)
  next
    case (Some r)
    then obtain p where "p \<in> set ps" "s = p @ r" using strip_any_Some by blast
    moreover from this "1.prems" have "p \<noteq> []" by auto
    ultimately have "length r < length s" by simp
    with Some "1.IH" "1.prems" show ?thesis by (simp add: trim_with.simps [of ps s])
  qed
qed

lemma trim_with_suffix: "\<exists>p. s = p @ trim_with ps s"
proof (induction ps s rule: trim_with.induct)
  case (1 ps s)
  show ?case
  proof (cases "strip_any ps s")
    case None
    then show ?thesis by (simp add: trim_with.simps [of ps s])
  next
    case (Some r)
    then obtain q where s: "s = q @ r" using strip_any_Some by blast
    show ?thesis
    proof (cases "length r < length s")
      case True
      with 1 [OF Some] obtain p where "r = p @ trim_with ps r" by blast
      with s have "s = (q @ p) @ trim_with ps r" by simp
      moreover have "trim_with ps s = trim_with ps r"
        by (subst trim_with.simps) (simp add: Some True)
      ultimately show ?thesis by metis
    next
      case False
      with Some show ?thesis by (simp add: trim_with.simps [of ps s])
    qed
  qed
qed

lemma starts_trimmed_prefix: "starts_trimmed ps (s @ t) \<Longrightarrow> starts_trimmed ps s"
  by (force simp: starts_trimmed_def strip_any_None)

lemma space_encodings_nonempty: "[] \<notin> set space_encodings" "[] \<notin> set (map rev space_encodings)"
  by (simp_all add: space_encodings_def bytes_of_def)

lemma TrimRightSpace_prefix: "\<exists>q. s = TrimRightSpace s @ q"
proof -
  obtain p where "rev s = p @ trim_with (map rev space_encodings) (rev s)"
    using trim_with_suffix by blast
  then have "s = rev (trim_with (map rev space_encodings) (rev s)) @ rev p"
    by (metis rev_append rev_rev_ident)
  then show ?thesis by (auto simp: TrimRightSpace_def)
qed

lemma TrimSpace_ends:
  "starts_trimmed space_encodings (TrimSpace s)"
  "starts_trimmed (map rev space_encodings) (rev (TrimSpace s))"
proof -
  have l: "starts_trimmed space_encodings (TrimLeftSpace s)"
    unfolding TrimLeftSpace_def by (rule trim_with_trimmed) (rule space_encodings_nonempty)
  obtain q where "TrimLeftSpace s = TrimSpace s @ q"
    using TrimRightSpace_prefix TrimSpace_def by metis
  with l show "starts_trimmed space_encodings (TrimSpace s)"
    by (metis starts_trimmed_prefix)
  show "starts_trimmed (map rev space_encodings) (rev (TrimSpace s))"
    unfolding TrimSpace_def TrimRightSpace_def
    using trim_with_trimmed [OF space_encodings_nonempty(2)] by simp
qed

lemma TrimSpace_fixed:
  "starts_trimmed space_encodings s \<Longrightarrow> starts_trimmed (map rev space_encodings) (rev s) \<Longrightarrow>
     TrimSpace s = s"
  by (simp add: TrimSpace_def TrimLeftSpace_def TrimRightSpace_def trim_with_id)

lemma TrimSpace_idem [simp]: "TrimSpace (TrimSpace s) = TrimSpace s"
  by (rule TrimSpace_fixed) (rule TrimSpace_ends)+

text \<open>A string of printable ASCII bytes without blanks has nothing to trim.\<close>

definition is_graph :: "char \<Rightarrow> bool" where
  "is_graph c \<longleftrightarrow> 33 \<le> byte_val c \<and> byte_val c \<le> 126"

lemma space_encodings_not_graph: "p \<in> set space_encodings \<Longrightarrow> p \<noteq> [] \<and> list_all (\<lambda>c. \<not> is_graph c) p"
proof -
  have "list_all (\<lambda>p. p \<noteq> [] \<and> list_all (\<lambda>c. \<not> is_graph c) p) space_encodings"
    by (simp add: space_encodings_def bytes_of_def is_graph_def)
  then show "p \<in> set space_encodings \<Longrightarrow> p \<noteq> [] \<and> list_all (\<lambda>c. \<not> is_graph c) p"
    by (simp add: list_all_iff)
qed

lemma TrimSpace_graph:
  assumes "list_all is_graph s"
  shows "TrimSpace s = s"
proof -
  have no: "s' \<noteq> q @ r" if "q \<noteq> []" "list_all (\<lambda>c. \<not> is_graph c) q" "list_all is_graph s'" for q r s'
    using that by (cases q) auto
  show ?thesis
  proof (rule TrimSpace_fixed)
    show "starts_trimmed space_encodings s"
      using no assms space_encodings_not_graph by (auto simp: starts_trimmed_def strip_any_None)
    have "list_all is_graph (rev s)" using assms by (simp add: list_all_iff)
    then show "starts_trimmed (map rev space_encodings) (rev s)"
      using no [of "rev p" "rev s" for p] space_encodings_not_graph
      by (fastforce simp: starts_trimmed_def strip_any_None list_all_iff)
  qed
qed

subsection \<open>ToLower\<close>

definition is_ascii :: "string \<Rightarrow> bool" where
  "is_ascii s = list_all (\<lambda>c. byte_val c < 128) s"

definition ascii_lower :: "char \<Rightarrow> char" where
  "ascii_lower c =
     (if 65 \<le> byte_val c \<and> byte_val c \<le> 90 then char_of (byte_val c + 32) else c)"

text \<open>
  \<open>strings.ToLower\<close> maps an ASCII string byte by byte; any other string goes through the Unicode
  case table, the argument \<open>uni\<close>.
\<close>

definition ToLower :: "(string \<Rightarrow> string) \<Rightarrow> string \<Rightarrow> string" where
  "ToLower uni s = (if is_ascii s then map ascii_lower s else uni s)"

lemma byte_val_char_of: "n < 256 \<Longrightarrow> byte_val (char_of n) = n"
  by simp

lemma ascii_lower_val:
  "byte_val (ascii_lower c) =
     (if 65 \<le> byte_val c \<and> byte_val c \<le> 90 then byte_val c + 32 else byte_val c)"
  by (auto simp: ascii_lower_def)

lemma ascii_lower_idem [simp]: "ascii_lower (ascii_lower c) = ascii_lower c"
proof -
  have "\<not> (65 \<le> byte_val (ascii_lower c) \<and> byte_val (ascii_lower c) \<le> 90)"
    by (simp add: ascii_lower_val)
  then show ?thesis by (subst ascii_lower_def) auto
qed

lemma is_ascii_lower: "is_ascii s \<Longrightarrow> is_ascii (map ascii_lower s)"
  by (auto simp: is_ascii_def list_all_iff ascii_lower_val)

lemma ToLower_idem_ascii: "is_ascii s \<Longrightarrow> ToLower uni (ToLower uni s) = ToLower uni s"
  by (simp add: ToLower_def is_ascii_lower)

subsection \<open>Decimal and hexadecimal renderings\<close>

definition hex_chars :: "string" where
  "hex_chars = ''0123456789abcdef''"

definition digit_char :: "nat \<Rightarrow> char" where
  "digit_char d = hex_chars ! d"

function show_nat :: "nat \<Rightarrow> string" where
  "show_nat n = (if n < 10 then [digit_char n] else show_nat (n div 10) @ [digit_char (n mod 10)])"
  by pat_completeness auto
termination
  by (relation "measure id") auto

declare show_nat.simps [simp del]

lemma show_nat_small: "n < 10 \<Longrightarrow> show_nat n = [digit_char n]"
  by (simp add: show_nat.simps [of n])

lemma show_nat_step: "\<not> n < 10 \<Longrightarrow> show_nat n = show_nat (n div 10) @ [digit_char (n mod 10)]"
  by (simp add: show_nat.simps [of n])

definition show_int :: "int \<Rightarrow> string" where
  "show_int i = (if i < 0 then CHR ''-'' # show_nat (nat (- i)) else show_nat (nat i))"

definition pad_zeros :: "nat \<Rightarrow> string \<Rightarrow> string" where
  "pad_zeros k s = replicate (k - length s) CHR ''0'' @ s"

definition hex_byte :: "nat \<Rightarrow> string" where
  "hex_byte b = [digit_char (b div 16), digit_char (b mod 16)]"

definition hex_encode :: "nat list \<Rightarrow> string" where
  "hex_encode bs = concat (map hex_byte bs)"

lemma length_hex_encode [simp]: "length (hex_encode bs) = 2 * length bs"
  by (induction bs) (auto simp: hex_encode_def hex_byte_def)

lemma digit_char_hex: "d < 16 \<Longrightarrow> digit_char d \<in> set hex_chars"
  unfolding digit_char_def by (rule nth_mem) (simp add: hex_chars_def)

lemma hex_encode_chars: "\<forall>b \<in> set bs. b < 256 \<Longrightarrow> set (hex_encode bs) \<subseteq> set hex_chars"
  by (induction bs) (auto simp: hex_encode_def hex_byte_def intro!: digit_char_hex)

lemma digit_char_inj: "d < 16 \<Longrightarrow> e < 16 \<Longrightarrow> digit_char d = digit_char e \<Longrightarrow> d = e"
  using nth_eq_iff_index_eq [of hex_chars d e] by (simp add: digit_char_def hex_chars_def)

lemma show_nat_nonempty [simp]: "show_nat n \<noteq> []"
  by (subst show_nat.simps) simp

lemma show_nat_nonempty' [simp]: "[] \<noteq> show_nat n"
  by (metis show_nat_nonempty)

lemma show_nat_inj: "show_nat m = show_nat n \<Longrightarrow> m = n"
proof (induction m arbitrary: n rule: less_induct)
  case (less m)
  show ?case
  proof (cases "m < 10 \<or> n < 10")
    case True
    with less.prems show ?thesis
      by (cases "m < 10"; cases "n < 10")
         (auto simp: show_nat_small show_nat_step dest!: digit_char_inj [rotated 2])
  next
    case False
    with less.prems have d: "show_nat (m div 10) = show_nat (n div 10)"
      and e: "digit_char (m mod 10) = digit_char (n mod 10)"
      by (simp_all add: show_nat_step)
    from False have "m div 10 = n div 10" using less.IH [OF _ d] by simp
    moreover from e have "m mod 10 = n mod 10" by (rule digit_char_inj [rotated 2]) auto
    ultimately show ?thesis by (metis div_mult_mod_eq)
  qed
qed

end
