(* ===== verification/Go_Sha256.thy ===== *)
theory Go_Sha256
  imports Go_Strings "HOL-Library.Word"
begin

text \<open>
  SHA-256 (FIPS 180-4), the function \<open>crypto/sha256.Sum256\<close> that the gateway derives bucket keys,
  credentials and key fingerprints from.  It is executable on 32-bit words and its result is a list
  of 32 byte values.
\<close>

unbundle bit_operations_syntax

type_synonym u32 = "32 word"

definition rotr :: "nat \<Rightarrow> u32 \<Rightarrow> u32" where
  "rotr n x = (drop_bit n x) OR (push_bit (32 - n) x)"

definition sha_ch :: "u32 \<Rightarrow> u32 \<Rightarrow> u32 \<Rightarrow> u32" where
  "sha_ch x y z = (x AND y) XOR (NOT x AND z)"

definition sha_maj :: "u32 \<Rightarrow> u32 \<Rightarrow> u32 \<Rightarrow> u32" where
  "sha_maj x y z = (x AND y) XOR (x AND z) XOR (y AND z)"

definition big_sigma0 :: "u32 \<Rightarrow> u32" where
  "big_sigma0 x = rotr 2 x XOR rotr 13 x XOR rotr 22 x"

definition big_sigma1 :: "u32 \<Rightarrow> u32" where
  "big_sigma1 x = rotr 6 x XOR rotr 11 x XOR rotr 25 x"

definition small_sigma0 :: "u32 \<Rightarrow> u32" where
  "small_sigma0 x = rotr 7 x XOR rotr 18 x XOR drop_bit 3 x"

definition small_sigma1 :: "u32 \<Rightarrow> u32" where
  "small_sigma1 x = rotr 17 x XOR rotr 19 x XOR drop_bit 10 x"

text \<open>The round constants and the initial hash value of the standard, in decimal.\<close>

definition sha_k :: "u32 list" where
  "sha_k =
    [1116352408, 1899447441, 3049323471, 3921009573, 961987163, 1508970993, 2453635748, 2870763221,
     3624381080, 310598401, 607225278, 1426881987, 1925078388, 2162078206, 2614888103, 3248222580,
     3835390401, 4022224774, 264347078, 604807628, 770255983, 1249150122, 1555081692, 1996064986,
     2554220882, 2821834349, 2952996808, 3210313671, 3336571891, 3584528711, 113926993, 338241895,
     666307205, 773529912, 1294757372, 1396182291, 1695183700, 1986661051, 2177026350, 2456956037,
     2730485921, 2820302411, 3259730800, 3345764771, 3516065817, 3600352804, 4094571909, 275423344,
     430227734, 506948616, 659060556, 883997877, 958139571, 1322822218, 1537002063, 1747873779,
     1955562222, 2024104815, 2227730452, 2361852424, 2428436474, 2756734187, 3204031479, 3329325298]"

type_synonym sha_regs = "u32 \<times> u32 \<times> u32 \<times> u32 \<times> u32 \<times> u32 \<times> u32 \<times> u32"

definition sha_h0 :: sha_regs where
  "sha_h0 = (1779033703, 3144134277, 1013904242, 2773480762,
             1359893119, 2600822924, 528734635, 1541459225)"

text \<open>The message schedule is a sliding window of sixteen words; each round consumes its head.\<close>

fun next_word :: "u32 list \<Rightarrow> u32" where
  "next_word [w0, w1, w2, w3, w4, w5, w6, w7, w8, w9, w10, w11, w12, w13, w14, w15] =
     small_sigma1 w14 + w9 + small_sigma0 w1 + w0"
| "next_word _ = 0"

fun sha_round :: "u32 \<Rightarrow> u32 \<Rightarrow> sha_regs \<Rightarrow> sha_regs" where
  "sha_round k w (a, b, c, d, e, f, g, h) =
     (let t1 = h + big_sigma1 e + sha_ch e f g + k + w;
          t2 = big_sigma0 a + sha_maj a b c
      in (t1 + t2, a, b, c, d + t1, e, f, g))"

fun sha_rounds :: "u32 list \<Rightarrow> u32 list \<Rightarrow> sha_regs \<Rightarrow> sha_regs" where
  "sha_rounds (k # ks) (w # ws) r = sha_rounds ks (ws @ [next_word (w # ws)]) (sha_round k w r)"
| "sha_rounds _ _ r = r"

fun sha_add :: "sha_regs \<Rightarrow> sha_regs \<Rightarrow> sha_regs" where
  "sha_add (a, b, c, d, e, f, g, h) (a', b', c', d', e', f', g', h') =
     (a + a', b + b', c + c', d + d', e + e', f + f', g + g', h + h')"

definition sha_block :: "sha_regs \<Rightarrow> u32 list \<Rightarrow> sha_regs" where
  "sha_block r ws = sha_add (sha_rounds sha_k ws r) r"

definition byte_at :: "nat \<Rightarrow> 'a::len word \<Rightarrow> nat" where
  "byte_at k w = unat (drop_bit k w AND 255)"

fun words_of_bytes :: "nat list \<Rightarrow> u32 list" where
  "words_of_bytes (a # b # c # d # rest) =
     (push_bit 24 (of_nat a) OR push_bit 16 (of_nat b) OR push_bit 8 (of_nat c) OR of_nat d)
       # words_of_bytes rest"
| "words_of_bytes _ = []"

definition bytes_of_word :: "u32 \<Rightarrow> nat list" where
  "bytes_of_word w = [byte_at 24 w, byte_at 16 w, byte_at 8 w, byte_at 0 w]"

fun blocks_of :: "nat \<Rightarrow> u32 list \<Rightarrow> u32 list list" where
  "blocks_of 0 ws = []"
| "blocks_of (Suc n) ws = take 16 ws # blocks_of n (drop 16 ws)"

definition length_field :: "nat \<Rightarrow> nat list" where
  "length_field len =
     (let bits = push_bit 3 (of_nat len) :: 64 word
      in map (\<lambda>k. byte_at k bits) [56, 48, 40, 32, 24, 16, 8, 0])"

definition sha_pad :: "nat list \<Rightarrow> nat list" where
  "sha_pad m =
     m @ [128] @ replicate ((119 - length m mod 64) mod 64) 0 @ length_field (length m)"

definition regs_list :: "sha_regs \<Rightarrow> u32 list" where
  "regs_list = (\<lambda>(a, b, c, d, e, f, g, h). [a, b, c, d, e, f, g, h])"

definition Sum256 :: "string \<Rightarrow> nat list" where
  "Sum256 s =
     (let p = sha_pad (map of_char s)
      in concat (map bytes_of_word
           (regs_list (foldl sha_block sha_h0 (blocks_of (length p div 64) (words_of_bytes p))))))"

lemma length_bytes_of_word [simp]: "length (bytes_of_word w) = 4"
  by (simp add: bytes_of_word_def)

lemma byte_at_bound: "byte_at k (w :: u32) < 256"
proof -
  have "drop_bit k w AND 255 \<le> 255" by (rule word_and_le1)
  then show ?thesis by (simp add: byte_at_def word_le_nat_alt)
qed

lemma length_Sum256 [simp]: "length (Sum256 s) = 32"
  by (simp add: Sum256_def Let_def regs_list_def split: prod.splits)

lemma Sum256_bytes: "\<forall>b \<in> set (Sum256 s). b < 256"
  by (auto simp: Sum256_def Let_def bytes_of_word_def byte_at_bound)

lemma Sum256_nonempty [simp]: "Sum256 s \<noteq> []"
  using length_Sum256 [of s] by (metis length_0_conv zero_neq_numeral)

end
