(* ===== verification/Go_Time.thy ===== *)
theory Go_Time
  imports Go_Strings
begin

text \<open>
  Package \<open>time\<close> as the gateway uses it.  A \<open>time.Time\<close> is its instant, in nanoseconds since the
  Unix epoch (an unbounded integer: the wall clock of the process; the gateway drops the monotonic
  reading with \<open>UTC()\<close> before it compares or prints).  A \<open>time.Duration\<close> is its nanoseconds.
\<close>

type_synonym go_time = int
type_synonym duration = int

definition nanosecond :: duration where "nanosecond = 1"
definition second :: duration where "second = 1000000000"
definition minute :: duration where "minute = 60 * second"

text \<open>The zero \<open>time.Time\<close> is 1 January of year 1, UTC.\<close>

definition zero_time :: go_time where
  "zero_time = - 62135596800 * second"

definition time_Unix :: "go_time \<Rightarrow> int" where
  "time_Unix t = t div second"

definition time_UnixNano :: "go_time \<Rightarrow> int" where
  "time_UnixNano t = t"

definition time_After :: "go_time \<Rightarrow> go_time \<Rightarrow> bool" where
  "time_After t u \<longleftrightarrow> u < t"

text \<open>\<open>int(d.Seconds())\<close>: the whole seconds, rounded toward zero.\<close>

definition whole_seconds :: "duration \<Rightarrow> int" where
  "whole_seconds d = (if d < 0 then - ((- d) div second) else d div second)"

text \<open>The civil date of a day number (days since the epoch), in the proleptic Gregorian calendar.\<close>

definition civil_from_days :: "int \<Rightarrow> int \<times> int \<times> int" where
  "civil_from_days z0 =
     (let z = z0 + 719468;
          era = z div 146097;
          doe = z mod 146097;
          yoe = (doe - doe div 1460 + doe div 36524 - doe div 146096) div 365;
          doy = doe - (365 * yoe + yoe div 4 - yoe div 100);
          mp = (5 * doy + 2) div 153;
          d = doy - (153 * mp + 2) div 5 + 1;
          m = (if mp < 10 then mp + 3 else mp - 9);
          y = yoe + era * 400
      in (if m \<le> 2 then y + 1 else y, m, d))"

definition two_digits :: "int \<Rightarrow> string" where
  "two_digits n = pad_zeros 2 (show_int n)"

definition show_year :: "int \<Rightarrow> string" where
  "show_year y = (if y < 0 then CHR ''-'' # pad_zeros 4 (show_int (- y)) else pad_zeros 4 (show_int y))"

text \<open>A fraction of a second in the layout \<open>.999999999\<close>: no trailing zeros, nothing when it is zero.\<close>

definition show_fraction :: "int \<Rightarrow> string" where
  "show_fraction ns =
     (if ns = 0 then [] else CHR ''.'' # TrimRight_char CHR ''0'' (pad_zeros 9 (show_int ns)))"

definition date_part :: "go_time \<Rightarrow> string" where
  "date_part t =
     (case civil_from_days (time_Unix t div 86400) of (y, m, d) \<Rightarrow>
        show_year y @ ''-'' @ two_digits m @ ''-'' @ two_digits d)"

definition clock_part :: "go_time \<Rightarrow> string" where
  "clock_part t =
     (let s = time_Unix t mod 86400
      in two_digits (s div 3600) @ '':'' @ two_digits (s div 60 mod 60) @ '':'' @
         two_digits (s mod 60) @ show_fraction (t mod second))"

text \<open>\<open>t.UTC().String()\<close> and the \<open>RFC3339Nano\<close> text of a UTC time in JSON.\<close>

definition utc_string :: "go_time \<Rightarrow> string" where
  "utc_string t = date_part t @ '' '' @ clock_part t @ '' +0000 UTC''"

definition rfc3339_utc :: "go_time \<Rightarrow> string" where
  "rfc3339_utc t = date_part t @ ''T'' @ clock_part t @ ''Z''"

lemma whole_seconds_nonneg: "0 \<le> d \<Longrightarrow> 0 \<le> whole_seconds d"
  by (simp add: whole_seconds_def second_def)

end
