(* ===== verification/Domain_RateLimit.thy ===== *)
theory Domain_RateLimit
  imports Go_Sha256 Go_Time
begin

text \<open>
  \<open>internal/domain/ratelimit.go\<close>: the rate-limit classes, the policies and decisions, the bucket
  keys and the hash that keeps a raw identifier out of them.  \<open>uni\<close> is the Unicode case table of
  \<open>strings.ToLower\<close> beyond ASCII.  The lemmas give the shape of the keys and say when two keys name
  the same bucket.
\<close>

subsection \<open>Classes and limits\<close>

definition ClassAuthOTPRequest :: string where "ClassAuthOTPRequest = ''auth_otp_request''"
definition ClassAuthOTPVerify :: string where "ClassAuthOTPVerify = ''auth_otp_verify''"
definition ClassAuthPassword :: string where "ClassAuthPassword = ''auth_password''"
definition ClassAuthRefresh :: string where "ClassAuthRefresh = ''auth_refresh''"
definition ClassOwnershipChallenge :: string where
  "ClassOwnershipChallenge = ''system_ownership_challenge''"
definition ClassOwnershipVerify :: string where
  "ClassOwnershipVerify = ''system_ownership_verify''"
definition ClassDevOnboardClaim :: string where "ClassDevOnboardClaim = ''dev_onboard_claim''"
definition ClassAdminChallenge :: string where "ClassAdminChallenge = ''admin_challenge''"
definition ClassAdminVerify :: string where "ClassAdminVerify = ''admin_verify''"
definition ClassOnboardClaim :: string where "ClassOnboardClaim = ''onboard_claim''"

lemmas class_defs =
  ClassAuthOTPRequest_def ClassAuthOTPVerify_def ClassAuthPassword_def ClassAuthRefresh_def
  ClassOwnershipChallenge_def ClassOwnershipVerify_def ClassDevOnboardClaim_def
  ClassAdminChallenge_def ClassAdminVerify_def ClassOnboardClaim_def

definition clientKeyPrefix :: string where "clientKeyPrefix = ''rl:''"
definition identifierKeyPrefix :: string where
  "identifierKeyPrefix = ''rl:'' @ ClassAuthOTPRequest @ '':id:''"

definition authClassOTPRequestLimit :: int where "authClassOTPRequestLimit = 5"
definition authClassOTPVerifyLimit :: int where "authClassOTPVerifyLimit = 20"
definition authClassPasswordLimit :: int where "authClassPasswordLimit = 10"
definition authClassRefreshLimit :: int where "authClassRefreshLimit = 30"
definition otpIdentifierWindowLimit :: int where "otpIdentifierWindowLimit = 3"
definition defaultAuthPolicyWindow :: duration where "defaultAuthPolicyWindow = minute"
definition SignupIPLimit :: int where "SignupIPLimit = 5"
definition InviteAcceptIPLimit :: int where "InviteAcceptIPLimit = 5"
definition TenantResolveIPLimit :: int where "TenantResolveIPLimit = 600"
definition OrgRouteLimit :: int where "OrgRouteLimit = 60"
definition RouteWindow :: duration where "RouteWindow = minute"

lemmas limit_defs =
  authClassOTPRequestLimit_def authClassOTPVerifyLimit_def authClassPasswordLimit_def
  authClassRefreshLimit_def otpIdentifierWindowLimit_def defaultAuthPolicyWindow_def
  SignupIPLimit_def InviteAcceptIPLimit_def TenantResolveIPLimit_def OrgRouteLimit_def
  RouteWindow_def minute_def second_def

subsection \<open>Policies and decisions\<close>

record policy =
  pol_Class :: string
  pol_Limit :: int
  pol_Window :: duration

record decision =
  Allowed :: bool
  Limit :: int
  Remaining :: int
  ResetAt :: go_time
  RetryAfter :: duration

record limit_error =
  le_Decision :: decision
  Unavailable :: bool

definition zero_policy :: policy where
  "zero_policy = \<lparr>pol_Class = [], pol_Limit = 0, pol_Window = 0\<rparr>"

definition zero_decision :: decision where
  "zero_decision =
     \<lparr>Allowed = False, Limit = 0, Remaining = 0, ResetAt = zero_time, RetryAfter = 0\<rparr>"

definition LimitError_Error :: "limit_error \<Rightarrow> string" where
  "LimitError_Error e =
     (if Unavailable e then ''rate limiter unavailable'' else ''rate limit exceeded'')"

definition auth_policy :: "string \<Rightarrow> int \<Rightarrow> policy" where
  "auth_policy class limit =
     \<lparr>pol_Class = class, pol_Limit = limit, pol_Window = defaultAuthPolicyWindow\<rparr>"

definition DefaultAuthPolicies :: "string \<rightharpoonup> policy" where
  "DefaultAuthPolicies = map_of
     [(ClassAuthOTPRequest, auth_policy ClassAuthOTPRequest authClassOTPRequestLimit),
      (ClassAuthOTPVerify, auth_policy ClassAuthOTPVerify authClassOTPVerifyLimit),
      (ClassAuthPassword, auth_policy ClassAuthPassword authClassPasswordLimit),
      (ClassAuthRefresh, auth_policy ClassAuthRefresh authClassRefreshLimit)]"

definition OTPRequestIdentifierPolicy :: policy where
  "OTPRequestIdentifierPolicy =
     \<lparr>pol_Class = ClassAuthOTPRequest, pol_Limit = otpIdentifierWindowLimit,
      pol_Window = defaultAuthPolicyWindow\<rparr>"

definition IPRoutePolicy :: "string \<Rightarrow> int \<Rightarrow> policy" where
  "IPRoutePolicy route limit = \<lparr>pol_Class = route, pol_Limit = limit, pol_Window = RouteWindow\<rparr>"

definition OrgRoutePolicy :: "string \<Rightarrow> policy" where
  "OrgRoutePolicy route = \<lparr>pol_Class = route, pol_Limit = OrgRouteLimit, pol_Window = RouteWindow\<rparr>"

text \<open>Indexing a Go map at an absent key yields the zero value.\<close>

definition PolicyFor :: "string \<Rightarrow> policy" where
  "PolicyFor class = (case DefaultAuthPolicies class of Some p \<Rightarrow> p | None \<Rightarrow> zero_policy)"

subsection \<open>Bucket keys\<close>

definition ClientKey :: "string \<Rightarrow> string \<Rightarrow> string" where
  "ClientKey class clientIP = clientKeyPrefix @ class @ '':'' @ clientIP"

definition HashIdentifier :: "(string \<Rightarrow> string) \<Rightarrow> string \<Rightarrow> string" where
  "HashIdentifier uni identifier = take 16 (hex_encode (Sum256 (ToLower uni (TrimSpace identifier))))"

definition IdentifierKey :: "(string \<Rightarrow> string) \<Rightarrow> string \<Rightarrow> string" where
  "IdentifierKey uni identifier = identifierKeyPrefix @ HashIdentifier uni identifier"

lemma length_HashIdentifier [simp]: "length (HashIdentifier uni identifier) = 16"
  by (simp add: HashIdentifier_def)

lemma HashIdentifier_hex: "set (HashIdentifier uni identifier) \<subseteq> set hex_chars"
proof -
  have "set (HashIdentifier uni identifier) \<subseteq>
      set (hex_encode (Sum256 (ToLower uni (TrimSpace identifier))))"
    unfolding HashIdentifier_def by (rule set_take_subset)
  also have "\<dots> \<subseteq> set hex_chars" by (rule hex_encode_chars) (rule Sum256_bytes)
  finally show ?thesis .
qed

lemma HashIdentifier_trim [simp]: "HashIdentifier uni (TrimSpace s) = HashIdentifier uni s"
  by (simp add: HashIdentifier_def)

text \<open>The address beside the hash decides whether a client bucket is an identifier bucket.\<close>

lemma ClientKey_IdentifierKey:
  "ClientKey ClassAuthOTPRequest ip = IdentifierKey uni identifier \<longleftrightarrow>
     ip = ''id:'' @ HashIdentifier uni identifier"
  by (simp add: ClientKey_def IdentifierKey_def identifierKeyPrefix_def clientKeyPrefix_def)

lemma ClientKey_inj:
  assumes "CHR '':'' \<notin> set c1" and "CHR '':'' \<notin> set c2"
    and "ClientKey c1 ip1 = ClientKey c2 ip2"
  shows "c1 = c2 \<and> ip1 = ip2"
proof -
  from assms(3) have eq: "c1 @ CHR '':'' # ip1 = c2 @ CHR '':'' # ip2"
    by (simp add: ClientKey_def)
  have "takeWhile (\<lambda>c. c \<noteq> CHR '':'') (c @ CHR '':'' # ip) = c"
    if "CHR '':'' \<notin> set c" for c ip
    using that by (induction c) auto
  then have "c1 = c2" using assms(1,2) eq by metis
  with eq show ?thesis by simp
qed

lemma PolicyFor_auth [simp]:
  "PolicyFor ClassAuthOTPRequest = auth_policy ClassAuthOTPRequest 5"
  "PolicyFor ClassAuthOTPVerify = auth_policy ClassAuthOTPVerify 20"
  "PolicyFor ClassAuthPassword = auth_policy ClassAuthPassword 10"
  "PolicyFor ClassAuthRefresh = auth_policy ClassAuthRefresh 30"
  by (simp_all add: PolicyFor_def DefaultAuthPolicies_def class_defs limit_defs)

lemma PolicyFor_other:
  "class \<notin> {ClassAuthOTPRequest, ClassAuthOTPVerify, ClassAuthPassword, ClassAuthRefresh} \<Longrightarrow>
     PolicyFor class = zero_policy"
  by (simp add: PolicyFor_def DefaultAuthPolicies_def)

end
