(* ===== verification/Domain_Errors.thy ===== *)
theory Domain_Errors
  imports Domain_RateLimit
begin

text \<open>
  \<open>internal/domain/auth.go\<close>, the errors: the failure kinds and the client-facing \<open>Error\<close>, and the
  type of every Go error the gateway's own code distinguishes.  \<open>NilDeref\<close> is the runtime panic of
  calling a method of a port that is not wired; it is no Go error, and every consumer of an error
  stops at it (see \<open>Http_Core\<close>).
\<close>

datatype kind =
    KindInternal
  | KindInvalidArgument
  | KindUnauthenticated
  | KindPermissionDenied
  | KindFailedPrecondition
  | KindResourceExhausted
  | KindNotFound
  | KindConflict
  | KindBadGateway

record domain_error =
  err_Kind :: kind
  err_Message :: string

datatype go_error =
    DomainErr domain_error
  | LimitErr limit_error
  | OtherErr string
  | NilDeref

definition NewError :: "kind \<Rightarrow> string \<Rightarrow> go_error" where
  "NewError k message = DomainErr \<lparr>err_Kind = k, err_Message = message\<rparr>"

fun AsError :: "go_error \<Rightarrow> domain_error option" where
  "AsError (DomainErr e) = Some e"
| "AsError _ = None"

lemma AsError_NewError [simp]:
  "AsError (NewError k m) = Some \<lparr>err_Kind = k, err_Message = m\<rparr>"
  by (simp add: NewError_def)

lemma NewError_neq [simp]:
  "NewError k m \<noteq> NilDeref" "NewError k m \<noteq> LimitErr l" "NewError k m \<noteq> OtherErr t"
  "NilDeref \<noteq> NewError k m" "LimitErr l \<noteq> NewError k m" "OtherErr t \<noteq> NewError k m"
  by (simp_all add: NewError_def)

lemma NewError_inj [simp]: "NewError k m = NewError k' m' \<longleftrightarrow> k = k' \<and> m = m'"
  by (simp add: NewError_def)

text \<open>A call that answers a value of type \<open>'a\<close> or a Go error.\<close>

type_synonym ('w, 'a) call = "('w, go_error + 'a) state"

definition fail :: "go_error \<Rightarrow> ('w, 'a) call" where
  "fail e = ret (Inl e)"

definition ok :: "'a \<Rightarrow> ('w, 'a) call" where
  "ok a = ret (Inr a)"

lemma run_fail [simp]: "run_state (fail e) w = (Inl e, w)"
  by (simp add: fail_def)

lemma run_ok [simp]: "run_state (ok a) w = (Inr a, w)"
  by (simp add: ok_def)

lemma preserves_fail [frame_intros, simp]: "preserves f (fail e)"
  by (simp add: fail_def)

lemma preserves_ok [frame_intros, simp]: "preserves f (ok a)"
  by (simp add: ok_def)

lemma keeps_fail [keep_intros, simp]: "keeps I (fail e)"
  by (simp add: fail_def)

lemma keeps_ok [keep_intros, simp]: "keeps I (ok a)"
  by (simp add: ok_def)

text \<open>Calling a method of a port: on an unwired port the goroutine panics.\<close>

definition on_port :: "'p option \<Rightarrow> ('p \<Rightarrow> ('w, 'a) call) \<Rightarrow> ('w, 'a) call" where
  "on_port port f = (case port of None \<Rightarrow> fail NilDeref | Some p \<Rightarrow> f p)"

lemma on_port_simps [simp]: "on_port None f = fail NilDeref" "on_port (Some p) f = f p"
  by (simp_all add: on_port_def)

lemma preserves_on_port [frame_intros]:
  "(\<And>p. port = Some p \<Longrightarrow> preserves f (m p)) \<Longrightarrow> preserves f (on_port port m)"
  by (cases port) auto

lemma keeps_on_port [keep_intros]:
  "(\<And>p. port = Some p \<Longrightarrow> keeps I (m p)) \<Longrightarrow> keeps I (on_port port m)"
  by (cases port) auto

end
