(* ===== verification/Domain_Types.thy ===== *)
theory Domain_Types
  imports Domain_Errors
begin

text \<open>
  The data of \<open>internal/domain\<close>: token pairs, one-time-password requests, organizations,
  memberships, invitations, tenants, flags, sign-up requests and audit entries
  (\<open>auth.go\<close>, \<open>orgs.go\<close>, \<open>flags.go\<close>, \<open>signup.go\<close>, \<open>audit.go\<close>).
\<close>

record token_pair =
  AccessToken :: string
  RefreshToken :: string
  ExpiresAt :: string

record otp_request =
  otpr_Identifier :: string
  otpr_Channel :: string
  otpr_Email :: string
  otpr_CorrelationID :: string

record otp_verification =
  otpv_Identifier :: string
  otpv_Channel :: string
  otpv_Email :: string
  otpv_Code :: string

record password_login =
  pl_Identifier :: string
  pl_Email :: string
  pl_Password :: string

record api_identity =
  UserID :: string
  Scopes :: "string list"

record organization =
  org_ID :: string
  org_Name :: string
  org_Slug :: string
  org_CreatedAt :: string
  org_UpdatedAt :: string

record membership =
  mem_OrgID :: string
  mem_UserID :: string
  mem_Status :: string
  mem_Role :: string
  mem_CreatedAt :: string
  mem_UpdatedAt :: string

record invite =
  inv_ID :: string
  inv_OrgID :: string
  inv_Email :: string
  inv_InviterID :: string
  inv_Status :: string
  inv_ExpiresAt :: string
  inv_AcceptedAt :: string
  inv_CreatedAt :: string

record tenant =
  ten_OrgID :: string
  ten_Name :: string
  ten_Slug :: string
  ten_Retired :: bool

record feature_flag =
  flag_Name :: string
  flag_Enabled :: bool
  flag_Description :: string

record flag_set =
  fs_Version :: string
  fs_Flags :: "feature_flag list"

record signup_registration =
  sr_Email :: string
  sr_Password :: string
  sr_DisplayName :: string
  sr_Locale :: string
  sr_OrgName :: string
  sr_InviteToken :: string

record signup_verification =
  sv_Email :: string
  sv_Code :: string
  sv_Password :: string

text \<open>The \<open>Metadata\<close> of an audit entry is never set by the gateway and is left out.\<close>

record audit_entry =
  ae_ID :: string
  ae_OrgID :: string
  ae_Actor :: string
  ae_ActorType :: string
  ae_IsStaff :: bool
  ae_BreakGlass :: bool
  ae_Reason :: string
  ae_Action :: string
  ae_Resource :: string
  ae_Timestamp :: go_time

definition zero_token_pair :: token_pair where
  "zero_token_pair = \<lparr>AccessToken = [], RefreshToken = [], ExpiresAt = []\<rparr>"

end
