(* ===== verification/Domain_Ownership.thy ===== *)
theory Domain_Ownership
  imports Domain_Types
begin

text \<open>
  \<open>internal/domain/ownership.go\<close>: ownership challenges, the proof of a verified one and the
  fingerprint derived from the exchange.
\<close>

definition ChallengeTTL :: duration where "ChallengeTTL = 10 * minute"
definition ChallengeExpiresIn :: string where "ChallengeExpiresIn = ''10m''"
definition ChallengeStatusDispatched :: string where
  "ChallengeStatusDispatched = ''challenge_dispatched''"
definition ProofStatusVerified :: string where "ProofStatusVerified = ''verified''"

record challenge =
  ch_Code :: string
  ch_ExpiresAt :: go_time

record challenge_grant =
  cg_Status :: string
  cg_ExpiresIn :: string

record ownership_proof =
  op_Status :: string
  op_Email :: string
  op_DisplayName :: string
  op_KeyFingerprint :: string
  op_VerifiedAt :: go_time

definition KeyFingerprint :: "string \<Rightarrow> string \<Rightarrow> go_time \<Rightarrow> string" where
  "KeyFingerprint email code at =
     hex_encode (take 16 (Sum256 (email @ '':'' @ code @ '':'' @ utc_string at)))"

lemma length_KeyFingerprint [simp]: "length (KeyFingerprint email code at) = 32"
  by (simp add: KeyFingerprint_def)

lemma KeyFingerprint_hex: "set (KeyFingerprint email code at) \<subseteq> set hex_chars"
  unfolding KeyFingerprint_def
  using Sum256_bytes in_set_takeD by (fast intro!: hex_encode_chars)

end
