(* ===== verification/Domain_Onboarding.thy ===== *)
theory Domain_Onboarding
  imports Domain_Types
begin

text \<open>
  \<open>internal/domain/onboarding.go\<close>: workstation onboarding claims, their defaults and the
  credentials derived from the invite token and the UID.  \<open>title\<close> is \<open>cases.Title(language.Und)\<close> of
  golang.org/x/text, \<open>uni\<close> the Unicode case table of \<open>strings.ToLower\<close>.
\<close>

definition ClaimStatusProvisioned :: string where "ClaimStatusProvisioned = ''provisioned''"
definition ClaimDefaultEmailDomain :: string where "ClaimDefaultEmailDomain = ''manova.space''"
definition ClaimDefaultManifestScope :: string where "ClaimDefaultManifestScope = ''core''"
definition ClaimGitRemoteBase :: string where
  "ClaimGitRemoteBase = ''ssh://git@git.internal.manova.space:2222/manova''"
definition claimDefaultGroups :: string where "claimDefaultGroups = ''dev,orbit''"

record claim_input =
  ci_InviteToken :: string
  ci_DesiredUID :: string
  ci_Email :: string
  ci_DisplayName :: string
  ci_SSHPublicKey :: string
  ci_MachineFingerprint :: string
  ci_Scope :: string
  ci_Metadata :: "string \<rightharpoonup> string"

record claim_user =
  cu_UID :: string
  cu_Email :: string
  cu_DisplayName :: string
  cu_Groups :: "string list"

record claim_credentials =
  ForgejoUsername :: string
  ForgejoMCPToken :: string
  WireGuardConfig :: string

record claim_workspace =
  GitRemoteBase :: string
  DefaultManifestScope :: string

record claim_result =
  cr_Status :: string
  IdempotentReplay :: bool
  cr_User :: claim_user
  cr_Credentials :: claim_credentials
  cr_Workspace :: claim_workspace

definition NormalizeUID :: "(string \<Rightarrow> string) \<Rightarrow> string \<Rightarrow> string" where
  "NormalizeUID uni uid = ToLower uni (TrimSpace uid)"

definition ClaimDefaults ::
    "(string \<Rightarrow> string) \<Rightarrow> string \<Rightarrow> string \<Rightarrow> string \<Rightarrow> string \<times> string \<times> string list" where
  "ClaimDefaults title uid email0 displayName0 =
     (let email = (let e = TrimSpace email0
                   in if e = [] then uid @ ''@'' @ ClaimDefaultEmailDomain else e);
          displayName = (let d = TrimSpace displayName0 in if d = [] then title uid else d)
      in (email, displayName, split_on CHR '','' claimDefaultGroups))"

definition wireGuardConfig :: "nat \<Rightarrow> string" where
  "wireGuardConfig hostOctet = join_with CHR 0x0A
     [''[Interface]'',
      ''PrivateKey = <generated-client-key>'',
      ''Address = 10.42.0.'' @ show_nat hostOctet @ ''/32'',
      ''DNS = 10.42.0.1'',
      '''',
      ''[Peer]'',
      ''PublicKey = 4gZ+examplePublicKeyOrbitGatewayVPNControllerKey='',
      ''Endpoint = vpn.internal.manova.space:51820'',
      ''AllowedIPs = 10.42.0.0/16, 172.28.0.0/16'',
      ''PersistentKeepalive = 25'']"

definition claim_digest :: "string \<Rightarrow> string \<Rightarrow> nat list" where
  "claim_digest inviteToken uid = Sum256 (inviteToken @ '':'' @ uid)"

definition claim_octet :: "nat list \<Rightarrow> nat" where
  "claim_octet digest = hd digest mod 200 + 10"

definition ClaimCredentialsFor :: "string \<Rightarrow> string \<Rightarrow> claim_credentials" where
  "ClaimCredentialsFor inviteToken uid =
     (let digest = claim_digest inviteToken uid
      in \<lparr>ForgejoUsername = uid,
          ForgejoMCPToken = ''mcp_'' @ hex_encode (take 16 digest),
          WireGuardConfig = wireGuardConfig (claim_octet digest)\<rparr>)"

lemma claim_octet_range: "10 \<le> claim_octet digest \<and> claim_octet digest \<le> 209"
  by (simp add: claim_octet_def)

lemma split_groups: "split_on CHR '','' claimDefaultGroups = [''dev'', ''orbit'']"
  by (simp add: claimDefaultGroups_def)

lemma ForgejoMCPToken_shape:
  "\<exists>h. ForgejoMCPToken (ClaimCredentialsFor t u) = ''mcp_'' @ h \<and> length h = 32 \<and> set h \<subseteq> set hex_chars"
proof -
  have "\<forall>b \<in> set (take 16 (claim_digest t u)). b < 256"
    unfolding claim_digest_def using Sum256_bytes in_set_takeD by fast
  then show ?thesis
    using hex_encode_chars [of "take 16 (claim_digest t u)"]
    by (simp add: ClaimCredentialsFor_def Let_def claim_digest_def)
qed

lemma wireGuardConfig_inj: "wireGuardConfig m = wireGuardConfig n \<Longrightarrow> m = n"
  by (auto simp: wireGuardConfig_def dest: show_nat_inj)

end
