(* ===== verification/Domain_Ports.thy ===== *)
theory Domain_Ports
  imports Domain_Ownership Domain_Onboarding
begin

text \<open>
  The ports of \<open>internal/domain\<close>: every Go interface the application layer calls is a record of
  operations on a world \<open>'w\<close>.  An adapter is a value of such a record; a nil interface is
  \<^const>\<open>None\<close> where the port may be missing.  The \<open>context.Context\<close> argument carries nothing the
  model needs and is left out.
\<close>

record 'w auth_port =
  ap_RequestOTP :: "otp_request \<Rightarrow> ('w, string) call"
  ap_VerifyOTP :: "otp_verification \<Rightarrow> ('w, token_pair) call"
  ap_LoginWithPassword :: "password_login \<Rightarrow> ('w, token_pair) call"
  ap_RefreshToken :: "string \<Rightarrow> ('w, token_pair) call"
  ap_ValidateAPIToken :: "string \<Rightarrow> ('w, api_identity) call"

record 'w org_port =
  ogp_CreateOrg :: "string \<Rightarrow> string \<Rightarrow> string \<Rightarrow> ('w, organization) call"
  ogp_SetOrgSlug :: "string \<Rightarrow> string \<Rightarrow> string \<Rightarrow> ('w, organization) call"
  ogp_ListMyOrgs :: "string \<Rightarrow> ('w, organization list) call"
  ogp_ListMembers :: "string \<Rightarrow> string \<Rightarrow> ('w, membership list) call"
  ogp_AddMember :: "string \<Rightarrow> string \<Rightarrow> string \<Rightarrow> ('w, unit) call"
  ogp_RemoveMember :: "string \<Rightarrow> string \<Rightarrow> string \<Rightarrow> ('w, unit) call"
  ogp_SuspendMember :: "string \<Rightarrow> string \<Rightarrow> string \<Rightarrow> ('w, unit) call"
  ogp_SetMemberRole :: "string \<Rightarrow> string \<Rightarrow> string \<Rightarrow> string \<Rightarrow> ('w, membership) call"
  ogp_InviteMember :: "string \<Rightarrow> string \<Rightarrow> string \<Rightarrow> ('w, invite) call"
  ogp_AcceptInvite :: "string \<Rightarrow> string \<Rightarrow> ('w, invite) call"
  ogp_RevokeInvite :: "string \<Rightarrow> string \<Rightarrow> string \<Rightarrow> ('w, unit) call"
  ogp_ListInvites :: "string \<Rightarrow> string \<Rightarrow> ('w, invite list) call"
  ogp_SelectOrg :: "string \<Rightarrow> string \<Rightarrow> string \<Rightarrow> ('w, token_pair) call"

record 'w signup_port =
  sp_RegisterWithEmail :: "signup_registration \<Rightarrow> ('w, unit) call"
  sp_VerifySignup :: "signup_verification \<Rightarrow> ('w, token_pair) call"

record 'w tenant_port =
  tp_ResolveTenant :: "string \<Rightarrow> ('w, tenant) call"

record 'w flag_port =
  fp_ListFlags :: "('w, flag_set) call"

record 'w limiter_port =
  lp_Allow :: "string \<Rightarrow> policy \<Rightarrow> ('w, decision) call"

record 'w clock_port =
  clk_Now :: "('w, go_time) state"

record 'w code_port =
  cgp_NewCode :: "('w, string) state"

record 'w challenge_port =
  cp_Save :: "string \<Rightarrow> challenge \<Rightarrow> ('w, unit) state"
  cp_Confirm :: "string \<Rightarrow> (challenge \<Rightarrow> bool) \<Rightarrow> ('w, challenge option) state"

record 'w claim_port =
  clp_Get :: "string \<Rightarrow> ('w, claim_result option) state"
  clp_Put :: "string \<Rightarrow> claim_result \<Rightarrow> ('w, unit) state"

record 'w asset_port =
  as_InstallScript :: "('w, string) state"
  as_OpenAPISpec :: "('w, string) call"
  as_Manifest :: "('w, string) call"

record 'w audit_port =
  au_Record :: "audit_entry \<Rightarrow> ('w, unit) call"
  au_ListByOrg :: "string \<Rightarrow> ('w, audit_entry list) call"

end
