(* ===== verification/Memory_Stores.thy ===== *)
theory Memory_Stores
  imports Domain_Ports
begin

text \<open>
  \<open>internal/infrastructure/memory\<close>: the in-process stores of ownership challenges, onboarding
  claims and audit entries.  Each Go method holds the store's mutex for its whole body, so each is
  one atomic step on the store's contents (proved for the claim cache in \<open>Claim_Locks\<close>).  The contracts of the three ports are locales over a view
  of the world (what is stored); the stores of this theory provide them.
\<close>

subsection \<open>The contracts\<close>

locale challenge_store =
  fixes port :: "'w challenge_port" and stored :: "'w \<Rightarrow> string \<Rightarrow> challenge option"
  assumes stored_Save:
      "stored (world_after (cp_Save port e c) w) = (stored w)(e \<mapsto> c)"
    and Confirm_result:
      "result_of (cp_Confirm port e accept) w =
         (case stored w e of None \<Rightarrow> None | Some c \<Rightarrow> if accept c then Some c else None)"
    and stored_Confirm:
      "stored (world_after (cp_Confirm port e accept) w) =
         (if result_of (cp_Confirm port e accept) w = None then stored w else (stored w)(e := None))"
begin

lemma Confirm_once:
  "result_of (cp_Confirm port e accept) w \<noteq> None \<Longrightarrow>
     result_of (cp_Confirm port e accept') (world_after (cp_Confirm port e accept) w) = None"
  by (auto simp: Confirm_result stored_Confirm split: option.splits if_splits)

lemma Confirm_rejected_keeps:
  "\<not> accept c \<Longrightarrow> stored w e = Some c \<Longrightarrow>
     stored (world_after (cp_Confirm port e accept) w) = stored w"
  by (simp add: Confirm_result stored_Confirm)

lemma Save_then_Confirm:
  "accept c \<Longrightarrow> result_of (cp_Confirm port e accept) (world_after (cp_Save port e c) w) = Some c"
  by (simp add: Confirm_result stored_Save)

lemma other_address_kept:
  "e' \<noteq> e \<Longrightarrow> stored (world_after (cp_Confirm port e accept) w) e' = stored w e'"
  by (simp add: stored_Confirm)

end

locale claim_cache =
  fixes port :: "'w claim_port" and cached :: "'w \<Rightarrow> string \<Rightarrow> claim_result option"
  assumes Get_result: "result_of (clp_Get port k) w = cached w k"
    and cached_Get: "cached (world_after (clp_Get port k) w) = cached w"
    and cached_Put: "cached (world_after (clp_Put port k r) w) = (cached w)(k \<mapsto> r)"
begin

lemma Get_after_Put: "result_of (clp_Get port k) (world_after (clp_Put port k r) w) = Some r"
  by (simp add: Get_result cached_Put)

lemma Get_other: "k' \<noteq> k \<Longrightarrow>
    result_of (clp_Get port k') (world_after (clp_Put port k r) w) = result_of (clp_Get port k') w"
  by (simp add: Get_result cached_Put)

end

locale audit_store =
  fixes port :: "'w audit_port" and entries :: "'w \<Rightarrow> audit_entry list"
  assumes Record_result: "result_of (au_Record port e) w = Inr ()"
    and entries_Record: "entries (world_after (au_Record port e) w) = entries w @ [e]"
    and List_result:
      "result_of (au_ListByOrg port org) w = Inr (filter (\<lambda>e. org = [] \<or> ae_OrgID e = org) (entries w))"
    and entries_List: "entries (world_after (au_ListByOrg port org) w) = entries w"
begin

lemma List_after_Record:
  "result_of (au_ListByOrg port org) (world_after (au_Record port e) w) =
     Inr (filter (\<lambda>e. org = [] \<or> ae_OrgID e = org) (entries w) @
          (if org = [] \<or> ae_OrgID e = org then [e] else []))"
  by (simp add: List_result entries_Record)

end

subsection \<open>Challenges\<close>

type_synonym challenges = "string \<rightharpoonup> challenge"

definition NewChallenges :: challenges where
  "NewChallenges = Map.empty"

definition Challenges_Save :: "string \<Rightarrow> challenge \<Rightarrow> (challenges, unit) state" where
  "Challenges_Save email c = modify_state (\<lambda>items. items(email \<mapsto> c))"

definition Challenges_Confirm ::
    "string \<Rightarrow> (challenge \<Rightarrow> bool) \<Rightarrow> (challenges, challenge option) state" where
  "Challenges_Confirm email accept = State (\<lambda>items.
     case items email of
       None \<Rightarrow> (None, items)
     | Some c \<Rightarrow> if \<not> accept c then (None, items) else (Some c, items(email := None)))"

lemma run_Challenges_Save [simp]:
  "run_state (Challenges_Save email c) items = ((), items(email \<mapsto> c))"
  by (simp add: Challenges_Save_def)

lemma run_Challenges_Confirm [simp]:
  "run_state (Challenges_Confirm email accept) items =
     (case items email of
       None \<Rightarrow> (None, items)
     | Some c \<Rightarrow> if \<not> accept c then (None, items) else (Some c, items(email := None)))"
  by (simp add: Challenges_Confirm_def)

subsection \<open>Claims\<close>

type_synonym claims = "string \<rightharpoonup> claim_result"

definition NewClaims :: claims where
  "NewClaims = Map.empty"

definition Claims_Get :: "string \<Rightarrow> (claims, claim_result option) state" where
  "Claims_Get key = read_state (\<lambda>items. items key)"

definition Claims_Put :: "string \<Rightarrow> claim_result \<Rightarrow> (claims, unit) state" where
  "Claims_Put key r = modify_state (\<lambda>items. items(key \<mapsto> r))"

subsection \<open>Audit entries\<close>

type_synonym audit_entries = "audit_entry list"

definition NewAuditStore :: audit_entries where
  "NewAuditStore = []"

definition AuditStore_Record :: "audit_entry \<Rightarrow> (audit_entries, unit) call" where
  "AuditStore_Record entry = modify_state (\<lambda>entries. entries @ [entry]) \<bind> (\<lambda>_. ok ())"

fun list_by_org :: "string \<Rightarrow> audit_entry list \<Rightarrow> audit_entry list" where
  "list_by_org orgID [] = []"
| "list_by_org orgID (e # es) =
     (if orgID = [] \<or> ae_OrgID e = orgID then e # list_by_org orgID es else list_by_org orgID es)"

definition AuditStore_ListByOrg :: "string \<Rightarrow> (audit_entries, audit_entry list) call" where
  "AuditStore_ListByOrg orgID = read_state (\<lambda>entries. Inr (list_by_org orgID entries))"

definition AuditStore_All :: "(audit_entries, audit_entry list) call" where
  "AuditStore_All = read_state (\<lambda>entries. Inr entries)"

lemma list_by_org_filter: "list_by_org orgID es = filter (\<lambda>e. orgID = [] \<or> ae_OrgID e = orgID) es"
  by (induction es) auto

lemma AuditStore_All_is_unfiltered: "AuditStore_All = AuditStore_ListByOrg []"
  by (simp add: AuditStore_All_def AuditStore_ListByOrg_def list_by_org_filter)

subsection \<open>The process's world and the adapters\<close>

text \<open>
  What an operation of the gateway can read or change: the contents of the three stores and,
  as \<open>w_ext\<close>, everything outside the process (orbit-auth, Redis, the clock, the random source,
  the file system).
\<close>

record 'x gw_world =
  w_challenges :: challenges
  w_claims :: claims
  w_audit :: audit_entries
  w_ext :: 'x

definition on_challenges :: "(challenges, 'a) state \<Rightarrow> ('x gw_world, 'a) state" where
  "on_challenges = lift_state w_challenges (\<lambda>v w. w\<lparr>w_challenges := v\<rparr>)"

definition on_claims :: "(claims, 'a) state \<Rightarrow> ('x gw_world, 'a) state" where
  "on_claims = lift_state w_claims (\<lambda>v w. w\<lparr>w_claims := v\<rparr>)"

definition on_audit :: "(audit_entries, 'a) state \<Rightarrow> ('x gw_world, 'a) state" where
  "on_audit = lift_state w_audit (\<lambda>v w. w\<lparr>w_audit := v\<rparr>)"

definition on_ext :: "('x, 'a) state \<Rightarrow> ('x gw_world, 'a) state" where
  "on_ext = lift_state w_ext (\<lambda>v w. w\<lparr>w_ext := v\<rparr>)"

lemma preserves_on_challenges [frame_intros]:
  "preserves w_claims (on_challenges m)" "preserves w_audit (on_challenges m)"
  "preserves w_ext (on_challenges m)"
  by (simp_all add: on_challenges_def preserves_lift)

lemma preserves_on_claims [frame_intros]:
  "preserves w_challenges (on_claims m)" "preserves w_audit (on_claims m)"
  "preserves w_ext (on_claims m)"
  by (simp_all add: on_claims_def preserves_lift)

lemma preserves_on_audit [frame_intros]:
  "preserves w_challenges (on_audit m)" "preserves w_claims (on_audit m)"
  "preserves w_ext (on_audit m)"
  by (simp_all add: on_audit_def preserves_lift)

lemma preserves_on_ext [frame_intros]:
  "preserves w_challenges (on_ext m)" "preserves w_claims (on_ext m)"
  "preserves w_audit (on_ext m)"
  by (simp_all add: on_ext_def preserves_lift)

text \<open>An invariant of the stores alone: nothing outside the process can break it.\<close>

definition store_invariant :: "('x gw_world \<Rightarrow> bool) \<Rightarrow> bool" where
  "store_invariant I \<longleftrightarrow> (\<forall>w x. I (w\<lparr>w_ext := x\<rparr>) = I w)"

lemma keeps_on_ext [keep_intros]: "store_invariant I \<Longrightarrow> keeps I (on_ext m)"
  by (auto simp: keeps_def on_ext_def store_invariant_def split: prod.splits)

lemma keeps_on_store:
  "(\<And>w v. I w \<Longrightarrow> I (w\<lparr>w_challenges := v\<rparr>)) \<Longrightarrow> keeps I (on_challenges m)"
  "(\<And>w v. I w \<Longrightarrow> I (w\<lparr>w_claims := v\<rparr>)) \<Longrightarrow> keeps I (on_claims m')"
  by (auto simp: keeps_def on_challenges_def on_claims_def split: prod.splits)

definition memory_challenges :: "'x gw_world challenge_port" where
  "memory_challenges =
     \<lparr>cp_Save = (\<lambda>e c. on_challenges (Challenges_Save e c)),
      cp_Confirm = (\<lambda>e accept. on_challenges (Challenges_Confirm e accept))\<rparr>"

definition memory_claims :: "'x gw_world claim_port" where
  "memory_claims =
     \<lparr>clp_Get = (\<lambda>k. on_claims (Claims_Get k)), clp_Put = (\<lambda>k r. on_claims (Claims_Put k r))\<rparr>"

definition memory_audit :: "'x gw_world audit_port" where
  "memory_audit =
     \<lparr>au_Record = (\<lambda>e. on_audit (AuditStore_Record e)),
      au_ListByOrg = (\<lambda>org. on_audit (AuditStore_ListByOrg org))\<rparr>"

interpretation mem_challenges: challenge_store memory_challenges w_challenges
  by unfold_locales
     (auto simp: memory_challenges_def on_challenges_def split: option.splits)

interpretation mem_claims: claim_cache memory_claims w_claims
  by unfold_locales
     (auto simp: memory_claims_def on_claims_def Claims_Get_def Claims_Put_def)

interpretation mem_audit: audit_store memory_audit w_audit
  by unfold_locales
     (auto simp: memory_audit_def on_audit_def AuditStore_Record_def AuditStore_ListByOrg_def
        list_by_org_filter)

end
