(* ===== verification/App_Service.thy ===== *)
theory App_Service
  imports Memory_Stores
begin

text \<open>
  \<open>internal/application\<close>: the service built from its ports and its use cases, one definition per
  method.  What a use case needs from the language and its libraries at run time (the case tables,
  the wall clock behind \<open>time.Now\<close>) is the record \<open>go_runtime\<close>.
\<close>

record 'w go_runtime =
  rt_ToLower :: "string \<Rightarrow> string"
  rt_Title :: "string \<Rightarrow> string"
  rt_Now :: "('w, go_time) state"

subsection \<open>The service and its ports (service.go)\<close>

type_synonym 'w log_sink = "string \<Rightarrow> string list \<Rightarrow> ('w, unit) state"

record 'w deps =
  dep_Auth :: "'w auth_port option"
  dep_Orgs :: "'w org_port option"
  dep_Signup :: "'w signup_port option"
  dep_Tenants :: "'w tenant_port option"
  dep_Flags :: "'w flag_port option"
  dep_Limiter :: "'w limiter_port option"
  dep_Clock :: "'w clock_port option"
  dep_Codes :: "'w code_port option"
  dep_Challenges :: "'w challenge_port option"
  dep_Claims :: "'w claim_port option"
  dep_Assets :: "'w asset_port option"
  dep_Audit :: "'w audit_port option"
  dep_Logger :: "'w log_sink option"

record 'w service =
  svc_auth :: "'w auth_port option"
  svc_orgs :: "'w org_port option"
  svc_signup :: "'w signup_port option"
  svc_tenants :: "'w tenant_port option"
  svc_flags :: "'w flag_port option"
  svc_limiter :: "'w limiter_port option"
  svc_clock :: "'w clock_port option"
  svc_codes :: "'w code_port option"
  svc_challenges :: "'w challenge_port option"
  svc_claims :: "'w claim_port option"
  svc_assets :: "'w asset_port option"
  svc_audit :: "'w audit_port option"
  svc_logger :: "'w log_sink"

definition NewService :: "'w deps \<Rightarrow> 'w service" where
  "NewService deps =
     \<lparr>svc_auth = dep_Auth deps, svc_orgs = dep_Orgs deps, svc_signup = dep_Signup deps,
      svc_tenants = dep_Tenants deps, svc_flags = dep_Flags deps, svc_limiter = dep_Limiter deps,
      svc_clock = dep_Clock deps, svc_codes = dep_Codes deps,
      svc_challenges = dep_Challenges deps, svc_claims = dep_Claims deps,
      svc_assets = dep_Assets deps, svc_audit = dep_Audit deps,
      svc_logger = (case dep_Logger deps of None \<Rightarrow> (\<lambda>msg args. ret ()) | Some l \<Rightarrow> l)\<rparr>"

definition HasAuth :: "'w service \<Rightarrow> bool" where "HasAuth s = (svc_auth s \<noteq> None)"
definition HasOrgs :: "'w service \<Rightarrow> bool" where "HasOrgs s = (svc_orgs s \<noteq> None)"
definition HasTenants :: "'w service \<Rightarrow> bool" where "HasTenants s = (svc_tenants s \<noteq> None)"
definition HasSignup :: "'w service \<Rightarrow> bool" where "HasSignup s = (svc_signup s \<noteq> None)"
definition HasFlags :: "'w service \<Rightarrow> bool" where "HasFlags s = (svc_flags s \<noteq> None)"
definition HasLimiter :: "'w service \<Rightarrow> bool" where "HasLimiter s = (svc_limiter s \<noteq> None)"
definition HasAudit :: "'w service \<Rightarrow> bool" where "HasAudit s = (svc_audit s \<noteq> None)"

lemmas Has_defs =
  HasAuth_def HasOrgs_def HasTenants_def HasSignup_def HasFlags_def HasLimiter_def HasAudit_def

text \<open>A method without an error result, called on a port.\<close>

definition lift_ok :: "('w, 'a) state \<Rightarrow> ('w, 'a) call" where
  "lift_ok m = m \<bind> ok"

lemma run_lift_ok [simp]:
  "run_state (lift_ok m) w = (Inr (result_of m w), world_after m w)"
  by (simp add: lift_ok_def split: prod.splits)

lemma preserves_lift_ok [frame_intros]: "preserves f m \<Longrightarrow> preserves f (lift_ok m)"
  by (simp add: lift_ok_def preserves_bind)

lemma keeps_lift_ok [keep_intros]: "keeps I m \<Longrightarrow> keeps I (lift_ok m)"
  by (simp add: lift_ok_def keeps_bind)

definition RecordAudit :: "'w go_runtime \<Rightarrow> 'w service \<Rightarrow> audit_entry \<Rightarrow> ('w, unit) call" where
  "RecordAudit rt s entry0 =
     (case svc_audit s of
        None \<Rightarrow> ok ()
      | Some store \<Rightarrow>
          (if ae_Timestamp entry0 = zero_time
           then (case svc_clock s of Some c \<Rightarrow> clk_Now c | None \<Rightarrow> rt_Now rt)
                  \<bind> (\<lambda>now. ret (entry0\<lparr>ae_Timestamp := now\<rparr>))
           else ret entry0)
          \<bind> (\<lambda>entry1.
          (if ae_ID entry1 = []
           then (case svc_codes s of
                   Some g \<Rightarrow> cgp_NewCode g \<bind> (\<lambda>code.
                     ret (entry1\<lparr>ae_ID := ''audit-'' @ code @ ''-'' @
                                   show_int (time_UnixNano (ae_Timestamp entry1))\<rparr>))
                 | None \<Rightarrow>
                     ret (entry1\<lparr>ae_ID := ''audit-'' @ show_int (time_UnixNano (ae_Timestamp entry1))\<rparr>))
           else ret entry1)
          \<bind> (\<lambda>entry. au_Record store entry)))"

definition ListAuditEntries :: "'w service \<Rightarrow> string \<Rightarrow> ('w, audit_entry list) call" where
  "ListAuditEntries s orgID =
     (case svc_audit s of None \<Rightarrow> ok [] | Some store \<Rightarrow> au_ListByOrg store orgID)"

definition AuditStore :: "'w service \<Rightarrow> 'w audit_port option" where
  "AuditStore s = svc_audit s"

subsection \<open>Rate limiting (ratelimit.go, orgs.go)\<close>

definition allow :: "'w service \<Rightarrow> string \<Rightarrow> policy \<Rightarrow> ('w, decision) call" where
  "allow s key policy =
     (case svc_limiter s of
        None \<Rightarrow> fail NilDeref
      | Some limiter \<Rightarrow>
          lp_Allow limiter key policy \<bind> (\<lambda>r.
            case r of
              Inl NilDeref \<Rightarrow> fail NilDeref
            | Inl e \<Rightarrow> fail (LimitErr \<lparr>le_Decision = zero_decision, Unavailable = True\<rparr>)
            | Inr d \<Rightarrow>
                if \<not> Allowed d then fail (LimitErr \<lparr>le_Decision = d, Unavailable = False\<rparr>)
                else ok d))"

definition CheckClassLimit :: "'w service \<Rightarrow> string \<Rightarrow> string \<Rightarrow> ('w, decision) call" where
  "CheckClassLimit s class clientIP = allow s (ClientKey class clientIP) (PolicyFor class)"

definition CheckKeyLimit :: "'w service \<Rightarrow> string \<Rightarrow> policy \<Rightarrow> ('w, decision) call" where
  "CheckKeyLimit s key policy = allow s key policy"

definition checkIdentifierLimit ::
    "'w go_runtime \<Rightarrow> 'w service \<Rightarrow> string \<Rightarrow> ('w, decision option) call" where
  "checkIdentifierLimit rt s identifier =
     (if svc_limiter s = None \<or> TrimSpace identifier = [] then ok None
      else try_bind (allow s (IdentifierKey (rt_ToLower rt) identifier) OTPRequestIdentifierPolicy)
             (\<lambda>d. ok (Some d)))"

subsection \<open>Authentication (auth.go)\<close>

record otp_receipt =
  otpr_ExpiresAt :: string
  otpr_IdentifierLimit :: "decision option"

definition RequestOTP :: "'w go_runtime \<Rightarrow> 'w service \<Rightarrow> otp_request \<Rightarrow> ('w, otp_receipt) call" where
  "RequestOTP rt s inp =
     (let identifier = (if otpr_Identifier inp = [] then otpr_Email inp else otpr_Identifier inp)
      in try_bind (checkIdentifierLimit rt s identifier) (\<lambda>limit.
         try_bind (on_port (svc_auth s) (\<lambda>p. ap_RequestOTP p inp)) (\<lambda>expiresAt.
         ok \<lparr>otpr_ExpiresAt = expiresAt, otpr_IdentifierLimit = limit\<rparr>)))"

definition VerifyOTP :: "'w service \<Rightarrow> otp_verification \<Rightarrow> ('w, token_pair) call" where
  "VerifyOTP s inp = on_port (svc_auth s) (\<lambda>p. ap_VerifyOTP p inp)"

definition Login :: "'w service \<Rightarrow> password_login \<Rightarrow> ('w, token_pair) call" where
  "Login s inp =
     (let identifier = (if pl_Identifier inp = [] then pl_Email inp else pl_Identifier inp)
      in on_port (svc_auth s) (\<lambda>p. ap_LoginWithPassword p
           \<lparr>pl_Identifier = identifier, pl_Email = [], pl_Password = pl_Password inp\<rparr>))"

definition RefreshTokenOp :: "'w service \<Rightarrow> string \<Rightarrow> ('w, token_pair) call" where
  "RefreshTokenOp s refreshToken = on_port (svc_auth s) (\<lambda>p. ap_RefreshToken p refreshToken)"

definition ValidateAPIToken :: "'w service \<Rightarrow> string \<Rightarrow> ('w, api_identity) call" where
  "ValidateAPIToken s secret = on_port (svc_auth s) (\<lambda>p. ap_ValidateAPIToken p secret)"

subsection \<open>Ownership (ownership.go)\<close>

record challenge_receipt =
  chr_Grant :: challenge_grant
  chr_IdentifierLimit :: "decision option"

definition Challenge :: "'w go_runtime \<Rightarrow> 'w service \<Rightarrow> string \<Rightarrow> ('w, challenge_receipt) call" where
  "Challenge rt s email0 =
     (let email = TrimSpace (ToLower (rt_ToLower rt) email0)
      in if email = [] \<or> CHR ''@'' \<notin> set email
         then fail (NewError KindInvalidArgument ''valid email is required'')
         else try_bind (checkIdentifierLimit rt s email) (\<lambda>limit.
              try_bind (on_port (svc_codes s) (\<lambda>g. lift_ok (cgp_NewCode g))) (\<lambda>code.
              try_bind (on_port (svc_clock s) (\<lambda>c. lift_ok (clk_Now c))) (\<lambda>now.
              try_bind (on_port (svc_challenges s) (\<lambda>p. lift_ok (cp_Save p email
                          \<lparr>ch_Code = code, ch_ExpiresAt = now + ChallengeTTL\<rparr>))) (\<lambda>_.
              ok \<lparr>chr_Grant = \<lparr>cg_Status = ChallengeStatusDispatched,
                                cg_ExpiresIn = ChallengeExpiresIn\<rparr>,
                  chr_IdentifierLimit = limit\<rparr>)))))"

definition accepts_code :: "string \<Rightarrow> go_time \<Rightarrow> challenge \<Rightarrow> bool" where
  "accepts_code code now candidate \<longleftrightarrow>
     ch_Code candidate = code \<and> \<not> time_After now (ch_ExpiresAt candidate)"

definition VerifyChallenge ::
    "'w go_runtime \<Rightarrow> 'w service \<Rightarrow> string \<Rightarrow> string \<Rightarrow> ('w, ownership_proof) call" where
  "VerifyChallenge rt s email0 code0 =
     (let email = TrimSpace (ToLower (rt_ToLower rt) email0); code = TrimSpace code0
      in if email = [] \<or> code = []
         then fail (NewError KindInvalidArgument ''email and code are required'')
         else try_bind (on_port (svc_clock s) (\<lambda>c. lift_ok (clk_Now c))) (\<lambda>now.
              try_bind (on_port (svc_challenges s)
                          (\<lambda>p. lift_ok (cp_Confirm p email (accepts_code code now)))) (\<lambda>confirmed.
              case confirmed of
                None \<Rightarrow> fail (NewError KindUnauthenticated ''invalid or expired verification code'')
              | Some c \<Rightarrow>
                  ok \<lparr>op_Status = ProofStatusVerified, op_Email = email, op_DisplayName = [],
                      op_KeyFingerprint = KeyFingerprint email code now, op_VerifiedAt = now\<rparr>)))"

subsection \<open>Onboarding (onboarding.go)\<close>

definition claim_key :: "string \<Rightarrow> string \<Rightarrow> string \<Rightarrow> string" where
  "claim_key idempotencyKey token uid =
     (if idempotencyKey = [] then token @ '':'' @ uid else idempotencyKey)"

definition provision :: "(string \<Rightarrow> string) \<Rightarrow> claim_input \<Rightarrow> string \<Rightarrow> string \<Rightarrow> claim_result" where
  "provision title inp token uid =
     (case ClaimDefaults title uid (ci_Email inp) (ci_DisplayName inp) of (email, displayName, groups) \<Rightarrow>
        \<lparr>cr_Status = ClaimStatusProvisioned,
         IdempotentReplay = False,
         cr_User = \<lparr>cu_UID = uid, cu_Email = email, cu_DisplayName = displayName, cu_Groups = groups\<rparr>,
         cr_Credentials = ClaimCredentialsFor token uid,
         cr_Workspace = \<lparr>GitRemoteBase = ClaimGitRemoteBase,
                         DefaultManifestScope = ClaimDefaultManifestScope\<rparr>\<rparr>)"

definition Claim ::
    "'w go_runtime \<Rightarrow> 'w service \<Rightarrow> claim_input \<Rightarrow> string \<Rightarrow> ('w, claim_result) call" where
  "Claim rt s inp idempotencyKey =
     (let token = TrimSpace (ci_InviteToken inp); uid = NormalizeUID (rt_ToLower rt) (ci_DesiredUID inp)
      in if token = [] \<or> uid = []
         then fail (NewError KindInvalidArgument ''invite_token and desired_uid are required'')
         else let key = claim_key idempotencyKey token uid in
              try_bind (on_port (svc_claims s) (\<lambda>p. lift_ok (clp_Get p key))) (\<lambda>cached.
              case cached of
                Some r \<Rightarrow>
                  try_bind (lift_ok (svc_logger s ''onboard_claim_replayed'' [''uid'', uid])) (\<lambda>_.
                  ok (r\<lparr>IdempotentReplay := True\<rparr>))
              | None \<Rightarrow>
                  (let result = provision (rt_Title rt) inp token uid in
                   try_bind (on_port (svc_claims s) (\<lambda>p. lift_ok (clp_Put p key result))) (\<lambda>_.
                   try_bind (lift_ok (svc_logger s ''onboard_claim_provisioned'' [''uid'', uid])) (\<lambda>_.
                   ok result)))))"

subsection \<open>Sign-up, organizations, tenants and flags (orgs.go, flags.go)\<close>

definition RegisterWithEmail :: "'w service \<Rightarrow> signup_registration \<Rightarrow> ('w, unit) call" where
  "RegisterWithEmail s inp = on_port (svc_signup s) (\<lambda>p. sp_RegisterWithEmail p inp)"

definition VerifySignup :: "'w service \<Rightarrow> signup_verification \<Rightarrow> ('w, token_pair) call" where
  "VerifySignup s inp = on_port (svc_signup s) (\<lambda>p. sp_VerifySignup p inp)"

definition CreateOrg :: "'w service \<Rightarrow> string \<Rightarrow> string \<Rightarrow> string \<Rightarrow> ('w, organization) call" where
  "CreateOrg s name slug accessToken = on_port (svc_orgs s) (\<lambda>p. ogp_CreateOrg p name slug accessToken)"

definition SetOrgSlug :: "'w service \<Rightarrow> string \<Rightarrow> string \<Rightarrow> string \<Rightarrow> ('w, organization) call" where
  "SetOrgSlug s orgID slug accessToken =
     on_port (svc_orgs s) (\<lambda>p. ogp_SetOrgSlug p orgID slug accessToken)"

definition ResolveTenant :: "'w service \<Rightarrow> string \<Rightarrow> ('w, tenant) call" where
  "ResolveTenant s slug = on_port (svc_tenants s) (\<lambda>p. tp_ResolveTenant p slug)"

definition ListMyOrgs :: "'w service \<Rightarrow> string \<Rightarrow> ('w, organization list) call" where
  "ListMyOrgs s accessToken = on_port (svc_orgs s) (\<lambda>p. ogp_ListMyOrgs p accessToken)"

definition ListMembers :: "'w service \<Rightarrow> string \<Rightarrow> string \<Rightarrow> ('w, membership list) call" where
  "ListMembers s orgID accessToken = on_port (svc_orgs s) (\<lambda>p. ogp_ListMembers p orgID accessToken)"

definition AddMember :: "'w service \<Rightarrow> string \<Rightarrow> string \<Rightarrow> string \<Rightarrow> ('w, unit) call" where
  "AddMember s orgID userID accessToken =
     on_port (svc_orgs s) (\<lambda>p. ogp_AddMember p orgID userID accessToken)"

definition RemoveMember :: "'w service \<Rightarrow> string \<Rightarrow> string \<Rightarrow> string \<Rightarrow> ('w, unit) call" where
  "RemoveMember s orgID userID accessToken =
     on_port (svc_orgs s) (\<lambda>p. ogp_RemoveMember p orgID userID accessToken)"

definition SuspendMember :: "'w service \<Rightarrow> string \<Rightarrow> string \<Rightarrow> string \<Rightarrow> ('w, unit) call" where
  "SuspendMember s orgID userID accessToken =
     on_port (svc_orgs s) (\<lambda>p. ogp_SuspendMember p orgID userID accessToken)"

definition SetMemberRole ::
    "'w service \<Rightarrow> string \<Rightarrow> string \<Rightarrow> string \<Rightarrow> string \<Rightarrow> ('w, membership) call" where
  "SetMemberRole s orgID userID role accessToken =
     on_port (svc_orgs s) (\<lambda>p. ogp_SetMemberRole p orgID userID role accessToken)"

definition InviteMember :: "'w service \<Rightarrow> string \<Rightarrow> string \<Rightarrow> string \<Rightarrow> ('w, invite) call" where
  "InviteMember s orgID email accessToken =
     on_port (svc_orgs s) (\<lambda>p. ogp_InviteMember p orgID email accessToken)"

definition AcceptInvite :: "'w service \<Rightarrow> string \<Rightarrow> string \<Rightarrow> ('w, invite) call" where
  "AcceptInvite s token accessToken = on_port (svc_orgs s) (\<lambda>p. ogp_AcceptInvite p token accessToken)"

definition RevokeInvite :: "'w service \<Rightarrow> string \<Rightarrow> string \<Rightarrow> string \<Rightarrow> ('w, unit) call" where
  "RevokeInvite s orgID inviteID accessToken =
     on_port (svc_orgs s) (\<lambda>p. ogp_RevokeInvite p orgID inviteID accessToken)"

definition ListInvites :: "'w service \<Rightarrow> string \<Rightarrow> string \<Rightarrow> ('w, invite list) call" where
  "ListInvites s orgID accessToken = on_port (svc_orgs s) (\<lambda>p. ogp_ListInvites p orgID accessToken)"

definition SelectOrg :: "'w service \<Rightarrow> string \<Rightarrow> string \<Rightarrow> string \<Rightarrow> ('w, token_pair) call" where
  "SelectOrg s orgID refreshToken accessToken =
     on_port (svc_orgs s) (\<lambda>p. ogp_SelectOrg p orgID refreshToken accessToken)"

definition ListFlags :: "'w service \<Rightarrow> ('w, flag_set) call" where
  "ListFlags s = on_port (svc_flags s) fp_ListFlags"

subsection \<open>Assets (assets.go)\<close>

definition InstallScript :: "'w service \<Rightarrow> ('w, string) call" where
  "InstallScript s = on_port (svc_assets s) (\<lambda>a. lift_ok (as_InstallScript a))"

definition OpenAPISpec :: "'w service \<Rightarrow> ('w, string) call" where
  "OpenAPISpec s = on_port (svc_assets s) as_OpenAPISpec"

definition Manifest :: "'w service \<Rightarrow> ('w, string) call" where
  "Manifest s = on_port (svc_assets s) as_Manifest"

end
