(* ===== verification/RateLimit_Adapter.thy ===== *)
theory RateLimit_Adapter
  imports App_Service
begin

text \<open>
  \<open>internal/infrastructure/ratelimit\<close>: the adapter from the orbit-rate-limiting library to the
  limiter port.  The library itself is not part of this repository: its limiter is an operation on
  the world, its two key functions are the record \<open>rate_library\<close>.  A Go interface value that holds
  a nil \<open>*Adapter\<close> is not a nil interface: \<open>limiter_iface\<close> is that conversion.
\<close>

record lib_policy =
  lp_Class :: string
  lp_Limit :: int
  lp_Window :: duration

record lib_decision =
  ld_Allowed :: bool
  ld_Limit :: int
  ld_Remaining :: int
  ld_ResetAt :: go_time
  ld_RetryAfter :: duration

type_synonym 'w lib_limiter = "string \<Rightarrow> lib_policy \<Rightarrow> ('w, string + lib_decision) state"

record rate_library =
  lib_KeyForIP :: "string \<Rightarrow> string \<Rightarrow> string"
  lib_KeyForOrg :: "string \<Rightarrow> string \<Rightarrow> string"

record 'w adapter =
  ad_limiter :: "'w lib_limiter"

definition New_adapter :: "'w lib_limiter option \<Rightarrow> 'w adapter option" where
  "New_adapter limiter = (case limiter of None \<Rightarrow> None | Some l \<Rightarrow> Some \<lparr>ad_limiter = l\<rparr>)"

definition toLibraryPolicy :: "policy \<Rightarrow> lib_policy" where
  "toLibraryPolicy p = \<lparr>lp_Class = pol_Class p, lp_Limit = pol_Limit p, lp_Window = pol_Window p\<rparr>"

definition from_library :: "lib_decision \<Rightarrow> decision" where
  "from_library d =
     \<lparr>Allowed = ld_Allowed d, Limit = ld_Limit d, Remaining = ld_Remaining d,
      ResetAt = ld_ResetAt d, RetryAfter = ld_RetryAfter d\<rparr>"

definition Adapter_Allow :: "'w adapter option \<Rightarrow> string \<Rightarrow> policy \<Rightarrow> ('w, decision) call" where
  "Adapter_Allow a key policy =
     (case a of
        None \<Rightarrow> fail NilDeref
      | Some ad \<Rightarrow>
          ad_limiter ad key (toLibraryPolicy policy) \<bind> (\<lambda>r.
            case r of Inl e \<Rightarrow> fail (OtherErr e) | Inr d \<Rightarrow> ok (from_library d)))"

definition limiter_iface :: "'w adapter option \<Rightarrow> 'w limiter_port option" where
  "limiter_iface a = Some \<lparr>lp_Allow = Adapter_Allow a\<rparr>"

definition KeyForIP :: "rate_library \<Rightarrow> string \<Rightarrow> string \<Rightarrow> string" where
  "KeyForIP lib ip route = lib_KeyForIP lib ip route"

definition KeyForOrg :: "rate_library \<Rightarrow> string \<Rightarrow> string \<Rightarrow> string" where
  "KeyForOrg lib orgID route = lib_KeyForOrg lib orgID route"

lemma preserves_Adapter_Allow [frame_intros]:
  assumes "\<And>key p. preserves f (ad_limiter ad key p)"
  shows "preserves f (Adapter_Allow (Some ad) key policy)"
  unfolding Adapter_Allow_def option.case by (intro frame_intros assms)

end
