(* ===== verification/Go_Json.thy ===== *)
theory Go_Json
  imports Go_Strings
begin

text \<open>
  Package \<open>encoding/json\<close> as the gateway uses it: the encoder that renders every response body
  (HTML escaping on, invalid UTF-8 replaced), the decoder that reads one value off the front of a
  request body, with the nesting limit of 10000, and the matching of object members to struct
  fields (case folding, last member wins, \<open>null\<close> leaves a field alone, a value of another type is
  an error).  The main results are that decoding an encoded value returns it, with its strings
  made valid UTF-8, whatever follows it in the input.
\<close>

datatype json =
    JNull
  | JBool bool
  | JNum string
  | JStr string
  | JArr "json list"
  | JObj "(string \<times> json) list"

subsection \<open>UTF-8\<close>

definition in_range :: "nat \<Rightarrow> nat \<Rightarrow> char \<Rightarrow> bool" where
  "in_range lo hi c \<longleftrightarrow> lo \<le> byte_val c \<and> byte_val c \<le> hi"

abbreviation is_cont :: "char \<Rightarrow> bool" where
  "is_cont \<equiv> in_range 128 191"

text \<open>The size \<open>utf8.DecodeRune\<close> reports for a valid encoding at the front, 0 for an invalid one.\<close>

definition second_ok :: "char \<Rightarrow> char \<Rightarrow> bool" where
  "second_ok c d =
     (if byte_val c = 224 then in_range 160 191 d
      else if byte_val c = 237 then in_range 128 159 d
      else if byte_val c = 240 then in_range 144 191 d
      else if byte_val c = 244 then in_range 128 143 d
      else is_cont d)"

fun utf8_size :: "string \<Rightarrow> nat" where
  "utf8_size [] = 0"
| "utf8_size (c # cs) =
     (if byte_val c < 128 then 1
      else if in_range 194 223 c then
        (case cs of d # _ \<Rightarrow> if second_ok c d then 2 else 0 | _ \<Rightarrow> 0)
      else if in_range 224 239 c then
        (case cs of d # e # _ \<Rightarrow> if second_ok c d \<and> is_cont e then 3 else 0 | _ \<Rightarrow> 0)
      else if in_range 240 244 c then
        (case cs of d # e # f # _ \<Rightarrow> if second_ok c d \<and> is_cont e \<and> is_cont f then 4 else 0 | _ \<Rightarrow> 0)
      else 0)"

definition replacement :: string where
  "replacement = bytes_of [239, 191, 189]"

lemma utf8_size_le: "utf8_size s \<le> length s"
  by (cases s) (auto split: list.splits)

lemma utf8_size_le4: "utf8_size s \<le> 4"
  by (cases s) (auto split: list.splits)

lemma utf8_size_take:
  assumes "0 < utf8_size s"
  shows "utf8_size (take (utf8_size s) s @ t) = utf8_size s"
  using assms by (cases s) (auto split: list.splits if_splits)

function to_valid_utf8 :: "string \<Rightarrow> string" where
  "to_valid_utf8 [] = []"
| "to_valid_utf8 (c # cs) =
     (let n = utf8_size (c # cs)
      in if n = 0 then replacement @ to_valid_utf8 cs
         else take n (c # cs) @ to_valid_utf8 (drop (n - 1) cs))"
  by pat_completeness auto
termination
  by (relation "measure length") auto

function valid_utf8 :: "string \<Rightarrow> bool" where
  "valid_utf8 [] = True"
| "valid_utf8 (c # cs) =
     (let n = utf8_size (c # cs) in 0 < n \<and> valid_utf8 (drop (n - 1) cs))"
  by pat_completeness auto
termination
  by (relation "measure length") auto

lemma take_drop_front: "0 < n \<Longrightarrow> take n (c # cs) @ drop (n - 1) cs = c # cs"
  by (cases n) simp_all

lemma to_valid_utf8_id: "valid_utf8 s \<Longrightarrow> to_valid_utf8 s = s"
proof (induction s rule: valid_utf8.induct)
  case (2 c cs)
  then show ?case
    using take_drop_front [of "utf8_size (c # cs)" c cs]
    by (simp add: Let_def del: utf8_size.simps take_Suc_Cons)
qed simp

lemma valid_utf8_ascii: "is_ascii s \<Longrightarrow> valid_utf8 s"
  by (induction s) (simp_all add: is_ascii_def)

subsection \<open>The encoder\<close>

definition hex4 :: "nat \<Rightarrow> string" where
  "hex4 n = hex_byte (n div 256) @ hex_byte (n mod 256)"

definition json_escape :: "char \<Rightarrow> string" where
  "json_escape c =
     (if c = CHR ''\"'' then [CHR 0x5C, CHR ''\"'']
      else if c = CHR 0x5C then [CHR 0x5C, CHR 0x5C]
      else if c = CHR 0x08 then [CHR 0x5C, CHR ''b'']
      else if c = CHR 0x0C then [CHR 0x5C, CHR ''f'']
      else if c = CHR 0x0A then [CHR 0x5C, CHR ''n'']
      else if c = CHR 0x0D then [CHR 0x5C, CHR ''r'']
      else if c = CHR 0x09 then [CHR 0x5C, CHR ''t'']
      else if byte_val c < 32 \<or> c \<in> {CHR ''<'', CHR ''>'', CHR ''&''}
        then CHR 0x5C # CHR ''u'' # hex4 (byte_val c)
      else [c])"

function json_string_body :: "string \<Rightarrow> string" where
  "json_string_body [] = []"
| "json_string_body (c # cs) =
     (let n = utf8_size (c # cs)
      in if n = 0 then CHR 0x5C # CHR ''u'' # hex4 65533 @ json_string_body cs
         else if n = 1 then json_escape c @ json_string_body cs
         else if take 3 (c # cs) = bytes_of [226, 128, 168]
           then CHR 0x5C # CHR ''u'' # hex4 8232 @ json_string_body (drop 2 cs)
         else if take 3 (c # cs) = bytes_of [226, 128, 169]
           then CHR 0x5C # CHR ''u'' # hex4 8233 @ json_string_body (drop 2 cs)
         else take n (c # cs) @ json_string_body (drop (n - 1) cs))"
  by pat_completeness auto
termination
  by (relation "measure length") auto

definition json_quote :: "string \<Rightarrow> string" where
  "json_quote s = CHR ''\"'' # json_string_body s @ [CHR ''\"'']"

fun json_encode :: "json \<Rightarrow> string" where
  "json_encode JNull = ''null''"
| "json_encode (JBool b) = (if b then ''true'' else ''false'')"
| "json_encode (JNum n) = n"
| "json_encode (JStr s) = json_quote s"
| "json_encode (JArr vs) = CHR ''['' # join_with CHR '','' (map json_encode vs) @ '']''"
| "json_encode (JObj ms) =
     CHR ''{'' # join_with CHR '','' (map (\<lambda>(k, v). json_quote k @ CHR '':'' # json_encode v) ms) @ ''}''"

subsection \<open>The decoder\<close>

definition json_space :: "char \<Rightarrow> bool" where
  "json_space c \<longleftrightarrow> byte_val c \<in> {32, 9, 13, 10}"

definition skip_ws :: "string \<Rightarrow> string" where
  "skip_ws s = dropWhile json_space s"

definition hex_val :: "char \<Rightarrow> nat option" where
  "hex_val c =
     (let b = byte_val c
      in if 48 \<le> b \<and> b \<le> 57 then Some (b - 48)
         else if 97 \<le> b \<and> b \<le> 102 then Some (b - 87)
         else if 65 \<le> b \<and> b \<le> 70 then Some (b - 55)
         else None)"

fun get_u4 :: "string \<Rightarrow> (nat \<times> string) option" where
  "get_u4 (a # b # c # d # rest) =
     (case (hex_val a, hex_val b, hex_val c, hex_val d) of
        (Some w, Some x, Some y, Some z) \<Rightarrow> Some (((w * 16 + x) * 16 + y) * 16 + z, rest)
      | _ \<Rightarrow> None)"
| "get_u4 _ = None"

definition encode_rune :: "nat \<Rightarrow> string" where
  "encode_rune r =
     (if r < 128 then bytes_of [r]
      else if r < 2048 then bytes_of [192 + r div 64, 128 + r mod 64]
      else if 55296 \<le> r \<and> r < 57344 \<or> 1114112 \<le> r then replacement
      else if r < 65536 then bytes_of [224 + r div 4096, 128 + r div 64 mod 64, 128 + r mod 64]
      else bytes_of [240 + r div 262144, 128 + r div 4096 mod 64, 128 + r div 64 mod 64, 128 + r mod 64])"

text \<open>
  One \<open>\u\<close> escape.  A high surrogate pairs with a low surrogate in a following escape; any other
  surrogate becomes the replacement character and the following escape is read on its own.
\<close>

definition read_u_escape :: "string \<Rightarrow> (string \<times> string) option" where
  "read_u_escape s =
     (case get_u4 s of
        None \<Rightarrow> None
      | Some (r, rest) \<Rightarrow>
          if 55296 \<le> r \<and> r < 57344 then
            (case strip_prefix [CHR 0x5C, CHR ''u''] rest of
               None \<Rightarrow> Some (replacement, rest)
             | Some rest' \<Rightarrow>
                 (case get_u4 rest' of
                    None \<Rightarrow> Some (replacement, rest)
                  | Some (r2, rest2) \<Rightarrow>
                      if r < 56320 \<and> 56320 \<le> r2 \<and> r2 < 57344
                      then Some (encode_rune (65536 + (r - 55296) * 1024 + (r2 - 56320)), rest2)
                      else Some (replacement, rest)))
          else Some (encode_rune r, rest))"

definition simple_escape :: "char \<Rightarrow> char option" where
  "simple_escape c =
     (if c = CHR ''\"'' \<or> c = CHR 0x5C \<or> c = CHR ''/'' then Some c
      else if c = CHR ''b'' then Some (CHR 0x08)
      else if c = CHR ''f'' then Some (CHR 0x0C)
      else if c = CHR ''n'' then Some (CHR 0x0A)
      else if c = CHR ''r'' then Some (CHR 0x0D)
      else if c = CHR ''t'' then Some (CHR 0x09)
      else None)"

definition cons_str :: "string \<Rightarrow> (string \<times> string) option \<Rightarrow> (string \<times> string) option" where
  "cons_str p r = map_option (\<lambda>(v, rest). (p @ v, rest)) r"

lemma get_u4_length: "get_u4 s = Some (r, rest) \<Longrightarrow> length rest < length s"
  by (induction s rule: get_u4.induct) (auto split: option.splits)

lemma read_u_escape_length: "read_u_escape s = Some (p, rest) \<Longrightarrow> length rest < length s"
  by (fastforce simp: read_u_escape_def split: option.splits if_splits dest!: get_u4_length)

text \<open>The body of a string literal, after its opening quote.\<close>

function read_string :: "string \<Rightarrow> (string \<times> string) option" where
  "read_string [] = None"
| "read_string (c # cs) =
     (if c = CHR ''\"'' then Some ([], cs)
      else if c = CHR 0x5C then
        (case cs of
           [] \<Rightarrow> None
         | e # es \<Rightarrow>
             (if e = CHR ''u'' then
                (case read_u_escape es of
                   None \<Rightarrow> None
                 | Some (p, rest) \<Rightarrow> cons_str p (read_string rest))
              else
                (case simple_escape e of
                   None \<Rightarrow> None
                 | Some d \<Rightarrow> cons_str [d] (read_string es))))
      else if byte_val c < 32 then None
      else
        (let n = utf8_size (c # cs)
         in if n = 0 then cons_str replacement (read_string cs)
            else cons_str (take n (c # cs)) (read_string (drop (n - 1) cs))))"
  by pat_completeness auto
termination
  by (relation "measure length") (auto dest: read_u_escape_length)

definition is_digit :: "char \<Rightarrow> bool" where
  "is_digit c \<longleftrightarrow> in_range 48 57 c"

definition span_digits :: "string \<Rightarrow> string \<times> string" where
  "span_digits s = (takeWhile is_digit s, dropWhile is_digit s)"

fun read_int_part :: "string \<Rightarrow> (string \<times> string) option" where
  "read_int_part [] = None"
| "read_int_part (c # cs) =
     (if c = CHR ''0'' then Some ([c], cs)
      else if is_digit c then Some (span_digits (c # cs))
      else None)"

fun read_frac :: "string \<Rightarrow> (string \<times> string) option" where
  "read_frac [] = Some ([], [])"
| "read_frac (c # cs) =
     (if c = CHR ''.'' then
        (case span_digits cs of (ds, rest) \<Rightarrow> if ds = [] then None else Some (c # ds, rest))
      else Some ([], c # cs))"

definition split_sign :: "string \<Rightarrow> string \<times> string" where
  "split_sign s =
     (case s of c # cs \<Rightarrow> if c = CHR ''+'' \<or> c = CHR ''-'' then ([c], cs) else ([], s) | [] \<Rightarrow> ([], s))"

fun read_exp :: "string \<Rightarrow> (string \<times> string) option" where
  "read_exp [] = Some ([], [])"
| "read_exp (c # cs) =
     (if c = CHR ''e'' \<or> c = CHR ''E'' then
        (case split_sign cs of (sg, r) \<Rightarrow>
           (case span_digits r of (ds, rest) \<Rightarrow>
              if ds = [] then None else Some (c # sg @ ds, rest)))
      else Some ([], c # cs))"

definition read_number :: "string \<Rightarrow> (string \<times> string) option" where
  "read_number s =
     (case (case s of c # cs \<Rightarrow> if c = CHR ''-'' then ([c], cs) else ([], s) | [] \<Rightarrow> ([], s)) of
        (sg, r0) \<Rightarrow>
          Option.bind (read_int_part r0) (\<lambda>(i, r1).
          Option.bind (read_frac r1) (\<lambda>(f, r2).
          Option.bind (read_exp r2) (\<lambda>(e, r3). Some (sg @ i @ f @ e, r3)))))"

definition read_scalar :: "string \<Rightarrow> (json \<times> string) option" where
  "read_scalar s =
     (case s of
        [] \<Rightarrow> None
      | c # cs \<Rightarrow>
          if c = CHR ''\"'' then map_option (\<lambda>(v, r). (JStr v, r)) (read_string cs)
          else if c = CHR ''n'' then map_option (\<lambda>r. (JNull, r)) (strip_prefix ''ull'' cs)
          else if c = CHR ''t'' then map_option (\<lambda>r. (JBool True, r)) (strip_prefix ''rue'' cs)
          else if c = CHR ''f'' then map_option (\<lambda>r. (JBool False, r)) (strip_prefix ''alse'' cs)
          else map_option (\<lambda>(n, r). (JNum n, r)) (read_number s))"

text \<open>
  The elements of an array and the members of an object, given the reader \<open>p\<close> of one value.  The
  first argument bounds the number of elements by the bytes left: each takes at least one.
\<close>

primrec read_elems ::
    "nat \<Rightarrow> (string \<Rightarrow> (json \<times> string) option) \<Rightarrow> string \<Rightarrow> (json list \<times> string) option" where
  "read_elems 0 p s = None"
| "read_elems (Suc k) p s =
     (case p (skip_ws s) of
        None \<Rightarrow> None
      | Some (v, r) \<Rightarrow>
          (case skip_ws r of
             [] \<Rightarrow> None
           | c # cs \<Rightarrow>
               if c = CHR '']'' then Some ([v], cs)
               else if c = CHR '','' then
                 map_option (\<lambda>(vs, rest). (v # vs, rest)) (read_elems k p cs)
               else None))"

definition read_key :: "string \<Rightarrow> (string \<times> string) option" where
  "read_key s =
     (case skip_ws s of
        [] \<Rightarrow> None
      | c # cs \<Rightarrow>
          if c = CHR ''\"'' then
            (case read_string cs of
               None \<Rightarrow> None
             | Some (k, r) \<Rightarrow>
                 (case skip_ws r of
                    [] \<Rightarrow> None
                  | d # ds \<Rightarrow> if d = CHR '':'' then Some (k, ds) else None))
          else None)"

primrec read_members ::
    "nat \<Rightarrow> (string \<Rightarrow> (json \<times> string) option) \<Rightarrow> string \<Rightarrow>
       ((string \<times> json) list \<times> string) option" where
  "read_members 0 p s = None"
| "read_members (Suc n) p s =
     (case read_key s of
        None \<Rightarrow> None
      | Some (k, r0) \<Rightarrow>
          (case p (skip_ws r0) of
             None \<Rightarrow> None
           | Some (v, r) \<Rightarrow>
               (case skip_ws r of
                  [] \<Rightarrow> None
                | c # cs \<Rightarrow>
                    if c = CHR ''}'' then Some ([(k, v)], cs)
                    else if c = CHR '','' then
                      map_option (\<lambda>(ms, rest). ((k, v) # ms, rest)) (read_members n p cs)
                    else None)))"

definition read_composite ::
    "(string \<Rightarrow> (json \<times> string) option) \<Rightarrow> char \<Rightarrow> string \<Rightarrow> (json \<times> string) option" where
  "read_composite p c cs =
     (if c = CHR ''['' then
        (case skip_ws cs of
           [] \<Rightarrow> None
         | d # ds \<Rightarrow> if d = CHR '']'' then Some (JArr [], ds)
                    else map_option (\<lambda>(vs, r). (JArr vs, r)) (read_elems (length cs) p cs))
      else
        (case skip_ws cs of
           [] \<Rightarrow> None
         | d # ds \<Rightarrow> if d = CHR ''}'' then Some (JObj [], ds)
                    else map_option (\<lambda>(ms, r). (JObj ms, r)) (read_members (length cs) p cs)))"

text \<open>\<open>read_value d\<close> reads one value that nests arrays and objects at most \<open>d\<close> deep.\<close>

primrec read_value :: "nat \<Rightarrow> string \<Rightarrow> (json \<times> string) option" where
  "read_value 0 s =
     (case s of
        [] \<Rightarrow> None
      | c # cs \<Rightarrow> if c = CHR ''['' \<or> c = CHR ''{'' then None else read_scalar s)"
| "read_value (Suc d) s =
     (case s of
        [] \<Rightarrow> None
      | c # cs \<Rightarrow> if c = CHR ''['' \<or> c = CHR ''{'' then read_composite (read_value d) c cs
                 else read_scalar s)"

definition max_nesting_depth :: nat where
  "max_nesting_depth = 10000"

text \<open>\<open>json.NewDecoder(r).Decode\<close> up to the filling of the destination: the first value of the input.\<close>

definition decode_value :: "string \<Rightarrow> (json \<times> string) option" where
  "decode_value s = read_value max_nesting_depth (skip_ws s)"

subsection \<open>Decoding an encoded string\<close>

lemma hex_val_digit_char: "d < 16 \<Longrightarrow> hex_val (digit_char d) = Some d"
proof -
  assume "d < 16"
  then have "d \<in> set [0..<16]" by simp
  moreover have "\<forall>d \<in> set [0..<16]. hex_val (digit_char d) = Some d"
    by (simp add: upt_rec digit_char_def hex_chars_def hex_val_def)
  ultimately show ?thesis by blast
qed

lemma nibbles_sum:
  "a * 16 + b = x \<Longrightarrow> c * 16 + d = y \<Longrightarrow> x * 256 + y = n \<Longrightarrow>
     ((a * 16 + b) * 16 + c) * 16 + d = (n::nat)"
  by simp

lemma nibbles_of: "((n div 256 div 16 * 16 + n div 256 mod 16) * 16 + n mod 256 div 16) * 16 + n mod 256 mod 16 = (n::nat)"
  by (rule nibbles_sum [of _ _ "n div 256" _ _ "n mod 256"]) (rule div_mult_mod_eq)+

lemma get_u4_hex4 [simp]:
  assumes "n < 65536"
  shows "get_u4 (hex4 n @ t) = Some (n, t)"
proof -
  have "n div 256 div 16 < 16" using assms by linarith
  moreover have "n mod 256 div 16 < 16" by (simp add: less_mult_imp_div_less)
  moreover have "n div 256 mod 16 < 16" "n mod 256 mod 16 < 16" by simp_all
  ultimately show ?thesis
    by (simp only: hex4_def hex_byte_def append.simps get_u4.simps hex_val_digit_char
        option.case prod.case nibbles_of)
qed

lemma read_u_escape_plain:
  assumes "n < 65536" and "\<not> (55296 \<le> n \<and> n < 57344)"
  shows "read_u_escape (hex4 n @ t) = Some (encode_rune n, t)"
  using assms by (simp only: read_u_escape_def get_u4_hex4 option.case prod.case if_False)

lemma read_string_u:
  assumes "n < 65536" and "\<not> (55296 \<le> n \<and> n < 57344)"
  shows "read_string (CHR 0x5C # CHR ''u'' # hex4 n @ t) = cons_str (encode_rune n) (read_string t)"
  using assms by (simp add: read_u_escape_plain)

lemma encode_rune_ascii: "byte_val c < 128 \<Longrightarrow> encode_rune (byte_val c) = [c]"
  by (simp add: encode_rune_def bytes_of_def)

lemma char_of_byte: "byte_val c = n \<Longrightarrow> char_of n = c"
  by auto

lemma read_string_plain:
  assumes "c \<noteq> CHR ''\"''" and "c \<noteq> CHR 0x5C" and "32 \<le> byte_val c" and "byte_val c < 128"
  shows "read_string (c # t) = cons_str [c] (read_string t)"
  using assms by simp

lemma read_string_escape:
  assumes "byte_val c < 128"
  shows "read_string (json_escape c @ t) = cons_str [c] (read_string t)"
proof -
  consider (esc) "c = CHR ''\"'' \<or> c = CHR 0x5C"
    | (ctl) "c \<in> {CHR 0x08, CHR 0x0C, CHR 0x0A, CHR 0x0D, CHR 0x09}"
    | (hex) "c \<noteq> CHR ''\"''" "c \<noteq> CHR 0x5C" "c \<notin> {CHR 0x08, CHR 0x0C, CHR 0x0A, CHR 0x0D, CHR 0x09}"
        "byte_val c < 32 \<or> c \<in> {CHR ''<'', CHR ''>'', CHR ''&''}"
    | (plain) "c \<noteq> CHR ''\"''" "c \<noteq> CHR 0x5C" "32 \<le> byte_val c"
        "c \<notin> {CHR 0x08, CHR 0x0C, CHR 0x0A, CHR 0x0D, CHR 0x09}" "c \<notin> {CHR ''<'', CHR ''>'', CHR ''&''}"
    by force
  then show ?thesis
  proof cases
    case esc
    then show ?thesis by (auto simp: json_escape_def simple_escape_def)
  next
    case ctl
    then show ?thesis by (auto simp: json_escape_def simple_escape_def)
  next
    case hex
    then have "json_escape c = CHR 0x5C # CHR ''u'' # hex4 (byte_val c)"
      by (auto simp: json_escape_def)
    moreover have "read_string (CHR 0x5C # CHR ''u'' # hex4 (byte_val c) @ t) =
        cons_str (encode_rune (byte_val c)) (read_string t)"
      by (rule read_string_u) (use assms in linarith)+
    ultimately show ?thesis by (simp only: append.simps encode_rune_ascii [OF assms])
  next
    case plain
    then have "json_escape c = [c]" by (simp add: json_escape_def)
    then show ?thesis
      using read_string_plain [OF plain(1,2,3) assms] by (simp only: append.simps)
  qed
qed

declare read_string.simps [simp del]

lemma utf8_size_one: "utf8_size (c # cs) = 1 \<longleftrightarrow> byte_val c < 128"
  by (auto split: list.splits)

lemma utf8_size_zero: "utf8_size (c # cs) = 0 \<Longrightarrow> 128 \<le> byte_val c"
  by (auto split: list.splits if_splits)

lemma read_string_multi:
  assumes n: "1 < utf8_size (c # cs)"
  shows "read_string (take (utf8_size (c # cs)) (c # cs) @ t) =
     cons_str (take (utf8_size (c # cs)) (c # cs)) (read_string t)"
proof -
  let ?n = "utf8_size (c # cs)"
  from n obtain p where p: "take ?n (c # cs) = c # p" and lp: "length p = ?n - 1"
    using utf8_size_le [of "c # cs"] by (cases ?n) auto
  have big: "128 \<le> byte_val c" using n utf8_size_one [of c cs] by (simp del: utf8_size.simps)
  have s: "utf8_size (c # p @ t) = ?n"
    using utf8_size_take [of "c # cs" t] n p by simp
  have ne: "c \<noteq> CHR ''\"''" "c \<noteq> CHR 0x5C" using big by auto
  have "read_string (c # p @ t) = cons_str (take ?n (c # p @ t)) (read_string (drop (?n - 1) (p @ t)))"
    using ne big n s by (simp add: Let_def read_string.simps del: utf8_size.simps)
  moreover have "take ?n (c # p @ t) = c # p" using lp n by (cases ?n) auto
  moreover have "drop (?n - 1) (p @ t) = t" using lp by simp
  ultimately show ?thesis using p by simp
qed

lemma cons_str_Some [simp]: "cons_str p (Some (v, r)) = Some (p @ v, r)"
  by (simp add: cons_str_def)

lemma take3_size:
  assumes "take 3 (c # cs) = bytes_of [226, 128, b]" and "b = 168 \<or> b = 169"
  shows "utf8_size (c # cs) = 3" and "take 3 (c # cs) = encode_rune (8192 + (b - 128))"
proof -
  have "c # cs = take 3 (c # cs) @ drop 3 (c # cs)" by (rule append_take_drop_id [symmetric])
  with assms(1) obtain d e r where "cs = d # e # r" "c = char_of (226::nat)" "d = char_of (128::nat)" "e = char_of b"
    by (auto simp: bytes_of_def)
  with assms(2) show "utf8_size (c # cs) = 3"
    by (elim disjE) (simp_all add: in_range_def second_ok_def)
  show "take 3 (c # cs) = encode_rune (8192 + (b - 128))"
    using assms by (auto simp: encode_rune_def)
qed

lemma read_string_body:
  "read_string (json_string_body s @ CHR ''\"'' # t) = Some (to_valid_utf8 s, t)"
proof (induction s rule: json_string_body.induct)
  case 1
  show ?case by (simp add: read_string.simps)
next
  case (2 c cs)
  let ?n = "utf8_size (c # cs)"
  note [simp del] = utf8_size.simps
  consider "?n = 0" | "?n = 1"
    | "1 < ?n" "take 3 (c # cs) = bytes_of [226, 128, 168]"
    | "1 < ?n" "take 3 (c # cs) \<noteq> bytes_of [226, 128, 168]" "take 3 (c # cs) = bytes_of [226, 128, 169]"
    | "1 < ?n" "take 3 (c # cs) \<noteq> bytes_of [226, 128, 168]" "take 3 (c # cs) \<noteq> bytes_of [226, 128, 169]"
    by linarith
  then show ?case
  proof cases
    case 1
    with 2(1) [OF refl] show ?thesis
      using read_string_u [of 65533] by (simp add: Let_def encode_rune_def replacement_def)
  next
    case 2
    then have "byte_val c < 128" using utf8_size_one by metis
    with 2 "2.IH"(2) [OF refl] show ?thesis
      by (simp add: Let_def read_string_escape)
  next
    case 3
    with take3_size [OF 3(2)] "2.IH"(3) [OF refl] show ?thesis
      using read_string_u [of 8232] by (simp add: Let_def)
  next
    case 4
    with take3_size [OF 4(3)] "2.IH"(4) [OF refl] show ?thesis
      using read_string_u [of 8233] by (simp add: Let_def)
  next
    case 5
    with "2.IH"(5) [OF refl] show ?thesis
      by (simp add: Let_def read_string_multi)
  qed
qed

subsection \<open>Decoding an encoded value\<close>

text \<open>
  \<open>json_valid\<close> is what an encoded value decodes to: every string made valid UTF-8.  Numbers are
  left out: the gateway encodes none in its bodies.
\<close>

fun json_valid :: "json \<Rightarrow> json" where
  "json_valid (JStr s) = JStr (to_valid_utf8 s)"
| "json_valid (JArr vs) = JArr (map json_valid vs)"
| "json_valid (JObj ms) = JObj (map (\<lambda>(k, v). (to_valid_utf8 k, json_valid v)) ms)"
| "json_valid v = v"

fun json_depth :: "json \<Rightarrow> nat" where
  "json_depth (JArr vs) = Suc (fold max (map json_depth vs) 0)"
| "json_depth (JObj ms) = Suc (fold max (map (\<lambda>(k, v). json_depth v) ms) 0)"
| "json_depth v = 0"

fun json_no_num :: "json \<Rightarrow> bool" where
  "json_no_num (JNum n) = False"
| "json_no_num (JArr vs) = list_all json_no_num vs"
| "json_no_num (JObj ms) = list_all (\<lambda>(k, v). json_no_num v) ms"
| "json_no_num v = True"

lemma fold_max_ge: "x \<in> set xs \<Longrightarrow> x \<le> fold max xs (a::nat)"
proof (induction xs arbitrary: a)
  case (Cons y ys)
  have mono: "b \<le> fold max zs b" for zs and b :: nat
    by (induction zs arbitrary: b) (auto intro: le_trans [OF max.cobounded2])
  show ?case
  proof (cases "x = y")
    case True
    have "max y a \<le> fold max ys (max y a)" by (rule mono)
    with True show ?thesis by simp
  next
    case False
    with Cons show ?thesis by simp
  qed
qed simp

definition json_heads :: "char set" where
  "json_heads = {CHR ''n'', CHR ''t'', CHR ''f'', CHR ''\"'', CHR ''['', CHR ''{''}"

lemma json_encode_head:
  "json_no_num v \<Longrightarrow> \<exists>c cs. json_encode v = c # cs \<and> c \<in> json_heads"
  by (cases v) (auto simp: json_heads_def json_quote_def)

lemma json_heads_plain: "c \<in> json_heads \<Longrightarrow> \<not> json_space c \<and> c \<noteq> CHR '']'' \<and> c \<noteq> CHR ''}''"
  by (auto simp: json_heads_def json_space_def)

lemma skip_ws_head: "\<not> json_space c \<Longrightarrow> skip_ws (c # cs) = c # cs"
  by (simp add: skip_ws_def)

lemma skip_ws_encode: "json_no_num v \<Longrightarrow> skip_ws (json_encode v @ r) = json_encode v @ r"
  by (metis append_Cons json_encode_head json_heads_plain skip_ws_head)

lemma skip_ws_punct [simp]:
  "skip_ws (CHR '']'' # r) = CHR '']'' # r" "skip_ws (CHR ''}'' # r) = CHR ''}'' # r"
  "skip_ws (CHR '','' # r) = CHR '','' # r" "skip_ws (CHR '':'' # r) = CHR '':'' # r"
  "skip_ws (CHR ''\"'' # r) = CHR ''\"'' # r"
  by (simp_all add: skip_ws_def json_space_def)

lemma read_elems_join:
  assumes "\<And>v r. v \<in> set vs \<Longrightarrow> p (json_encode v @ r) = Some (g v, r)"
    and "list_all json_no_num vs" and "vs \<noteq> []" and "length vs \<le> k"
  shows "read_elems k p (join_with CHR '','' (map json_encode vs) @ CHR '']'' # rest) =
     Some (map g vs, rest)"
  using assms
proof (induction vs arbitrary: k)
  case (Cons v vs)
  then obtain j where k: "k = Suc j" by (cases k) auto
  from Cons.prems have v: "json_no_num v" and p: "\<And>r. p (json_encode v @ r) = Some (g v, r)"
    by auto
  show ?case
  proof (cases vs)
    case Nil
    with k v p show ?thesis by (simp add: skip_ws_encode)
  next
    case (Cons w ws)
    with Cons.IH [of j] Cons.prems k v p show ?thesis by (simp add: skip_ws_encode)
  qed
qed simp

lemma read_key_quote: "read_key (json_quote s @ CHR '':'' # r) = Some (to_valid_utf8 s, r)"
  by (simp add: read_key_def json_quote_def read_string_body)

lemma read_members_join:
  assumes "\<And>k v r. (k, v) \<in> set ms \<Longrightarrow> p (json_encode v @ r) = Some (g v, r)"
    and "list_all (\<lambda>(k, v). json_no_num v) ms" and "ms \<noteq> []" and "length ms \<le> n"
  shows "read_members n p
      (join_with CHR '','' (map (\<lambda>(k, v). json_quote k @ CHR '':'' # json_encode v) ms) @ CHR ''}'' # rest) =
     Some (map (\<lambda>(k, v). (to_valid_utf8 k, g v)) ms, rest)"
  using assms
proof (induction ms arbitrary: n)
  case (Cons m ms)
  then obtain j where n: "n = Suc j" by (cases n) auto
  obtain k v where m: "m = (k, v)" by (cases m)
  from Cons.prems m have v: "json_no_num v" and p: "\<And>r. p (json_encode v @ r) = Some (g v, r)"
    by auto
  show ?case
  proof (cases ms)
    case Nil
    with n m v p show ?thesis by (simp add: skip_ws_encode read_key_quote)
  next
    case (Cons w ws)
    have "read_members j p
        (join_with CHR '','' (map (\<lambda>(k, v). json_quote k @ CHR '':'' # json_encode v) ms) @ CHR ''}'' # rest) =
       Some (map (\<lambda>(k, v). (to_valid_utf8 k, g v)) ms, rest)"
      by (rule Cons.IH) (use Cons.prems n Cons in auto)
    with n m v p Cons show ?thesis by (simp add: skip_ws_encode read_key_quote)
  qed
qed simp

lemma json_quote_nonempty [simp]: "json_quote s \<noteq> []"
  by (simp add: json_quote_def)

lemma read_value_encode:
  "json_no_num v \<Longrightarrow> json_depth v \<le> d \<Longrightarrow>
     read_value d (json_encode v @ rest) = Some (json_valid v, rest)"
proof (induction v arbitrary: d rest)
  case (JArr vs)
  then obtain e where d: "d = Suc e" by (cases d) auto
  have p: "\<And>v r. v \<in> set vs \<Longrightarrow> read_value e (json_encode v @ r) = Some (json_valid v, r)"
  proof -
    fix v r assume v: "v \<in> set vs"
    with JArr.prems d have "json_no_num v" "json_depth v \<le> e"
      using fold_max_ge [of "json_depth v" "map json_depth vs" 0] by (auto simp: list_all_iff)
    with JArr.IH v show "read_value e (json_encode v @ r) = Some (json_valid v, r)" by blast
  qed
  show ?case
  proof (cases "vs = []")
    case True
    with d show ?thesis by (simp add: read_composite_def)
  next
    case False
    let ?j = "join_with CHR '','' (map json_encode vs)"
    have nonempty: "\<forall>x \<in> set (map json_encode vs). x \<noteq> []"
      using JArr.prems json_encode_head by (fastforce simp: list_all_iff)
    obtain c cs where hd: "?j = c # cs" "c \<in> json_heads"
      using False JArr.prems json_encode_head [of "hd vs"]
      by (cases vs; cases "tl vs") auto
    have "read_elems (length (?j @ CHR '']'' # rest)) (read_value e) (?j @ CHR '']'' # rest) =
        Some (map json_valid vs, rest)"
      by (rule read_elems_join)
         (use p JArr.prems False length_join_ge [OF nonempty, of "CHR '',''"] in auto)
    with d hd json_heads_plain [OF hd(2)] show ?thesis
      by (simp add: read_composite_def skip_ws_head)
  qed
next
  case (JObj ms)
  then obtain e where d: "d = Suc e" by (cases d) auto
  have p: "\<And>k v r. (k, v) \<in> set ms \<Longrightarrow> read_value e (json_encode v @ r) = Some (json_valid v, r)"
  proof -
    fix k v r assume v: "(k, v) \<in> set ms"
    then have "json_depth v \<in> set (map (\<lambda>(k, v). json_depth v) ms)" by force
    with v JObj.prems d have "json_no_num v" "json_depth v \<le> e"
      using fold_max_ge [of "json_depth v" "map (\<lambda>(k, v). json_depth v) ms" 0]
      by (auto simp: list_all_iff)
    with JObj.IH [OF v, of v] show "read_value e (json_encode v @ r) = Some (json_valid v, r)"
      by (simp add: prod_set_simps)
  qed
  show ?case
  proof (cases "ms = []")
    case True
    with d show ?thesis by (simp add: read_composite_def)
  next
    case False
    let ?enc = "\<lambda>(k, v). json_quote k @ CHR '':'' # json_encode v"
    let ?j = "join_with CHR '','' (map ?enc ms)"
    have nonempty: "\<forall>x \<in> set (map ?enc ms). x \<noteq> []" by auto
    obtain cs where hd: "?j = CHR ''\"'' # cs"
      using False by (cases ms; cases "tl ms") (auto simp: json_quote_def)
    have "read_members (length (?j @ CHR ''}'' # rest)) (read_value e) (?j @ CHR ''}'' # rest) =
        Some (map (\<lambda>(k, v). (to_valid_utf8 k, json_valid v)) ms, rest)"
      by (rule read_members_join)
         (use p JObj.prems False length_join_ge [OF nonempty, of "CHR '',''"] in auto)
    with d hd show ?thesis by (simp add: read_composite_def)
  qed
next
  case (JStr s)
  then show ?case
    by (cases d) (simp_all add: read_scalar_def json_quote_def read_string_body)
next
  case JNull
  then show ?case by (cases d) (simp_all add: read_scalar_def)
next
  case (JBool b)
  then show ?case by (cases d; cases b) (simp_all add: read_scalar_def)
qed simp

lemma decode_value_encode:
  "json_no_num v \<Longrightarrow> json_depth v \<le> max_nesting_depth \<Longrightarrow>
     decode_value (json_encode v @ rest) = Some (json_valid v, rest)"
  by (simp add: decode_value_def skip_ws_encode read_value_encode)

subsection \<open>Struct fields\<close>

text \<open>
  A member matches a field when their names fold to the same string; every field name of the
  gateway is lower-case ASCII.  Besides ASCII letters two other runes fold to ASCII: U+017F to
  \<open>s\<close> and U+212A to \<open>k\<close>.
\<close>

fun fold_key :: "string \<Rightarrow> string" where
  "fold_key [] = []"
| "fold_key [c] = [ascii_lower c]"
| "fold_key [c, d] =
     (if c = CHR 0xC5 \<and> d = CHR 0xBF then ''s'' else ascii_lower c # fold_key [d])"
| "fold_key (c # d # e # cs) =
     (if c = CHR 0xC5 \<and> d = CHR 0xBF then CHR ''s'' # fold_key (e # cs)
      else if c = CHR 0xE2 \<and> d = CHR 0x84 \<and> e = CHR 0xAA then CHR ''k'' # fold_key cs
      else ascii_lower c # fold_key (d # e # cs))"

text \<open>The members a value offers to a struct; \<open>null\<close> offers none, any other type is an error.\<close>

fun struct_members :: "json \<Rightarrow> (string \<times> json) list option" where
  "struct_members (JObj ms) = Some ms"
| "struct_members JNull = Some []"
| "struct_members _ = None"

fun str_field_from :: "string \<Rightarrow> string \<Rightarrow> (string \<times> json) list \<Rightarrow> string option" where
  "str_field_from f acc [] = Some acc"
| "str_field_from f acc ((k, v) # ms) =
     (if fold_key k = f then
        (case v of JStr s \<Rightarrow> str_field_from f s ms
         | JNull \<Rightarrow> str_field_from f acc ms
         | _ \<Rightarrow> None)
      else str_field_from f acc ms)"

definition str_field :: "string \<Rightarrow> (string \<times> json) list \<Rightarrow> string option" where
  "str_field f ms = str_field_from f [] ms"

fun bool_field_from :: "string \<Rightarrow> bool \<Rightarrow> (string \<times> json) list \<Rightarrow> bool option" where
  "bool_field_from f acc [] = Some acc"
| "bool_field_from f acc ((k, v) # ms) =
     (if fold_key k = f then
        (case v of JBool b \<Rightarrow> bool_field_from f b ms
         | JNull \<Rightarrow> bool_field_from f acc ms
         | _ \<Rightarrow> None)
      else bool_field_from f acc ms)"

text \<open>A field of type \<open>map[string]string\<close>: a later object adds to an earlier one, \<open>null\<close> clears it.\<close>

fun str_entries :: "(string \<rightharpoonup> string) \<Rightarrow> (string \<times> json) list \<Rightarrow> (string \<rightharpoonup> string) option" where
  "str_entries m [] = Some m"
| "str_entries m ((k, v) # ms) =
     (case v of JStr s \<Rightarrow> str_entries (m(k \<mapsto> s)) ms
      | JNull \<Rightarrow> str_entries (m(k \<mapsto> [])) ms
      | _ \<Rightarrow> None)"

fun map_field_from ::
    "string \<Rightarrow> (string \<rightharpoonup> string) \<Rightarrow> (string \<times> json) list \<Rightarrow> (string \<rightharpoonup> string) option" where
  "map_field_from f acc [] = Some acc"
| "map_field_from f acc ((k, v) # ms) =
     (if fold_key k = f then
        (case v of
           JObj es \<Rightarrow> Option.bind (str_entries acc es) (\<lambda>acc'. map_field_from f acc' ms)
         | JNull \<Rightarrow> map_field_from f Map.empty ms
         | _ \<Rightarrow> None)
      else map_field_from f acc ms)"

lemma str_field_Nil [simp]: "str_field f [] = Some []"
  by (simp add: str_field_def)

definition json_str_member :: "string \<times> string \<Rightarrow> string \<times> json" where
  "json_str_member = (\<lambda>(k, s). (k, JStr s))"

text \<open>An object of string members with distinct folded names yields each of them.\<close>

lemma str_field_from_absent:
  "\<forall>(k, v) \<in> set ms. fold_key k \<noteq> f \<Longrightarrow> str_field_from f acc ms = Some acc"
  by (induction ms) auto

lemma str_field_from_present:
  "(k, JStr s) \<in> set ms \<Longrightarrow> fold_key k = f \<Longrightarrow>
     distinct (map (fold_key \<circ> fst) ms) \<Longrightarrow> str_field_from f acc ms = Some s"
proof (induction ms arbitrary: acc)
  case (Cons m ms)
  obtain k' v where m: "m = (k', v)" by (cases m)
  show ?case
  proof (cases "fold_key k' = f")
    case True
    have "(k, JStr s) \<notin> set ms"
    proof
      assume "(k, JStr s) \<in> set ms"
      then have "fold_key k \<in> set (map (fold_key \<circ> fst) ms)" by force
      with True m Cons.prems show False by simp
    qed
    with m Cons.prems(1) have v: "v = JStr s" by simp
    have "\<forall>(j, w) \<in> set ms. fold_key j \<noteq> f"
      using Cons.prems(3) m True by force
    then show ?thesis using m True v by (simp add: str_field_from_absent)
  next
    case False
    with Cons m show ?thesis by auto
  qed
qed simp

end
