(* ===== verification/Http_Core.thy ===== *)
theory Http_Core
  imports RateLimit_Adapter Go_Json
begin

text \<open>
  The HTTP edge's request, response writer and shared helpers (\<open>response.go\<close>).  A handler takes the
  request and the response writer and returns the writer as it leaves it.  \<open>rw_Panic\<close> marks a
  goroutine that died on a nil dereference: it has answered nothing and runs nothing after it.
  Header names are kept in their canonical spelling, as \<open>net/http\<close> stores them.
\<close>

subsection \<open>Requests and responses\<close>

record staff_identity =
  StaffSubject :: string
  IsStaff :: bool
  BreakGlass :: bool
  BreakGlassReason :: string
  TargetOrgID :: string

text \<open>The values the token middleware keeps in a request's context, each under its own key.\<close>

record request_context =
  ctx_userID :: "string option"
  ctx_isStaff :: "bool option"
  ctx_scope :: "string list option"
  ctx_staffSubject :: "string option"
  ctx_breakGlass :: "bool option"
  ctx_breakGlassReason :: "string option"
  ctx_staffIdentity :: "staff_identity option"
  ctx_targetOrg :: "string option"

definition Background :: request_context where
  "Background = \<lparr>ctx_userID = None, ctx_isStaff = None, ctx_scope = None, ctx_staffSubject = None,
     ctx_breakGlass = None, ctx_breakGlassReason = None, ctx_staffIdentity = None,
     ctx_targetOrg = None\<rparr>"

record request =
  req_Method :: string
  req_Path :: string
  req_Header :: "string \<rightharpoonup> string"
  req_PathValues :: "string \<rightharpoonup> string"
  req_RemoteAddr :: string
  req_Body :: string
  req_Context :: request_context

record response =
  rw_Header :: "string \<rightharpoonup> string"
  rw_Status :: "nat option"
  rw_Body :: string
  rw_Panic :: bool

definition empty_response :: response where
  "empty_response = \<lparr>rw_Header = Map.empty, rw_Status = None, rw_Body = [], rw_Panic = False\<rparr>"

type_synonym 'w handler = "request \<Rightarrow> response \<Rightarrow> ('w, response) state"

fun canonical_from :: "bool \<Rightarrow> string \<Rightarrow> string" where
  "canonical_from upper [] = []"
| "canonical_from upper (c # cs) =
     (if upper \<and> 97 \<le> byte_val c \<and> byte_val c \<le> 122 then char_of (byte_val c - 32)
      else if \<not> upper then ascii_lower c
      else c) # canonical_from (c = CHR ''-'') cs"

definition CanonicalHeaderKey :: "string \<Rightarrow> string" where
  "CanonicalHeaderKey k = canonical_from True k"

definition Header_Get :: "request \<Rightarrow> string \<Rightarrow> string" where
  "Header_Get r k = (case req_Header r (CanonicalHeaderKey k) of Some v \<Rightarrow> v | None \<Rightarrow> [])"

definition PathValue :: "request \<Rightarrow> string \<Rightarrow> string" where
  "PathValue r name = (case req_PathValues r name of Some v \<Rightarrow> v | None \<Rightarrow> [])"

definition Header_Set :: "string \<Rightarrow> string \<Rightarrow> response \<Rightarrow> response" where
  "Header_Set k v w = w\<lparr>rw_Header := (rw_Header w)(CanonicalHeaderKey k \<mapsto> v)\<rparr>"

definition WriteHeader :: "nat \<Rightarrow> response \<Rightarrow> response" where
  "WriteHeader status w = (case rw_Status w of None \<Rightarrow> w\<lparr>rw_Status := Some status\<rparr> | Some _ \<Rightarrow> w)"

definition Write :: "string \<Rightarrow> response \<Rightarrow> response" where
  "Write body w = (let w' = WriteHeader 200 w in w'\<lparr>rw_Body := rw_Body w' @ body\<rparr>)"

definition abort :: "response \<Rightarrow> response" where
  "abort w = w\<lparr>rw_Panic := True\<rparr>"

lemma canonical_names [simp]:
  "CanonicalHeaderKey ''Content-Type'' = ''Content-Type''"
  "CanonicalHeaderKey ''Retry-After'' = ''Retry-After''"
  "CanonicalHeaderKey ''Cache-Control'' = ''Cache-Control''"
  "CanonicalHeaderKey ''Authorization'' = ''Authorization''"
  "CanonicalHeaderKey ''X-RateLimit-Limit'' = ''X-Ratelimit-Limit''"
  "CanonicalHeaderKey ''X-RateLimit-Remaining'' = ''X-Ratelimit-Remaining''"
  "CanonicalHeaderKey ''X-RateLimit-Reset'' = ''X-Ratelimit-Reset''"
  "CanonicalHeaderKey ''X-Forwarded-For'' = ''X-Forwarded-For''"
  "CanonicalHeaderKey ''Idempotency-Key'' = ''Idempotency-Key''"
  "CanonicalHeaderKey ''X-User-Id'' = ''X-User-Id''"
  "CanonicalHeaderKey ''X-Org-Id'' = ''X-Org-Id''"
  "CanonicalHeaderKey ''X-Content-Type-Options'' = ''X-Content-Type-Options''"
  by code_simp+

lemma Header_Set_simps [simp]:
  "rw_Header (Header_Set k v w) = (rw_Header w)(CanonicalHeaderKey k \<mapsto> v)"
  "rw_Status (Header_Set k v w) = rw_Status w"
  "rw_Body (Header_Set k v w) = rw_Body w"
  "rw_Panic (Header_Set k v w) = rw_Panic w"
  by (simp_all add: Header_Set_def)

lemma WriteHeader_simps [simp]:
  "rw_Header (WriteHeader n w) = rw_Header w"
  "rw_Status (WriteHeader n w) = (case rw_Status w of None \<Rightarrow> Some n | Some m \<Rightarrow> Some m)"
  "rw_Body (WriteHeader n w) = rw_Body w"
  "rw_Panic (WriteHeader n w) = rw_Panic w"
  by (auto simp: WriteHeader_def split: option.splits)

lemma Write_simps [simp]:
  "rw_Header (Write b w) = rw_Header w"
  "rw_Status (Write b w) = (case rw_Status w of None \<Rightarrow> Some 200 | Some m \<Rightarrow> Some m)"
  "rw_Body (Write b w) = rw_Body w @ b"
  "rw_Panic (Write b w) = rw_Panic w"
  by (simp_all add: Write_def)

lemma abort_simps [simp]:
  "rw_Header (abort w) = rw_Header w" "rw_Status (abort w) = rw_Status w"
  "rw_Body (abort w) = rw_Body w" "rw_Panic (abort w) = True"
  by (simp_all add: abort_def)

subsection \<open>JSON bodies\<close>

definition maxAuthBody :: nat where
  "maxAuthBody = 64 * 2 ^ 10"

definition writeJSON :: "nat \<Rightarrow> json \<Rightarrow> response \<Rightarrow> response" where
  "writeJSON status body w =
     Write (json_encode body @ [CHR 0x0A])
       (WriteHeader status (Header_Set ''Content-Type'' ''application/json'' w))"

definition error_body :: "string \<Rightarrow> json" where
  "error_body message = JObj [(''error'', JStr message)]"

fun is_composite :: "json \<Rightarrow> bool" where
  "is_composite (JArr _) = True"
| "is_composite (JObj _) = True"
| "is_composite _ = False"

text \<open>
  The decoder reads through \<open>http.MaxBytesReader\<close>, so it sees the first \<open>maxAuthBody\<close> bytes.  An
  object or array is complete with its last bracket; a scalar needs one more byte or the end of the
  body, so one that ends exactly at the cap of a longer body is an error.
\<close>

definition read_json_body :: "string \<Rightarrow> json option" where
  "read_json_body body =
     (case decode_value (take maxAuthBody body) of
        None \<Rightarrow> None
      | Some (v, rest) \<Rightarrow>
          if maxAuthBody < length body \<and> rest = [] \<and> \<not> is_composite v then None else Some v)"

text \<open>
  \<open>decodeJSONBody\<close>: \<^const>\<open>Inr\<close> the destination filled by \<open>dec\<close>, or \<^const>\<open>Inl\<close> the writer after the
  400 answer.
\<close>

definition decodeJSONBody :: "(json \<Rightarrow> 'a option) \<Rightarrow> request \<Rightarrow> response \<Rightarrow> response + 'a" where
  "decodeJSONBody dec r w =
     (case Option.bind (read_json_body (req_Body r)) dec of
        None \<Rightarrow> Inl (writeJSON 400 (error_body ''invalid json'') w)
      | Some x \<Rightarrow> Inr x)"

definition with_body ::
    "(json \<Rightarrow> 'a option) \<Rightarrow> request \<Rightarrow> response \<Rightarrow> ('a \<Rightarrow> ('w, response) state) \<Rightarrow> ('w, response) state" where
  "with_body dec r w f = (case decodeJSONBody dec r w of Inl w' \<Rightarrow> ret w' | Inr x \<Rightarrow> f x)"

subsection \<open>Failures\<close>

fun status_of_kind :: "kind \<Rightarrow> nat" where
  "status_of_kind KindInvalidArgument = 400"
| "status_of_kind KindUnauthenticated = 401"
| "status_of_kind KindPermissionDenied = 403"
| "status_of_kind KindFailedPrecondition = 412"
| "status_of_kind KindResourceExhausted = 429"
| "status_of_kind KindNotFound = 404"
| "status_of_kind KindConflict = 409"
| "status_of_kind KindBadGateway = 502"
| "status_of_kind KindInternal = 500"

definition writeAppError :: "go_error \<Rightarrow> response \<Rightarrow> response" where
  "writeAppError err w =
     (if err = NilDeref then abort w
      else case AsError err of
        Some failure \<Rightarrow> writeJSON (status_of_kind (err_Kind failure)) (error_body (err_Message failure)) w
      | None \<Rightarrow> writeJSON 500 (error_body ''upstream error'') w)"

definition setRateLimitHeaders :: "decision \<Rightarrow> response \<Rightarrow> response" where
  "setRateLimitHeaders d w =
     Header_Set ''X-RateLimit-Reset'' (show_int (time_Unix (ResetAt d)))
       (Header_Set ''X-RateLimit-Remaining'' (show_int (Remaining d))
         (Header_Set ''X-RateLimit-Limit'' (show_int (Limit d)) w))"

definition retry_seconds :: "decision \<Rightarrow> int" where
  "retry_seconds d = (let seconds = whole_seconds (RetryAfter d) in if seconds < 1 then 1 else seconds)"

definition writeLimitError :: "go_error \<Rightarrow> response \<Rightarrow> response" where
  "writeLimitError err w =
     (case err of
        LimitErr limit \<Rightarrow>
          if Unavailable limit
          then writeJSON 503 (error_body ''rate limiter unavailable'') (Header_Set ''Retry-After'' ''5'' w)
          else writeJSON 429 (error_body ''rate limit exceeded'')
                 (Header_Set ''Retry-After'' (show_int (retry_seconds (le_Decision limit)))
                   (setRateLimitHeaders (le_Decision limit) w))
      | _ \<Rightarrow> writeAppError err w)"

subsection \<open>The client's address\<close>

definition split_last_colon :: "string \<Rightarrow> (string \<times> string) option" where
  "split_last_colon s =
     (case dropWhile (\<lambda>c. c \<noteq> CHR '':'') (rev s) of
        [] \<Rightarrow> None
      | _ # r \<Rightarrow> Some (rev r, rev (takeWhile (\<lambda>c. c \<noteq> CHR '':'') (rev s))))"

text \<open>The host of \<open>net.SplitHostPort\<close>, \<^const>\<open>None\<close> where it reports an error.\<close>

definition SplitHost :: "string \<Rightarrow> string option" where
  "SplitHost s =
     (case split_last_colon s of
        None \<Rightarrow> None
      | Some (before, port) \<Rightarrow>
          if take 1 s = ''['' then
            (let inside = takeWhile (\<lambda>c. c \<noteq> CHR '']'') s
             in if before \<noteq> inside @ '']'' then None
                else if CHR ''['' \<in> set (tl s) \<or> CHR '']'' \<in> set port then None
                else Some (tl inside))
          else if CHR '':'' \<in> set before \<or> CHR ''['' \<in> set s \<or> CHR '']'' \<in> set s then None
          else Some before)"

definition clientIP :: "request \<Rightarrow> bool \<Rightarrow> string" where
  "clientIP r trustProxy =
     (if trustProxy \<and> Header_Get r ''X-Forwarded-For'' \<noteq> []
      then TrimSpace (hd (split_on CHR '','' (Header_Get r ''X-Forwarded-For'')))
      else case SplitHost (req_RemoteAddr r) of Some host \<Rightarrow> host | None \<Rightarrow> req_RemoteAddr r)"

subsection \<open>Facts the handlers share\<close>

lemma writeJSON_simps [simp]:
  "rw_Header (writeJSON n b w) = (rw_Header w)(''Content-Type'' \<mapsto> ''application/json'')"
  "rw_Status (writeJSON n b w) = (case rw_Status w of None \<Rightarrow> Some n | Some m \<Rightarrow> Some m)"
  "rw_Body (writeJSON n b w) = rw_Body w @ json_encode b @ [CHR 0x0A]"
  "rw_Panic (writeJSON n b w) = rw_Panic w"
  by (simp_all add: writeJSON_def split: option.splits)

lemma setRateLimitHeaders_simps [simp]:
  "rw_Status (setRateLimitHeaders d w) = rw_Status w"
  "rw_Body (setRateLimitHeaders d w) = rw_Body w"
  "rw_Panic (setRateLimitHeaders d w) = rw_Panic w"
  "rw_Header (setRateLimitHeaders d w) =
     (rw_Header w)(''X-Ratelimit-Limit'' \<mapsto> show_int (Limit d),
       ''X-Ratelimit-Remaining'' \<mapsto> show_int (Remaining d),
       ''X-Ratelimit-Reset'' \<mapsto> show_int (time_Unix (ResetAt d)))"
  by (simp_all add: setRateLimitHeaders_def)

lemma empty_response_simps [simp]:
  "rw_Header empty_response = Map.empty" "rw_Status empty_response = None"
  "rw_Body empty_response = []" "rw_Panic empty_response = False"
  by (simp_all add: empty_response_def)

lemma retry_seconds_pos: "1 \<le> retry_seconds d"
  by (simp add: retry_seconds_def Let_def)

lemma writeAppError_panic [simp]: "rw_Panic (writeAppError e w) \<longleftrightarrow> rw_Panic w \<or> e = NilDeref"
  by (auto simp: writeAppError_def split: option.splits)

lemma writeLimitError_panic [simp]: "rw_Panic (writeLimitError e w) \<longleftrightarrow> rw_Panic w \<or> e = NilDeref"
  by (auto simp: writeLimitError_def split: go_error.splits)

lemma preserves_with_body [frame_intros]:
  "(\<And>x. preserves f (m x)) \<Longrightarrow> preserves f (with_body dec r w m)"
  by (auto simp: with_body_def split: sum.splits)

lemma keeps_with_body [keep_intros]:
  "(\<And>x. keeps I (m x)) \<Longrightarrow> keeps I (with_body dec r w m)"
  by (auto simp: with_body_def split: sum.splits)

lemma with_body_rejected:
  "decodeJSONBody dec r w = Inl w' \<Longrightarrow> with_body dec r w f = ret w'"
  by (simp add: with_body_def)

lemma with_body_accepted: "decodeJSONBody dec r w = Inr x \<Longrightarrow> with_body dec r w f = f x"
  by (simp add: with_body_def)

lemma read_json_body_encode:
  assumes "json_no_num v" and "json_depth v \<le> max_nesting_depth" and "is_composite v"
    and "length (json_encode v) \<le> maxAuthBody"
  shows "read_json_body (json_encode v @ rest) = Some (json_valid v)"
proof -
  have "take maxAuthBody (json_encode v @ rest) =
      json_encode v @ take (maxAuthBody - length (json_encode v)) rest"
    using assms(4) by simp
  moreover have "is_composite (json_valid v)" using assms(3) by (cases v) auto
  ultimately show ?thesis
    by (simp add: read_json_body_def decode_value_encode [OF assms(1,2)])
qed

end
