(* ===== verification/Http_Handlers.thy ===== *)
theory Http_Handlers
  imports Http_Core
begin

text \<open>
  \<open>internal/infrastructure/httpapi/handlers.go\<close>, \<open>flags.go\<close> and \<open>openapi.go\<close>: the class limiter
  \<open>wrap\<close> and the handlers of health, installer, authentication, ownership, onboarding, flags and
  assets.  Besides the fields of the Go struct the record \<open>handlers\<close> carries the runtime and the
  rate-limit library the code reaches through its imports.
\<close>

record 'w handlers =
  h_svc :: "'w service"
  h_trustProxy :: bool
  h_rt :: "'w go_runtime"
  h_lib :: rate_library

subsection \<open>Health and installer\<close>

definition health :: "'w handler" where
  "health r w =
     ret (Write ''ok'' (WriteHeader 200 (Header_Set ''Content-Type'' ''text/plain; charset=utf-8'' w)))"

text \<open>\<open>http.Error\<close> and \<open>http.NotFound\<close> of \<open>net/http\<close>.\<close>

definition http_Error :: "string \<Rightarrow> nat \<Rightarrow> response \<Rightarrow> response" where
  "http_Error message code w =
     Write (message @ [CHR 0x0A])
       (WriteHeader code
         (Header_Set ''X-Content-Type-Options'' ''nosniff''
           (Header_Set ''Content-Type'' ''text/plain; charset=utf-8'' w)))"

definition http_NotFound :: "response \<Rightarrow> response" where
  "http_NotFound w = http_Error ''404 page not found'' 404 w"

text \<open>A call whose error can only be a nil dereference: the handler goes on with its value.\<close>

definition or_abort :: "('w, 'a) call \<Rightarrow> response \<Rightarrow> ('a \<Rightarrow> ('w, response) state) \<Rightarrow> ('w, response) state" where
  "or_abort m w f = m \<bind> (\<lambda>r. case r of Inl e \<Rightarrow> ret (abort w) | Inr x \<Rightarrow> f x)"

definition install :: "'w handlers \<Rightarrow> 'w handler" where
  "install h r w =
     (if req_Path r \<noteq> ''/'' then ret (http_NotFound w)
      else
        (let w1 = WriteHeader 200
               (Header_Set ''Cache-Control'' ''no-cache, no-store, must-revalidate''
                 (Header_Set ''Content-Type'' ''text/x-shellscript; charset=utf-8'' w))
         in or_abort (InstallScript (h_svc h)) w1 (\<lambda>script. ret (Write script w1))))"

subsection \<open>The class limiter\<close>

definition wrap :: "'w handlers \<Rightarrow> string \<Rightarrow> 'w handler \<Rightarrow> 'w handler" where
  "wrap h class next =
     (if \<not> HasLimiter (h_svc h) then next
      else (\<lambda>r w.
        CheckClassLimit (h_svc h) class (clientIP r (h_trustProxy h)) \<bind> (\<lambda>checked.
          case checked of
            Inl err \<Rightarrow> ret (writeLimitError err w)
          | Inr decision \<Rightarrow> next r (setRateLimitHeaders decision w))))"

text \<open>\<open>if err != nil \<lbrace> writeX(w, err); return \<rbrace>\<close> around a service call.\<close>

definition answer ::
    "(go_error \<Rightarrow> response \<Rightarrow> response) \<Rightarrow> ('w, 'a) call \<Rightarrow> response \<Rightarrow> ('a \<Rightarrow> response) \<Rightarrow>
       ('w, response) state" where
  "answer on_error m w f =
     m \<bind> (\<lambda>r. case r of Inl e \<Rightarrow> ret (on_error e w) | Inr x \<Rightarrow> ret (f x))"

lemma run_answer [simp]:
  "run_state (answer on_error m w f) s =
     (case run_state m s of (Inl e, s') \<Rightarrow> (on_error e w, s') | (Inr x, s') \<Rightarrow> (f x, s'))"
  by (auto simp: answer_def split: prod.splits sum.splits)

lemma preserves_answer [frame_intros]: "preserves f m \<Longrightarrow> preserves f (answer on_error m w g)"
  unfolding answer_def by (intro frame_intros)

lemma preserves_or_abort [frame_intros]:
  "preserves f m \<Longrightarrow> (\<And>x. preserves f (g x)) \<Longrightarrow> preserves f (or_abort m w g)"
  unfolding or_abort_def by (intro frame_intros)

lemma keeps_answer [keep_intros]: "keeps I m \<Longrightarrow> keeps I (answer on_error m w g)"
  unfolding answer_def by (intro keep_intros)

lemma keeps_or_abort [keep_intros]:
  "keeps I m \<Longrightarrow> (\<And>x. keeps I (g x)) \<Longrightarrow> keeps I (or_abort m w g)"
  unfolding or_abort_def by (intro keep_intros)

subsection \<open>Authentication\<close>

definition otpRequestBody :: "json \<Rightarrow> otp_request option" where
  "otpRequestBody v =
     Option.bind (struct_members v) (\<lambda>ms.
     Option.bind (str_field ''identifier'' ms) (\<lambda>identifier.
     Option.bind (str_field ''channel'' ms) (\<lambda>channel.
     Option.bind (str_field ''email'' ms) (\<lambda>email.
     Option.bind (str_field ''correlation_id'' ms) (\<lambda>correlation.
     Some \<lparr>otpr_Identifier = identifier, otpr_Channel = channel, otpr_Email = email,
           otpr_CorrelationID = correlation\<rparr>)))))"

definition otpVerifyBody :: "json \<Rightarrow> otp_verification option" where
  "otpVerifyBody v =
     Option.bind (struct_members v) (\<lambda>ms.
     Option.bind (str_field ''identifier'' ms) (\<lambda>identifier.
     Option.bind (str_field ''channel'' ms) (\<lambda>channel.
     Option.bind (str_field ''email'' ms) (\<lambda>email.
     Option.bind (str_field ''code'' ms) (\<lambda>code.
     Some \<lparr>otpv_Identifier = identifier, otpv_Channel = channel, otpv_Email = email,
           otpv_Code = code\<rparr>)))))"

definition refreshBody :: "json \<Rightarrow> string option" where
  "refreshBody v = Option.bind (struct_members v) (str_field ''refresh_token'')"

definition loginBody :: "json \<Rightarrow> password_login option" where
  "loginBody v =
     Option.bind (struct_members v) (\<lambda>ms.
     Option.bind (str_field ''identifier'' ms) (\<lambda>identifier.
     Option.bind (str_field ''email'' ms) (\<lambda>email.
     Option.bind (str_field ''password'' ms) (\<lambda>password.
     Some \<lparr>pl_Identifier = identifier, pl_Email = email, pl_Password = password\<rparr>))))"

text \<open>The encoder writes a Go map with its keys in order.\<close>

definition token_body :: "token_pair \<Rightarrow> json" where
  "token_body tokens = JObj
     [(''access_token'', JStr (AccessToken tokens)),
      (''expires_at'', JStr (ExpiresAt tokens)),
      (''refresh_token'', JStr (RefreshToken tokens))]"

definition writeTokens :: "token_pair \<Rightarrow> response \<Rightarrow> response" where
  "writeTokens tokens w = writeJSON 200 (token_body tokens) w"

definition with_limit_headers :: "decision option \<Rightarrow> response \<Rightarrow> response" where
  "with_limit_headers d w = (case d of None \<Rightarrow> w | Some d \<Rightarrow> setRateLimitHeaders d w)"

definition requestOTP :: "'w handlers \<Rightarrow> 'w handler" where
  "requestOTP h r w =
     with_body otpRequestBody r w (\<lambda>body.
       answer writeLimitError (RequestOTP (h_rt h) (h_svc h) body) w (\<lambda>receipt.
         writeJSON 200 (JObj [(''expires_at'', JStr (otpr_ExpiresAt receipt))])
           (with_limit_headers (otpr_IdentifierLimit receipt) w)))"

definition verifyOTP :: "'w handlers \<Rightarrow> 'w handler" where
  "verifyOTP h r w =
     with_body otpVerifyBody r w (\<lambda>body.
       answer writeAppError (VerifyOTP (h_svc h) body) w (\<lambda>tokens. writeTokens tokens w))"

definition login :: "'w handlers \<Rightarrow> 'w handler" where
  "login h r w =
     with_body loginBody r w (\<lambda>body.
       answer writeAppError (Login (h_svc h) body) w (\<lambda>tokens. writeTokens tokens w))"

definition refreshToken :: "'w handlers \<Rightarrow> 'w handler" where
  "refreshToken h r w =
     with_body refreshBody r w (\<lambda>token.
       answer writeAppError (RefreshTokenOp (h_svc h) token) w (\<lambda>tokens. writeTokens tokens w))"

subsection \<open>Ownership\<close>

record admin_verify_request =
  av_Email :: string
  av_Code :: string

text \<open>The challenge body also has a \<open>display_name\<close>, which the handler does not use.\<close>

definition AdminChallengeRequest :: "json \<Rightarrow> string option" where
  "AdminChallengeRequest v =
     Option.bind (struct_members v) (\<lambda>ms.
     Option.bind (str_field ''email'' ms) (\<lambda>email.
     Option.bind (str_field ''display_name'' ms) (\<lambda>_. Some email)))"

definition AdminVerifyRequest :: "json \<Rightarrow> admin_verify_request option" where
  "AdminVerifyRequest v =
     Option.bind (struct_members v) (\<lambda>ms.
     Option.bind (str_field ''email'' ms) (\<lambda>email.
     Option.bind (str_field ''code'' ms) (\<lambda>code. Some \<lparr>av_Email = email, av_Code = code\<rparr>)))"

text \<open>A field tagged \<open>omitempty\<close>.\<close>

definition omit_empty :: "string \<Rightarrow> string \<Rightarrow> (string \<times> json) list" where
  "omit_empty key s = (if s = [] then [] else [(key, JStr s)])"

definition AdminChallengeResponse :: "challenge_grant \<Rightarrow> json" where
  "AdminChallengeResponse g =
     JObj [(''status'', JStr (cg_Status g)), (''expires_in'', JStr (cg_ExpiresIn g))]"

definition AdminVerifyResponse :: "ownership_proof \<Rightarrow> json" where
  "AdminVerifyResponse proof = JObj
     ([(''status'', JStr (op_Status proof)), (''email'', JStr (op_Email proof))] @
      omit_empty ''display_name'' (op_DisplayName proof) @
      [(''key_fingerprint'', JStr (op_KeyFingerprint proof)),
       (''verified_at'', JStr (rfc3339_utc (op_VerifiedAt proof)))])"

definition challenge_handler :: "'w handlers \<Rightarrow> 'w handler" where
  "challenge_handler h r w =
     with_body AdminChallengeRequest r w (\<lambda>email.
       answer writeLimitError (Challenge (h_rt h) (h_svc h) email) w (\<lambda>receipt.
         writeJSON 200 (AdminChallengeResponse (chr_Grant receipt))
           (with_limit_headers (chr_IdentifierLimit receipt) w)))"

definition verifyChallenge :: "'w handlers \<Rightarrow> 'w handler" where
  "verifyChallenge h r w =
     with_body AdminVerifyRequest r w (\<lambda>body.
       answer writeAppError (VerifyChallenge (h_rt h) (h_svc h) (av_Email body) (av_Code body)) w
         (\<lambda>proof. writeJSON 200 (AdminVerifyResponse proof) w))"

subsection \<open>Onboarding\<close>

definition OnboardClaimRequest :: "json \<Rightarrow> claim_input option" where
  "OnboardClaimRequest v =
     Option.bind (struct_members v) (\<lambda>ms.
     Option.bind (str_field ''invite_token'' ms) (\<lambda>token.
     Option.bind (str_field ''desired_uid'' ms) (\<lambda>uid.
     Option.bind (str_field ''email'' ms) (\<lambda>email.
     Option.bind (str_field ''display_name'' ms) (\<lambda>displayName.
     Option.bind (str_field ''ssh_public_key'' ms) (\<lambda>sshKey.
     Option.bind (str_field ''machine_fingerprint'' ms) (\<lambda>machine.
     Option.bind (str_field ''scope'' ms) (\<lambda>scope.
     Option.bind (map_field_from ''metadata'' Map.empty ms) (\<lambda>metadata.
     Some \<lparr>ci_InviteToken = token, ci_DesiredUID = uid, ci_Email = email,
           ci_DisplayName = displayName, ci_SSHPublicKey = sshKey,
           ci_MachineFingerprint = machine, ci_Scope = scope, ci_Metadata = metadata\<rparr>)))))))))"

definition OnboardUser :: "claim_user \<Rightarrow> json" where
  "OnboardUser u = JObj
     [(''uid'', JStr (cu_UID u)), (''email'', JStr (cu_Email u)),
      (''display_name'', JStr (cu_DisplayName u)), (''groups'', JArr (map JStr (cu_Groups u)))]"

definition OnboardCredentials :: "claim_credentials \<Rightarrow> json" where
  "OnboardCredentials c = JObj
     [(''forgejo_username'', JStr (ForgejoUsername c)),
      (''forgejo_mcp_token'', JStr (ForgejoMCPToken c)),
      (''wireguard_config'', JStr (WireGuardConfig c))]"

definition OnboardWorkspaceInfo :: "claim_workspace \<Rightarrow> json" where
  "OnboardWorkspaceInfo ws = JObj
     [(''git_remote_base'', JStr (GitRemoteBase ws)),
      (''default_manifest_scope'', JStr (DefaultManifestScope ws))]"

definition OnboardClaimResponse :: "claim_result \<Rightarrow> json" where
  "OnboardClaimResponse res = JObj
     [(''status'', JStr (cr_Status res)),
      (''idempotent_replay'', JBool (IdempotentReplay res)),
      (''user'', OnboardUser (cr_User res)),
      (''credentials'', OnboardCredentials (cr_Credentials res)),
      (''workspace'', OnboardWorkspaceInfo (cr_Workspace res))]"

definition claim_handler :: "'w handlers \<Rightarrow> 'w handler" where
  "claim_handler h r w =
     with_body OnboardClaimRequest r w (\<lambda>body.
       answer writeAppError (Claim (h_rt h) (h_svc h) body (Header_Get r ''Idempotency-Key'')) w
         (\<lambda>res. writeJSON 200 (OnboardClaimResponse res) w))"

subsection \<open>Flags\<close>

fun featureFlagsJSON :: "feature_flag list \<Rightarrow> json list" where
  "featureFlagsJSON [] = []"
| "featureFlagsJSON (f # fs) =
     JObj [(''name'', JStr (flag_Name f)), (''enabled'', JBool (flag_Enabled f)),
           (''description'', JStr (flag_Description f))] # featureFlagsJSON fs"

definition flagSetJSON :: "flag_set \<Rightarrow> json" where
  "flagSetJSON fs =
     JObj [(''version'', JStr (fs_Version fs)), (''flags'', JArr (featureFlagsJSON (fs_Flags fs)))]"

definition flags_error :: "go_error \<Rightarrow> response \<Rightarrow> response" where
  "flags_error e w =
     (if e = NilDeref then abort w else writeJSON 502 (error_body ''flags unavailable'') w)"

definition flags_handler :: "'w handlers \<Rightarrow> 'w handler" where
  "flags_handler h r w =
     (let w1 = Header_Set ''Cache-Control'' ''no-cache'' w
      in answer flags_error (ListFlags (h_svc h)) w1 (\<lambda>set. writeJSON 200 (flagSetJSON set) w1))"

subsection \<open>OpenAPI artifacts\<close>

definition asset_error :: "go_error \<Rightarrow> response \<Rightarrow> response" where
  "asset_error e w = (if e = NilDeref then abort w else http_Error ''spec not found'' 404 w)"

definition serveAsset :: "('w, string) call \<Rightarrow> string \<Rightarrow> 'w handler" where
  "serveAsset load contentType r w =
     answer asset_error load w (\<lambda>body.
       Write body (WriteHeader 200 (Header_Set ''Content-Type'' contentType w)))"

end
