(* ===== verification/Go_Mux.thy ===== *)
theory Go_Mux
  imports Http_Handlers
begin

text \<open>
  \<open>net/http\<close>'s \<open>ServeMux\<close> as the gateway uses it: patterns \<open>METHOD /path\<close> whose segments are
  literals, single wildcards \<open>{name}\<close> or a final \<open>/\<close> (a subtree), registration with its conflict
  panic, and dispatch with literal-first matching, \<open>HEAD\<close> served by \<open>GET\<close>, 405 with \<open>Allow\<close> and 404.
  Paths are clean and carry no percent escapes: \<open>ServeMux\<close> answers an unclean path with a redirect
  before any of this.
\<close>

datatype segment = Lit string | Wild string | Multi

record mux_pattern =
  mp_Method :: "string option"
  mp_Segments :: "segment list"

subsection \<open>Patterns\<close>

fun parse_segments :: "string list \<Rightarrow> segment list" where
  "parse_segments [] = []"
| "parse_segments [s] =
     (if s = [] then [Multi] else if take 1 s = ''{'' then [Wild (butlast (tl s))] else [Lit s])"
| "parse_segments (s # t # ts) =
     (if take 1 s = ''{'' then Wild (butlast (tl s)) else Lit s) # parse_segments (t # ts)"

definition parse_pattern :: "string \<Rightarrow> mux_pattern" where
  "parse_pattern s =
     (if CHR '' '' \<in> set s
      then \<lparr>mp_Method = Some (takeWhile (\<lambda>c. c \<noteq> CHR '' '') s),
            mp_Segments = parse_segments
              (split_on CHR ''/'' (drop 2 (dropWhile (\<lambda>c. c \<noteq> CHR '' '') s)))\<rparr>
      else \<lparr>mp_Method = None, mp_Segments = parse_segments (split_on CHR ''/'' (drop 1 s))\<rparr>)"

text \<open>The segments of a request path; a trailing slash is the segment \<open>/\<close>.\<close>

fun slash_last :: "string list \<Rightarrow> string list" where
  "slash_last [] = []"
| "slash_last [s] = (if s = [] then [''/''] else [s])"
| "slash_last (s # t # ts) = s # slash_last (t # ts)"

definition path_segments :: "string \<Rightarrow> string list" where
  "path_segments path = slash_last (split_on CHR ''/'' (drop 1 path))"

subsection \<open>Conflicts\<close>

datatype relationship = Equivalent | MoreGeneral | MoreSpecific | Disjoint | Overlaps

fun combineRelationships :: "relationship \<Rightarrow> relationship \<Rightarrow> relationship" where
  "combineRelationships Equivalent r = r"
| "combineRelationships Disjoint r = Disjoint"
| "combineRelationships Overlaps r = (if r = Disjoint then Disjoint else Overlaps)"
| "combineRelationships MoreGeneral r =
     (case r of Equivalent \<Rightarrow> MoreGeneral | MoreGeneral \<Rightarrow> MoreGeneral | MoreSpecific \<Rightarrow> Overlaps
      | Disjoint \<Rightarrow> Disjoint | Overlaps \<Rightarrow> Overlaps)"
| "combineRelationships MoreSpecific r =
     (case r of Equivalent \<Rightarrow> MoreSpecific | MoreSpecific \<Rightarrow> MoreSpecific | MoreGeneral \<Rightarrow> Overlaps
      | Disjoint \<Rightarrow> Disjoint | Overlaps \<Rightarrow> Overlaps)"

fun compareSegments :: "segment \<Rightarrow> segment \<Rightarrow> relationship" where
  "compareSegments Multi Multi = Equivalent"
| "compareSegments Multi _ = MoreGeneral"
| "compareSegments _ Multi = MoreSpecific"
| "compareSegments (Wild _) (Wild _) = Equivalent"
| "compareSegments (Wild _) (Lit s) = (if s = ''/'' then Disjoint else MoreGeneral)"
| "compareSegments (Lit s) (Wild _) = (if s = ''/'' then Disjoint else MoreSpecific)"
| "compareSegments (Lit s) (Lit t) = (if s = t then Equivalent else Disjoint)"

text \<open>\<open>m1\<close> and \<open>m2\<close>: whether the whole first and second pattern end in a multi wildcard.\<close>

fun compare_from ::
    "bool \<Rightarrow> bool \<Rightarrow> relationship \<Rightarrow> segment list \<Rightarrow> segment list \<Rightarrow> relationship" where
  "compare_from m1 m2 rel [] [] = rel"
| "compare_from m1 m2 rel [] (_ # _) =
     (if m1 then combineRelationships rel MoreGeneral else Disjoint)"
| "compare_from m1 m2 rel (_ # _) [] =
     (if m2 then combineRelationships rel MoreSpecific else Disjoint)"
| "compare_from m1 m2 rel (s # ss) (t # ts) =
     (let rel' = combineRelationships rel (compareSegments s t)
      in if rel' = Disjoint then Disjoint else compare_from m1 m2 rel' ss ts)"

definition ends_multi :: "segment list \<Rightarrow> bool" where
  "ends_multi ss \<longleftrightarrow> ss \<noteq> [] \<and> last ss = Multi"

definition comparePaths :: "segment list \<Rightarrow> segment list \<Rightarrow> relationship" where
  "comparePaths ss ts =
     (if length ss \<noteq> length ts \<and> \<not> ends_multi ss \<and> \<not> ends_multi ts then Disjoint
      else compare_from (ends_multi ss) (ends_multi ts) Equivalent ss ts)"

definition compareMethods :: "string option \<Rightarrow> string option \<Rightarrow> relationship" where
  "compareMethods m n =
     (if m = n then Equivalent
      else if m = None then MoreGeneral
      else if n = None then MoreSpecific
      else if m = Some ''GET'' \<and> n = Some ''HEAD'' then MoreGeneral
      else if n = Some ''GET'' \<and> m = Some ''HEAD'' then MoreSpecific
      else Disjoint)"

definition conflicts :: "mux_pattern \<Rightarrow> mux_pattern \<Rightarrow> bool" where
  "conflicts p q \<longleftrightarrow>
     (let mrel = compareMethods (mp_Method p) (mp_Method q)
      in if mrel = Disjoint then False
         else combineRelationships mrel (comparePaths (mp_Segments p) (mp_Segments q))
                \<in> {Equivalent, Overlaps})"

text \<open>Registering a list of patterns panics when a pattern conflicts with an earlier one.\<close>

fun conflict_free :: "mux_pattern list \<Rightarrow> bool" where
  "conflict_free [] = True"
| "conflict_free (p # ps) \<longleftrightarrow> list_all (\<lambda>q. \<not> conflicts p q) ps \<and> conflict_free ps"

subsection \<open>Matching\<close>

text \<open>
  A candidate is the rest of a pattern, the wildcards bound so far and the handler.  At each segment
  of the path the candidates that go on with this literal are tried first, then those that go on
  with a wildcard, then a subtree.
\<close>

type_synonym 'h candidate = "segment list \<times> (string \<rightharpoonup> string) \<times> 'h"

fun step_literal :: "string \<Rightarrow> 'h candidate list \<Rightarrow> 'h candidate list" where
  "step_literal seg [] = []"
| "step_literal seg ((ss, b, h) # cs) =
     (case ss of Lit s # rest \<Rightarrow> (if s = seg then [(rest, b, h)] else []) | _ \<Rightarrow> []) @ step_literal seg cs"

fun step_wild :: "string \<Rightarrow> 'h candidate list \<Rightarrow> 'h candidate list" where
  "step_wild seg [] = []"
| "step_wild seg ((ss, b, h) # cs) =
     (case ss of Wild n # rest \<Rightarrow> [(rest, b(n \<mapsto> seg), h)] | _ \<Rightarrow> []) @ step_wild seg cs"

fun find_end :: "segment list \<Rightarrow> 'h candidate list \<Rightarrow> ((string \<rightharpoonup> string) \<times> 'h) option" where
  "find_end want [] = None"
| "find_end want ((ss, b, h) # cs) = (if ss = want then Some (b, h) else find_end want cs)"

fun match_path ::
    "'h candidate list \<Rightarrow> string list \<Rightarrow> ((string \<rightharpoonup> string) \<times> 'h) option" where
  "match_path cs [] = find_end [] cs"
| "match_path cs (seg # rest) =
     (if cs = [] then None
      else case match_path (step_literal seg cs) rest of
        Some m \<Rightarrow> Some m
      | None \<Rightarrow>
          (case (if seg = ''/'' then None else match_path (step_wild seg cs) rest) of
             Some m \<Rightarrow> Some m
           | None \<Rightarrow> find_end [Multi] cs))"

type_synonym 'h mux = "(mux_pattern \<times> 'h) list"

definition candidates :: "string option \<Rightarrow> 'h mux \<Rightarrow> 'h candidate list" where
  "candidates m mux =
     map (\<lambda>(p, h). (mp_Segments p, Map.empty, h)) (filter (\<lambda>(p, h). mp_Method p = m) mux)"

fun first_match :: "'h mux \<Rightarrow> string list \<Rightarrow> string option list \<Rightarrow> ((string \<rightharpoonup> string) \<times> 'h) option" where
  "first_match mux segs [] = None"
| "first_match mux segs (m # ms) =
     (case match_path (candidates m mux) segs of
        Some r \<Rightarrow> Some r
      | None \<Rightarrow> first_match mux segs ms)"

definition mux_match :: "'h mux \<Rightarrow> string \<Rightarrow> string list \<Rightarrow> ((string \<rightharpoonup> string) \<times> 'h) option" where
  "mux_match mux method segs =
     first_match mux segs
       ([Some method] @ (if method = ''HEAD'' then [Some ''GET''] else []) @ [None])"

text \<open>The methods of the \<open>Allow\<close> header: those some pattern offers at this path, in order.\<close>

definition offers :: "'h mux \<Rightarrow> string \<Rightarrow> string \<Rightarrow> bool" where
  "offers mux path m \<longleftrightarrow>
     match_path (candidates (Some m) mux) (path_segments path) \<noteq> None \<or>
     (take 1 (rev path) \<noteq> ''/'' \<and>
      match_path (candidates (Some m) mux) (path_segments (path @ ''/'')) \<noteq> None)"

definition matchingMethods :: "'h mux \<Rightarrow> string \<Rightarrow> string list" where
  "matchingMethods mux path =
     (let ms = [''DELETE'', ''GET'', ''HEAD'', ''POST'', ''PUT'']
      in filter (\<lambda>m. offers mux path m \<or> m = ''HEAD'' \<and> offers mux path ''GET'') ms)"

definition comma_join :: "string list \<Rightarrow> string" where
  "comma_join xs = concat (map (\<lambda>(i, x). (if i = 0 then [] else '', '') @ x) (enumerate 0 xs))"

definition mux_serve :: "'w handler mux \<Rightarrow> 'w handler" where
  "mux_serve mux r w =
     (case mux_match mux (req_Method r) (path_segments (req_Path r)) of
        Some (binding, h) \<Rightarrow> h (r\<lparr>req_PathValues := binding\<rparr>) w
      | None \<Rightarrow>
          (let allowed = matchingMethods mux (req_Path r)
           in if allowed \<noteq> []
              then ret (http_Error ''Method Not Allowed'' 405
                     (Header_Set ''Allow'' (comma_join allowed) w))
              else ret (http_NotFound w)))"

definition HandleFunc :: "string \<Rightarrow> 'h \<Rightarrow> 'h mux \<Rightarrow> 'h mux" where
  "HandleFunc pattern h mux = mux @ [(parse_pattern pattern, h)]"

subsection \<open>Dispatch reaches only registered handlers\<close>

definition candidate_handlers :: "'h candidate list \<Rightarrow> 'h set" where
  "candidate_handlers cs = {h. \<exists>ss b. (ss, b, h) \<in> set cs}"

lemma candidate_handlers_simps [simp]:
  "candidate_handlers [] = {}"
  "candidate_handlers ((ss, b, h) # cs) = insert h (candidate_handlers cs)"
  "candidate_handlers (cs @ ds) = candidate_handlers cs \<union> candidate_handlers ds"
  by (auto simp: candidate_handlers_def)

lemma find_end_sound: "find_end want cs = Some (b, h) \<Longrightarrow> h \<in> candidate_handlers cs"
  by (induction want cs rule: find_end.induct) (auto split: if_splits)

lemma step_handlers:
  "candidate_handlers (step_literal seg cs) \<subseteq> candidate_handlers cs"
  "candidate_handlers (step_wild seg cs) \<subseteq> candidate_handlers cs"
  by (induction seg cs rule: step_literal.induct; auto split: list.splits segment.splits if_splits)+

lemma match_path_sound: "match_path cs segs = Some (b, h) \<Longrightarrow> h \<in> candidate_handlers cs"
proof (induction cs segs rule: match_path.induct)
  case (1 cs)
  then show ?case by (simp add: find_end_sound)
next
  case (2 cs seg rest)
  then show ?case
    using step_handlers [of seg cs] find_end_sound [of "[Multi]" cs b h]
    by (auto split: if_splits option.splits)
qed

lemma candidates_handlers: "candidate_handlers (candidates m mux) \<subseteq> snd ` set mux"
  by (force simp: candidates_def candidate_handlers_def)

lemma first_match_sound: "first_match mux segs ms = Some (b, h) \<Longrightarrow> h \<in> snd ` set mux"
proof (induction ms)
  case Nil
  then show ?case by simp
next
  case (Cons m ms)
  then show ?case
    using match_path_sound [of "candidates m mux" segs b h] candidates_handlers [of m mux]
    by (auto split: option.splits)
qed

lemma mux_match_sound: "mux_match mux method segs = Some (b, h) \<Longrightarrow> h \<in> snd ` set mux"
  unfolding mux_match_def by (rule first_match_sound)

lemma keeps_mux_serve:
  assumes "\<And>h r w. h \<in> snd ` set mux \<Longrightarrow> keeps I (h r w)"
  shows "keeps I (mux_serve mux r w)"
  unfolding mux_serve_def Let_def
  by (intro keep_intros assms) (blast dest: mux_match_sound)

subsection \<open>Matching against its specification\<close>

text \<open>A pattern matches a path segment by segment; a subtree matches any non-empty rest.\<close>

fun seg_matches :: "segment list \<Rightarrow> string list \<Rightarrow> bool" where
  "seg_matches [] [] = True"
| "seg_matches (Lit s # ss) (x # xs) \<longleftrightarrow> s = x \<and> seg_matches ss xs"
| "seg_matches (Wild n # ss) (x # xs) \<longleftrightarrow> x \<noteq> ''/'' \<and> seg_matches ss xs"
| "seg_matches [Multi] (x # xs) = True"
| "seg_matches _ _ = False"

text \<open>The values the wildcards of a matching pattern take.\<close>

fun wild_values :: "segment list \<Rightarrow> string list \<Rightarrow> (string \<rightharpoonup> string) \<Rightarrow> string \<rightharpoonup> string" where
  "wild_values (Lit s # ss) (x # xs) b = wild_values ss xs b"
| "wild_values (Wild n # ss) (x # xs) b = wild_values ss xs (b(n \<mapsto> x))"
| "wild_values _ _ b = b"

lemma find_end_Some: "find_end want cs = Some (b, h) \<Longrightarrow> (want, b, h) \<in> set cs"
  by (induction want cs rule: find_end.induct) (auto split: if_splits)

lemma find_end_None: "find_end want cs = None \<longleftrightarrow> (\<forall>b h. (want, b, h) \<notin> set cs)"
  by (induction want cs rule: find_end.induct) auto

lemma set_step_literal: "(ss, b, h) \<in> set (step_literal seg cs) \<longleftrightarrow> (Lit seg # ss, b, h) \<in> set cs"
  by (induction seg cs rule: step_literal.induct) (auto split: list.splits segment.splits)

lemma set_step_wild:
  "(ss, b', h) \<in> set (step_wild seg cs) \<longleftrightarrow> (\<exists>n b. (Wild n # ss, b, h) \<in> set cs \<and> b' = b(n \<mapsto> seg))"
  by (induction seg cs rule: step_wild.induct) (auto split: list.splits segment.splits)

lemma match_path_Some:
  "match_path cs segs = Some (b, h) \<Longrightarrow>
     \<exists>ss b0. (ss, b0, h) \<in> set cs \<and> seg_matches ss segs \<and> b = wild_values ss segs b0"
proof (induction cs segs arbitrary: b rule: match_path.induct)
  case (1 cs)
  then show ?case by (auto dest!: find_end_Some intro!: exI [of _ "[]"])
next
  case (2 cs seg rest)
  show ?case
  proof (cases "match_path (step_literal seg cs) rest")
    case (Some m)
    then obtain ss b0 where "(ss, b0, h) \<in> set (step_literal seg cs)" "seg_matches ss rest"
      "b = wild_values ss rest b0"
      using 2 by (auto split: if_splits)
    then show ?thesis
      by (intro exI [of _ "Lit seg # ss"] exI [of _ b0]) (simp add: set_step_literal)
  next
    case none: None
    show ?thesis
    proof (cases "seg \<noteq> ''/'' \<and> match_path (step_wild seg cs) rest = Some (b, h)")
      case True
      then obtain ss b0 where "(ss, b0, h) \<in> set (step_wild seg cs)" "seg_matches ss rest"
        "b = wild_values ss rest b0"
        using 2 none by (auto split: if_splits)
      moreover from this(1) obtain n b1 where "(Wild n # ss, b1, h) \<in> set cs" "b0 = b1(n \<mapsto> seg)"
        by (auto simp: set_step_wild)
      ultimately show ?thesis using True
        by (intro exI [of _ "Wild n # ss"] exI [of _ b1]) simp
    next
      case False
      then have "find_end [Multi] cs = Some (b, h)"
        using 2(3) none by (auto split: if_splits option.splits)
      then show ?thesis by (intro exI [of _ "[Multi]"] exI [of _ b]) (auto dest: find_end_Some)
    qed
  qed
qed

lemma match_path_None:
  "match_path cs segs = None \<Longrightarrow> (ss, b, h) \<in> set cs \<Longrightarrow> \<not> seg_matches ss segs"
proof (induction cs segs arbitrary: ss b rule: match_path.induct)
  case (1 cs)
  then show ?case by (cases ss) (auto simp: find_end_None)
next
  case (2 cs seg rest)
  from 2(4) have cs: "cs \<noteq> []" by auto
  from 2(3) cs have lit: "match_path (step_literal seg cs) rest = None"
    and wild: "seg \<noteq> ''/'' \<Longrightarrow> match_path (step_wild seg cs) rest = None"
    and multi: "find_end [Multi] cs = None"
    by (auto split: option.splits if_splits)
  show ?case
  proof (cases ss)
    case Nil
    then show ?thesis by simp
  next
    case (Cons p ps)
    show ?thesis
    proof (cases p)
      case (Lit s)
      then show ?thesis
        using 2(1) [OF cs, of ps b] lit 2(4) Cons by (auto simp: set_step_literal)
    next
      case (Wild n)
      then show ?thesis
        using 2(2) [OF cs lit, of ps "b(n \<mapsto> seg)"] wild 2(4) Cons
        by (auto simp: set_step_wild simp del: fun_upd_apply)
    next
      case Multi
      then show ?thesis using multi 2(4) Cons by (cases ps) (auto simp: find_end_None)
    qed
  qed
qed

text \<open>Which pattern methods serve a request method.\<close>

definition method_serves :: "string option \<Rightarrow> string \<Rightarrow> bool" where
  "method_serves m method \<longleftrightarrow> m = None \<or> m = Some method \<or> m = Some ''GET'' \<and> method = ''HEAD''"

lemma set_candidates:
  "(ss, b, h) \<in> set (candidates m mux) \<longleftrightarrow>
     b = Map.empty \<and> (\<exists>p. (p, h) \<in> set mux \<and> mp_Method p = m \<and> mp_Segments p = ss)"
  by (force simp: candidates_def)

lemma first_match_Some:
  "first_match mux segs ms = Some (b, h) \<Longrightarrow>
     \<exists>p. (p, h) \<in> set mux \<and> mp_Method p \<in> set ms \<and> seg_matches (mp_Segments p) segs \<and>
       b = wild_values (mp_Segments p) segs Map.empty"
proof (induction ms)
  case Nil
  then show ?case by simp
next
  case (Cons m ms)
  show ?case
  proof (cases "match_path (candidates m mux) segs")
    case None
    with Cons show ?thesis by auto
  next
    case (Some r)
    with Cons.prems have "match_path (candidates m mux) segs = Some (b, h)" by simp
    from match_path_Some [OF this] show ?thesis by (auto simp: set_candidates)
  qed
qed

lemma first_match_None:
  "first_match mux segs ms = None \<Longrightarrow> (p, h) \<in> set mux \<Longrightarrow> mp_Method p \<in> set ms \<Longrightarrow>
     \<not> seg_matches (mp_Segments p) segs"
proof (induction ms)
  case Nil
  then show ?case by simp
next
  case (Cons m ms)
  then show ?case
    using match_path_None [of "candidates m mux" segs "mp_Segments p" Map.empty h]
    by (auto simp: set_candidates split: option.splits)
qed

lemma mux_methods:
  "m \<in> set ([Some method] @ (if method = ''HEAD'' then [Some ''GET''] else []) @ [None]) \<longleftrightarrow>
     method_serves m method"
  by (auto simp: method_serves_def)

lemma mux_match_Some:
  "mux_match mux method segs = Some (b, h) \<Longrightarrow>
     \<exists>p. (p, h) \<in> set mux \<and> method_serves (mp_Method p) method \<and> seg_matches (mp_Segments p) segs \<and>
       b = wild_values (mp_Segments p) segs Map.empty"
  unfolding mux_match_def mux_methods [symmetric] by (rule first_match_Some)

lemma mux_match_None:
  "mux_match mux method segs = None \<longleftrightarrow>
     (\<forall>(p, h) \<in> set mux. method_serves (mp_Method p) method \<longrightarrow> \<not> seg_matches (mp_Segments p) segs)"
proof
  assume "mux_match mux method segs = None"
  then have none: "first_match mux segs ([Some method] @ (if method = ''HEAD'' then [Some ''GET''] else []) @ [None]) = None"
    by (simp only: mux_match_def)
  show "\<forall>(p, h) \<in> set mux. method_serves (mp_Method p) method \<longrightarrow> \<not> seg_matches (mp_Segments p) segs"
    unfolding mux_methods [symmetric] by (blast dest: first_match_None [OF none])
next
  assume none: "\<forall>(p, h) \<in> set mux. method_serves (mp_Method p) method \<longrightarrow> \<not> seg_matches (mp_Segments p) segs"
  show "mux_match mux method segs = None"
  proof (cases "mux_match mux method segs")
    case (Some r)
    with mux_match_Some [of mux "method" segs "fst r" "snd r"] none show ?thesis by fastforce
  qed
qed

subsection \<open>Conflict-free tables\<close>

lemma conflict_free_append:
  "conflict_free (ps @ qs) \<longleftrightarrow>
     conflict_free ps \<and> conflict_free qs \<and> (\<forall>p \<in> set ps. \<forall>q \<in> set qs. \<not> conflicts p q)"
  by (induction ps) (auto simp: list_all_iff)

end
