(* ===== verification/Http_Orgs.thy ===== *)
theory Http_Orgs
  imports Http_Handlers
begin

text \<open>
  \<open>internal/infrastructure/httpapi/orgs.go\<close>: the per-address and per-organization limiters, the
  bearer check and the handlers of sign-up, organizations, members, invitations, tenants and the
  session organization.
\<close>

subsection \<open>Route templates and limiters\<close>

definition routeSignup :: string where "routeSignup = ''/api/v1/auth/signup''"
definition routeSignupVerify :: string where "routeSignupVerify = ''/api/v1/auth/signup/verify''"
definition routeOrgList :: string where "routeOrgList = ''/api/v1/orgs''"
definition routeOrgCreate :: string where "routeOrgCreate = ''/api/v1/orgs''"
definition routeOrgMembers :: string where "routeOrgMembers = ''/api/v1/orgs/{org_id}/members''"
definition routeOrgMemberRole :: string where
  "routeOrgMemberRole = ''/api/v1/orgs/{org_id}/members/{user_id}/role''"
definition routeOrgSlug :: string where "routeOrgSlug = ''/api/v1/orgs/{org_id}/slug''"
definition routeTenantResolve :: string where "routeTenantResolve = ''/api/v1/public/tenants/{slug}''"
definition routeOrgInvites :: string where "routeOrgInvites = ''/api/v1/orgs/{org_id}/invites''"
definition routeOrgInviteRev :: string where
  "routeOrgInviteRev = ''/api/v1/orgs/{org_id}/invites/{invite_id}''"
definition routeInviteAccept :: string where "routeInviteAccept = ''/api/v1/invites/accept''"
definition routeSessionOrg :: string where "routeSessionOrg = ''/api/v1/session/org''"
definition routeFlags :: string where "routeFlags = ''/api/v1/flags''"
definition signupStatusVerificationSent :: string where
  "signupStatusVerificationSent = ''verification_sent''"
definition revokeStatus :: string where "revokeStatus = ''revoked''"

definition applyRouteLimit ::
    "'w handlers \<Rightarrow> string \<Rightarrow> policy \<Rightarrow> 'w handler \<Rightarrow> 'w handler" where
  "applyRouteLimit h key policy next r w =
     (if key = [] then next r w
      else CheckKeyLimit (h_svc h) key policy \<bind> (\<lambda>checked.
        case checked of
          Inl err \<Rightarrow> ret (writeLimitError err w)
        | Inr decision \<Rightarrow> next r (setRateLimitHeaders decision w)))"

definition wrapIP :: "'w handlers \<Rightarrow> string \<Rightarrow> int \<Rightarrow> 'w handler \<Rightarrow> 'w handler" where
  "wrapIP h route limit next =
     (if \<not> HasLimiter (h_svc h) then next
      else (\<lambda>r w. applyRouteLimit h (KeyForIP (h_lib h) (clientIP r (h_trustProxy h)) route)
              (IPRoutePolicy route limit) next r w))"

definition wrapOrg :: "'w handlers \<Rightarrow> string \<Rightarrow> 'w handler \<Rightarrow> 'w handler" where
  "wrapOrg h route next =
     (if \<not> HasLimiter (h_svc h) then next
      else (\<lambda>r w. applyRouteLimit h (KeyForOrg (h_lib h) (PathValue r ''org_id'') route)
              (OrgRoutePolicy route) next r w))"

text \<open>\<^const>\<open>Inl\<close> the writer after the 401 answer, or \<^const>\<open>Inr\<close> the token.\<close>

definition requireBearer :: "request \<Rightarrow> response \<Rightarrow> response + string" where
  "requireBearer r w =
     (let authorization = Header_Get r ''Authorization''
      in if \<not> HasPrefix authorization ''Bearer ''
         then Inl (writeJSON 401 (error_body ''missing bearer token'') w)
         else let token = TrimSpace (TrimPrefix authorization ''Bearer '')
              in if token = [] then Inl (writeJSON 401 (error_body ''missing bearer token'') w)
                 else Inr token)"

definition with_bearer ::
    "request \<Rightarrow> response \<Rightarrow> (string \<Rightarrow> ('w, response) state) \<Rightarrow> ('w, response) state" where
  "with_bearer r w f = (case requireBearer r w of Inl w' \<Rightarrow> ret w' | Inr token \<Rightarrow> f token)"

text \<open>\<^const>\<open>Inl\<close> the writer after the denial, or \<^const>\<open>Inr\<close> the writer the handler goes on with.\<close>

definition checkOrgLimit ::
    "'w handlers \<Rightarrow> string \<Rightarrow> string \<Rightarrow> response \<Rightarrow> ('w, response + response) state" where
  "checkOrgLimit h orgID route w =
     (if \<not> HasLimiter (h_svc h) then ret (Inr w)
      else let key = KeyForOrg (h_lib h) orgID route
           in if key = [] then ret (Inr w)
              else CheckKeyLimit (h_svc h) key (OrgRoutePolicy route) \<bind> (\<lambda>checked.
                case checked of
                  Inl err \<Rightarrow> ret (Inl (writeLimitError err w))
                | Inr decision \<Rightarrow> ret (Inr (setRateLimitHeaders decision w))))"

subsection \<open>Bodies\<close>

definition signupBody :: "json \<Rightarrow> signup_registration option" where
  "signupBody v =
     Option.bind (struct_members v) (\<lambda>ms.
     Option.bind (str_field ''email'' ms) (\<lambda>email.
     Option.bind (str_field ''password'' ms) (\<lambda>password.
     Option.bind (str_field ''display_name'' ms) (\<lambda>displayName.
     Option.bind (str_field ''locale'' ms) (\<lambda>loc.
     Option.bind (str_field ''org_name'' ms) (\<lambda>orgName.
     Option.bind (str_field ''invite_token'' ms) (\<lambda>token.
     Some \<lparr>sr_Email = email, sr_Password = password, sr_DisplayName = displayName,
           sr_Locale = loc, sr_OrgName = orgName, sr_InviteToken = token\<rparr>)))))))"

definition signupVerifyBody :: "json \<Rightarrow> signup_verification option" where
  "signupVerifyBody v =
     Option.bind (struct_members v) (\<lambda>ms.
     Option.bind (str_field ''email'' ms) (\<lambda>email.
     Option.bind (str_field ''code'' ms) (\<lambda>code.
     Option.bind (str_field ''password'' ms) (\<lambda>password.
     Some \<lparr>sv_Email = email, sv_Code = code, sv_Password = password\<rparr>))))"

definition createOrgBody :: "json \<Rightarrow> (string \<times> string) option" where
  "createOrgBody v =
     Option.bind (struct_members v) (\<lambda>ms.
     Option.bind (str_field ''name'' ms) (\<lambda>name.
     Option.bind (str_field ''slug'' ms) (\<lambda>slug. Some (name, slug))))"

definition setOrgSlugBody :: "json \<Rightarrow> string option" where
  "setOrgSlugBody v = Option.bind (struct_members v) (str_field ''slug'')"

definition addMemberBody :: "json \<Rightarrow> string option" where
  "addMemberBody v = Option.bind (struct_members v) (str_field ''user_id'')"

definition setMemberRoleBody :: "json \<Rightarrow> string option" where
  "setMemberRoleBody v = Option.bind (struct_members v) (str_field ''role'')"

definition inviteMemberBody :: "json \<Rightarrow> string option" where
  "inviteMemberBody v = Option.bind (struct_members v) (str_field ''email'')"

definition acceptInviteBody :: "json \<Rightarrow> string option" where
  "acceptInviteBody v = Option.bind (struct_members v) (str_field ''token'')"

definition selectOrgBody :: "json \<Rightarrow> (string \<times> string) option" where
  "selectOrgBody v =
     Option.bind (struct_members v) (\<lambda>ms.
     Option.bind (str_field ''org_id'' ms) (\<lambda>org.
     Option.bind (str_field ''refresh_token'' ms) (\<lambda>token. Some (org, token))))"

subsection \<open>Response shapes\<close>

text \<open>
  Each response struct of the file is a record; \<open>encode_\<close>\<open>X\<close> is its JSON object, one member per field
  in the order and with the tags of the struct.  An envelope has one field and is its object.
\<close>

record organizationJSON =
  oj_ID :: string
  oj_Name :: string
  oj_Slug :: string
  oj_CreatedAt :: string
  oj_UpdatedAt :: string

record membershipJSON =
  mj_OrgID :: string
  mj_UserID :: string
  mj_Status :: string
  mj_Role :: string
  mj_CreatedAt :: string
  mj_UpdatedAt :: string

record inviteJSON =
  ij_ID :: string
  ij_OrgID :: string
  ij_Email :: string
  ij_InviterID :: string
  ij_Status :: string
  ij_ExpiresAt :: string
  ij_AcceptedAt :: string
  ij_CreatedAt :: string

definition encode_organization :: "organizationJSON \<Rightarrow> json" where
  "encode_organization o' = JObj
     [(''id'', JStr (oj_ID o')), (''name'', JStr (oj_Name o')), (''slug'', JStr (oj_Slug o')),
      (''created_at'', JStr (oj_CreatedAt o')), (''updated_at'', JStr (oj_UpdatedAt o'))]"

definition encode_membership :: "membershipJSON \<Rightarrow> json" where
  "encode_membership m = JObj
     [(''org_id'', JStr (mj_OrgID m)), (''user_id'', JStr (mj_UserID m)),
      (''status'', JStr (mj_Status m)), (''role'', JStr (mj_Role m)),
      (''created_at'', JStr (mj_CreatedAt m)), (''updated_at'', JStr (mj_UpdatedAt m))]"

definition encode_invite :: "inviteJSON \<Rightarrow> json" where
  "encode_invite i = JObj
     ([(''id'', JStr (ij_ID i)), (''org_id'', JStr (ij_OrgID i)), (''email'', JStr (ij_Email i)),
       (''inviter_id'', JStr (ij_InviterID i)), (''status'', JStr (ij_Status i)),
       (''expires_at'', JStr (ij_ExpiresAt i))] @
      omit_empty ''accepted_at'' (ij_AcceptedAt i) @
      [(''created_at'', JStr (ij_CreatedAt i))])"

definition organizationEnvelope :: "organizationJSON \<Rightarrow> json" where
  "organizationEnvelope o' = JObj [(''organization'', encode_organization o')]"

definition organizationList :: "organizationJSON list \<Rightarrow> json" where
  "organizationList os = JObj [(''organizations'', JArr (map encode_organization os))]"

definition membershipEnvelope :: "membershipJSON \<Rightarrow> json" where
  "membershipEnvelope m = JObj [(''membership'', encode_membership m)]"

definition membershipList :: "membershipJSON list \<Rightarrow> json" where
  "membershipList ms = JObj [(''members'', JArr (map encode_membership ms))]"

definition inviteEnvelope :: "inviteJSON \<Rightarrow> json" where
  "inviteEnvelope i = JObj [(''invite'', encode_invite i)]"

definition inviteList :: "inviteJSON list \<Rightarrow> json" where
  "inviteList is = JObj [(''invites'', JArr (map encode_invite is))]"

definition signupAcceptedResponse :: "string \<Rightarrow> json" where
  "signupAcceptedResponse status = JObj [(''status'', JStr status)]"

definition revokeResponse :: "string \<Rightarrow> json" where
  "revokeResponse status = JObj [(''status'', JStr status)]"

definition organizationJSONFrom :: "organization \<Rightarrow> organizationJSON" where
  "organizationJSONFrom org =
     \<lparr>oj_ID = org_ID org, oj_Name = org_Name org, oj_Slug = org_Slug org,
      oj_CreatedAt = org_CreatedAt org, oj_UpdatedAt = org_UpdatedAt org\<rparr>"

fun organizationsJSON :: "organization list \<Rightarrow> organizationJSON list" where
  "organizationsJSON [] = []"
| "organizationsJSON (org # orgs) = organizationJSONFrom org # organizationsJSON orgs"

definition membershipJSONFrom :: "membership \<Rightarrow> membershipJSON" where
  "membershipJSONFrom m =
     \<lparr>mj_OrgID = mem_OrgID m, mj_UserID = mem_UserID m, mj_Status = mem_Status m,
      mj_Role = mem_Role m, mj_CreatedAt = mem_CreatedAt m, mj_UpdatedAt = mem_UpdatedAt m\<rparr>"

fun membershipsJSON :: "membership list \<Rightarrow> membershipJSON list" where
  "membershipsJSON [] = []"
| "membershipsJSON (m # ms) = membershipJSONFrom m # membershipsJSON ms"

definition inviteJSONFrom :: "invite \<Rightarrow> inviteJSON" where
  "inviteJSONFrom i =
     \<lparr>ij_ID = inv_ID i, ij_OrgID = inv_OrgID i, ij_Email = inv_Email i,
      ij_InviterID = inv_InviterID i, ij_Status = inv_Status i, ij_ExpiresAt = inv_ExpiresAt i,
      ij_AcceptedAt = inv_AcceptedAt i, ij_CreatedAt = inv_CreatedAt i\<rparr>"

fun invitesJSON :: "invite list \<Rightarrow> inviteJSON list" where
  "invitesJSON [] = []"
| "invitesJSON (i # is) = inviteJSONFrom i # invitesJSON is"

definition tenantJSON :: "tenant \<Rightarrow> json" where
  "tenantJSON t = JObj
     [(''org_id'', JStr (ten_OrgID t)), (''slug'', JStr (ten_Slug t)), (''name'', JStr (ten_Name t)),
      (''retired'', JBool (ten_Retired t))]"

subsection \<open>Handlers\<close>

definition signup :: "'w handlers \<Rightarrow> 'w handler" where
  "signup h r w =
     with_body signupBody r w (\<lambda>body.
       answer writeAppError (RegisterWithEmail (h_svc h) body) w
         (\<lambda>_. writeJSON 202 (signupAcceptedResponse signupStatusVerificationSent) w))"

definition signupVerify :: "'w handlers \<Rightarrow> 'w handler" where
  "signupVerify h r w =
     with_body signupVerifyBody r w (\<lambda>body.
       answer writeAppError (VerifySignup (h_svc h) body) w (\<lambda>tokens. writeTokens tokens w))"

definition listOrgs :: "'w handlers \<Rightarrow> 'w handler" where
  "listOrgs h r w =
     with_bearer r w (\<lambda>token.
       answer writeAppError (ListMyOrgs (h_svc h) token) w (\<lambda>orgs.
         writeJSON 200 (organizationList (organizationsJSON orgs)) w))"

definition createOrg :: "'w handlers \<Rightarrow> 'w handler" where
  "createOrg h r w =
     with_bearer r w (\<lambda>token.
     with_body createOrgBody r w (\<lambda>body.
       answer writeAppError (CreateOrg (h_svc h) (fst body) (TrimSpace (snd body)) token) w (\<lambda>org.
         writeJSON 200 (organizationEnvelope (organizationJSONFrom org)) w)))"

definition setOrgSlug :: "'w handlers \<Rightarrow> 'w handler" where
  "setOrgSlug h r w =
     with_bearer r w (\<lambda>token.
     with_body setOrgSlugBody r w (\<lambda>slug.
       answer writeAppError (SetOrgSlug (h_svc h) (PathValue r ''org_id'') (TrimSpace slug) token) w
         (\<lambda>org. writeJSON 200 (organizationEnvelope (organizationJSONFrom org)) w)))"

definition resolveTenant :: "'w handlers \<Rightarrow> 'w handler" where
  "resolveTenant h r w =
     answer writeAppError (ResolveTenant (h_svc h) (TrimSpace (PathValue r ''slug''))) w
       (\<lambda>t. writeJSON 200 (tenantJSON t) (Header_Set ''Cache-Control'' ''public, max-age=30'' w))"

definition listMembers :: "'w handlers \<Rightarrow> 'w handler" where
  "listMembers h r w =
     with_bearer r w (\<lambda>token.
       answer writeAppError (ListMembers (h_svc h) (PathValue r ''org_id'') token) w (\<lambda>members.
         writeJSON 200 (membershipList (membershipsJSON members)) w))"

definition addMember :: "'w handlers \<Rightarrow> 'w handler" where
  "addMember h r w =
     with_bearer r w (\<lambda>token.
     with_body addMemberBody r w (\<lambda>userID.
       answer writeAppError (AddMember (h_svc h) (PathValue r ''org_id'') userID token) w
         (\<lambda>_. writeJSON 200 (revokeResponse ''added'') w)))"

definition removeMember :: "'w handlers \<Rightarrow> 'w handler" where
  "removeMember h r w =
     with_bearer r w (\<lambda>token.
       answer writeAppError
         (RemoveMember (h_svc h) (PathValue r ''org_id'') (PathValue r ''user_id'') token) w
         (\<lambda>_. writeJSON 200 (revokeResponse ''removed'') w))"

definition suspendMember :: "'w handlers \<Rightarrow> 'w handler" where
  "suspendMember h r w =
     with_bearer r w (\<lambda>token.
       answer writeAppError
         (SuspendMember (h_svc h) (PathValue r ''org_id'') (PathValue r ''user_id'') token) w
         (\<lambda>_. writeJSON 200 (revokeResponse ''suspended'') w))"

definition setMemberRole :: "'w handlers \<Rightarrow> 'w handler" where
  "setMemberRole h r w =
     with_bearer r w (\<lambda>token.
     with_body setMemberRoleBody r w (\<lambda>role.
       answer writeAppError
         (SetMemberRole (h_svc h) (PathValue r ''org_id'') (PathValue r ''user_id'') (TrimSpace role)
            token) w
         (\<lambda>m. writeJSON 200 (membershipEnvelope (membershipJSONFrom m)) w)))"

definition createInvite :: "'w handlers \<Rightarrow> 'w handler" where
  "createInvite h r w =
     with_bearer r w (\<lambda>token.
     with_body inviteMemberBody r w (\<lambda>email.
       answer writeAppError (InviteMember (h_svc h) (PathValue r ''org_id'') email token) w
         (\<lambda>i. writeJSON 200 (inviteEnvelope (inviteJSONFrom i)) w)))"

definition listInvites :: "'w handlers \<Rightarrow> 'w handler" where
  "listInvites h r w =
     with_bearer r w (\<lambda>token.
       answer writeAppError (ListInvites (h_svc h) (PathValue r ''org_id'') token) w
         (\<lambda>is. writeJSON 200 (inviteList (invitesJSON is)) w))"

definition revokeInvite :: "'w handlers \<Rightarrow> 'w handler" where
  "revokeInvite h r w =
     with_bearer r w (\<lambda>token.
       answer writeAppError
         (RevokeInvite (h_svc h) (PathValue r ''org_id'') (PathValue r ''invite_id'') token) w
         (\<lambda>_. writeJSON 200 (revokeResponse revokeStatus) w))"

definition acceptInvite :: "'w handlers \<Rightarrow> 'w handler" where
  "acceptInvite h r w =
     with_bearer r w (\<lambda>token.
     with_body acceptInviteBody r w (\<lambda>inviteToken.
       answer writeAppError (AcceptInvite (h_svc h) inviteToken token) w
         (\<lambda>i. writeJSON 200 (inviteEnvelope (inviteJSONFrom i)) w)))"

definition selectOrg :: "'w handlers \<Rightarrow> 'w handler" where
  "selectOrg h r w =
     with_bearer r w (\<lambda>token.
     with_body selectOrgBody r w (\<lambda>body.
       checkOrgLimit h (fst body) routeSessionOrg w \<bind> (\<lambda>limited.
       case limited of
         Inl w' \<Rightarrow> ret w'
       | Inr w' \<Rightarrow>
           answer writeAppError (SelectOrg (h_svc h) (fst body) (snd body) token) w'
             (\<lambda>tokens. writeTokens tokens w'))))"

end
