(* ===== verification/Http_Middleware.thy ===== *)
theory Http_Middleware
  imports Http_Core
begin

text \<open>
  \<open>internal/infrastructure/httpapi/middleware.go\<close>: bearer tokens, staff access, break-glass and the
  audit hook.  The JWT library is not part of this repository: \<open>ParseWithClaims\<close> takes the token, the
  key function (from the token's algorithm to a key or a refusal) and the admitted algorithms, and
  answers an error or the claims with the token's \<open>Valid\<close> flag; it is an operation on the world
  because it reads the clock.  Claims are JSON values under their names.
\<close>

subsection \<open>Tokens\<close>

type_synonym jwt_claims = "string \<rightharpoonup> json"

type_synonym 'w jwt_parser =
  "string \<Rightarrow> (string \<Rightarrow> string option) \<Rightarrow> string list \<Rightarrow> ('w, (jwt_claims \<times> bool) option) state"

record 'w token_auth =
  ta_svc :: "'w service option"
  ta_secret :: string
  ta_staffSecret :: string
  ta_rt :: "'w go_runtime"
  ta_ParseWithClaims :: "'w jwt_parser"

definition NewTokenAuth ::
    "'w go_runtime \<Rightarrow> 'w jwt_parser \<Rightarrow> 'w service option \<Rightarrow> string \<Rightarrow> 'w token_auth" where
  "NewTokenAuth rt jwt svc secret =
     \<lparr>ta_svc = svc, ta_secret = secret, ta_staffSecret = secret, ta_rt = rt,
      ta_ParseWithClaims = jwt\<rparr>"

definition WithStaffSecret :: "string \<Rightarrow> 'w token_auth \<Rightarrow> 'w token_auth" where
  "WithStaffSecret staffSecret a =
     (if staffSecret \<noteq> [] then a\<lparr>ta_staffSecret := staffSecret\<rparr> else a)"

text \<open>Go's checked type assertions on a claim.\<close>

fun as_str :: "json option \<Rightarrow> string option" where
  "as_str (Some (JStr s)) = Some s"
| "as_str _ = None"

fun as_bool :: "json option \<Rightarrow> bool option" where
  "as_bool (Some (JBool b)) = Some b"
| "as_bool _ = None"

definition or_zero :: "string option \<Rightarrow> string" where
  "or_zero s = (case s of None \<Rightarrow> [] | Some x \<Rightarrow> x)"

definition hs256_key :: "string \<Rightarrow> string \<Rightarrow> string option" where
  "hs256_key sec alg = (if alg \<noteq> ''HS256'' then None else Some sec)"

fun try_secrets :: "'w jwt_parser \<Rightarrow> string \<Rightarrow> string list \<Rightarrow> ('w, jwt_claims option) state" where
  "try_secrets jwt tokenString [] = ret None"
| "try_secrets jwt tokenString (sec # secs) =
     (if sec = [] then try_secrets jwt tokenString secs
      else jwt tokenString (hs256_key sec) [''HS256''] \<bind> (\<lambda>parsed.
        case parsed of
          None \<Rightarrow> try_secrets jwt tokenString secs
        | Some (c, valid) \<Rightarrow>
            if valid then ret (Some c) else try_secrets jwt tokenString secs))"

definition parse_secrets :: "'w token_auth \<Rightarrow> string list" where
  "parse_secrets a =
     ta_secret a # (if ta_staffSecret a \<noteq> [] \<and> ta_staffSecret a \<noteq> ta_secret a
                    then [ta_staffSecret a] else [])"

definition parseToken :: "'w token_auth \<Rightarrow> string \<Rightarrow> ('w, jwt_claims option) state" where
  "parseToken a tokenString = try_secrets (ta_ParseWithClaims a) tokenString (parse_secrets a)"

subsection \<open>Staff identities and the request context\<close>

text \<open>\<open>if s, ok := claim.(string); ok \<and> s \<noteq> ""\<close>: the claim when it is a non-empty string.\<close>

definition nonempty_claim :: "jwt_claims \<Rightarrow> string \<Rightarrow> string option" where
  "nonempty_claim claims name =
     (case as_str (claims name) of None \<Rightarrow> None | Some s \<Rightarrow> if s = [] then None else Some s)"

definition target_org_claim :: "jwt_claims \<Rightarrow> string" where
  "target_org_claim claims =
     (case nonempty_claim claims ''org'' of
        Some org \<Rightarrow> org
      | None \<Rightarrow>
          (case nonempty_claim claims ''org_id'' of
             Some orgID \<Rightarrow> orgID
           | None \<Rightarrow> or_zero (nonempty_claim claims ''target_org'')))"

definition extractStaffIdentity :: "jwt_claims \<Rightarrow> staff_identity \<times> bool" where
  "extractStaffIdentity claims =
     (let named = nonempty_claim claims ''staff_subject'';
          isStaff = (named \<noteq> None \<or> as_bool (claims ''is_staff'') = Some True);
          subject = (case named of
                       Some ss \<Rightarrow> ss
                     | None \<Rightarrow> if isStaff then or_zero (as_str (claims ''sub'')) else [])
      in (\<lparr>StaffSubject = subject, IsStaff = isStaff,
           BreakGlass = (as_bool (claims ''break_glass'') = Some True),
           BreakGlassReason = or_zero (as_str (claims ''reason'')),
           TargetOrgID = target_org_claim claims\<rparr>, isStaff))"

definition enrichContext :: "request_context \<Rightarrow> jwt_claims \<Rightarrow> string \<Rightarrow> request_context" where
  "enrichContext ctx claims subject =
     (let ctx1 = ctx\<lparr>ctx_userID := Some subject\<rparr>;
          (staff, isStaff) = extractStaffIdentity claims;
          ctx2 = ctx1\<lparr>ctx_isStaff := Some isStaff\<rparr>
      in if \<not> isStaff then ctx2
         else let ctx3 = ctx2\<lparr>ctx_staffSubject :=
                          Some (if StaffSubject staff \<noteq> [] then StaffSubject staff else subject)\<rparr>;
                  ctx4 = ctx3\<lparr>ctx_breakGlass := Some (BreakGlass staff)\<rparr>;
                  ctx5 = ctx4\<lparr>ctx_breakGlassReason := Some (BreakGlassReason staff)\<rparr>;
                  ctx6 = ctx5\<lparr>ctx_staffIdentity := Some staff\<rparr>
              in if TargetOrgID staff \<noteq> [] then ctx6\<lparr>ctx_targetOrg := Some (TargetOrgID staff)\<rparr>
                 else ctx6)"

definition or_false :: "bool option \<Rightarrow> bool" where
  "or_false b \<longleftrightarrow> b = Some True"

definition UserIDFromContext :: "request_context \<Rightarrow> string" where
  "UserIDFromContext ctx = or_zero (ctx_userID ctx)"

definition StaffSubjectFromContext :: "request_context \<Rightarrow> string" where
  "StaffSubjectFromContext ctx = or_zero (ctx_staffSubject ctx)"

definition IsStaffFromContext :: "request_context \<Rightarrow> bool" where
  "IsStaffFromContext ctx = or_false (ctx_isStaff ctx)"

definition BreakGlassReasonFromContext :: "request_context \<Rightarrow> string" where
  "BreakGlassReasonFromContext ctx = or_zero (ctx_breakGlassReason ctx)"

definition BreakGlassFromContext :: "request_context \<Rightarrow> bool" where
  "BreakGlassFromContext ctx = or_false (ctx_breakGlass ctx)"

definition TargetOrgFromContext :: "request_context \<Rightarrow> string" where
  "TargetOrgFromContext ctx = or_zero (ctx_targetOrg ctx)"

definition StaffIdentityFromContext :: "request_context \<Rightarrow> staff_identity option" where
  "StaffIdentityFromContext ctx = ctx_staffIdentity ctx"

lemmas context_getters =
  UserIDFromContext_def StaffSubjectFromContext_def IsStaffFromContext_def
  BreakGlassReasonFromContext_def BreakGlassFromContext_def TargetOrgFromContext_def
  StaffIdentityFromContext_def or_zero_def or_false_def

subsection \<open>Scopes\<close>

fun some_scope_allows :: "(string \<Rightarrow> string) \<Rightarrow> bool \<Rightarrow> string list \<Rightarrow> bool" where
  "some_scope_allows uni needWrite [] = False"
| "some_scope_allows uni needWrite (scope0 # scopes) =
     (let scope = ToLower uni (TrimSpace scope0)
      in if needWrite \<and> scope = ''write'' then True
         else if \<not> needWrite \<and> (scope = ''read'' \<or> scope = ''write'') then True
         else some_scope_allows uni needWrite scopes)"

definition scopesAllow :: "(string \<Rightarrow> string) \<Rightarrow> request \<Rightarrow> string list \<Rightarrow> bool" where
  "scopesAllow uni r scopes =
     (if scopes = [] then True
      else let needWrite = (req_Method r \<noteq> ''GET'' \<and> req_Method r \<noteq> ''HEAD'' \<and>
                            req_Method r \<noteq> ''OPTIONS'')
           in some_scope_allows uni needWrite scopes)"

subsection \<open>The middleware\<close>

definition misconfigured :: "'w token_auth \<Rightarrow> bool" where
  "misconfigured a \<longleftrightarrow> ta_secret a = [] \<and> ta_staffSecret a = []"

definition req_Header_Set :: "string \<Rightarrow> string \<Rightarrow> request \<Rightarrow> request" where
  "req_Header_Set k v r = r\<lparr>req_Header := (req_Header r)(CanonicalHeaderKey k \<mapsto> v)\<rparr>"

definition WithContext :: "request_context \<Rightarrow> request \<Rightarrow> request" where
  "WithContext ctx r = r\<lparr>req_Context := ctx\<rparr>"

text \<open>The subject of a parsed token.\<close>

definition claims_subject :: "jwt_claims \<Rightarrow> string" where
  "claims_subject claims =
     (let subject = or_zero (as_str (claims ''sub''))
      in if subject = []
         then (case as_str (claims ''staff_subject'') of Some ss \<Rightarrow> ss | None \<Rightarrow> subject)
         else subject)"

text \<open>\<^const>\<open>Inl\<close> the writer after the 401 answer, or \<^const>\<open>Inr\<close> the subject and the claims.\<close>

definition jwtSubject ::
    "'w token_auth \<Rightarrow> response \<Rightarrow> string \<Rightarrow> ('w, response + string \<times> jwt_claims) state" where
  "jwtSubject a w tokenString =
     parseToken a tokenString \<bind> (\<lambda>parsed.
       case parsed of
         None \<Rightarrow> ret (Inl (writeJSON 401 (error_body ''invalid token'') w))
       | Some claims \<Rightarrow> ret (Inr (claims_subject claims, claims)))"

definition Dual :: "'w token_auth \<Rightarrow> 'w handler \<Rightarrow> 'w handler" where
  "Dual a next r w =
     (if misconfigured a then ret (writeJSON 500 (error_body ''auth misconfigured'') w)
      else let authorization = Header_Get r ''Authorization'' in
        if \<not> HasPrefix authorization ''Bearer ''
        then ret (writeJSON 401 (error_body ''missing bearer token'') w)
        else let tokenString = TrimPrefix authorization ''Bearer '' in
          if HasPrefix tokenString ''oat_''
          then on_port (ta_svc a) (\<lambda>svc. ValidateAPIToken svc tokenString) \<bind> (\<lambda>validated.
            case validated of
              Inl e \<Rightarrow> ret (if e = NilDeref then abort w
                           else writeJSON 401 (error_body ''invalid token'') w)
            | Inr identity \<Rightarrow>
                if \<not> scopesAllow (rt_ToLower (ta_rt a)) r (Scopes identity)
                then ret (writeJSON 403 (error_body ''insufficient scope'') w)
                else let ctx = (req_Context r)\<lparr>ctx_userID := Some (UserID identity),
                                  ctx_isStaff := Some False, ctx_scope := Some (Scopes identity)\<rparr>
                     in next (WithContext ctx (req_Header_Set ''X-User-Id'' (UserID identity) r)) w)
          else jwtSubject a w tokenString \<bind> (\<lambda>checked.
            case checked of
              Inl w' \<Rightarrow> ret w'
            | Inr (subject, claims) \<Rightarrow>
                next (WithContext (enrichContext (req_Context r) claims subject)
                       (req_Header_Set ''X-User-Id'' subject r)) w))"

definition JWT :: "'w token_auth \<Rightarrow> 'w handler \<Rightarrow> 'w handler" where
  "JWT a next r w =
     (if misconfigured a then ret (writeJSON 500 (error_body ''auth misconfigured'') w)
      else let authorization = Header_Get r ''Authorization'' in
        if \<not> HasPrefix authorization ''Bearer ''
        then ret (writeJSON 401 (error_body ''missing bearer token'') w)
        else jwtSubject a w (TrimPrefix authorization ''Bearer '') \<bind> (\<lambda>checked.
          case checked of
            Inl w' \<Rightarrow> ret w'
          | Inr (subject, claims) \<Rightarrow>
              next (WithContext (enrichContext (req_Context r) claims subject) r) w))"

definition RequireStaff :: "'w token_auth \<Rightarrow> 'w handler \<Rightarrow> 'w handler" where
  "RequireStaff a next r w =
     (if misconfigured a then ret (writeJSON 500 (error_body ''auth misconfigured'') w)
      else if IsStaffFromContext (req_Context r) then next r w
      else if UserIDFromContext (req_Context r) \<noteq> []
      then ret (writeJSON 403 (error_body ''staff access required'') w)
      else let authorization = Header_Get r ''Authorization'' in
        if \<not> HasPrefix authorization ''Bearer ''
        then ret (writeJSON 401 (error_body ''missing bearer token'') w)
        else let tokenString = TrimPrefix authorization ''Bearer '' in
          parseToken a tokenString \<bind> (\<lambda>parsed.
            case parsed of
              None \<Rightarrow> ret (writeJSON 401 (error_body ''invalid token'') w)
            | Some claims \<Rightarrow>
                (case extractStaffIdentity claims of (staff, isStaff) \<Rightarrow>
                   if \<not> isStaff then ret (writeJSON 403 (error_body ''staff access required'') w)
                   else let subject0 = or_zero (as_str (claims ''sub''));
                            subject = (if subject0 = [] then StaffSubject staff else subject0)
                        in next (WithContext (enrichContext (req_Context r) claims subject) r) w)))"

text \<open>The organization an audit entry names.\<close>

definition audit_org :: "request \<Rightarrow> string" where
  "audit_org r =
     (let orgID = TargetOrgFromContext (req_Context r);
          orgID = (if orgID = [] then PathValue r ''org_id'' else orgID)
      in if orgID = [] then Header_Get r ''X-Org-Id'' else orgID)"

text \<open>\<open>_ = a.svc.RecordAudit(...)\<close>: the error is dropped, a panic is not.\<close>

definition record_and_forget ::
    "'w token_auth \<Rightarrow> 'w service \<Rightarrow> audit_entry \<Rightarrow> response \<Rightarrow> ('w, response) state" where
  "record_and_forget a svc entry w =
     RecordAudit (ta_rt a) svc entry \<bind> (\<lambda>r. ret (if r = Inl NilDeref then abort w else w))"

definition hook_entry :: "request \<Rightarrow> audit_entry option" where
  "hook_entry r =
     (let ctx = req_Context r;
          isStaff = IsStaffFromContext ctx;
          userID = UserIDFromContext ctx;
          actor = (if isStaff
                   then (if StaffSubjectFromContext ctx = [] then userID
                         else StaffSubjectFromContext ctx)
                   else userID)
      in if actor = [] then None
         else Some \<lparr>ae_ID = [], ae_OrgID = audit_org r, ae_Actor = actor,
                    ae_ActorType = (if isStaff then ''staff'' else ''user''),
                    ae_IsStaff = isStaff, ae_BreakGlass = BreakGlassFromContext ctx,
                    ae_Reason = BreakGlassReasonFromContext ctx,
                    ae_Action = req_Method r @ '' '' @ req_Path r, ae_Resource = req_Path r,
                    ae_Timestamp = zero_time\<rparr>)"

definition AuditHook :: "'w token_auth \<Rightarrow> 'w handler \<Rightarrow> 'w handler" where
  "AuditHook a next r w =
     next r w \<bind> (\<lambda>w'.
       if rw_Panic w' then ret w'
       else case ta_svc a of
         None \<Rightarrow> ret w'
       | Some svc \<Rightarrow>
           if \<not> HasAudit svc then ret w'
           else case hook_entry r of
             None \<Rightarrow> ret w'
           | Some entry \<Rightarrow> record_and_forget a svc entry w')"

definition break_glass_entry :: "request \<Rightarrow> audit_entry" where
  "break_glass_entry r =
     \<lparr>ae_ID = [], ae_OrgID = audit_org r,
      ae_Actor = StaffSubjectFromContext (req_Context r), ae_ActorType = ''staff'',
      ae_IsStaff = True, ae_BreakGlass = True,
      ae_Reason = BreakGlassReasonFromContext (req_Context r),
      ae_Action = ''break_glass.access'', ae_Resource = req_Path r, ae_Timestamp = zero_time\<rparr>"

definition break_glass_granted :: "request \<Rightarrow> json" where
  "break_glass_granted r = JObj
     [(''org_id'', JStr (audit_org r)),
      (''reason'', JStr (BreakGlassReasonFromContext (req_Context r))),
      (''staff_subject'', JStr (StaffSubjectFromContext (req_Context r))),
      (''status'', JStr ''break_glass_granted'')]"

definition HandleStaffBreakGlass :: "'w token_auth \<Rightarrow> 'w handler" where
  "HandleStaffBreakGlass a r w =
     (if \<not> IsStaffFromContext (req_Context r)
      then ret (writeJSON 403 (error_body ''staff access required'') w)
      else if BreakGlassReasonFromContext (req_Context r) = []
      then ret (writeJSON 400 (error_body ''break-glass reason required'') w)
      else (case ta_svc a of
              None \<Rightarrow> ret w
            | Some svc \<Rightarrow>
                if HasAudit svc then record_and_forget a svc (break_glass_entry r) w else ret w)
           \<bind> (\<lambda>w'. ret (if rw_Panic w' then w' else writeJSON 200 (break_glass_granted r) w')))"

record 'w staff_auth =
  sa_tokenAuth :: "'w token_auth"

definition NewStaffAuth :: "'w token_auth \<Rightarrow> 'w staff_auth" where
  "NewStaffAuth tokenAuth = \<lparr>sa_tokenAuth = tokenAuth\<rparr>"

definition StaffAuth_Wrap :: "'w staff_auth \<Rightarrow> 'w handler \<Rightarrow> 'w handler" where
  "StaffAuth_Wrap s next = RequireStaff (sa_tokenAuth s) next"

end
