(* ===== verification/Http_Server.thy ===== *)
theory Http_Server
  imports Go_Mux Http_Orgs Http_Middleware
begin

text \<open>
  \<open>internal/infrastructure/httpapi/server.go\<close>: the route table \<open>New\<close> registers from the ports the
  service has, the chain a request runs through (observability's middleware, the mux, the header
  spellings restored on the way out), the token middleware a deployment mounts and the published
  key set.  \<open>observability.HTTPMiddleware\<close>, the health handlers and Fiber are third-party code: the
  first two are parameters, and of Fiber the configuration and the chain of handlers the gateway
  installs are modelled.
\<close>

subsection \<open>The route table\<close>

type_synonym 'w route_table = "(string \<times> 'w handler) list"

definition auth_routes :: "'w handlers \<Rightarrow> 'w route_table" where
  "auth_routes h =
     (if HasAuth (h_svc h) then
        [(''POST /api/v1/auth/otp/request'', wrap h ClassAuthOTPRequest (requestOTP h)),
         (''POST /api/v1/auth/otp/verify'', wrap h ClassAuthOTPVerify (verifyOTP h)),
         (''POST /api/v1/auth/login'', wrap h ClassAuthPassword (login h)),
         (''POST /api/v1/auth/token/refresh'', wrap h ClassAuthRefresh (refreshToken h))]
      else [])"

definition signup_routes :: "'w handlers \<Rightarrow> 'w route_table" where
  "signup_routes h =
     (if HasSignup (h_svc h) then
        [(''POST /api/v1/auth/signup'', wrapIP h routeSignup SignupIPLimit (signup h)),
         (''POST /api/v1/auth/signup/verify'',
            wrapIP h routeSignupVerify SignupIPLimit (signupVerify h))]
      else [])"

definition flag_routes :: "'w handlers \<Rightarrow> 'w route_table" where
  "flag_routes h =
     (if HasFlags (h_svc h)
      then [(''GET '' @ routeFlags, wrapIP h routeFlags OrgRouteLimit (flags_handler h))] else [])"

definition org_routes :: "'w handlers \<Rightarrow> 'w route_table" where
  "org_routes h =
     (if HasOrgs (h_svc h) then
        [(''GET /api/v1/orgs'', wrapIP h routeOrgList OrgRouteLimit (listOrgs h)),
         (''POST /api/v1/orgs'', wrapIP h routeOrgCreate OrgRouteLimit (createOrg h)),
         (''GET /api/v1/orgs/{org_id}/members'', wrapOrg h routeOrgMembers (listMembers h)),
         (''POST /api/v1/orgs/{org_id}/members'', wrapOrg h routeOrgMembers (addMember h)),
         (''DELETE /api/v1/orgs/{org_id}/members/{user_id}'',
            wrapOrg h routeOrgMembers (removeMember h)),
         (''POST /api/v1/orgs/{org_id}/members/{user_id}/suspend'',
            wrapOrg h routeOrgMembers (suspendMember h)),
         (''PUT /api/v1/orgs/{org_id}/members/{user_id}/role'',
            wrapOrg h routeOrgMemberRole (setMemberRole h)),
         (''PUT /api/v1/orgs/{org_id}/slug'', wrapOrg h routeOrgSlug (setOrgSlug h)),
         (''POST /api/v1/orgs/{org_id}/invites'', wrapOrg h routeOrgInvites (createInvite h)),
         (''GET /api/v1/orgs/{org_id}/invites'', wrapOrg h routeOrgInvites (listInvites h)),
         (''DELETE /api/v1/orgs/{org_id}/invites/{invite_id}'',
            wrapOrg h routeOrgInviteRev (revokeInvite h)),
         (''POST /api/v1/invites/accept'',
            wrapIP h routeInviteAccept InviteAcceptIPLimit (acceptInvite h)),
         (''POST /api/v1/session/org'', selectOrg h)]
      else [])"

definition tenant_routes :: "'w handlers \<Rightarrow> 'w route_table" where
  "tenant_routes h =
     (if HasTenants (h_svc h)
      then [(''GET '' @ routeTenantResolve,
             wrapIP h routeTenantResolve TenantResolveIPLimit (resolveTenant h))]
      else [])"

definition platform_routes :: "'w handlers \<Rightarrow> 'w route_table" where
  "platform_routes h =
     [(''POST /api/v1/system/ownership/challenge'', wrap h ClassOwnershipChallenge (challenge_handler h)),
      (''POST /api/v1/system/ownership/verify'', wrap h ClassOwnershipVerify (verifyChallenge h)),
      (''POST /api/v1/dev/onboard/claim'', wrap h ClassDevOnboardClaim (claim_handler h)),
      (''POST /api/v1/admin/challenge'', wrap h ClassAdminChallenge (challenge_handler h)),
      (''POST /api/v1/admin/verify'', wrap h ClassAdminVerify (verifyChallenge h)),
      (''POST /api/v1/onboard/claim'', wrap h ClassOnboardClaim (claim_handler h)),
      (''POST /v1/onboard/claim'', wrap h ClassOnboardClaim (claim_handler h)),
      (''GET /'', install h)]"

definition registerOpenAPIRoutes :: "'w handlers \<Rightarrow> 'w route_table" where
  "registerOpenAPIRoutes h =
     [(''GET /api/v1/openapi/gateway.yaml'', serveAsset (OpenAPISpec (h_svc h)) ''application/yaml''),
      (''GET /api/v1/openapi/manifest.json'', serveAsset (Manifest (h_svc h)) ''application/json'')]"

definition gateway_routes :: "'w handlers \<Rightarrow> 'w route_table" where
  "gateway_routes h =
     [(''GET /healthz'', health)] @ auth_routes h @ signup_routes h @ flag_routes h @ org_routes h @
     tenant_routes h @ platform_routes h @ registerOpenAPIRoutes h"

definition register :: "'w route_table \<Rightarrow> 'w handler mux \<Rightarrow> 'w handler mux" where
  "register routes mux = fold (\<lambda>(pattern, h) mux. HandleFunc pattern h mux) routes mux"

subsection \<open>The server\<close>

record options =
  TrustProxy :: bool
  JWTSecret :: string
  StaffSecret :: string

record 'w server =
  srv_middleware :: "'w handler \<Rightarrow> 'w handler"
  srv_mux :: "'w handler mux"
  srv_svc :: "'w service option"
  srv_jwtSecret :: string
  srv_staffSecret :: string

definition newServer :: "('w handler \<Rightarrow> 'w handler) \<Rightarrow> 'w handler mux \<Rightarrow> 'w server" where
  "newServer middleware mux =
     \<lparr>srv_middleware = middleware, srv_mux = mux, srv_svc = None, srv_jwtSecret = [],
      srv_staffSecret = []\<rparr>"

definition server_handlers :: "'w go_runtime \<Rightarrow> rate_library \<Rightarrow> 'w service \<Rightarrow> options \<Rightarrow> 'w handlers" where
  "server_handlers rt lib svc opts =
     \<lparr>h_svc = svc, h_trustProxy = TrustProxy opts, h_rt = rt, h_lib = lib\<rparr>"

definition New ::
    "'w go_runtime \<Rightarrow> rate_library \<Rightarrow> ('w handler \<Rightarrow> 'w handler) \<Rightarrow> 'w service \<Rightarrow> options \<Rightarrow>
       'w server" where
  "New rt lib middleware svc opts =
     (let mux = register (gateway_routes (server_handlers rt lib svc opts)) []
      in (newServer middleware mux)\<lparr>srv_svc := Some svc, srv_jwtSecret := JWTSecret opts,
           srv_staffSecret := StaffSecret opts\<rparr>)"

definition NewHealth ::
    "('w handler \<Rightarrow> 'w handler) \<Rightarrow> 'w handler \<Rightarrow> 'w handler \<Rightarrow> 'w server" where
  "NewHealth middleware healthHandler readinessHandler =
     newServer middleware
       (register [(''/healthz'', healthHandler), (''/readyz'', readinessHandler)] [])"

definition rateLimitHeaderSpellings :: "(string \<times> string) list" where
  "rateLimitHeaderSpellings =
     [(''X-Ratelimit-Limit'', ''X-RateLimit-Limit''),
      (''X-Ratelimit-Remaining'', ''X-RateLimit-Remaining''),
      (''X-Ratelimit-Reset'', ''X-RateLimit-Reset'')]"

definition restore_spelling ::
    "string \<times> string \<Rightarrow> (string \<rightharpoonup> string) \<Rightarrow> string \<rightharpoonup> string" where
  "restore_spelling spelling header =
     (case header (fst spelling) of
        None \<Rightarrow> header
      | Some value \<Rightarrow>
          if value = [] then header else (header(fst spelling := None))(snd spelling \<mapsto> value))"

definition restore_spellings :: "(string \<rightharpoonup> string) \<Rightarrow> string \<rightharpoonup> string" where
  "restore_spellings header = fold restore_spelling rateLimitHeaderSpellings header"

subsection \<open>Fiber in front of the mux\<close>

record fiber_config =
  cfg_ReadTimeout :: duration
  cfg_WriteTimeout :: duration
  cfg_IdleTimeout :: duration
  cfg_BodyLimit :: nat

definition edge_config :: fiber_config where
  "edge_config =
     \<lparr>cfg_ReadTimeout = 30 * second, cfg_WriteTimeout = 30 * second, cfg_IdleTimeout = 60 * second,
      cfg_BodyLimit = 4 * 2 ^ 20\<rparr>"

text \<open>What the chain of Fiber's handlers passes along: the response, and its switch for a default type.\<close>

record fiber_ctx =
  fc_Response :: response
  fc_NoDefaultContentType :: bool

type_synonym 'w fiber_handler = "request \<Rightarrow> fiber_ctx \<Rightarrow> ('w, fiber_ctx) state"

definition no_default_content_type :: "'w fiber_handler \<Rightarrow> 'w fiber_handler" where
  "no_default_content_type next r c = next r (c\<lparr>fc_NoDefaultContentType := True\<rparr>)"

definition restore_names :: "'w fiber_handler \<Rightarrow> 'w fiber_handler" where
  "restore_names next r c =
     next r c \<bind> (\<lambda>c'. let w = fc_Response c' in
       ret (if rw_Panic w then c' else c'\<lparr>fc_Response := w\<lparr>rw_Header := restore_spellings (rw_Header w)\<rparr>\<rparr>))"

text \<open>
  Fiber and its adaptor to \<open>net/http\<close> are third-party code, a parameter: its answer to a body over the
  limit, the type its response writer makes up for an answer without one, and the handler the adaptor
  makes of a \<open>net/http\<close> handler.
\<close>

record 'w fiber_front =
  ff_BodyTooLarge :: response
  ff_DefaultContentType :: "response \<Rightarrow> response"
  ff_HTTPHandler :: "'w handler \<Rightarrow> 'w fiber_handler"

definition fiber_chain :: "'w fiber_front \<Rightarrow> 'w server \<Rightarrow> 'w fiber_handler" where
  "fiber_chain front s =
     no_default_content_type (restore_names (ff_HTTPHandler front (srv_middleware s (mux_serve (srv_mux s)))))"

definition serve :: "'w fiber_front \<Rightarrow> 'w server \<Rightarrow> request \<Rightarrow> ('w, response) state" where
  "serve front s r =
     (if cfg_BodyLimit edge_config < length (req_Body r) then ret (ff_BodyTooLarge front)
      else fiber_chain front s r \<lparr>fc_Response = empty_response, fc_NoDefaultContentType = False\<rparr> \<bind> (\<lambda>c.
             ret (if fc_NoDefaultContentType c then fc_Response c
                  else ff_DefaultContentType front (fc_Response c))))"

definition Server_TokenAuth :: "'w go_runtime \<Rightarrow> 'w jwt_parser \<Rightarrow> 'w server \<Rightarrow> 'w token_auth" where
  "Server_TokenAuth rt jwt s =
     (let ta = NewTokenAuth rt jwt (srv_svc s) (srv_jwtSecret s)
      in if srv_staffSecret s \<noteq> [] then WithStaffSecret (srv_staffSecret s) ta else ta)"

definition Server_StaffAuth :: "'w go_runtime \<Rightarrow> 'w jwt_parser \<Rightarrow> 'w server \<Rightarrow> 'w staff_auth" where
  "Server_StaffAuth rt jwt s = NewStaffAuth (Server_TokenAuth rt jwt s)"

definition jwks_handler :: "string \<Rightarrow> 'w handler" where
  "jwks_handler body r w =
     ret (Write body
       (Header_Set ''Cache-Control'' ''public, max-age=300''
         (Header_Set ''Content-Type'' ''application/json'' w)))"

definition ServeJWKS :: "string \<Rightarrow> 'w server \<Rightarrow> 'w server" where
  "ServeJWKS body s =
     s\<lparr>srv_mux := HandleFunc ''GET /.well-known/jwks.json'' (jwks_handler body) (srv_mux s)\<rparr>"

text \<open>
  Fiber's listener: \<open>Listen\<close> returns when it fails or the server was shut down (\<^const>\<open>None\<close> is a nil
  error), \<open>Shutdown\<close> drains it.
\<close>

record 'w fiber_app =
  app_Listen :: "string \<Rightarrow> ('w, string option) state"
  app_Shutdown :: "('w, string option) state"

definition Server_Listen :: "'w fiber_app \<Rightarrow> string \<Rightarrow> ('w, string option) state" where
  "Server_Listen app addr = app_Listen app addr"

definition Server_Shutdown :: "'w fiber_app \<Rightarrow> ('w, string option) state" where
  "Server_Shutdown app = app_Shutdown app"

lemma set_register:
  "snd ` set (register routes mux) = snd ` set mux \<union> snd ` set routes"
proof -
  have "snd ` set (fold (\<lambda>(p, h) m. HandleFunc p h m) routes mux) = snd ` set mux \<union> snd ` set routes"
    by (induction routes arbitrary: mux) (auto simp: HandleFunc_def)
  then show ?thesis by (simp add: register_def)
qed

end
