(* ===== verification/Auth_Client.thy ===== *)
theory Auth_Client
  imports Domain_Ports Go_Json
begin

text \<open>
  \<open>internal/infrastructure/auth\<close>: the adapter to orbit-auth over gRPC (\<open>client.go\<close>) and HTTP
  (\<open>flags.go\<close>).  The generated stubs and messages of orbit-auth are not in this repository: a stub
  is an operation on the world that answers a gRPC failure or a message, a message is a record of
  the fields the adapter's getters read, and a nil message reads as zero values.
\<close>

subsection \<open>gRPC failures\<close>

text \<open>The status codes; \<open>OtherCode\<close> is any code without a name in the adapter's switches.\<close>

datatype grpc_code =
    InvalidArgument
  | Unauthenticated
  | PermissionDenied
  | FailedPrecondition
  | ResourceExhausted
  | NotFound
  | AlreadyExists
  | OtherCode nat

text \<open>\<open>status.FromError\<close> finds a status in the error, or does not.\<close>

datatype rpc_error = GrpcStatus grpc_code string | NotAStatus string

definition upstreamError :: "rpc_error \<Rightarrow> go_error" where
  "upstreamError err =
     (case err of
        GrpcStatus InvalidArgument m \<Rightarrow> NewError KindInvalidArgument m
      | GrpcStatus Unauthenticated m \<Rightarrow> NewError KindUnauthenticated m
      | GrpcStatus PermissionDenied m \<Rightarrow> NewError KindPermissionDenied m
      | GrpcStatus FailedPrecondition m \<Rightarrow> NewError KindFailedPrecondition m
      | GrpcStatus ResourceExhausted m \<Rightarrow> NewError KindResourceExhausted m
      | _ \<Rightarrow> NewError KindInternal ''upstream error'')"

text \<open>The error of a call that failed; a call that did not fail has none.\<close>

definition orgUpstreamError :: "rpc_error \<Rightarrow> go_error" where
  "orgUpstreamError err =
     (case err of
        GrpcStatus InvalidArgument m \<Rightarrow> NewError KindInvalidArgument m
      | GrpcStatus Unauthenticated m \<Rightarrow> NewError KindUnauthenticated m
      | GrpcStatus PermissionDenied m \<Rightarrow> NewError KindPermissionDenied m
      | GrpcStatus NotFound m \<Rightarrow> NewError KindNotFound m
      | GrpcStatus FailedPrecondition m \<Rightarrow> NewError KindConflict m
      | GrpcStatus AlreadyExists m \<Rightarrow> NewError KindConflict m
      | GrpcStatus ResourceExhausted m \<Rightarrow> NewError KindResourceExhausted m
      | _ \<Rightarrow> NewError KindBadGateway ''upstream error'')"

definition signupUpstreamError :: "rpc_error \<Rightarrow> go_error" where
  "signupUpstreamError err =
     (case err of
        GrpcStatus FailedPrecondition m \<Rightarrow> NewError KindNotFound ''not found''
      | _ \<Rightarrow> orgUpstreamError err)"

definition tenantUpstreamError :: "rpc_error \<Rightarrow> go_error" where
  "tenantUpstreamError err =
     (case err of
        GrpcStatus NotFound m \<Rightarrow> NewError KindNotFound ''tenant not found''
      | _ \<Rightarrow> NewError KindBadGateway ''upstream error'')"

subsection \<open>Messages\<close>

record pb_token =
  pb_access_token :: string
  pb_refresh_token :: string
  pb_expires_at :: string

record pb_organization =
  pb_org_id :: string
  pb_org_name :: string
  pb_org_slug :: string
  pb_org_created_at :: string
  pb_org_updated_at :: string

record pb_membership =
  pb_mem_org_id :: string
  pb_mem_user_id :: string
  pb_mem_status :: string
  pb_mem_role :: string
  pb_mem_created_at :: string
  pb_mem_updated_at :: string

record pb_invite =
  pb_inv_id :: string
  pb_inv_org_id :: string
  pb_inv_email :: string
  pb_inv_inviter_id :: string
  pb_inv_status :: string
  pb_inv_expires_at :: string
  pb_inv_accepted_at :: string
  pb_inv_created_at :: string

record pb_tenant =
  pb_ten_org_id :: string
  pb_ten_name :: string
  pb_ten_slug :: string
  pb_ten_retired :: bool

record pb_identity =
  pb_user_id :: string
  pb_scopes :: "string list"

text \<open>A getter of a possibly nil message.\<close>

definition get_str :: "('m \<Rightarrow> string) \<Rightarrow> 'm option \<Rightarrow> string" where
  "get_str f m = (case m of None \<Rightarrow> [] | Some x \<Rightarrow> f x)"

definition tokenPair :: "pb_token option \<Rightarrow> token_pair" where
  "tokenPair t =
     \<lparr>AccessToken = get_str pb_access_token t, RefreshToken = get_str pb_refresh_token t,
      ExpiresAt = get_str pb_expires_at t\<rparr>"

definition organization_of :: "pb_organization option \<Rightarrow> organization" where
  "organization_of o' =
     \<lparr>org_ID = get_str pb_org_id o', org_Name = get_str pb_org_name o',
      org_Slug = get_str pb_org_slug o', org_CreatedAt = get_str pb_org_created_at o',
      org_UpdatedAt = get_str pb_org_updated_at o'\<rparr>"

fun organizations :: "pb_organization option list \<Rightarrow> organization list" where
  "organizations [] = []"
| "organizations (x # xs) = organization_of x # organizations xs"

definition membership_of :: "pb_membership option \<Rightarrow> membership" where
  "membership_of m =
     \<lparr>mem_OrgID = get_str pb_mem_org_id m, mem_UserID = get_str pb_mem_user_id m,
      mem_Status = get_str pb_mem_status m, mem_Role = get_str pb_mem_role m,
      mem_CreatedAt = get_str pb_mem_created_at m, mem_UpdatedAt = get_str pb_mem_updated_at m\<rparr>"

fun memberships :: "pb_membership option list \<Rightarrow> membership list" where
  "memberships [] = []"
| "memberships (x # xs) = membership_of x # memberships xs"

definition invite_of :: "pb_invite option \<Rightarrow> invite" where
  "invite_of i =
     \<lparr>inv_ID = get_str pb_inv_id i, inv_OrgID = get_str pb_inv_org_id i,
      inv_Email = get_str pb_inv_email i, inv_InviterID = get_str pb_inv_inviter_id i,
      inv_Status = get_str pb_inv_status i, inv_ExpiresAt = get_str pb_inv_expires_at i,
      inv_AcceptedAt = get_str pb_inv_accepted_at i, inv_CreatedAt = get_str pb_inv_created_at i\<rparr>"

fun invites :: "pb_invite option list \<Rightarrow> invite list" where
  "invites [] = []"
| "invites (x # xs) = invite_of x # invites xs"

subsection \<open>Stubs\<close>

type_synonym metadata = "(string \<times> string) list"
type_synonym ('w, 'a) rpc = "('w, rpc_error + 'a) state"

datatype http_outcome = TransportError string | HttpResponse nat string

record 'w grpc_stubs =
  rpc_RequestOTP :: "otp_request \<Rightarrow> ('w, string) rpc"
  rpc_VerifyOTP :: "otp_verification \<Rightarrow> ('w, pb_token option) rpc"
  rpc_LoginWithPassword :: "string \<Rightarrow> string \<Rightarrow> ('w, pb_token option) rpc"
  rpc_RefreshToken :: "string \<Rightarrow> ('w, pb_token option) rpc"
  rpc_ValidateApiToken :: "string \<Rightarrow> ('w, pb_identity option) rpc"
  rpc_RegisterWithEmail :: "signup_registration \<Rightarrow> ('w, unit) rpc"
  rpc_VerifySignup :: "signup_verification \<Rightarrow> ('w, pb_token option) rpc"
  rpc_CreateOrg :: "metadata \<Rightarrow> string \<Rightarrow> string \<Rightarrow> ('w, pb_organization option) rpc"
  rpc_SetOrgSlug :: "metadata \<Rightarrow> string \<Rightarrow> string \<Rightarrow> ('w, pb_organization option) rpc"
  rpc_ResolveTenant :: "string \<Rightarrow> ('w, pb_tenant option) rpc"
  rpc_ListMyOrgs :: "metadata \<Rightarrow> ('w, pb_organization option list) rpc"
  rpc_ListMembers :: "metadata \<Rightarrow> string \<Rightarrow> ('w, pb_membership option list) rpc"
  rpc_AddMember :: "metadata \<Rightarrow> string \<Rightarrow> string \<Rightarrow> ('w, unit) rpc"
  rpc_RemoveMember :: "metadata \<Rightarrow> string \<Rightarrow> string \<Rightarrow> ('w, unit) rpc"
  rpc_SuspendMember :: "metadata \<Rightarrow> string \<Rightarrow> string \<Rightarrow> ('w, unit) rpc"
  rpc_SetMemberRole :: "metadata \<Rightarrow> string \<Rightarrow> string \<Rightarrow> string \<Rightarrow> ('w, pb_membership option) rpc"
  rpc_InviteMember :: "metadata \<Rightarrow> string \<Rightarrow> string \<Rightarrow> ('w, pb_invite option) rpc"
  rpc_AcceptInvite :: "metadata \<Rightarrow> string \<Rightarrow> ('w, pb_invite option) rpc"
  rpc_RevokeInvite :: "metadata \<Rightarrow> string \<Rightarrow> string \<Rightarrow> ('w, unit) rpc"
  rpc_ListInvites :: "metadata \<Rightarrow> string \<Rightarrow> ('w, pb_invite option list) rpc"
  rpc_SelectOrg :: "metadata \<Rightarrow> string \<Rightarrow> string \<Rightarrow> ('w, pb_token option) rpc"

text \<open>
  The client: its stubs, the closing of its connection (\<^const>\<open>None\<close> without one), the base URL of the
  flag document and the HTTP client, a GET on a URL whose transport error also stands for a URL
  \<open>http.NewRequestWithContext\<close> refuses.
\<close>

record 'w client =
  cl_api :: "'w grpc_stubs"
  cl_conn :: "('w, string option) state option"
  AuthHTTPURL :: string
  cl_http_get :: "string \<Rightarrow> ('w, http_outcome) state"

text \<open>
  \<open>NewClient\<close>: \<open>dial\<close> is \<open>grpc.NewClient\<close>, which gives the stubs on the new connection and the
  connection's \<open>Close\<close>.
\<close>

definition NewClient ::
    "(string \<Rightarrow> ('w, string + 'w grpc_stubs \<times> ('w, string option) state) state) \<Rightarrow> (string \<Rightarrow> ('w, http_outcome) state) \<Rightarrow>
       string \<Rightarrow> ('w, string + 'w client) state" where
  "NewClient dial httpGet addr =
     try_bind (dial addr) (\<lambda>(api, close).
       ret (Inr \<lparr>cl_api = api, cl_conn = Some close, AuthHTTPURL = [], cl_http_get = httpGet\<rparr>))"

definition Client_Close :: "'w client \<Rightarrow> ('w, string option) state" where
  "Client_Close c = (case cl_conn c of None \<Rightarrow> ret None | Some close \<Rightarrow> close)"

definition callerContext :: "metadata \<Rightarrow> string \<Rightarrow> metadata" where
  "callerContext ctx accessToken = ctx @ [(''authorization'', ''Bearer '' @ accessToken)]"

text \<open>\<open>if err != nil \<lbrace> return ..., mapErr(err) \<rbrace>; return conv(resp), nil\<close>.\<close>

definition via :: "(rpc_error \<Rightarrow> go_error) \<Rightarrow> ('a \<Rightarrow> 'b) \<Rightarrow> ('w, 'a) rpc \<Rightarrow> ('w, 'b) call" where
  "via map_err conv m = m \<bind> (\<lambda>r. case r of Inl e \<Rightarrow> fail (map_err e) | Inr x \<Rightarrow> ok (conv x))"

lemma run_via [simp]:
  "run_state (via map_err conv m) w =
     (case run_state m w of (Inl e, w') \<Rightarrow> (Inl (map_err e), w') | (Inr x, w') \<Rightarrow> (Inr (conv x), w'))"
  by (auto simp: via_def split: prod.splits sum.splits)

lemma preserves_via [frame_intros]: "preserves f m \<Longrightarrow> preserves f (via map_err conv m)"
  unfolding via_def by (intro frame_intros)

subsection \<open>AuthService\<close>

definition Client_RequestOTP :: "'w client \<Rightarrow> otp_request \<Rightarrow> ('w, string) call" where
  "Client_RequestOTP c inp = via upstreamError id (rpc_RequestOTP (cl_api c) inp)"

definition Client_VerifyOTP :: "'w client \<Rightarrow> otp_verification \<Rightarrow> ('w, token_pair) call" where
  "Client_VerifyOTP c inp = via upstreamError tokenPair (rpc_VerifyOTP (cl_api c) inp)"

definition Client_LoginWithPassword :: "'w client \<Rightarrow> password_login \<Rightarrow> ('w, token_pair) call" where
  "Client_LoginWithPassword c inp =
     via upstreamError tokenPair
       (rpc_LoginWithPassword (cl_api c) (pl_Identifier inp) (pl_Password inp))"

definition Client_RefreshToken :: "'w client \<Rightarrow> string \<Rightarrow> ('w, token_pair) call" where
  "Client_RefreshToken c refreshToken =
     via upstreamError tokenPair (rpc_RefreshToken (cl_api c) refreshToken)"

definition api_identity_of :: "pb_identity option \<Rightarrow> api_identity" where
  "api_identity_of i =
     \<lparr>UserID = get_str pb_user_id i, Scopes = (case i of None \<Rightarrow> [] | Some x \<Rightarrow> pb_scopes x)\<rparr>"

definition Client_ValidateAPIToken :: "'w client \<Rightarrow> string \<Rightarrow> ('w, api_identity) call" where
  "Client_ValidateAPIToken c secret =
     via upstreamError api_identity_of (rpc_ValidateApiToken (cl_api c) secret)"

subsection \<open>SignupService and TenantService\<close>

definition Client_RegisterWithEmail :: "'w client \<Rightarrow> signup_registration \<Rightarrow> ('w, unit) call" where
  "Client_RegisterWithEmail c inp = via signupUpstreamError id (rpc_RegisterWithEmail (cl_api c) inp)"

definition Client_VerifySignup :: "'w client \<Rightarrow> signup_verification \<Rightarrow> ('w, token_pair) call" where
  "Client_VerifySignup c inp = via signupUpstreamError tokenPair (rpc_VerifySignup (cl_api c) inp)"

definition tenant_of :: "pb_tenant option \<Rightarrow> tenant" where
  "tenant_of t =
     \<lparr>ten_OrgID = get_str pb_ten_org_id t, ten_Name = get_str pb_ten_name t,
      ten_Slug = get_str pb_ten_slug t,
      ten_Retired = (case t of None \<Rightarrow> False | Some x \<Rightarrow> pb_ten_retired x)\<rparr>"

definition Client_ResolveTenant :: "'w client \<Rightarrow> string \<Rightarrow> ('w, tenant) call" where
  "Client_ResolveTenant c slug = via tenantUpstreamError tenant_of (rpc_ResolveTenant (cl_api c) slug)"

subsection \<open>OrgService\<close>

definition Client_CreateOrg :: "'w client \<Rightarrow> string \<Rightarrow> string \<Rightarrow> string \<Rightarrow> ('w, organization) call" where
  "Client_CreateOrg c name slug token =
     via orgUpstreamError organization_of (rpc_CreateOrg (cl_api c) (callerContext [] token) name slug)"

definition Client_SetOrgSlug :: "'w client \<Rightarrow> string \<Rightarrow> string \<Rightarrow> string \<Rightarrow> ('w, organization) call" where
  "Client_SetOrgSlug c orgID slug token =
     via orgUpstreamError organization_of (rpc_SetOrgSlug (cl_api c) (callerContext [] token) orgID slug)"

definition Client_ListMyOrgs :: "'w client \<Rightarrow> string \<Rightarrow> ('w, organization list) call" where
  "Client_ListMyOrgs c token =
     via orgUpstreamError organizations (rpc_ListMyOrgs (cl_api c) (callerContext [] token))"

definition Client_ListMembers :: "'w client \<Rightarrow> string \<Rightarrow> string \<Rightarrow> ('w, membership list) call" where
  "Client_ListMembers c orgID token =
     via orgUpstreamError memberships (rpc_ListMembers (cl_api c) (callerContext [] token) orgID)"

definition Client_AddMember :: "'w client \<Rightarrow> string \<Rightarrow> string \<Rightarrow> string \<Rightarrow> ('w, unit) call" where
  "Client_AddMember c orgID userID token =
     via orgUpstreamError id (rpc_AddMember (cl_api c) (callerContext [] token) orgID userID)"

definition Client_RemoveMember :: "'w client \<Rightarrow> string \<Rightarrow> string \<Rightarrow> string \<Rightarrow> ('w, unit) call" where
  "Client_RemoveMember c orgID userID token =
     via orgUpstreamError id (rpc_RemoveMember (cl_api c) (callerContext [] token) orgID userID)"

definition Client_SuspendMember :: "'w client \<Rightarrow> string \<Rightarrow> string \<Rightarrow> string \<Rightarrow> ('w, unit) call" where
  "Client_SuspendMember c orgID userID token =
     via orgUpstreamError id (rpc_SuspendMember (cl_api c) (callerContext [] token) orgID userID)"

definition Client_SetMemberRole ::
    "'w client \<Rightarrow> string \<Rightarrow> string \<Rightarrow> string \<Rightarrow> string \<Rightarrow> ('w, membership) call" where
  "Client_SetMemberRole c orgID userID role token =
     via orgUpstreamError membership_of
       (rpc_SetMemberRole (cl_api c) (callerContext [] token) orgID userID role)"

definition Client_InviteMember :: "'w client \<Rightarrow> string \<Rightarrow> string \<Rightarrow> string \<Rightarrow> ('w, invite) call" where
  "Client_InviteMember c orgID email token =
     via orgUpstreamError invite_of (rpc_InviteMember (cl_api c) (callerContext [] token) orgID email)"

definition Client_AcceptInvite :: "'w client \<Rightarrow> string \<Rightarrow> string \<Rightarrow> ('w, invite) call" where
  "Client_AcceptInvite c inviteToken token =
     via orgUpstreamError invite_of (rpc_AcceptInvite (cl_api c) (callerContext [] token) inviteToken)"

definition Client_RevokeInvite :: "'w client \<Rightarrow> string \<Rightarrow> string \<Rightarrow> string \<Rightarrow> ('w, unit) call" where
  "Client_RevokeInvite c orgID inviteID token =
     via orgUpstreamError id (rpc_RevokeInvite (cl_api c) (callerContext [] token) orgID inviteID)"

definition Client_ListInvites :: "'w client \<Rightarrow> string \<Rightarrow> string \<Rightarrow> ('w, invite list) call" where
  "Client_ListInvites c orgID token =
     via orgUpstreamError invites (rpc_ListInvites (cl_api c) (callerContext [] token) orgID)"

definition Client_SelectOrg :: "'w client \<Rightarrow> string \<Rightarrow> string \<Rightarrow> string \<Rightarrow> ('w, token_pair) call" where
  "Client_SelectOrg c orgID refreshToken token =
     via orgUpstreamError tokenPair (rpc_SelectOrg (cl_api c) (callerContext [] token) orgID refreshToken)"

subsection \<open>FlagSource\<close>

definition flagsPath :: string where
  "flagsPath = ''/v1/flags''"

definition zero_flag :: feature_flag where
  "zero_flag = \<lparr>flag_Name = [], flag_Enabled = False, flag_Description = []\<rparr>"

text \<open>
  One element of the \<open>flags\<close> array, decoded into the flag already at its place (the zero flag,
  unless the document repeats the \<open>flags\<close> member).
\<close>

definition decode_flag :: "feature_flag \<Rightarrow> json \<Rightarrow> feature_flag option" where
  "decode_flag old v =
     Option.bind (struct_members v) (\<lambda>ms.
     Option.bind (str_field_from ''name'' (flag_Name old) ms) (\<lambda>name.
     Option.bind (bool_field_from ''enabled'' (flag_Enabled old) ms) (\<lambda>enabled.
     Option.bind (str_field_from ''description'' (flag_Description old) ms) (\<lambda>description.
     Some \<lparr>flag_Name = name, flag_Enabled = enabled, flag_Description = description\<rparr>))))"

fun decode_flags :: "feature_flag list \<Rightarrow> json list \<Rightarrow> feature_flag list option" where
  "decode_flags olds [] = Some []"
| "decode_flags olds (v # vs) =
     Option.bind (decode_flag (case olds of [] \<Rightarrow> zero_flag | x # _ \<Rightarrow> x) v) (\<lambda>f.
     Option.bind (decode_flags (drop 1 olds) vs) (\<lambda>fs. Some (f # fs)))"

fun flags_field_from ::
    "feature_flag list \<Rightarrow> (string \<times> json) list \<Rightarrow> feature_flag list option" where
  "flags_field_from acc [] = Some acc"
| "flags_field_from acc ((k, v) # ms) =
     (if fold_key k = ''flags'' then
        (case v of
           JArr vs \<Rightarrow> Option.bind (decode_flags acc vs) (\<lambda>fs. flags_field_from fs ms)
         | JNull \<Rightarrow> flags_field_from [] ms
         | _ \<Rightarrow> None)
      else flags_field_from acc ms)"

definition flagDocument :: "json \<Rightarrow> flag_set option" where
  "flagDocument v =
     Option.bind (struct_members v) (\<lambda>ms.
     Option.bind (str_field ''version'' ms) (\<lambda>version.
     Option.bind (flags_field_from [] ms) (\<lambda>fs.
     Some \<lparr>fs_Version = version, fs_Flags = fs\<rparr>)))"

definition bad_gateway :: go_error where
  "bad_gateway = NewError KindBadGateway ''upstream error''"

definition Client_ListFlags :: "'w client \<Rightarrow> ('w, flag_set) call" where
  "Client_ListFlags c =
     (if TrimSpace (AuthHTTPURL c) = [] then fail bad_gateway
      else cl_http_get c (TrimRight_char CHR ''/'' (AuthHTTPURL c) @ flagsPath) \<bind> (\<lambda>out.
        case out of
          TransportError e \<Rightarrow> fail bad_gateway
        | HttpResponse code body \<Rightarrow>
            if code \<noteq> 200 then fail bad_gateway
            else case Option.bind (map_option fst (decode_value body)) flagDocument of
              None \<Rightarrow> fail bad_gateway
            | Some doc \<Rightarrow> ok doc))"

subsection \<open>The ports the client implements\<close>

definition client_auth :: "'w client \<Rightarrow> 'w auth_port" where
  "client_auth c =
     \<lparr>ap_RequestOTP = Client_RequestOTP c, ap_VerifyOTP = Client_VerifyOTP c,
      ap_LoginWithPassword = Client_LoginWithPassword c, ap_RefreshToken = Client_RefreshToken c,
      ap_ValidateAPIToken = Client_ValidateAPIToken c\<rparr>"

definition client_orgs :: "'w client \<Rightarrow> 'w org_port" where
  "client_orgs c =
     \<lparr>ogp_CreateOrg = Client_CreateOrg c, ogp_SetOrgSlug = Client_SetOrgSlug c,
      ogp_ListMyOrgs = Client_ListMyOrgs c, ogp_ListMembers = Client_ListMembers c,
      ogp_AddMember = Client_AddMember c, ogp_RemoveMember = Client_RemoveMember c,
      ogp_SuspendMember = Client_SuspendMember c, ogp_SetMemberRole = Client_SetMemberRole c,
      ogp_InviteMember = Client_InviteMember c, ogp_AcceptInvite = Client_AcceptInvite c,
      ogp_RevokeInvite = Client_RevokeInvite c, ogp_ListInvites = Client_ListInvites c,
      ogp_SelectOrg = Client_SelectOrg c\<rparr>"

definition client_signup :: "'w client \<Rightarrow> 'w signup_port" where
  "client_signup c =
     \<lparr>sp_RegisterWithEmail = Client_RegisterWithEmail c, sp_VerifySignup = Client_VerifySignup c\<rparr>"

definition client_tenants :: "'w client \<Rightarrow> 'w tenant_port" where
  "client_tenants c = \<lparr>tp_ResolveTenant = Client_ResolveTenant c\<rparr>"

definition client_flags :: "'w client \<Rightarrow> 'w flag_port" where
  "client_flags c = \<lparr>fp_ListFlags = Client_ListFlags c\<rparr>"

subsection \<open>Facts about the mappings\<close>

text \<open>No mapping produces a panic, so an adapter's error is always one the edge can render.\<close>

lemma upstream_errors_are_domain_errors:
  "\<exists>k m. upstreamError e = NewError k m" "\<exists>k m. orgUpstreamError e = NewError k m"
  "\<exists>k m. signupUpstreamError e = NewError k m" "\<exists>k m. tenantUpstreamError e = NewError k m"
  by (cases e; auto simp: upstreamError_def orgUpstreamError_def signupUpstreamError_def
        tenantUpstreamError_def split: grpc_code.splits)+

end
