(* ===== verification/Infra_Adapters.thy ===== *)
theory Infra_Adapters
  imports Memory_Stores "HOL-Library.Word"
begin

text \<open>
  The small adapters of \<open>internal/infrastructure\<close>: the challenge-code generator (\<open>ids\<close>), the wall
  clock (\<open>clock\<close>), the static documents (\<open>assets\<close>) and the published key set (\<open>jwks\<close>).  The random
  source, the clock, the file system and orbit-auth's key loader are operations of the world the
  adapter is given.
\<close>

unbundle bit_operations_syntax

subsection \<open>Challenge codes\<close>

type_synonym byte = "8 word"

text \<open>\<open>int(b[0])<<16|int(b[1])<<8|int(b[2])\<close>\<close>

definition code_number :: "byte \<times> byte \<times> byte \<Rightarrow> nat" where
  "code_number b =
     (case b of (b0, b1, b2) \<Rightarrow> (push_bit 16 (unat b0) OR push_bit 8 (unat b1)) OR unat b2)"

definition NewCode :: "('x, byte \<times> byte \<times> byte) state \<Rightarrow> ('x, string) state" where
  "NewCode rand_Read = rand_Read \<bind> (\<lambda>b. ret (pad_zeros 6 (show_nat (code_number b mod 1000000))))"

definition is_decimal :: "string \<Rightarrow> bool" where
  "is_decimal s \<longleftrightarrow> (\<forall>c \<in> set s. c \<in> set ''0123456789'')"

lemma digit_char_decimal: "d < 10 \<Longrightarrow> digit_char d \<in> set ''0123456789''"
proof -
  assume "d < 10"
  then have "d \<in> {0, 1, 2, 3, 4, 5, 6, 7, 8, 9}" by auto
  then show ?thesis by (auto simp: digit_char_def hex_chars_def)
qed

lemma is_decimal_append: "is_decimal (s @ t) \<longleftrightarrow> is_decimal s \<and> is_decimal t"
  unfolding is_decimal_def set_append by blast

lemma is_decimal_digit: "d < 10 \<Longrightarrow> is_decimal [digit_char d]"
  using digit_char_decimal [of d] unfolding is_decimal_def list.set(2) list.set(1) by blast

lemma show_nat_decimal: "is_decimal (show_nat n)"
proof (induction n rule: less_induct)
  case (less n)
  show ?case
  proof (cases "n < 10")
    case True
    then show ?thesis using is_decimal_digit [OF True] by (simp add: show_nat_small)
  next
    case False
    then have "is_decimal (show_nat (n div 10))" by (intro less.IH) auto
    moreover have "is_decimal [digit_char (n mod 10)]" by (rule is_decimal_digit) simp
    ultimately show ?thesis unfolding show_nat_step [OF False] is_decimal_append by blast
  qed
qed

lemma length_show_nat_le: "n < 10 ^ k \<Longrightarrow> 0 < k \<Longrightarrow> length (show_nat n) \<le> k"
proof (induction k arbitrary: n)
  case 0
  then show ?case by simp
next
  case (Suc k)
  show ?case
  proof (cases "n < 10")
    case True
    then show ?thesis by (simp add: show_nat_small)
  next
    case False
    with Suc.prems have "n div 10 < 10 ^ k" "0 < k" by (auto intro: less_mult_imp_div_less gr0I)
    then show ?thesis using Suc.IH [of "n div 10"] False by (simp add: show_nat_step)
  qed
qed

lemma pad_zeros_decimal: "is_decimal s \<Longrightarrow> is_decimal (pad_zeros k s)"
  unfolding pad_zeros_def is_decimal_append by (simp add: is_decimal_def)

lemma length_pad_zeros: "length s \<le> k \<Longrightarrow> length (pad_zeros k s) = k"
  by (simp add: pad_zeros_def)

text \<open>The three bytes occupy disjoint bits, so the disjunctions are a base-256 number.\<close>

lemma or_disjoint_nat:
  assumes "(b :: nat) < 2 ^ k"
  shows "push_bit k a OR b = a * 2 ^ k + b"
proof -
  have b: "take_bit k b = b" using assms by (simp add: take_bit_nat_eq_self)
  have "push_bit k a AND take_bit k b = 0"
    unfolding bit_eq_iff by (simp add: bit_and_iff bit_push_bit_iff bit_take_bit_iff)
  then have "push_bit k a + take_bit k b = push_bit k a OR take_bit k b"
    by (rule disjunctive_add_eq_or)
  then show ?thesis unfolding b push_bit_eq_mult by simp
qed

lemma code_number_value:
  "code_number (b0, b1, b2) = unat b0 * 65536 + unat b1 * 256 + unat b2"
proof -
  have lt: "unat b < 256" for b :: byte using unsigned_less [of b, where ?'a = nat] by simp
  have "push_bit 16 (unat b0) OR push_bit 8 (unat b1) = unat b0 * 2 ^ 16 + push_bit 8 (unat b1)"
    using lt [of b1] by (intro or_disjoint_nat) (simp add: push_bit_eq_mult)
  also have "\<dots> = push_bit 8 (unat b0 * 256 + unat b1)" by (simp add: push_bit_eq_mult)
  finally show ?thesis
    using or_disjoint_nat [of "unat b2" 8 "unat b0 * 256 + unat b1"] lt [of b2]
    by (simp add: code_number_def)
qed

lemma code_number_bound: "code_number b < 2 ^ 24"
proof (cases b)
  case (fields b0 b1 b2)
  then show ?thesis
    using unsigned_less [of b0, where ?'a = nat] unsigned_less [of b1, where ?'a = nat] unsigned_less [of b2, where ?'a = nat] by (simp add: code_number_value)
qed

lemma six_digits:
  "length (pad_zeros 6 (show_nat (n mod 1000000))) = 6 \<and>
   is_decimal (pad_zeros 6 (show_nat (n mod 1000000)))"
  using length_show_nat_le [of "n mod 1000000" 6]
  by (simp add: length_pad_zeros pad_zeros_decimal show_nat_decimal)

definition system_code :: "('x, byte \<times> byte \<times> byte) state \<Rightarrow> 'x code_port" where
  "system_code rand_Read = \<lparr>cgp_NewCode = NewCode rand_Read\<rparr>"

subsection \<open>The clock\<close>

definition Clock_Now :: "('x, go_time) state \<Rightarrow> ('x, go_time) state" where
  "Clock_Now time_Now = time_Now"

definition system_clock :: "('x, go_time) state \<Rightarrow> 'x clock_port" where
  "system_clock time_Now = \<lparr>clk_Now = Clock_Now time_Now\<rparr>"

subsection \<open>Static documents\<close>

text \<open>
  \<open>files_embedded\<close> is the content of \<open>install.sh\<close>, embedded at build time;
  \<open>files_ReadFile\<close> is \<open>os.ReadFile\<close>.  \<open>filepath.Join\<close> is the join of a clean relative
  root and a plain name.
\<close>

record 'x asset_files =
  files_root :: string
  files_embedded :: string
  files_ReadFile :: "string \<Rightarrow> ('x, string + string) state"

definition filepath_Join :: "string \<Rightarrow> string \<Rightarrow> string" where
  "filepath_Join root name = (if root = [] then name else root @ ''/'' @ name)"

definition ReadFile_call :: "'x asset_files \<Rightarrow> string \<Rightarrow> ('x, string) call" where
  "ReadFile_call f name =
     files_ReadFile f (filepath_Join (files_root f) name) \<bind> (\<lambda>r.
       case r of Inl e \<Rightarrow> fail (OtherErr e) | Inr body \<Rightarrow> ok body)"

definition Files_InstallScript :: "'x asset_files \<Rightarrow> ('x, string) state" where
  "Files_InstallScript f = ret (files_embedded f)"

definition Files_OpenAPISpec :: "'x asset_files \<Rightarrow> ('x, string) call" where
  "Files_OpenAPISpec f = ReadFile_call f ''openapi.yaml''"

definition Files_Manifest :: "'x asset_files \<Rightarrow> ('x, string) call" where
  "Files_Manifest f = ReadFile_call f ''manifest.json''"

definition file_assets :: "'x asset_files \<Rightarrow> 'x asset_port" where
  "file_assets f =
     \<lparr>as_InstallScript = Files_InstallScript f, as_OpenAPISpec = Files_OpenAPISpec f,
      as_Manifest = Files_Manifest f\<rparr>"

subsection \<open>The published key set\<close>

text \<open>
  orbit-auth's key sets are not part of this repository: \<open>LoadKeySet\<close> reads a directory,
  \<open>key_count\<close> is the length of the loaded set and \<open>marshal_document\<close> its JSON document.
\<close>

record ('x, 'k) key_library =
  LoadKeySet :: "string \<Rightarrow> ('x, string + 'k) state"
  key_count :: "'k \<Rightarrow> nat"
  marshal_document :: "'k \<Rightarrow> string + string"

record jwks_document =
  jwks_body :: string
  jwks_keys :: nat

definition jwks_Load :: "('x, 'k) key_library \<Rightarrow> string \<Rightarrow> ('x, string + jwks_document) state" where
  "jwks_Load lib dir =
     try_bind (LoadKeySet lib dir) (\<lambda>keys.
       case marshal_document lib keys of
         Inl e \<Rightarrow> ret (Inl (''jwks: marshal document: '' @ e))
       | Inr body \<Rightarrow> ret (Inr \<lparr>jwks_body = body, jwks_keys = key_count lib keys\<rparr>))"

end
