(* ===== verification/Gateway_Main.thy ===== *)
theory Gateway_Main
  imports Http_Server Auth_Client Infra_Adapters
begin

text \<open>
  \<open>cmd/gateway/main.go\<close>: what the process decides at startup and how it wires the service.
  Everything outside the repository is the record \<open>externals\<close>, operations on an outside world
  \<open>'x\<close>; the wired service runs on \<open>'x gw_world\<close>, that world beside the three memory stores.
\<close>

record ('x, 'k) externals =
  ext_Configure :: "('x, string option) state"
  ext_Getenv :: "string \<Rightarrow> string"
  ext_Dial :: "string \<Rightarrow> ('x, string + 'x grpc_stubs \<times> ('x, string option) state) state"
  ext_HttpGet :: "string \<Rightarrow> ('x, http_outcome) state"
  ext_Ping :: "string \<Rightarrow> ('x, string option) state"
  ext_RedisLimiter :: "string \<Rightarrow> 'x lib_limiter"
  ext_MemoryLimiter :: "'x lib_limiter"
  ext_Now :: "('x, go_time) state"
  ext_Rand :: "('x, byte \<times> byte \<times> byte) state"
  ext_InstallScript :: string
  ext_ReadFile :: "string \<Rightarrow> ('x, string + string) state"
  ext_Keys :: "('x, 'k) key_library"
  ext_Log :: "string \<Rightarrow> string list \<Rightarrow> ('x, unit) state"
  ext_ToLower :: "string \<Rightarrow> string"
  ext_Title :: "string \<Rightarrow> string"
  ext_RateKeys :: rate_library
  ext_Middleware :: "'x gw_world handler \<Rightarrow> 'x gw_world handler"
  ext_HealthHandler :: "'x gw_world handler"
  ext_ReadinessHandler :: "'x gw_world handler"

subsection \<open>Ports whose effects stay outside the stores\<close>

definition outside_auth :: "'x auth_port \<Rightarrow> 'x gw_world auth_port" where
  "outside_auth p =
     \<lparr>ap_RequestOTP = (\<lambda>i. on_ext (ap_RequestOTP p i)),
      ap_VerifyOTP = (\<lambda>i. on_ext (ap_VerifyOTP p i)),
      ap_LoginWithPassword = (\<lambda>i. on_ext (ap_LoginWithPassword p i)),
      ap_RefreshToken = (\<lambda>t. on_ext (ap_RefreshToken p t)),
      ap_ValidateAPIToken = (\<lambda>t. on_ext (ap_ValidateAPIToken p t))\<rparr>"

definition outside_orgs :: "'x org_port \<Rightarrow> 'x gw_world org_port" where
  "outside_orgs p =
     \<lparr>ogp_CreateOrg = (\<lambda>a b c. on_ext (ogp_CreateOrg p a b c)),
      ogp_SetOrgSlug = (\<lambda>a b c. on_ext (ogp_SetOrgSlug p a b c)),
      ogp_ListMyOrgs = (\<lambda>a. on_ext (ogp_ListMyOrgs p a)),
      ogp_ListMembers = (\<lambda>a b. on_ext (ogp_ListMembers p a b)),
      ogp_AddMember = (\<lambda>a b c. on_ext (ogp_AddMember p a b c)),
      ogp_RemoveMember = (\<lambda>a b c. on_ext (ogp_RemoveMember p a b c)),
      ogp_SuspendMember = (\<lambda>a b c. on_ext (ogp_SuspendMember p a b c)),
      ogp_SetMemberRole = (\<lambda>a b c d. on_ext (ogp_SetMemberRole p a b c d)),
      ogp_InviteMember = (\<lambda>a b c. on_ext (ogp_InviteMember p a b c)),
      ogp_AcceptInvite = (\<lambda>a b. on_ext (ogp_AcceptInvite p a b)),
      ogp_RevokeInvite = (\<lambda>a b c. on_ext (ogp_RevokeInvite p a b c)),
      ogp_ListInvites = (\<lambda>a b. on_ext (ogp_ListInvites p a b)),
      ogp_SelectOrg = (\<lambda>a b c. on_ext (ogp_SelectOrg p a b c))\<rparr>"

definition outside_signup :: "'x signup_port \<Rightarrow> 'x gw_world signup_port" where
  "outside_signup p =
     \<lparr>sp_RegisterWithEmail = (\<lambda>i. on_ext (sp_RegisterWithEmail p i)),
      sp_VerifySignup = (\<lambda>i. on_ext (sp_VerifySignup p i))\<rparr>"

definition outside_tenants :: "'x tenant_port \<Rightarrow> 'x gw_world tenant_port" where
  "outside_tenants p = \<lparr>tp_ResolveTenant = (\<lambda>s. on_ext (tp_ResolveTenant p s))\<rparr>"

definition outside_flags :: "'x flag_port \<Rightarrow> 'x gw_world flag_port" where
  "outside_flags p = \<lparr>fp_ListFlags = on_ext (fp_ListFlags p)\<rparr>"

definition outside_limiter :: "'x limiter_port \<Rightarrow> 'x gw_world limiter_port" where
  "outside_limiter p = \<lparr>lp_Allow = (\<lambda>k pol. on_ext (lp_Allow p k pol))\<rparr>"

definition outside_clock :: "'x clock_port \<Rightarrow> 'x gw_world clock_port" where
  "outside_clock p = \<lparr>clk_Now = on_ext (clk_Now p)\<rparr>"

definition outside_codes :: "'x code_port \<Rightarrow> 'x gw_world code_port" where
  "outside_codes p = \<lparr>cgp_NewCode = on_ext (cgp_NewCode p)\<rparr>"

definition outside_assets :: "'x asset_port \<Rightarrow> 'x gw_world asset_port" where
  "outside_assets p =
     \<lparr>as_InstallScript = on_ext (as_InstallScript p), as_OpenAPISpec = on_ext (as_OpenAPISpec p),
      as_Manifest = on_ext (as_Manifest p)\<rparr>"

lemmas outside_defs =
  outside_auth_def outside_orgs_def outside_signup_def outside_tenants_def outside_flags_def
  outside_limiter_def outside_clock_def outside_codes_def outside_assets_def

subsection \<open>Startup\<close>

definition devInsecureJWTSecret :: string where
  "devInsecureJWTSecret = ''dev-insecure-change-me''"

definition resolveJWTSecret :: "string \<Rightarrow> bool \<Rightarrow> string" where
  "resolveJWTSecret secret dev =
     (if secret \<noteq> [] then secret else if dev then devInsecureJWTSecret else [])"

definition envOr :: "(string \<Rightarrow> string) \<Rightarrow> string \<Rightarrow> string \<Rightarrow> string" where
  "envOr getenv key fallback = (let v = getenv key in if v \<noteq> [] then v else fallback)"

definition EqualFold_ascii :: "string \<Rightarrow> string \<Rightarrow> bool" where
  "EqualFold_ascii s t \<longleftrightarrow> map ascii_lower s = map ascii_lower t"

definition gateway_deps ::
    "('x, 'k) externals \<Rightarrow> 'x client \<Rightarrow> 'x limiter_port option \<Rightarrow> 'x gw_world deps" where
  "gateway_deps e authClient limiter =
     \<lparr>dep_Auth = Some (outside_auth (client_auth authClient)),
      dep_Orgs = Some (outside_orgs (client_orgs authClient)),
      dep_Signup = Some (outside_signup (client_signup authClient)),
      dep_Tenants = Some (outside_tenants (client_tenants authClient)),
      dep_Flags = Some (outside_flags (client_flags authClient)),
      dep_Limiter = map_option outside_limiter limiter,
      dep_Clock = Some (outside_clock (system_clock (ext_Now e))),
      dep_Codes = Some (outside_codes (system_code (ext_Rand e))),
      dep_Challenges = Some memory_challenges,
      dep_Claims = Some memory_claims,
      dep_Assets = Some (outside_assets (file_assets
        \<lparr>files_root = ''openapi'', files_embedded = ext_InstallScript e,
         files_ReadFile = ext_ReadFile e\<rparr>)),
      dep_Audit = Some memory_audit,
      dep_Logger = Some (\<lambda>msg args. on_ext (ext_Log e msg args))\<rparr>"

definition gateway_runtime :: "('x, 'k) externals \<Rightarrow> 'x gw_world go_runtime" where
  "gateway_runtime e =
     \<lparr>rt_ToLower = ext_ToLower e, rt_Title = ext_Title e, rt_Now = on_ext (ext_Now e)\<rparr>"

definition new_world :: "'x \<Rightarrow> 'x gw_world" where
  "new_world x =
     \<lparr>w_challenges = NewChallenges, w_claims = NewClaims, w_audit = NewAuditStore, w_ext = x\<rparr>"

text \<open>\<^const>\<open>None\<close> is \<open>os.Exit(1)\<close> after the logged message.\<close>

definition exit_with :: "('x, 'k) externals \<Rightarrow> string \<Rightarrow> string list \<Rightarrow> ('x, 'a option) state" where
  "exit_with e msg args = ext_Log e msg args \<bind> (\<lambda>_. ret None)"

definition is_dev :: "('x, 'k) externals \<Rightarrow> bool" where
  "is_dev e \<longleftrightarrow> ext_Getenv e ''DEPLOYMENT_ENVIRONMENT'' = ''dev''"

definition choose_limiter :: "('x, 'k) externals \<Rightarrow> ('x, 'x limiter_port option option) state" where
  "choose_limiter e =
     (let addr = ext_Getenv e ''REDIS_ADDR'' in
      if addr \<noteq> [] then
        ext_Ping e addr \<bind> (\<lambda>err.
          case err of
            Some m \<Rightarrow> exit_with e ''redis ping failed'' [''error'', m]
          | None \<Rightarrow>
              ext_Log e ''rate limiting enabled'' [''redis'', addr] \<bind> (\<lambda>_.
              ret (Some (limiter_iface (New_adapter (Some (ext_RedisLimiter e addr)))))))
      else if is_dev e then
        ext_Log e ''rate limiting using memory limiter (dev, no REDIS_ADDR)'' [] \<bind> (\<lambda>_.
        ret (Some (limiter_iface (New_adapter (Some (ext_MemoryLimiter e))))))
      else exit_with e ''REDIS_ADDR is required outside DEPLOYMENT_ENVIRONMENT=dev'' [])"

definition gateway_options :: "('x, 'k) externals \<Rightarrow> options" where
  "gateway_options e =
     \<lparr>TrustProxy = EqualFold_ascii (ext_Getenv e ''RATE_LIMIT_TRUST_PROXY'') ''true'',
      JWTSecret = resolveJWTSecret (ext_Getenv e ''JWT_SECRET'') (is_dev e),
      StaffSecret = ext_Getenv e ''STAFF_SECRET''\<rparr>"

definition gateway_service ::
    "('x, 'k) externals \<Rightarrow> 'x client \<Rightarrow> 'x limiter_port option \<Rightarrow> 'x gw_world service" where
  "gateway_service e authClient limiter = NewService (gateway_deps e authClient limiter)"

definition gateway_server ::
    "('x, 'k) externals \<Rightarrow> 'x client \<Rightarrow> 'x limiter_port option \<Rightarrow> 'x gw_world server" where
  "gateway_server e authClient limiter =
     New (gateway_runtime e) (ext_RateKeys e) (ext_Middleware e)
       (gateway_service e authClient limiter) (gateway_options e)"

definition publish_keys ::
    "('x, 'k) externals \<Rightarrow> 'x gw_world server \<Rightarrow> ('x, 'x gw_world server option) state" where
  "publish_keys e srv =
     (let dir = ext_Getenv e ''JWT_PUBLIC_KEYS_DIR'' in
      if dir \<noteq> [] then
        jwks_Load (ext_Keys e) dir \<bind> (\<lambda>r.
          case r of
            Inl m \<Rightarrow> exit_with e ''jwks keys failed'' [''error'', m]
          | Inr doc \<Rightarrow>
              ext_Log e ''jwks published'' [''keys'', show_nat (jwks_keys doc)] \<bind> (\<lambda>_.
              ret (Some (ServeJWKS (jwks_body doc) srv))))
      else if \<not> is_dev e then
        exit_with e ''JWT_PUBLIC_KEYS_DIR is required outside DEPLOYMENT_ENVIRONMENT=dev'' []
      else ret (Some srv))"

text \<open>What \<open>main\<close> holds when it starts its two listeners.\<close>

record 'x running =
  run_srv :: "'x gw_world server"
  run_healthServer :: "'x gw_world server"
  run_authClient :: "'x client"
  run_httpPort :: string
  run_healthPort :: string

datatype 'x startup =
    Panicked string
  | Exited
  | Listening "'x running"

definition gateway_main :: "('x, 'k) externals \<Rightarrow> ('x, 'x startup) state" where
  "gateway_main e =
     ext_Configure e \<bind> (\<lambda>err. case err of Some m \<Rightarrow> ret (Panicked m) | None \<Rightarrow>
     if ext_Getenv e ''JWT_SECRET'' = [] \<and> \<not> is_dev e
     then exit_with e ''JWT_SECRET is required outside DEPLOYMENT_ENVIRONMENT=dev'' [] \<bind>
            (\<lambda>(_ :: unit option). ret Exited)
     else NewClient (ext_Dial e) (ext_HttpGet e)
            (envOr (ext_Getenv e) ''AUTH_GRPC_ADDR'' ''localhost:10010'') \<bind> (\<lambda>dialled.
     case dialled of
       Inl m \<Rightarrow> ext_Log e ''auth client failed'' [''error'', m] \<bind> (\<lambda>_. ret Exited)
     | Inr client \<Rightarrow>
         (let authClient =
                client\<lparr>AuthHTTPURL :=
                  envOr (ext_Getenv e) ''AUTH_HTTP_URL'' ''http://localhost:10011''\<rparr> in
          choose_limiter e \<bind> (\<lambda>chosen.
          case chosen of None \<Rightarrow> ret Exited | Some limiter \<Rightarrow>
          publish_keys e (gateway_server e authClient limiter) \<bind> (\<lambda>published.
          case published of None \<Rightarrow> ret Exited | Some srv \<Rightarrow>
            ret (Listening
              \<lparr>run_srv = srv,
               run_healthServer =
                 NewHealth (ext_Middleware e) (ext_HealthHandler e) (ext_ReadinessHandler e),
               run_authClient = authClient,
               run_httpPort = envOr (ext_Getenv e) ''HTTP_PORT'' ''10001'',
               run_healthPort = envOr (ext_Getenv e) ''HEALTH_PORT'' ''10014''\<rparr>))))))"

subsection \<open>Listening and shutdown\<close>

text \<open>
  The bodies of the two goroutines: a listener that fails is logged and nothing else.  \<open>app\<close> and
  \<open>happ\<close> are the Fiber applications of the two servers.
\<close>

definition serve_http ::
    "('x, 'k) externals \<Rightarrow> 'x gw_world fiber_app \<Rightarrow> 'x running \<Rightarrow> ('x gw_world, unit) state" where
  "serve_http e app p =
     on_ext (ext_Log e ''http listening'' [''port'', run_httpPort p]) \<bind> (\<lambda>_.
     Server_Listen app ('':'' @ run_httpPort p) \<bind> (\<lambda>err.
     case err of
       None \<Rightarrow> ret ()
     | Some m \<Rightarrow> on_ext (ext_Log e ''http failed'' [''error'', m])))"

definition serve_health ::
    "('x, 'k) externals \<Rightarrow> 'x gw_world fiber_app \<Rightarrow> 'x running \<Rightarrow> ('x gw_world, unit) state" where
  "serve_health e happ p =
     Server_Listen happ ('':'' @ run_healthPort p) \<bind> (\<lambda>err.
     case err of
       None \<Rightarrow> ret ()
     | Some m \<Rightarrow> on_ext (ext_Log e ''health failed'' [''error'', m]))"

text \<open>What \<open>observability.WaitForSignal\<close> is given to run when the process is told to stop.\<close>

definition on_shutdown ::
    "'x gw_world fiber_app \<Rightarrow> 'x gw_world fiber_app \<Rightarrow> 'x running \<Rightarrow> ('x gw_world, string option) state list" where
  "on_shutdown app happ p =
     [Server_Shutdown app, Server_Shutdown happ, on_ext (Client_Close (run_authClient p))]"

end
