(* ===== verification/App_Ownership.thy ===== *)
theory App_Ownership
  imports App_Service
begin

text \<open>
  The contract of \<open>internal/application/ownership.go\<close> over any challenge store: what issuing and
  verifying do on every branch, and that each issued challenge proves an address at most once,
  whatever the sequence of operations.  The locale \<open>ownership\<close> extends the store's contract by the
  wiring of the service; it is interpreted on the wired gateway in \<open>Gateway_Main\<close>.
\<close>

definition ownership_email :: "'w go_runtime \<Rightarrow> string \<Rightarrow> string" where
  "ownership_email rt email = TrimSpace (ToLower (rt_ToLower rt) email)"

lemma ownership_email_trimmed: "TrimSpace (ownership_email rt email) = ownership_email rt email"
  by (simp add: ownership_email_def TrimSpace_idem)

definition invalid_code :: go_error where
  "invalid_code = NewError KindUnauthenticated ''invalid or expired verification code''"

text \<open>
  The specification of verification, on the pending challenges alone: the answer and what stays
  pending, for a normalized address, a trimmed code and the time of the attempt.
\<close>

definition abs_verify ::
    "string \<Rightarrow> string \<Rightarrow> go_time \<Rightarrow> (string \<rightharpoonup> challenge) \<Rightarrow>
       (go_error + ownership_proof) \<times> (string \<rightharpoonup> challenge)" where
  "abs_verify a k now pending =
     (if a = [] \<or> k = []
      then (Inl (NewError KindInvalidArgument ''email and code are required''), pending)
      else case pending a of
        None \<Rightarrow> (Inl invalid_code, pending)
      | Some ch \<Rightarrow>
          if ch_Code ch = k \<and> now \<le> ch_ExpiresAt ch
          then (Inr \<lparr>op_Status = ''verified'', op_Email = a, op_DisplayName = [],
                    op_KeyFingerprint = KeyFingerprint a k now, op_VerifiedAt = now\<rparr>,
                pending(a := None))
          else (Inl invalid_code, pending))"

subsection \<open>Sequences of operations\<close>

datatype ownership_op = Issue string | Prove string string

fun op_email :: "'w go_runtime \<Rightarrow> ownership_op \<Rightarrow> string" where
  "op_email rt (Issue email) = ownership_email rt email"
| "op_email rt (Prove email code) = ownership_email rt email"

fun is_proof :: "ownership_op \<Rightarrow> bool" where
  "is_proof (Prove _ _) = True"
| "is_proof (Issue _) = False"

definition succeeded :: "go_error + 'a \<Rightarrow> bool" where
  "succeeded r = (case r of Inl _ \<Rightarrow> False | Inr _ \<Rightarrow> True)"

lemma succeeded_simps [simp]: "succeeded (Inr x)" "\<not> succeeded (Inl e)"
  by (simp_all add: succeeded_def)

fun run_op :: "'w go_runtime \<Rightarrow> 'w service \<Rightarrow> ownership_op \<Rightarrow> ('w, bool) state" where
  "run_op rt s (Issue email) = Challenge rt s email \<bind> (\<lambda>r. ret (succeeded r))"
| "run_op rt s (Prove email code) = VerifyChallenge rt s email code \<bind> (\<lambda>r. ret (succeeded r))"

fun run_ops :: "'w go_runtime \<Rightarrow> 'w service \<Rightarrow> ownership_op list \<Rightarrow> ('w, (ownership_op \<times> bool) list) state" where
  "run_ops rt s [] = ret []"
| "run_ops rt s (op # ops) =
     run_op rt s op \<bind> (\<lambda>b. run_ops rt s ops \<bind> (\<lambda>bs. ret ((op, b) # bs)))"

text \<open>How many operations of a history proved, or issued a challenge for, an address.\<close>

fun proofs_of :: "'w go_runtime \<Rightarrow> string \<Rightarrow> (ownership_op \<times> bool) list \<Rightarrow> nat" where
  "proofs_of rt e [] = 0"
| "proofs_of rt e ((op, b) # h) =
     (if b \<and> is_proof op \<and> op_email rt op = e then 1 else 0) + proofs_of rt e h"

fun issues_of :: "'w go_runtime \<Rightarrow> string \<Rightarrow> (ownership_op \<times> bool) list \<Rightarrow> nat" where
  "issues_of rt e [] = 0"
| "issues_of rt e ((op, b) # h) =
     (if b \<and> \<not> is_proof op \<and> op_email rt op = e then 1 else 0) + issues_of rt e h"

subsection \<open>The service over a challenge store\<close>

locale ownership = challenge_store port stored
  for port :: "'w challenge_port" and stored :: "'w \<Rightarrow> string \<Rightarrow> challenge option" +
  fixes s :: "'w service" and rt :: "'w go_runtime"
    and clock :: "'w clock_port" and codes :: "'w code_port"
  assumes challenges_wired: "svc_challenges s = Some port"
    and clock_wired: "svc_clock s = Some clock"
    and codes_wired: "svc_codes s = Some codes"
    and now_keeps: "preserves stored (clk_Now clock)"
    and code_keeps: "preserves stored (cgp_NewCode codes)"
    and limiter_keeps: "svc_limiter s = Some l \<Longrightarrow> preserves stored (lp_Allow l k p)"
begin

abbreviation now_at :: "'w \<Rightarrow> go_time" where
  "now_at w \<equiv> result_of (clk_Now clock) w"

lemma stored_now [simp]: "stored (world_after (clk_Now clock) w) = stored w"
  by (rule preservesD [OF now_keeps])

lemma preserves_limit: "preserves stored (checkIdentifierLimit rt s identifier)"
  unfolding checkIdentifierLimit_def allow_def
  by (intro frame_intros limiter_keeps
        | auto split: go_error.splits intro!: frame_intros limiter_keeps)+

text \<open>Verification on every branch.\<close>

lemma run_VerifyChallenge:
  "run_state (VerifyChallenge rt s email code) w =
     (let e = ownership_email rt email; c = TrimSpace code
      in if e = [] \<or> c = [] then (Inl (NewError KindInvalidArgument ''email and code are required''), w)
         else let now = now_at w;
                  w1 = world_after (clk_Now clock) w;
                  w2 = world_after (cp_Confirm port e (accepts_code c now)) w1
              in (case stored w e of
                    Some ch \<Rightarrow>
                      if accepts_code c now ch
                      then (Inr \<lparr>op_Status = ProofStatusVerified, op_Email = e, op_DisplayName = [],
                                 op_KeyFingerprint = KeyFingerprint e c now, op_VerifiedAt = now\<rparr>, w2)
                      else (Inl invalid_code, w2)
                  | None \<Rightarrow> (Inl invalid_code, w2)))"
proof (cases "ownership_email rt email = [] \<or> TrimSpace code = []")
  case True
  then show ?thesis by (auto simp: VerifyChallenge_def ownership_email_def Let_def)
next
  case False
  obtain now w1 where now: "run_state (clk_Now clock) w = (now, w1)" by (cases "run_state (clk_Now clock) w")
  let ?m = "cp_Confirm port (ownership_email rt email) (accepts_code (TrimSpace code) now)"
  obtain r w2 where confirm: "run_state ?m w1 = (r, w2)" by (cases "run_state ?m w1")
  have "stored w1 = stored w" using stored_now [of w] now by simp
  then have "r = (case stored w (ownership_email rt email) of None \<Rightarrow> None
      | Some c \<Rightarrow> if accepts_code (TrimSpace code) now c then Some c else None)"
    using Confirm_result [of "ownership_email rt email" "accepts_code (TrimSpace code) now" w1]
    by (simp add: confirm)
  with False now confirm show ?thesis
    by (simp add: VerifyChallenge_def ownership_email_def [symmetric] Let_def clock_wired
          challenges_wired invalid_code_def split: option.splits)
qed

lemma verify_success_iff:
  "succeeded (result_of (VerifyChallenge rt s email code) w) \<longleftrightarrow>
     ownership_email rt email \<noteq> [] \<and> TrimSpace code \<noteq> [] \<and>
     (\<exists>ch. stored w (ownership_email rt email) = Some ch \<and> ch_Code ch = TrimSpace code \<and>
           now_at w \<le> ch_ExpiresAt ch)"
  by (auto simp: run_VerifyChallenge Let_def accepts_code_def time_After_def split: option.splits)

lemma verify_effect:
  "stored (world_after (VerifyChallenge rt s email code) w) =
     (if succeeded (result_of (VerifyChallenge rt s email code) w)
      then (stored w)(ownership_email rt email := None) else stored w)"
  by (auto simp: run_VerifyChallenge Let_def stored_Confirm Confirm_result split: option.splits)

lemma verify_refines:
  "map_prod id stored (run_state (VerifyChallenge rt s email code) w) =
     abs_verify (ownership_email rt email) (TrimSpace code) (now_at w) (stored w)"
  by (auto simp: run_VerifyChallenge abs_verify_def Let_def accepts_code_def time_After_def
        stored_Confirm Confirm_result ProofStatusVerified_def split: option.splits)

text \<open>Issuing on every branch.\<close>

lemma issue_failure:
  assumes "run_state (Challenge rt s email) w = (Inl err, w')"
  shows "stored w' = stored w"
proof -
  have limit: "stored w1 = stored w"
    if "run_state (checkIdentifierLimit rt s (ownership_email rt email)) w = (r, w1)" for r w1
    using that by (rule preserves_run [OF preserves_limit])
  show ?thesis
    using assms limit
    by (auto simp: Challenge_def ownership_email_def [symmetric] Let_def clock_wired codes_wired
          challenges_wired split: if_splits prod.splits sum.splits)
qed

text \<open>The code of a challenge is drawn after the limit check and the clock is read after the code is drawn.\<close>

lemma issue_stores:
  assumes "run_state (Challenge rt s email) w = (Inr receipt, w')"
    and "u = world_after (checkIdentifierLimit rt s (ownership_email rt email)) w"
    and "v = world_after (cgp_NewCode codes) u"
  shows "ownership_email rt email \<noteq> [] \<and> CHR ''@'' \<in> set (ownership_email rt email) \<and>
    stored w' = (stored w)(ownership_email rt email \<mapsto>
       \<lparr>ch_Code = result_of (cgp_NewCode codes) u, ch_ExpiresAt = now_at v + ChallengeTTL\<rparr>)"
proof -
  let ?e = "ownership_email rt email"
  from assms(1) have shape: "?e \<noteq> []" "CHR ''@'' \<in> set ?e"
    by (auto simp: Challenge_def ownership_email_def [symmetric] Let_def split: if_splits)
  obtain r where limit: "run_state (checkIdentifierLimit rt s ?e) w = (r, u)"
    using assms(2) by (cases "run_state (checkIdentifierLimit rt s ?e) w") simp
  from assms(1) shape limit obtain l where r: "r = Inr l"
    by (cases r) (auto simp: Challenge_def ownership_email_def [symmetric] Let_def)
  obtain code where code: "run_state (cgp_NewCode codes) u = (code, v)"
    using assms(3) by (cases "run_state (cgp_NewCode codes) u") simp
  obtain now v' where now: "run_state (clk_Now clock) v = (now, v')"
    by (cases "run_state (clk_Now clock) v")
  from assms(1) shape limit code now
  have w': "w' = world_after (cp_Save port ?e \<lparr>ch_Code = code, ch_ExpiresAt = now + ChallengeTTL\<rparr>) v'"
    by (auto simp: r Challenge_def ownership_email_def [symmetric] Let_def clock_wired codes_wired
          challenges_wired split: prod.splits)
  have "stored u = stored w" using limit by (rule preserves_run [OF preserves_limit])
  moreover have "stored v = stored u" using code by (rule preserves_run [OF code_keeps])
  moreover have "stored v' = stored v" using now by (rule preserves_run [OF now_keeps])
  ultimately have "stored w' = (stored w)(?e \<mapsto> \<lparr>ch_Code = code, ch_ExpiresAt = now + ChallengeTTL\<rparr>)"
    by (simp add: w' stored_Save)
  moreover have "code = result_of (cgp_NewCode codes) u" "now = now_at v" using code now by simp_all
  ultimately show ?thesis using shape by simp
qed

lemma issue_success:
  assumes "run_state (Challenge rt s email) w = (Inr receipt, w')"
  shows "ownership_email rt email \<noteq> [] \<and> CHR ''@'' \<in> set (ownership_email rt email) \<and>
    (\<exists>u v. stored w' = (stored w)(ownership_email rt email \<mapsto>
       \<lparr>ch_Code = result_of (cgp_NewCode codes) u, ch_ExpiresAt = now_at v + ChallengeTTL\<rparr>))"
  using issue_stores [OF assms refl refl] by blast

text \<open>A challenge issued is accepted exactly with its code, until ten minutes have passed.\<close>

lemma issued_window:
  assumes "run_state (Challenge rt s email) w = (Inr receipt, w1)"
    and "stored w2 (ownership_email rt email) = stored w1 (ownership_email rt email)"
    and "u = world_after (checkIdentifierLimit rt s (ownership_email rt email)) w"
    and "v = world_after (cgp_NewCode codes) u"
  shows "succeeded (result_of (VerifyChallenge rt s email code) w2) \<longleftrightarrow>
    TrimSpace code \<noteq> [] \<and> TrimSpace code = result_of (cgp_NewCode codes) u \<and>
    now_at w2 \<le> now_at v + ChallengeTTL"
  using issue_stores [OF assms(1,3,4)] assms(2) by (auto simp: verify_success_iff)

subsubsection \<open>At most one proof per issued challenge\<close>

definition pending :: "'w \<Rightarrow> string \<Rightarrow> nat" where
  "pending w e = (if stored w e = None then 0 else 1)"

lemma pending_step:
  assumes "run_state (run_op rt s op) w = (b, w')"
  shows "(if b \<and> is_proof op \<and> op_email rt op = e then 1 else 0) + pending w' e
    \<le> (if b \<and> \<not> is_proof op \<and> op_email rt op = e then 1 else 0) + pending w e"
proof (cases op)
  case (Prove email code)
  let ?m = "VerifyChallenge rt s email code"
  from assms Prove have b: "b = succeeded (result_of ?m w)" and w': "w' = world_after ?m w"
    by (auto split: prod.splits)
  show ?thesis
    using verify_effect [of email code w] verify_success_iff [of email code w]
    by (auto simp: Prove b w' pending_def)
next
  case (Issue email)
  obtain r where run: "run_state (Challenge rt s email) w = (r, w')" and b: "b = succeeded r"
    using assms Issue by (auto split: prod.splits)
  show ?thesis
  proof (cases r)
    case (Inl err)
    with run have "stored w' = stored w" by (auto intro: issue_failure)
    then show ?thesis by (simp add: Issue b Inl pending_def)
  next
    case (Inr receipt)
    with run issue_success obtain ch where "stored w' = (stored w)(ownership_email rt email \<mapsto> ch)"
      by blast
    then show ?thesis by (auto simp: Issue b Inr pending_def)
  qed
qed

lemma proofs_bounded:
  "proofs_of rt e (result_of (run_ops rt s ops) w) \<le>
     issues_of rt e (result_of (run_ops rt s ops) w) + pending w e"
proof (induction ops arbitrary: w)
  case Nil
  then show ?case by simp
next
  case (Cons op ops)
  obtain b w1 where one: "run_state (run_op rt s op) w = (b, w1)" by (cases "run_state (run_op rt s op) w")
  obtain h w2 where rest: "run_state (run_ops rt s ops) w1 = (h, w2)"
    by (cases "run_state (run_ops rt s ops) w1")
  have "proofs_of rt e h \<le> issues_of rt e h + pending w1 e" using Cons.IH [of w1] rest by simp
  with pending_step [OF one, of e] one rest show ?case by (simp split: if_splits)
qed

end

end
