(* ===== verification/App_Onboarding.thy ===== *)
theory App_Onboarding
  imports App_Service
begin

text \<open>
  The contract of \<open>internal/application/onboarding.go\<close> over any claim cache: the outcome of a claim
  on every branch, what a cached claim looks like, and that in any history of claims each
  idempotency key is provisioned at most once and answered alike.  The locale \<open>onboarding\<close> extends
  the cache's contract; it is interpreted on the wired gateway in \<open>Gateway_Main\<close>.
\<close>

definition claim_token :: "claim_input \<Rightarrow> string" where
  "claim_token inp = TrimSpace (ci_InviteToken inp)"

definition claim_uid :: "'w go_runtime \<Rightarrow> claim_input \<Rightarrow> string" where
  "claim_uid rt inp = NormalizeUID (rt_ToLower rt) (ci_DesiredUID inp)"

definition claim_rejected :: "'w go_runtime \<Rightarrow> claim_input \<Rightarrow> bool" where
  "claim_rejected rt inp \<longleftrightarrow> claim_token inp = [] \<or> claim_uid rt inp = []"

definition cache_key :: "'w go_runtime \<Rightarrow> claim_input \<Rightarrow> string \<Rightarrow> string" where
  "cache_key rt inp idempotencyKey = claim_key idempotencyKey (claim_token inp) (claim_uid rt inp)"

definition provisioned :: "'w go_runtime \<Rightarrow> claim_input \<Rightarrow> claim_result" where
  "provisioned rt inp = provision (rt_Title rt) inp (claim_token inp) (claim_uid rt inp)"

text \<open>What every cached claim is: a first answer, with the credentials of its own token and UID.\<close>

definition first_answer :: "claim_result \<Rightarrow> bool" where
  "first_answer r \<longleftrightarrow> \<not> IdempotentReplay r \<and> cr_Status r = ClaimStatusProvisioned \<and>
     (\<exists>token. token \<noteq> [] \<and> cu_UID (cr_User r) \<noteq> [] \<and>
        cr_Credentials r = ClaimCredentialsFor token (cu_UID (cr_User r)))"

lemma provision_simps [simp]:
  "cr_Status (provision title inp token uid) = ClaimStatusProvisioned"
  "\<not> IdempotentReplay (provision title inp token uid)"
  "cu_UID (cr_User (provision title inp token uid)) = uid"
  "cr_Credentials (provision title inp token uid) = ClaimCredentialsFor token uid"
  by (simp_all add: provision_def split: prod.splits)

lemma first_answer_provisioned: "\<not> claim_rejected rt inp \<Longrightarrow> first_answer (provisioned rt inp)"
  by (auto simp: first_answer_def provisioned_def claim_rejected_def)

subsection \<open>Histories of claims\<close>

type_synonym claim_request = "claim_input \<times> string"

fun run_claims ::
    "'w go_runtime \<Rightarrow> 'w service \<Rightarrow> claim_request list \<Rightarrow>
       ('w, (claim_request \<times> (go_error + claim_result)) list) state" where
  "run_claims rt s [] = ret []"
| "run_claims rt s (q # qs) =
     Claim rt s (fst q) (snd q) \<bind> (\<lambda>r. run_claims rt s qs \<bind> (\<lambda>rs. ret ((q, r) # rs)))"

text \<open>The answered claims of a history under one key.\<close>

fun answers_for ::
    "'w go_runtime \<Rightarrow> string \<Rightarrow> (claim_request \<times> (go_error + claim_result)) list \<Rightarrow> claim_result list" where
  "answers_for rt k [] = []"
| "answers_for rt k ((q, r) # h) =
     (case r of
        Inl e \<Rightarrow> answers_for rt k h
      | Inr a \<Rightarrow> (if cache_key rt (fst q) (snd q) = k then a # answers_for rt k h
                 else answers_for rt k h))"

definition as_replay :: "claim_result \<Rightarrow> claim_result" where
  "as_replay r = r\<lparr>IdempotentReplay := True\<rparr>"

lemma as_replay_simps [simp]:
  "IdempotentReplay (as_replay r)" "as_replay (as_replay r) = as_replay r"
  "cr_User (as_replay r) = cr_User r" "cr_Credentials (as_replay r) = cr_Credentials r"
  by (simp_all add: as_replay_def)

text \<open>
  The specification of an accepted claim, on the cache alone: a cached key is replayed, a new one is
  answered with \<open>fresh\<close> and cached.
\<close>

definition abs_claim ::
    "string \<Rightarrow> claim_result \<Rightarrow> (string \<rightharpoonup> claim_result) \<Rightarrow> claim_result \<times> (string \<rightharpoonup> claim_result)" where
  "abs_claim key fresh cache =
     (case cache key of
        Some r \<Rightarrow> (as_replay r, cache)
      | None \<Rightarrow> (fresh, cache(key \<mapsto> fresh)))"

subsection \<open>The service over a claim cache\<close>

locale onboarding = claim_cache port cached
  for port :: "'w claim_port" and cached :: "'w \<Rightarrow> string \<Rightarrow> claim_result option" +
  fixes s :: "'w service" and rt :: "'w go_runtime"
  assumes claims_wired: "svc_claims s = Some port"
    and logger_keeps: "preserves cached (svc_logger s msg args)"
begin

lemma cached_log [simp]: "cached (world_after (svc_logger s msg args) w) = cached w"
  by (rule preservesD [OF logger_keeps])

lemma cached_after_get [simp]: "run_state (clp_Get port k) w = (r, w') \<Longrightarrow> cached w' = cached w"
  using cached_Get [of k w] by simp

lemma claim_result_spec:
  "result_of (Claim rt s inp k) w =
     (if claim_rejected rt inp
      then Inl (NewError KindInvalidArgument ''invite_token and desired_uid are required'')
      else case cached w (cache_key rt inp k) of
        Some r \<Rightarrow> Inr (as_replay r) | None \<Rightarrow> Inr (provisioned rt inp))"
  using Get_result [of "cache_key rt inp k" w]
  by (auto simp: Claim_def Let_def claim_token_def [symmetric] claim_uid_def [symmetric]
        cache_key_def [symmetric] claim_rejected_def claims_wired provisioned_def as_replay_def
        split: prod.splits option.splits)

lemma claim_effect:
  "cached (world_after (Claim rt s inp k) w) =
     (if claim_rejected rt inp \<or> cached w (cache_key rt inp k) \<noteq> None then cached w
      else (cached w)(cache_key rt inp k \<mapsto> provisioned rt inp))"
proof (cases "claim_rejected rt inp")
  case True
  then show ?thesis
    by (simp add: Claim_def Let_def claim_token_def [symmetric] claim_uid_def [symmetric]
          claim_rejected_def)
next
  case False
  let ?key = "cache_key rt inp k"
  obtain w1 where get: "run_state (clp_Get port ?key) w = (cached w ?key, w1)"
    using Get_result [of ?key w] by (cases "run_state (clp_Get port ?key) w") auto
  have w1: "cached w1 = cached w" using get by simp
  obtain w2 where put: "run_state (clp_Put port ?key (provisioned rt inp)) w1 = ((), w2)"
    by (cases "run_state (clp_Put port ?key (provisioned rt inp)) w1") auto
  have w2: "cached w2 = (cached w)(?key \<mapsto> provisioned rt inp)"
    using cached_Put [of ?key "provisioned rt inp" w1] put by (simp add: w1)
  show ?thesis
  proof (cases "cached w ?key")
    case None
    with False get put w2 show ?thesis
      by (simp add: Claim_def Let_def claim_token_def [symmetric] claim_uid_def [symmetric]
            cache_key_def [symmetric] claim_rejected_def claims_wired provisioned_def)
  next
    case (Some r)
    with False get w1 show ?thesis
      by (simp add: Claim_def Let_def claim_token_def [symmetric] claim_uid_def [symmetric]
            cache_key_def [symmetric] claim_rejected_def claims_wired)
  qed
qed

lemma claim_refines:
  "map_prod id cached (run_state (Claim rt s inp k) w) =
     (if claim_rejected rt inp
      then (Inl (NewError KindInvalidArgument ''invite_token and desired_uid are required''), cached w)
      else map_prod Inr id (abs_claim (cache_key rt inp k) (provisioned rt inp) (cached w)))"
proof -
  have "map_prod id cached p = (fst p, cached (snd p))" for p :: "(go_error + claim_result) \<times> 'w"
    by (cases p) simp
  then show ?thesis by (auto simp: claim_result_spec claim_effect abs_claim_def split: option.splits)
qed

lemma cache_grows: "cached w \<subseteq>\<^sub>m cached (world_after (Claim rt s inp k) w)"
  by (auto simp: claim_effect map_le_def)

lemma replay_of_cached:
  "\<not> claim_rejected rt inp \<Longrightarrow> cached w (cache_key rt inp k) = Some r \<Longrightarrow>
     result_of (Claim rt s inp k) w = Inr (as_replay r)"
  by (simp add: claim_result_spec)

lemma claim_then_cached:
  assumes "result_of (Claim rt s inp k) w = Inr a"
  shows "\<exists>r. cached (world_after (Claim rt s inp k) w) (cache_key rt inp k) = Some r \<and>
    as_replay a = as_replay r \<and> (\<not> IdempotentReplay a \<longrightarrow> a = r \<and> cached w (cache_key rt inp k) = None)"
  using assms
  by (auto simp: claim_result_spec claim_effect split: if_splits option.splits)

lemma replayed_later:
  assumes "result_of (Claim rt s inp k) w = Inr a"
    and "cached (world_after (Claim rt s inp k) w) \<subseteq>\<^sub>m cached w2"
    and "\<not> claim_rejected rt inp2" and "cache_key rt inp2 k2 = cache_key rt inp k"
  shows "result_of (Claim rt s inp2 k2) w2 = Inr (as_replay a)"
    and "cached (world_after (Claim rt s inp2 k2) w2) = cached w2"
proof -
  from claim_then_cached [OF assms(1)] obtain r
    where r: "cached (world_after (Claim rt s inp k) w) (cache_key rt inp k) = Some r"
      and a: "as_replay a = as_replay r" by blast
  with assms(2,4) have "cached w2 (cache_key rt inp2 k2) = Some r"
    by (auto simp: map_le_def dom_def)
  with assms(3) a show "result_of (Claim rt s inp2 k2) w2 = Inr (as_replay a)"
    and "cached (world_after (Claim rt s inp2 k2) w2) = cached w2"
    by (auto simp: claim_result_spec claim_effect)
qed

lemma first_answers_kept:
  assumes "\<forall>r \<in> ran (cached w). first_answer r"
  shows "\<forall>r \<in> ran (cached (world_after (Claim rt s inp k) w)). first_answer r"
  using assms by (auto simp: claim_effect ran_def first_answer_provisioned)

subsubsection \<open>Histories\<close>

text \<open>Once a key is cached, every later answer under it is a replay of the cached claim.\<close>

lemma answers_after_cached:
  assumes "cached w k = Some r"
  shows "set (answers_for rt k (result_of (run_claims rt s qs) w)) \<subseteq> {as_replay r}"
  using assms
proof (induction qs arbitrary: w)
  case Nil
  then show ?case by simp
next
  case (Cons q qs)
  obtain a w1 where one: "run_state (Claim rt s (fst q) (snd q)) w = (a, w1)"
    by (cases "run_state (Claim rt s (fst q) (snd q)) w")
  obtain h w2 where rest: "run_state (run_claims rt s qs) w1 = (h, w2)"
    by (cases "run_state (run_claims rt s qs) w1")
  have "cached w1 k = Some r"
    using cache_grows [of w "fst q" "snd q"] Cons.prems one
    by (auto simp: map_le_def dom_def)
  then have IH: "set (answers_for rt k h) \<subseteq> {as_replay r}" using Cons.IH [of w1] rest by simp
  show ?case
  proof (cases a)
    case (Inl e)
    then show ?thesis using IH one rest by simp
  next
    case (Inr x)
    have "x = as_replay r" if "cache_key rt (fst q) (snd q) = k"
      using claim_result_spec [of "fst q" "snd q" w] Cons.prems one that Inr
      by (auto split: if_splits)
    then show ?thesis using IH one rest Inr by simp
  qed
qed

lemma history_idempotent:
  "\<exists>r. case answers_for rt k (result_of (run_claims rt s qs) w) of
         [] \<Rightarrow> True
       | a # as \<Rightarrow> as_replay a = as_replay r \<and> set as \<subseteq> {as_replay r}"
proof (induction qs arbitrary: w)
  case Nil
  then show ?case by simp
next
  case (Cons q qs)
  obtain a w1 where one: "run_state (Claim rt s (fst q) (snd q)) w = (a, w1)"
    by (cases "run_state (Claim rt s (fst q) (snd q)) w")
  obtain h w2 where rest: "run_state (run_claims rt s qs) w1 = (h, w2)"
    by (cases "run_state (run_claims rt s qs) w1")
  show ?case
  proof (cases "\<exists>x. a = Inr x \<and> cache_key rt (fst q) (snd q) = k")
    case True
    then obtain x where x: "a = Inr x" and key: "cache_key rt (fst q) (snd q) = k" by blast
    have "result_of (Claim rt s (fst q) (snd q)) w = Inr x" using one x by simp
    from claim_then_cached [OF this] obtain r where "cached w1 k = Some r" "as_replay x = as_replay r"
      using one key by auto
    with answers_after_cached [of w1 k r qs] rest show ?thesis
      using one x key by (auto intro!: exI [of _ r])
  next
    case False
    then have "answers_for rt k ((q, a) # h) = answers_for rt k h" by (auto split: sum.splits)
    with Cons.IH [of w1] one rest show ?thesis by simp
  qed
qed

end

subsection \<open>Keys and credentials\<close>

text \<open>
  Without an idempotency key the cache key and the digest behind the credentials are taken from the
  same string \<open>token:uid\<close>, so two claims that agree on it agree on the derived secrets.
\<close>

lemma same_key_same_secrets:
  assumes "claim_key [] t u = claim_key [] t' u'"
  shows "ForgejoMCPToken (ClaimCredentialsFor t u) = ForgejoMCPToken (ClaimCredentialsFor t' u')"
    and "WireGuardConfig (ClaimCredentialsFor t u) = WireGuardConfig (ClaimCredentialsFor t' u')"
  using assms by (simp_all add: claim_key_def ClaimCredentialsFor_def claim_digest_def Let_def)

lemma claim_key_unique:
  assumes "CHR '':'' \<notin> set t" and "CHR '':'' \<notin> set t'"
    and "claim_key [] t u = claim_key [] t' u'"
  shows "t = t' \<and> u = u'"
proof -
  have split: "takeWhile (\<lambda>c. c \<noteq> CHR '':'') (s @ '':'' @ v) = s" if "CHR '':'' \<notin> set s" for s v
    using that by (induction s) auto
  from assms have "t = t'" by (metis claim_key_def split)
  with assms(3) show ?thesis by (simp add: claim_key_def)
qed

end
