(* ===== verification/Http_Guards.thy ===== *)
theory Http_Guards
  imports Http_Orgs Http_Middleware
begin

text \<open>
  The contract every middleware of the edge shares: it either answers the request itself or runs the
  next handler on the request and writer it prepared, and what it does before that does not depend on
  the next handler.  The locale \<open>guard\<close> states it by a verdict; it is interpreted on the class
  limiter, the route limiters and the three token checks, and two guards in a row are a guard.
\<close>

locale guard =
  fixes wrapper :: "'w handler \<Rightarrow> 'w handler"
    and verdict :: "request \<Rightarrow> response \<Rightarrow> ('w, response + request \<times> response) state"
  assumes guarded:
    "wrapper next r w = verdict r w \<bind> (\<lambda>v. case v of Inl w' \<Rightarrow> ret w' | Inr (r', w') \<Rightarrow> next r' w')"
begin

lemma denied: "run_state (verdict r w) s = (Inl w', s') \<Longrightarrow> run_state (wrapper next r w) s = (w', s')"
  by (simp add: guarded)

lemma passed:
  "run_state (verdict r w) s = (Inr (r', w'), s') \<Longrightarrow>
     run_state (wrapper next r w) s = run_state (next r' w') s'"
  by (simp add: guarded)

lemma keeps_guarded:
  "(\<And>r w. keeps I (verdict r w)) \<Longrightarrow> (\<And>r w. keeps I (next r w)) \<Longrightarrow> keeps I (wrapper next r w)"
  unfolding guarded by (intro keep_intros)

lemma denial_ignores_next:
  "\<exists>w'. fst (run_state (verdict r w) s) = Inl w' \<Longrightarrow>
     run_state (wrapper next r w) s = run_state (wrapper next' r w) s"
  by (cases "run_state (verdict r w) s") (auto simp: denied)

end

locale guard_pair = outer: guard wrapper1 verdict1 + inner: guard wrapper2 verdict2
  for wrapper1 :: "'w handler \<Rightarrow> 'w handler" and verdict1
    and wrapper2 :: "'w handler \<Rightarrow> 'w handler" and verdict2
begin

definition both :: "request \<Rightarrow> response \<Rightarrow> ('w, response + request \<times> response) state" where
  "both r w = verdict1 r w \<bind> (\<lambda>v. case v of Inl w' \<Rightarrow> ret (Inl w') | Inr (r', w') \<Rightarrow> verdict2 r' w')"

end

sublocale guard_pair \<subseteq> both: guard "\<lambda>next. wrapper1 (wrapper2 next)" both
  by unfold_locales
     (rule state_ext, auto simp: both_def outer.guarded inner.guarded split: prod.splits sum.splits)

subsection \<open>The limiters\<close>

text \<open>What a checked limit means for the request.\<close>

definition limit_verdict ::
    "('w, decision) call \<Rightarrow> request \<Rightarrow> response \<Rightarrow> ('w, response + request \<times> response) state" where
  "limit_verdict check r w =
     check \<bind> (\<lambda>checked. ret (case checked of
        Inl err \<Rightarrow> Inl (writeLimitError err w) | Inr d \<Rightarrow> Inr (r, setRateLimitHeaders d w)))"

definition class_verdict ::
    "'w handlers \<Rightarrow> string \<Rightarrow> request \<Rightarrow> response \<Rightarrow> ('w, response + request \<times> response) state" where
  "class_verdict h class r w =
     (if \<not> HasLimiter (h_svc h) then ret (Inr (r, w))
      else limit_verdict (CheckClassLimit (h_svc h) class (clientIP r (h_trustProxy h))) r w)"

definition route_verdict ::
    "'w handlers \<Rightarrow> (request \<Rightarrow> string) \<Rightarrow> policy \<Rightarrow> request \<Rightarrow> response \<Rightarrow>
       ('w, response + request \<times> response) state" where
  "route_verdict h key policy r w =
     (if \<not> HasLimiter (h_svc h) \<or> key r = [] then ret (Inr (r, w))
      else limit_verdict (CheckKeyLimit (h_svc h) (key r) policy) r w)"

definition ip_key :: "'w handlers \<Rightarrow> string \<Rightarrow> request \<Rightarrow> string" where
  "ip_key h route r = KeyForIP (h_lib h) (clientIP r (h_trustProxy h)) route"

definition org_key :: "'w handlers \<Rightarrow> string \<Rightarrow> request \<Rightarrow> string" where
  "org_key h route r = KeyForOrg (h_lib h) (PathValue r ''org_id'') route"

interpretation class_guard: guard "wrap h cl" "class_verdict h cl" for h cl
  by unfold_locales
     (rule state_ext, auto simp: wrap_def class_verdict_def limit_verdict_def split: prod.splits sum.splits)

interpretation ip_guard: guard "wrapIP h route limit" "route_verdict h (ip_key h route) (IPRoutePolicy route limit)"
  for h route limit
  by unfold_locales
     (rule state_ext, auto simp: wrapIP_def applyRouteLimit_def route_verdict_def limit_verdict_def
        ip_key_def split: prod.splits sum.splits)

interpretation org_guard: guard "wrapOrg h route" "route_verdict h (org_key h route) (OrgRoutePolicy route)"
  for h route
  by unfold_locales
     (rule state_ext, auto simp: wrapOrg_def applyRouteLimit_def route_verdict_def limit_verdict_def
        org_key_def split: prod.splits sum.splits)

text \<open>The three outcomes of a limit check on a wired limiter.\<close>

lemma run_allow:
  assumes "svc_limiter s = Some l"
  shows "run_state (allow s key policy) u =
    (case run_state (lp_Allow l key policy) u of
       (Inl e, u') \<Rightarrow> (Inl (if e = NilDeref then NilDeref
                          else LimitErr \<lparr>le_Decision = zero_decision, Unavailable = True\<rparr>), u')
     | (Inr d, u') \<Rightarrow> (if Allowed d then Inr d
                      else Inl (LimitErr \<lparr>le_Decision = d, Unavailable = False\<rparr>), u'))"
  by (auto simp: allow_def assms split: prod.splits sum.splits go_error.splits)

definition limit_denied :: "decision \<Rightarrow> response \<Rightarrow> response" where
  "limit_denied d w = writeLimitError (LimitErr \<lparr>le_Decision = d, Unavailable = False\<rparr>) w"

definition limit_unavailable :: "response \<Rightarrow> response" where
  "limit_unavailable w = writeLimitError (LimitErr \<lparr>le_Decision = zero_decision, Unavailable = True\<rparr>) w"

lemma limit_denied_simps [simp]:
  "rw_Status w = None \<Longrightarrow> rw_Status (limit_denied d w) = Some 429"
  "rw_Header (limit_denied d w) = (rw_Header w)(''X-Ratelimit-Limit'' \<mapsto> show_int (Limit d),
     ''X-Ratelimit-Remaining'' \<mapsto> show_int (Remaining d),
     ''X-Ratelimit-Reset'' \<mapsto> show_int (time_Unix (ResetAt d)),
     ''Retry-After'' \<mapsto> show_int (retry_seconds d), ''Content-Type'' \<mapsto> ''application/json'')"
  "rw_Panic (limit_denied d w) = rw_Panic w"
  by (simp_all add: limit_denied_def writeLimitError_def)

lemma limit_unavailable_simps [simp]:
  "rw_Status w = None \<Longrightarrow> rw_Status (limit_unavailable w) = Some 503"
  "rw_Header (limit_unavailable w) = (rw_Header w)(''Retry-After'' \<mapsto> ''5'',
     ''Content-Type'' \<mapsto> ''application/json'')"
  "rw_Panic (limit_unavailable w) = rw_Panic w"
  by (simp_all add: limit_unavailable_def writeLimitError_def)

lemma limit_verdict_outcomes:
  assumes "svc_limiter s = Some l" and "run_state (lp_Allow l key policy) u = (outcome, u')"
    and "outcome \<noteq> Inl NilDeref"
  shows "run_state (limit_verdict (allow s key policy) r w) u =
    (case outcome of
       Inl e \<Rightarrow> Inl (limit_unavailable w)
     | Inr d \<Rightarrow> if Allowed d then Inr (r, setRateLimitHeaders d w) else Inl (limit_denied d w), u')"
  using assms
  by (auto simp: limit_verdict_def run_allow limit_denied_def limit_unavailable_def
        split: sum.splits)

subsection \<open>The token checks\<close>

definition dual_verdict ::
    "'w token_auth \<Rightarrow> request \<Rightarrow> response \<Rightarrow> ('w, response + request \<times> response) state" where
  "dual_verdict a r w =
     (if misconfigured a then ret (Inl (writeJSON 500 (error_body ''auth misconfigured'') w))
      else let authorization = Header_Get r ''Authorization'' in
        if \<not> HasPrefix authorization ''Bearer ''
        then ret (Inl (writeJSON 401 (error_body ''missing bearer token'') w))
        else let tokenString = TrimPrefix authorization ''Bearer '' in
          if HasPrefix tokenString ''oat_''
          then on_port (ta_svc a) (\<lambda>svc. ValidateAPIToken svc tokenString) \<bind> (\<lambda>validated.
            ret (case validated of
              Inl e \<Rightarrow> Inl (if e = NilDeref then abort w
                           else writeJSON 401 (error_body ''invalid token'') w)
            | Inr identity \<Rightarrow>
                if \<not> scopesAllow (rt_ToLower (ta_rt a)) r (Scopes identity)
                then Inl (writeJSON 403 (error_body ''insufficient scope'') w)
                else Inr (WithContext ((req_Context r)\<lparr>ctx_userID := Some (UserID identity),
                              ctx_isStaff := Some False, ctx_scope := Some (Scopes identity)\<rparr>)
                            (req_Header_Set ''X-User-Id'' (UserID identity) r), w)))
          else jwtSubject a w tokenString \<bind> (\<lambda>checked.
            ret (case checked of
              Inl w' \<Rightarrow> Inl w'
            | Inr (subject, claims) \<Rightarrow>
                Inr (WithContext (enrichContext (req_Context r) claims subject)
                       (req_Header_Set ''X-User-Id'' subject r), w))))"

definition jwt_verdict ::
    "'w token_auth \<Rightarrow> request \<Rightarrow> response \<Rightarrow> ('w, response + request \<times> response) state" where
  "jwt_verdict a r w =
     (if misconfigured a then ret (Inl (writeJSON 500 (error_body ''auth misconfigured'') w))
      else let authorization = Header_Get r ''Authorization'' in
        if \<not> HasPrefix authorization ''Bearer ''
        then ret (Inl (writeJSON 401 (error_body ''missing bearer token'') w))
        else jwtSubject a w (TrimPrefix authorization ''Bearer '') \<bind> (\<lambda>checked.
          ret (case checked of
            Inl w' \<Rightarrow> Inl w'
          | Inr (subject, claims) \<Rightarrow>
              Inr (WithContext (enrichContext (req_Context r) claims subject) r, w))))"

definition staff_subject_of :: "jwt_claims \<Rightarrow> string" where
  "staff_subject_of claims =
     (let sub = or_zero (as_str (claims ''sub''))
      in if sub = [] then StaffSubject (fst (extractStaffIdentity claims)) else sub)"

definition staff_verdict ::
    "'w token_auth \<Rightarrow> request \<Rightarrow> response \<Rightarrow> ('w, response + request \<times> response) state" where
  "staff_verdict a r w =
     (if misconfigured a then ret (Inl (writeJSON 500 (error_body ''auth misconfigured'') w))
      else if IsStaffFromContext (req_Context r) then ret (Inr (r, w))
      else if UserIDFromContext (req_Context r) \<noteq> []
      then ret (Inl (writeJSON 403 (error_body ''staff access required'') w))
      else let authorization = Header_Get r ''Authorization'' in
        if \<not> HasPrefix authorization ''Bearer ''
        then ret (Inl (writeJSON 401 (error_body ''missing bearer token'') w))
        else parseToken a (TrimPrefix authorization ''Bearer '') \<bind> (\<lambda>parsed.
            ret (case parsed of
              None \<Rightarrow> Inl (writeJSON 401 (error_body ''invalid token'') w)
            | Some claims \<Rightarrow>
                if \<not> snd (extractStaffIdentity claims)
                then Inl (writeJSON 403 (error_body ''staff access required'') w)
                else Inr (WithContext
                       (enrichContext (req_Context r) claims (staff_subject_of claims)) r, w))))"

interpretation dual_guard: guard "Dual a" "dual_verdict a" for a
  by unfold_locales
     (rule state_ext, auto simp: Dual_def dual_verdict_def Let_def split: prod.splits sum.splits)

interpretation jwt_guard: guard "JWT a" "jwt_verdict a" for a
  by unfold_locales
     (rule state_ext, auto simp: JWT_def jwt_verdict_def Let_def split: prod.splits sum.splits)

interpretation staff_guard: guard "RequireStaff a" "staff_verdict a" for a
  by unfold_locales
     (rule state_ext, auto simp: RequireStaff_def staff_verdict_def staff_subject_of_def Let_def
        split: prod.splits option.splits)

interpretation dual_staff: guard_pair "Dual a" "dual_verdict a" "RequireStaff b" "staff_verdict b" for a b
  by unfold_locales

end
