(* ===== verification/App_Audit.thy ===== *)
theory App_Audit
  imports App_Service
begin

text \<open>
  The contract of \<open>Service.RecordAudit\<close> over any audit store: exactly one entry is appended, with the
  caller's fields, and what the caller left empty is filled in.  The locale \<open>auditing\<close> extends the
  store's contract; it is interpreted on the wired gateway in \<open>Gateway_Main\<close>.
\<close>

text \<open>The entry without the two fields \<open>RecordAudit\<close> may fill in.\<close>

definition audit_facts :: "audit_entry \<Rightarrow> audit_entry" where
  "audit_facts e = e\<lparr>ae_ID := [], ae_Timestamp := zero_time\<rparr>"

lemma audit_facts_simps [simp]:
  "audit_facts (e\<lparr>ae_ID := i\<rparr>) = audit_facts e"
  "audit_facts (e\<lparr>ae_Timestamp := t\<rparr>) = audit_facts e"
  by (simp_all add: audit_facts_def)

lemma audit_facts_fields:
  assumes "audit_facts e = audit_facts f"
  shows "ae_OrgID e = ae_OrgID f \<and> ae_Actor e = ae_Actor f \<and> ae_ActorType e = ae_ActorType f \<and>
    ae_IsStaff e = ae_IsStaff f \<and> ae_BreakGlass e = ae_BreakGlass f \<and> ae_Reason e = ae_Reason f \<and>
    ae_Action e = ae_Action f \<and> ae_Resource e = ae_Resource f"
  using assms by (cases e; cases f) (simp add: audit_facts_def)

locale auditing = audit_store port entries
  for port :: "'w audit_port" and entries :: "'w \<Rightarrow> audit_entry list" +
  fixes s :: "'w service" and rt :: "'w go_runtime"
  assumes audit_wired: "svc_audit s = Some port"
    and clock_keeps: "svc_clock s = Some c \<Longrightarrow> preserves entries (clk_Now c)"
    and runtime_keeps: "preserves entries (rt_Now rt)"
    and codes_keep: "svc_codes s = Some g \<Longrightarrow> preserves entries (cgp_NewCode g)"
begin

lemma HasAudit_wired [simp]: "HasAudit s"
  by (simp add: HasAudit_def audit_wired)

text \<open>The two steps before the entry reaches the store.\<close>

lemma stamped:
  assumes "run_state (if ae_Timestamp e = zero_time
      then (case svc_clock s of Some c \<Rightarrow> clk_Now c | None \<Rightarrow> rt_Now rt)
             \<bind> (\<lambda>now. ret (e\<lparr>ae_Timestamp := now\<rparr>))
      else ret e) w = (e1, w1)"
  shows "entries w1 = entries w \<and> audit_facts e1 = audit_facts e \<and> ae_ID e1 = ae_ID e \<and>
    (ae_Timestamp e \<noteq> zero_time \<longrightarrow> e1 = e)"
proof -
  have "preserves entries (case svc_clock s of Some c \<Rightarrow> clk_Now c | None \<Rightarrow> rt_Now rt)"
    using clock_keeps runtime_keeps by (auto split: option.splits)
  from preserves_run [OF this] show ?thesis
    using assms by (auto split: if_splits prod.splits)
qed

lemma identified:
  assumes "run_state (if ae_ID e1 = []
      then (case svc_codes s of
              Some g \<Rightarrow> cgp_NewCode g \<bind> (\<lambda>code.
                ret (e1\<lparr>ae_ID := ''audit-'' @ code @ ''-'' @ show_int (time_UnixNano (ae_Timestamp e1))\<rparr>))
            | None \<Rightarrow> ret (e1\<lparr>ae_ID := ''audit-'' @ show_int (time_UnixNano (ae_Timestamp e1))\<rparr>))
      else ret e1) w = (e2, w2)"
  shows "entries w2 = entries w \<and> audit_facts e2 = audit_facts e1 \<and>
    ae_Timestamp e2 = ae_Timestamp e1 \<and> ae_ID e2 \<noteq> [] \<and> (ae_ID e1 \<noteq> [] \<longrightarrow> e2 = e1)"
proof (cases "ae_ID e1 = [] \<and> svc_codes s \<noteq> None")
  case True
  then obtain g where g: "svc_codes s = Some g" by auto
  show ?thesis using assms True preserves_run [OF codes_keep [OF g]]
    by (auto simp: g split: prod.splits)
next
  case False
  then show ?thesis using assms by (auto split: if_splits option.splits)
qed

lemma RecordAudit_appends:
  obtains e' w' where "run_state (RecordAudit rt s e) w = (Inr (), w')"
    and "entries w' = entries w @ [e']" and "audit_facts e' = audit_facts e" and "ae_ID e' \<noteq> []"
    and "ae_Timestamp e \<noteq> zero_time \<and> ae_ID e \<noteq> [] \<longrightarrow> e' = e"
proof -
  let ?m = "if ae_Timestamp e = zero_time
      then (case svc_clock s of Some c \<Rightarrow> clk_Now c | None \<Rightarrow> rt_Now rt)
             \<bind> (\<lambda>now. ret (e\<lparr>ae_Timestamp := now\<rparr>))
      else ret e"
  obtain e1 w1 where one: "run_state ?m w = (e1, w1)" by (cases "run_state ?m w")
  let ?n = "if ae_ID e1 = []
      then (case svc_codes s of
              Some g \<Rightarrow> cgp_NewCode g \<bind> (\<lambda>code.
                ret (e1\<lparr>ae_ID := ''audit-'' @ code @ ''-'' @ show_int (time_UnixNano (ae_Timestamp e1))\<rparr>))
            | None \<Rightarrow> ret (e1\<lparr>ae_ID := ''audit-'' @ show_int (time_UnixNano (ae_Timestamp e1))\<rparr>))
      else ret e1"
  obtain e2 w2 where two: "run_state ?n w1 = (e2, w2)" by (cases "run_state ?n w1")
  obtain w3 where three: "run_state (au_Record port e2) w2 = (Inr (), w3)"
    using Record_result [of e2 w2] by (cases "run_state (au_Record port e2) w2") auto
  have "run_state (RecordAudit rt s e) w = (Inr (), w3)"
    unfolding RecordAudit_def audit_wired option.case run_state_bind one two three
      split_beta fst_conv snd_conv by simp
  moreover have "entries w3 = entries w @ [e2]"
    using entries_Record [of e2 w2] three stamped [OF one] identified [OF two] by simp
  ultimately show ?thesis
    using that stamped [OF one] identified [OF two] by (metis audit_facts_simps)
qed

end

end
