(* ===== verification/Http_Access.thy ===== *)
theory Http_Access
  imports Http_Guards App_Audit
begin

text \<open>
  What the token checks admit: the facts about parsed tokens, staff claims, scopes and contexts, and
  for \<open>Dual\<close>, \<open>JWT\<close> and \<open>RequireStaff\<close> the two ways a request can go.  Then what break-glass and the
  audit hook put into an audit store, over any store that keeps its contract.
\<close>

subsection \<open>Tokens, claims and scopes\<close>

text \<open>The JWT library accepts the token for the HS256 key \<open>sec\<close> and its claims are \<open>c\<close>.\<close>

definition accepts_token :: "'w token_auth \<Rightarrow> string \<Rightarrow> string \<Rightarrow> jwt_claims \<Rightarrow> bool" where
  "accepts_token a tok sec c \<longleftrightarrow>
     sec \<noteq> [] \<and> (\<exists>t. result_of (ta_ParseWithClaims a tok (hs256_key sec) [''HS256'']) t = Some (c, True))"

definition configured_secrets :: "'w token_auth \<Rightarrow> string set" where
  "configured_secrets a = {ta_secret a, ta_staffSecret a} - {[]}"

lemma try_secrets_sound:
  assumes "run_state (try_secrets jwt tok secs) u = (Some c, u')"
  shows "\<exists>sec \<in> set secs. sec \<noteq> [] \<and>
    (\<exists>t. result_of (jwt tok (hs256_key sec) [''HS256'']) t = Some (c, True))"
  using assms
proof (induction secs arbitrary: u)
  case Nil
  then show ?case by simp
next
  case (Cons sec secs)
  show ?case
  proof (cases "sec = []")
    case True
    with Cons show ?thesis by auto
  next
    case False
    obtain p v where parsed: "run_state (jwt tok (hs256_key sec) [''HS256'']) u = (p, v)"
      by (cases "run_state (jwt tok (hs256_key sec) [''HS256'']) u")
    show ?thesis
    proof (cases "p = Some (c, True)")
      case True
      with False parsed show ?thesis by (auto intro!: exI [of _ u])
    next
      case other: False
      with Cons.prems False parsed have "run_state (try_secrets jwt tok secs) v = (Some c, u')"
        by (auto split: option.splits if_splits prod.splits)
      with Cons.IH show ?thesis by auto
    qed
  qed
qed

lemma parseToken_sound:
  assumes "run_state (parseToken a tok) u = (Some c, u')"
  shows "\<exists>sec \<in> configured_secrets a. accepts_token a tok sec c"
proof -
  from try_secrets_sound [OF assms [unfolded parseToken_def]] obtain sec t
    where "sec \<in> set (parse_secrets a)" "sec \<noteq> []"
      "result_of (ta_ParseWithClaims a tok (hs256_key sec) [''HS256'']) t = Some (c, True)" by blast
  then show ?thesis
    by (auto simp: configured_secrets_def accepts_token_def parse_secrets_def split: if_splits)
qed

lemma some_scope_allows_iff:
  "some_scope_allows uni needWrite scopes \<longleftrightarrow>
     (\<exists>sc \<in> set scopes. ToLower uni (TrimSpace sc) = ''write'' \<or>
        \<not> needWrite \<and> ToLower uni (TrimSpace sc) = ''read'')"
  by (induction scopes) (auto simp: Let_def)

definition reads_only :: "request \<Rightarrow> bool" where
  "reads_only r \<longleftrightarrow> req_Method r \<in> {''GET'', ''HEAD'', ''OPTIONS''}"

lemma scopesAllow_iff:
  "scopesAllow uni r scopes \<longleftrightarrow>
     scopes = [] \<or>
     (\<exists>sc \<in> set scopes. ToLower uni (TrimSpace sc) = ''write'' \<or>
        reads_only r \<and> ToLower uni (TrimSpace sc) = ''read'')"
  by (auto simp: scopesAllow_def Let_def some_scope_allows_iff reads_only_def)

lemma extractStaffIdentity_snd [simp]:
  "snd (extractStaffIdentity claims) = IsStaff (fst (extractStaffIdentity claims))"
  by (simp add: extractStaffIdentity_def Let_def)

definition staff_claims :: "jwt_claims \<Rightarrow> bool" where
  "staff_claims claims \<longleftrightarrow> IsStaff (fst (extractStaffIdentity claims))"

lemma staff_claims_iff:
  "staff_claims claims \<longleftrightarrow>
     (\<exists>ss. claims ''staff_subject'' = Some (JStr ss) \<and> ss \<noteq> []) \<or>
     claims ''is_staff'' = Some (JBool True)"
proof -
  have str: "as_str x = Some s \<longleftrightarrow> x = Some (JStr s)" for x s by (cases x rule: as_str.cases) auto
  have bool: "as_bool x = Some b \<longleftrightarrow> x = Some (JBool b)" for x b by (cases x rule: as_bool.cases) auto
  show ?thesis
    by (auto simp: staff_claims_def extractStaffIdentity_def Let_def nonempty_claim_def str bool
          split: option.splits if_splits)
qed

lemma enriched_context [simp]:
  "UserIDFromContext (enrichContext ctx claims subject) = subject"
  "IsStaffFromContext (enrichContext ctx claims subject) \<longleftrightarrow> staff_claims claims"
  using extractStaffIdentity_snd [of claims]
  by (auto simp: enrichContext_def context_getters staff_claims_def Let_def split: prod.splits
        simp del: extractStaffIdentity_snd)

lemma WithContext_simps [simp]:
  "req_Context (WithContext ctx r) = ctx" "req_Header (WithContext ctx r) = req_Header r"
  "req_Context (req_Header_Set k v r) = req_Context r"
  by (simp_all add: WithContext_def req_Header_Set_def)

subsection \<open>What the token checks admit\<close>

definition bearer_token :: "request \<Rightarrow> string option" where
  "bearer_token r =
     (let authorization = Header_Get r ''Authorization''
      in if HasPrefix authorization ''Bearer '' then Some (TrimPrefix authorization ''Bearer '') else None)"

text \<open>The request \<open>r'\<close> the next handler gets is one a verified JWT of \<open>r\<close> entitles to.\<close>

definition jwt_admits :: "'w token_auth \<Rightarrow> request \<Rightarrow> request \<Rightarrow> bool" where
  "jwt_admits a r r' \<longleftrightarrow>
     (\<exists>tok sec claims. bearer_token r = Some tok \<and> sec \<in> configured_secrets a \<and>
        accepts_token a tok sec claims \<and>
        req_Context r' = enrichContext (req_Context r) claims (claims_subject claims))"

text \<open>Likewise for an API token that orbit-auth validated.\<close>

definition api_admits :: "'w token_auth \<Rightarrow> 'w \<Rightarrow> request \<Rightarrow> request \<Rightarrow> bool" where
  "api_admits a u r r' \<longleftrightarrow>
     (\<exists>tok svc identity. bearer_token r = Some tok \<and> HasPrefix tok ''oat_'' \<and> ta_svc a = Some svc \<and>
        result_of (ValidateAPIToken svc tok) u = Inr identity \<and>
        (Scopes identity = [] \<or>
         (\<exists>sc \<in> set (Scopes identity). ToLower (rt_ToLower (ta_rt a)) (TrimSpace sc) = ''write'' \<or>
            reads_only r \<and> ToLower (rt_ToLower (ta_rt a)) (TrimSpace sc) = ''read'')) \<and>
        UserIDFromContext (req_Context r') = UserID identity \<and>
        \<not> IsStaffFromContext (req_Context r'))"

text \<open>
  A request on a fresh writer is refused (the answer is the same whatever the next handler is, with
  one of the statuses \<open>codes\<close> unless the goroutine died), or handed to the next handler as \<open>r'\<close>.
\<close>

definition refused :: "('w handler \<Rightarrow> 'w handler) \<Rightarrow> nat set \<Rightarrow> 'w \<Rightarrow> request \<Rightarrow> response \<Rightarrow> bool" where
  "refused mw codes u r w \<longleftrightarrow>
     (\<exists>w' u'. (\<forall>next. run_state (mw next r w) u = (w', u')) \<and>
        (rw_Panic w' \<or> (\<exists>c \<in> codes. rw_Status w' = Some c)))"

definition admitted ::
    "('w handler \<Rightarrow> 'w handler) \<Rightarrow> (request \<Rightarrow> bool) \<Rightarrow> 'w \<Rightarrow> request \<Rightarrow> response \<Rightarrow> bool" where
  "admitted mw entitled u r w \<longleftrightarrow>
     (\<exists>r' u'. entitled r' \<and> (\<forall>next. run_state (mw next r w) u = run_state (next r' w) u'))"

lemma refusedI:
  assumes "guard mw verdict" and "run_state (verdict r w) u = (Inl w', u')"
    and "rw_Panic w' \<or> (\<exists>c \<in> codes. rw_Status w' = Some c)"
  shows "refused mw codes u r w"
  unfolding refused_def using guard.denied [OF assms(1,2)] assms(3) by blast

lemma admittedI:
  assumes "guard mw verdict" and "run_state (verdict r w) u = (Inr (r', w), u')" and "entitled r'"
  shows "admitted mw entitled u r w"
  unfolding admitted_def using guard.passed [OF assms(1,2)] assms(3) by blast

lemma bearer_cases:
  "bearer_token r = None \<longleftrightarrow> \<not> HasPrefix (Header_Get r ''Authorization'') ''Bearer ''"
  "bearer_token r = Some tok \<longleftrightarrow> HasPrefix (Header_Get r ''Authorization'') ''Bearer '' \<and>
     tok = TrimPrefix (Header_Get r ''Authorization'') ''Bearer ''"
  by (auto simp: bearer_token_def Let_def)

lemma jwt_verdict_cases:
  assumes "rw_Status w = None"
  shows "(\<exists>w' u' c. run_state (jwt_verdict a r w) u = (Inl w', u') \<and> c \<in> {401, 500} \<and> rw_Status w' = Some c) \<or>
    (\<exists>r' u'. run_state (jwt_verdict a r w) u = (Inr (r', w), u') \<and> jwt_admits a r r')"
proof (cases "misconfigured a \<or> bearer_token r = None")
  case True
  then show ?thesis using assms by (auto simp: jwt_verdict_def Let_def bearer_cases)
next
  case False
  then obtain tok where tok: "bearer_token r = Some tok" by auto
  obtain p u1 where parsed: "run_state (parseToken a tok) u = (p, u1)"
    by (cases "run_state (parseToken a tok) u")
  show ?thesis
  proof (cases p)
    case None
    then show ?thesis using False tok parsed assms
      by (simp add: jwt_verdict_def Let_def bearer_cases jwtSubject_def)
  next
    case (Some claims)
    with parsed parseToken_sound [of a tok u claims u1] obtain sec
      where "sec \<in> configured_secrets a" "accepts_token a tok sec claims" by blast
    then show ?thesis using False tok parsed Some
      by (auto simp: jwt_verdict_def Let_def bearer_cases jwtSubject_def jwt_admits_def)
  qed
qed

lemma dual_verdict_cases:
  assumes "rw_Status w = None"
  shows "(\<exists>w' u'. run_state (dual_verdict a r w) u = (Inl w', u') \<and>
      (rw_Panic w' \<or> (\<exists>c \<in> {401, 403, 500}. rw_Status w' = Some c))) \<or>
    (\<exists>r' u'. run_state (dual_verdict a r w) u = (Inr (r', w), u') \<and>
      (jwt_admits a r r' \<or> api_admits a u r r'))"
proof (cases "misconfigured a \<or> bearer_token r = None")
  case True
  then show ?thesis using assms by (auto simp: dual_verdict_def Let_def bearer_cases)
next
  case False
  then obtain tok where tok: "bearer_token r = Some tok" by auto
  show ?thesis
  proof (cases "HasPrefix tok ''oat_''")
    case True
    let ?m = "on_port (ta_svc a) (\<lambda>svc. ValidateAPIToken svc tok)"
    obtain v u1 where valid: "run_state ?m u = (v, u1)" by (cases "run_state ?m u")
    show ?thesis
    proof (cases v)
      case (Inl e)
      then show ?thesis using False tok True valid assms
        by (simp add: dual_verdict_def Let_def bearer_cases)
    next
      case (Inr identity)
      then obtain svc where svc: "ta_svc a = Some svc"
        and ok: "result_of (ValidateAPIToken svc tok) u = Inr identity"
        using valid by (cases "ta_svc a") auto
      show ?thesis
      proof (cases "scopesAllow (rt_ToLower (ta_rt a)) r (Scopes identity)")
        case scoped: False
        then show ?thesis using False tok True valid Inr assms
          by (simp add: dual_verdict_def Let_def bearer_cases)
      next
        case scoped: True
        let ?r = "WithContext ((req_Context r)\<lparr>ctx_userID := Some (UserID identity),
                     ctx_isStaff := Some False, ctx_scope := Some (Scopes identity)\<rparr>)
                   (req_Header_Set ''X-User-Id'' (UserID identity) r)"
        have "api_admits a u r ?r"
          unfolding api_admits_def using tok True svc ok scoped
          by (auto simp: scopesAllow_iff context_getters)
        moreover have "run_state (dual_verdict a r w) u = (Inr (?r, w), u1)"
          using False tok True valid Inr scoped by (simp add: dual_verdict_def Let_def bearer_cases)
        ultimately show ?thesis by blast
      qed
    qed
  next
    case jwt: False
    obtain p u1 where parsed: "run_state (parseToken a tok) u = (p, u1)"
      by (cases "run_state (parseToken a tok) u")
    show ?thesis
    proof (cases p)
      case None
      then show ?thesis using False tok parsed assms jwt
        by (simp add: dual_verdict_def Let_def bearer_cases jwtSubject_def)
    next
      case (Some claims)
      with parsed parseToken_sound [of a tok u claims u1] obtain sec
        where "sec \<in> configured_secrets a" "accepts_token a tok sec claims" by blast
      then show ?thesis using False tok parsed Some jwt
        by (auto simp: dual_verdict_def Let_def bearer_cases jwtSubject_def jwt_admits_def)
    qed
  qed
qed

text \<open>The request \<open>RequireStaff\<close> passes on is staff by its context already, or by its claims.\<close>

definition staff_admits :: "'w token_auth \<Rightarrow> request \<Rightarrow> request \<Rightarrow> bool" where
  "staff_admits a r r' \<longleftrightarrow>
     IsStaffFromContext (req_Context r') \<and>
     (r' = r \<or>
      UserIDFromContext (req_Context r) = [] \<and>
      (\<exists>tok sec claims. bearer_token r = Some tok \<and> sec \<in> configured_secrets a \<and>
         accepts_token a tok sec claims \<and>
         ((\<exists>ss. claims ''staff_subject'' = Some (JStr ss) \<and> ss \<noteq> []) \<or>
          claims ''is_staff'' = Some (JBool True))))"

lemma staff_verdict_cases:
  assumes "rw_Status w = None"
  shows "(\<exists>w' u' c. run_state (staff_verdict a r w) u = (Inl w', u') \<and> c \<in> {401, 403, 500} \<and>
      rw_Status w' = Some c) \<or>
    (\<exists>r' u'. run_state (staff_verdict a r w) u = (Inr (r', w), u') \<and> staff_admits a r r')"
proof (cases "misconfigured a \<or> IsStaffFromContext (req_Context r) \<or>
    UserIDFromContext (req_Context r) \<noteq> [] \<or> bearer_token r = None")
  case True
  then show ?thesis using assms by (auto simp: staff_verdict_def Let_def bearer_cases staff_admits_def)
next
  case False
  then obtain tok where tok: "bearer_token r = Some tok" by auto
  obtain p u1 where parsed: "run_state (parseToken a tok) u = (p, u1)"
    by (cases "run_state (parseToken a tok) u")
  show ?thesis
  proof (cases p)
    case None
    then show ?thesis using False tok parsed assms
      by (simp add: staff_verdict_def Let_def bearer_cases)
  next
    case (Some claims)
    with parsed parseToken_sound [of a tok u claims u1] obtain sec
      where "sec \<in> configured_secrets a" "accepts_token a tok sec claims" by blast
    then show ?thesis using False tok parsed Some assms
      by (cases "staff_claims claims")
         (auto simp: staff_verdict_def Let_def bearer_cases staff_admits_def staff_claims_iff [symmetric]
            staff_claims_def [symmetric])
  qed
qed

subsection \<open>Break-glass and the audit hook over an audit store\<close>

context auditing
begin

lemma run_record_and_forget:
  assumes "ta_rt a = rt"
  obtains e' u' where "run_state (record_and_forget a s e w) u = (w, u')"
    and "entries u' = entries u @ [e']" and "audit_facts e' = audit_facts e" and "ae_ID e' \<noteq> []"
proof -
  obtain e' u' where "run_state (RecordAudit rt s e) u = (Inr (), u')"
    "entries u' = entries u @ [e']" "audit_facts e' = audit_facts e" "ae_ID e' \<noteq> []"
    by (rule RecordAudit_appends)
  with that assms show ?thesis by (simp add: record_and_forget_def)
qed

lemma break_glass_granted_audited:
  assumes "ta_svc a = Some s" and "ta_rt a = rt" and "\<not> rw_Panic w"
    and "IsStaffFromContext (req_Context r)" and "BreakGlassReasonFromContext (req_Context r) \<noteq> []"
  obtains e' u' where
    "run_state (HandleStaffBreakGlass a r w) u = (writeJSON 200 (break_glass_granted r) w, u')"
    and "entries u' = entries u @ [e']" and "audit_facts e' = break_glass_entry r" and "ae_ID e' \<noteq> []"
proof -
  obtain e' u' where run: "run_state (record_and_forget a s (break_glass_entry r) w) u = (w, u')"
    and e': "entries u' = entries u @ [e']" "audit_facts e' = audit_facts (break_glass_entry r)"
      "ae_ID e' \<noteq> []"
    using assms(2) by (rule run_record_and_forget)
  moreover have "run_state (HandleStaffBreakGlass a r w) u = (writeJSON 200 (break_glass_granted r) w, u')"
    using run assms by (simp add: HandleStaffBreakGlass_def)
  moreover have "audit_facts (break_glass_entry r) = break_glass_entry r"
    by (simp add: audit_facts_def break_glass_entry_def)
  ultimately show ?thesis using that by metis
qed

lemma hook_records:
  assumes "ta_svc a = Some s" and "ta_rt a = rt" and "run_state (next r w) u = (w', u')"
    and "\<not> rw_Panic w'" and "hook_entry r = Some e"
  obtains e' u'' where "run_state (AuditHook a next r w) u = (w', u'')"
    and "entries u'' = entries u' @ [e']" and "audit_facts e' = audit_facts e"
proof -
  obtain e' u'' where "run_state (record_and_forget a s e w') u' = (w', u'')"
    "entries u'' = entries u' @ [e']" "audit_facts e' = audit_facts e"
    using assms(2) by (rule run_record_and_forget)
  with that assms show ?thesis by (simp add: AuditHook_def)
qed

end

text \<open>Without an identity in its own request's context the hook records nothing.\<close>

lemma hook_without_identity:
  assumes "hook_entry r = None"
  shows "run_state (AuditHook a next r w) u = run_state (next r w) u"
  by (auto simp: AuditHook_def assms split: prod.splits option.splits)

lemma hook_entry_None_iff:
  "hook_entry r = None \<longleftrightarrow>
     UserIDFromContext (req_Context r) = [] \<and>
     (IsStaffFromContext (req_Context r) \<longrightarrow> StaffSubjectFromContext (req_Context r) = [])"
  by (auto simp: hook_entry_def Let_def)

end
