(* ===== verification/Gateway_Wiring.thy ===== *)
theory Gateway_Wiring
  imports Gateway_Main App_Ownership App_Onboarding Http_Access
begin

text \<open>
  The gateway as \<open>main\<close> wires it provides every contract of the application layer: the service
  locales are interpreted here on the wired service.  Then the process as a state machine: a step
  serves one request through the mux or lets the outside world move, and what a route of the table
  may do to the three stores is established route by route.
\<close>

subsection \<open>The wired service\<close>

lemma gateway_service_ports [simp]:
  "svc_auth (gateway_service e c l) = Some (outside_auth (client_auth c))"
  "svc_orgs (gateway_service e c l) = Some (outside_orgs (client_orgs c))"
  "svc_signup (gateway_service e c l) = Some (outside_signup (client_signup c))"
  "svc_tenants (gateway_service e c l) = Some (outside_tenants (client_tenants c))"
  "svc_flags (gateway_service e c l) = Some (outside_flags (client_flags c))"
  "svc_limiter (gateway_service e c l) = map_option outside_limiter l"
  "svc_clock (gateway_service e c l) = Some (outside_clock (system_clock (ext_Now e)))"
  "svc_codes (gateway_service e c l) = Some (outside_codes (system_code (ext_Rand e)))"
  "svc_challenges (gateway_service e c l) = Some memory_challenges"
  "svc_claims (gateway_service e c l) = Some memory_claims"
  "svc_audit (gateway_service e c l) = Some memory_audit"
  "svc_logger (gateway_service e c l) = (\<lambda>msg args. on_ext (ext_Log e msg args))"
  by (simp_all add: gateway_service_def NewService_def gateway_deps_def)

abbreviation gateway_clock :: "('x, 'k) externals \<Rightarrow> 'x gw_world clock_port" where
  "gateway_clock e \<equiv> outside_clock (system_clock (ext_Now e))"

abbreviation gateway_codes :: "('x, 'k) externals \<Rightarrow> 'x gw_world code_port" where
  "gateway_codes e \<equiv> outside_codes (system_code (ext_Rand e))"

interpretation gw_ownership: ownership memory_challenges w_challenges "gateway_service e c l"
    "gateway_runtime e" "gateway_clock e" "gateway_codes e" for e c l
  by unfold_locales (auto simp: outside_defs preserves_on_ext)

interpretation gw_onboarding: onboarding memory_claims w_claims "gateway_service e c l" "gateway_runtime e"
  for e c l
  by unfold_locales (auto simp: preserves_on_ext)

interpretation gw_auditing: auditing memory_audit w_audit "gateway_service e c l" "gateway_runtime e"
  for e c l
  by unfold_locales (auto simp: outside_defs gateway_runtime_def preserves_on_ext)

subsection \<open>What the routes do to the stores\<close>

abbreviation gateway_handlers ::
    "('x, 'k) externals \<Rightarrow> 'x client \<Rightarrow> 'x limiter_port option \<Rightarrow> 'x gw_world handlers" where
  "gateway_handlers e c l \<equiv>
     server_handlers (gateway_runtime e) (ext_RateKeys e) (gateway_service e c l) (gateway_options e)"

lemma gateway_handlers_simps [simp]:
  "h_svc (gateway_handlers e c l) = gateway_service e c l"
  "h_rt (gateway_handlers e c l) = gateway_runtime e"
  "h_lib (gateway_handlers e c l) = ext_RateKeys e"
  "h_trustProxy (gateway_handlers e c l) = TrustProxy (gateway_options e)"
  by (simp_all add: server_handlers_def)

lemma keeps_allow:
  assumes "store_invariant I"
  shows "keeps I (allow (gateway_service e c l) key policy)"
  using assms
  by (cases l) (auto simp: allow_def outside_defs intro!: keep_intros split: go_error.splits)

lemma keeps_limits:
  assumes "store_invariant I"
  shows "keeps I (CheckClassLimit (gateway_service e c l) cl ip)"
    and "keeps I (CheckKeyLimit (gateway_service e c l) key policy)"
    and "keeps I (checkIdentifierLimit rt (gateway_service e c l) ident)"
  using keeps_allow [OF assms]
  by (auto simp: CheckClassLimit_def CheckKeyLimit_def checkIdentifierLimit_def intro!: keep_intros)

lemma keeps_verdicts:
  assumes "store_invariant I"
  shows "keeps I (class_verdict (gateway_handlers e c l) cl r w)"
    and "keeps I (route_verdict (gateway_handlers e c l) key policy r w)"
  using keeps_limits [OF assms]
  by (auto simp: class_verdict_def route_verdict_def limit_verdict_def intro!: keep_intros)

lemma keeps_guards:
  assumes "store_invariant I" and "\<And>r w. keeps I (next r w)"
  shows "keeps I (wrap (gateway_handlers e c l) cl next r w)"
    and "keeps I (wrapIP (gateway_handlers e c l) route limit next r w)"
    and "keeps I (wrapOrg (gateway_handlers e c l) route next r w)"
  using keeps_verdicts [OF assms(1)] assms(2)
  by (auto intro!: class_guard.keeps_guarded ip_guard.keeps_guarded org_guard.keeps_guarded)

lemma keeps_with_bearer [keep_intros]:
  "(\<And>token. keeps I (f token)) \<Longrightarrow> keeps I (with_bearer r w f)"
  by (auto simp: with_bearer_def split: sum.splits)

lemmas use_case_defs =
  RequestOTP_def VerifyOTP_def Login_def RefreshTokenOp_def RegisterWithEmail_def VerifySignup_def
  CreateOrg_def SetOrgSlug_def ResolveTenant_def ListMyOrgs_def ListMembers_def AddMember_def
  RemoveMember_def SuspendMember_def SetMemberRole_def InviteMember_def AcceptInvite_def
  RevokeInvite_def ListInvites_def SelectOrg_def ListFlags_def InstallScript_def OpenAPISpec_def
  Manifest_def

lemmas upstream_handler_defs =
  health_def install_def requestOTP_def verifyOTP_def login_def refreshToken_def flags_handler_def
  serveAsset_def signup_def signupVerify_def listOrgs_def createOrg_def setOrgSlug_def
  resolveTenant_def listMembers_def addMember_def removeMember_def suspendMember_def
  setMemberRole_def createInvite_def listInvites_def revokeInvite_def acceptInvite_def

text \<open>The use cases that only call ports outside the process.\<close>

lemma svc_assets_gateway [simp]:
  "svc_assets (gateway_service e c l) = Some (outside_assets (file_assets
     \<lparr>files_root = ''openapi'', files_embedded = ext_InstallScript e, files_ReadFile = ext_ReadFile e\<rparr>))"
  by (simp add: gateway_service_def NewService_def gateway_deps_def)

lemma keeps_use_cases:
  assumes "store_invariant I"
  shows "keeps I (RequestOTP rt (gateway_service e c l) i1)"
    and "keeps I (VerifyOTP (gateway_service e c l) i2)"
    and "keeps I (Login (gateway_service e c l) i3)"
    and "keeps I (RefreshTokenOp (gateway_service e c l) a)"
    and "keeps I (RegisterWithEmail (gateway_service e c l) i4)"
    and "keeps I (VerifySignup (gateway_service e c l) i5)"
    and "keeps I (CreateOrg (gateway_service e c l) a b d)"
    and "keeps I (SetOrgSlug (gateway_service e c l) a b d)"
    and "keeps I (ResolveTenant (gateway_service e c l) a)"
    and "keeps I (ListMyOrgs (gateway_service e c l) a)"
    and "keeps I (ListMembers (gateway_service e c l) a b)"
    and "keeps I (AddMember (gateway_service e c l) a b d)"
    and "keeps I (RemoveMember (gateway_service e c l) a b d)"
    and "keeps I (SuspendMember (gateway_service e c l) a b d)"
    and "keeps I (SetMemberRole (gateway_service e c l) a b d f)"
    and "keeps I (InviteMember (gateway_service e c l) a b d)"
    and "keeps I (AcceptInvite (gateway_service e c l) a b)"
    and "keeps I (RevokeInvite (gateway_service e c l) a b d)"
    and "keeps I (ListInvites (gateway_service e c l) a b)"
    and "keeps I (SelectOrg (gateway_service e c l) a b d)"
    and "keeps I (ListFlags (gateway_service e c l))"
    and "keeps I (InstallScript (gateway_service e c l))"
    and "keeps I (OpenAPISpec (gateway_service e c l))"
    and "keeps I (Manifest (gateway_service e c l))"
  by (auto simp: use_case_defs outside_defs Let_def intro!: keep_intros assms keeps_limits(3))

lemma keeps_upstream_handlers:
  assumes "store_invariant I"
  shows "keeps I (requestOTP (gateway_handlers e c l) r w)"
    and "keeps I (verifyOTP (gateway_handlers e c l) r w)"
    and "keeps I (login (gateway_handlers e c l) r w)"
    and "keeps I (refreshToken (gateway_handlers e c l) r w)"
    and "keeps I (signup (gateway_handlers e c l) r w)"
    and "keeps I (signupVerify (gateway_handlers e c l) r w)"
    and "keeps I (flags_handler (gateway_handlers e c l) r w)"
    and "keeps I (listOrgs (gateway_handlers e c l) r w)"
    and "keeps I (createOrg (gateway_handlers e c l) r w)"
    and "keeps I (setOrgSlug (gateway_handlers e c l) r w)"
    and "keeps I (resolveTenant (gateway_handlers e c l) r w)"
    and "keeps I (listMembers (gateway_handlers e c l) r w)"
    and "keeps I (addMember (gateway_handlers e c l) r w)"
    and "keeps I (removeMember (gateway_handlers e c l) r w)"
    and "keeps I (suspendMember (gateway_handlers e c l) r w)"
    and "keeps I (setMemberRole (gateway_handlers e c l) r w)"
    and "keeps I (createInvite (gateway_handlers e c l) r w)"
    and "keeps I (listInvites (gateway_handlers e c l) r w)"
    and "keeps I (revokeInvite (gateway_handlers e c l) r w)"
    and "keeps I (acceptInvite (gateway_handlers e c l) r w)"
    and "keeps I (install (gateway_handlers e c l) r w)"
    and "keeps I (health r w)"
    and "keeps I (serveAsset (OpenAPISpec (gateway_service e c l)) ct r w)"
    and "keeps I (serveAsset (Manifest (gateway_service e c l)) ct r w)"
  by (auto simp: upstream_handler_defs Let_def intro!: keep_intros keeps_use_cases [OF assms])

lemma keeps_selectOrg:
  assumes "store_invariant I"
  shows "keeps I (selectOrg (gateway_handlers e c l) r w)"
proof -
  have "keeps I (checkOrgLimit (gateway_handlers e c l) org route w)" for org route
    using keeps_limits(2) [OF assms] by (auto simp: checkOrgLimit_def Let_def intro!: keep_intros)
  then show ?thesis using keeps_use_cases(20) [OF assms]
    by (auto simp: selectOrg_def intro!: keep_intros)
qed

text \<open>The whole table: only the ownership and onboarding use cases can touch a store.\<close>

lemma keeps_gateway_routes:
  assumes inv: "store_invariant I"
    and issue: "\<And>email. keeps I (Challenge (gateway_runtime e) (gateway_service e c l) email)"
    and prove: "\<And>email code. keeps I (VerifyChallenge (gateway_runtime e) (gateway_service e c l) email code)"
    and claim: "\<And>inp k. keeps I (Claim (gateway_runtime e) (gateway_service e c l) inp k)"
    and h: "h \<in> snd ` set (gateway_routes (gateway_handlers e c l))"
  shows "keeps I (h r w)"
proof -
  have stores: "keeps I (challenge_handler (gateway_handlers e c l) r w)"
    "keeps I (verifyChallenge (gateway_handlers e c l) r w)"
    "keeps I (claim_handler (gateway_handlers e c l) r w)" for r w
    by (auto simp: challenge_handler_def verifyChallenge_def claim_handler_def
          intro!: keep_intros issue prove claim)
  note handlers = stores keeps_upstream_handlers [OF inv] keeps_selectOrg [OF inv]
  from h consider
      "h = health" | "h \<in> snd ` set (auth_routes (gateway_handlers e c l))"
    | "h \<in> snd ` set (signup_routes (gateway_handlers e c l))"
    | "h \<in> snd ` set (flag_routes (gateway_handlers e c l))"
    | "h \<in> snd ` set (org_routes (gateway_handlers e c l))"
    | "h \<in> snd ` set (tenant_routes (gateway_handlers e c l))"
    | "h \<in> snd ` set (platform_routes (gateway_handlers e c l))"
    | "h \<in> snd ` set (registerOpenAPIRoutes (gateway_handlers e c l))"
    by (simp only: gateway_routes_def set_append image_Un Un_iff list.set image_insert image_empty
          insert_iff empty_iff snd_conv) blast
  then show ?thesis
  proof cases
    case 1
    then show ?thesis by (simp add: handlers)
  next
    case 2
    then show ?thesis
      by (auto simp: auth_routes_def split: if_splits intro!: keeps_guards [OF inv] handlers)
  next
    case 3
    then show ?thesis
      by (auto simp: signup_routes_def split: if_splits intro!: keeps_guards [OF inv] handlers)
  next
    case 4
    then show ?thesis
      by (auto simp: flag_routes_def split: if_splits intro!: keeps_guards [OF inv] handlers)
  next
    case 5
    then show ?thesis
      by (auto simp: org_routes_def split: if_splits intro!: keeps_guards [OF inv] handlers)
  next
    case 6
    then show ?thesis
      by (auto simp: tenant_routes_def split: if_splits intro!: keeps_guards [OF inv] handlers)
  next
    case 7
    then show ?thesis
      by (auto simp: platform_routes_def intro!: keeps_guards [OF inv] handlers)
  next
    case 8
    then show ?thesis
      by (auto simp: registerOpenAPIRoutes_def intro!: handlers)
  qed
qed

end
