(* ===== verification/Samples.thy ===== *)
theory Samples
  imports Gateway_Wiring
begin

text \<open>
  A concrete outside world, for the witnesses: its state is the time of day, the random source always
  answers the bytes 1, 2, 3, every remote call fails, and the environment asks for development mode.
\<close>

definition down :: "('x, rpc_error + 'a) state" where
  "down = ret (Inl (NotAStatus ''connection refused''))"

definition sample_stubs :: "go_time grpc_stubs" where
  "sample_stubs =
     \<lparr>rpc_RequestOTP = (\<lambda>_. down), rpc_VerifyOTP = (\<lambda>_. down), rpc_LoginWithPassword = (\<lambda>_ _. down),
      rpc_RefreshToken = (\<lambda>_. down), rpc_ValidateApiToken = (\<lambda>_. down),
      rpc_RegisterWithEmail = (\<lambda>_. down), rpc_VerifySignup = (\<lambda>_. down),
      rpc_CreateOrg = (\<lambda>_ _ _. down), rpc_SetOrgSlug = (\<lambda>_ _ _. down),
      rpc_ResolveTenant = (\<lambda>_. down), rpc_ListMyOrgs = (\<lambda>_. down), rpc_ListMembers = (\<lambda>_ _. down),
      rpc_AddMember = (\<lambda>_ _ _. down), rpc_RemoveMember = (\<lambda>_ _ _. down),
      rpc_SuspendMember = (\<lambda>_ _ _. down), rpc_SetMemberRole = (\<lambda>_ _ _ _. down),
      rpc_InviteMember = (\<lambda>_ _ _. down), rpc_AcceptInvite = (\<lambda>_ _. down),
      rpc_RevokeInvite = (\<lambda>_ _ _. down), rpc_ListInvites = (\<lambda>_ _. down),
      rpc_SelectOrg = (\<lambda>_ _ _. down)\<rparr>"

definition sample_http :: "string \<Rightarrow> (go_time, http_outcome) state" where
  "sample_http url = ret (TransportError ''connection refused'')"

definition sample_client :: "go_time client" where
  "sample_client =
     \<lparr>cl_api = sample_stubs, cl_conn = Some (ret None), AuthHTTPURL = ''http://localhost:10011'', cl_http_get = sample_http\<rparr>"

definition sample_env :: "string \<Rightarrow> string" where
  "sample_env key =
     (if key = ''DEPLOYMENT_ENVIRONMENT'' then ''dev''
      else if key = ''JWT_SECRET'' then ''s3cret'' else [])"

definition sample_limiter :: "go_time lib_limiter" where
  "sample_limiter key policy =
     ret (Inr \<lparr>ld_Allowed = True, ld_Limit = lp_Limit policy, ld_Remaining = 1, ld_ResetAt = 0,
               ld_RetryAfter = 0\<rparr>)"

definition sample_externals :: "(go_time, unit) externals" where
  "sample_externals =
     \<lparr>ext_Configure = ret None, ext_Getenv = sample_env, ext_Dial = (\<lambda>addr. ret (Inr (sample_stubs, ret None))),
      ext_HttpGet = sample_http, ext_Ping = (\<lambda>addr. ret None),
      ext_RedisLimiter = (\<lambda>addr. sample_limiter), ext_MemoryLimiter = sample_limiter,
      ext_Now = read_state id, ext_Rand = ret (1, 2, 3), ext_InstallScript = ''#!/bin/sh'',
      ext_ReadFile = (\<lambda>name. ret (Inl ''no such file'')),
      ext_Keys = \<lparr>LoadKeySet = (\<lambda>dir. ret (Inl ''no keys'')), key_count = (\<lambda>_. 0),
                  marshal_document = (\<lambda>_. Inr ''{}'')\<rparr>,
      ext_Log = (\<lambda>msg args. ret ()), ext_ToLower = id, ext_Title = id,
      ext_RateKeys = \<lparr>lib_KeyForIP = (\<lambda>ip route. ''ip:'' @ ip @ route),
                      lib_KeyForOrg = (\<lambda>org route. ''org:'' @ org @ route)\<rparr>,
      ext_Middleware = id, ext_HealthHandler = health, ext_ReadinessHandler = health\<rparr>"

abbreviation sample_rt :: "go_time gw_world go_runtime" where
  "sample_rt \<equiv> gateway_runtime sample_externals"

abbreviation sample_service :: "go_time gw_world service" where
  "sample_service \<equiv> gateway_service sample_externals sample_client None"

definition alice :: claim_input where
  "alice = \<lparr>ci_InviteToken = ''tok'', ci_DesiredUID = ''alice'', ci_Email = [], ci_DisplayName = [],
     ci_SSHPublicKey = [], ci_MachineFingerprint = [], ci_Scope = [], ci_Metadata = Map.empty\<rparr>"

definition bob :: claim_input where
  "bob = alice\<lparr>ci_DesiredUID := ''bob''\<rparr>"

lemma sample_simps [simp]:
  "ext_Now sample_externals = read_state id" "ext_Rand sample_externals = ret (1, 2, 3)"
  "ext_Getenv sample_externals = sample_env"
  by (simp_all add: sample_externals_def)

lemma sample_lower [simp]: "rt_ToLower sample_rt = id"
  by (simp add: gateway_runtime_def sample_externals_def)

lemma sample_normalized:
  "TrimSpace ''tok'' = ''tok''" "NormalizeUID id ''alice'' = ''alice''" "NormalizeUID id ''bob'' = ''bob''"
  "TrimSpace (ToLower id ''a@b'') = ''a@b''" "TrimSpace ''066051'' = ''066051''"
  by (simp_all add: NormalizeUID_def TrimSpace_graph is_graph_def ToLower_def is_ascii_def ascii_lower_def)

lemma sample_uids [simp]:
  "claim_token alice = ''tok''" "claim_token bob = ''tok''"
  "claim_uid sample_rt alice = ''alice''" "claim_uid sample_rt bob = ''bob''"
  by (simp_all add: claim_token_def claim_uid_def sample_normalized) (simp_all add: alice_def bob_def sample_normalized)

lemma sample_emails [simp]: "ownership_email sample_rt ''a@b'' = ''a@b''"
  by (simp add: ownership_email_def sample_normalized)

lemma sample_inputs [simp]:
  "\<not> claim_rejected sample_rt alice" "\<not> claim_rejected sample_rt bob"
  by (simp_all add: claim_rejected_def)

lemma new_world_simps [simp]:
  "w_challenges (new_world x) = Map.empty" "w_claims (new_world x) = Map.empty"
  "w_audit (new_world x) = []" "w_ext (new_world x) = x"
  by (simp_all add: new_world_def NewChallenges_def NewClaims_def NewAuditStore_def)

end
