(* ===== verification/Mux_Dispatch.thy ===== *)
theory Mux_Dispatch
  imports Http_Server "HOL-Library.Sublist"
begin

text \<open>
  The route table against the mux: the patterns \<open>New\<close> registers are a part of one conflict-free list,
  and apart from the catch-all \<open>GET /\<close> no two of them match the same request, so a request that
  matches a pattern reaches that pattern's handler with its wildcards bound.
\<close>

subsection \<open>The registered patterns\<close>

lemma conflict_free_subseq: "subseq ps qs \<Longrightarrow> conflict_free qs \<Longrightarrow> conflict_free ps"
proof (induction rule: list_emb.induct)
  case (list_emb_Cons2 p q ps qs)
  then have "set ps \<subseteq> set qs" by (auto dest: list_emb_set)
  with list_emb_Cons2 show ?case by (auto simp: list_all_iff)
qed (auto simp: list_all_iff)

lemma conflict_free_unique:
  "conflict_free (map fst mux) \<Longrightarrow> (p, h) \<in> set mux \<Longrightarrow> (p, g) \<in> set mux \<Longrightarrow> conflicts p p \<Longrightarrow> h = g"
  by (induction mux) (auto simp: list_all_iff)

lemma patterns_register:
  "map fst (register routes mux) = map fst mux @ map (parse_pattern \<circ> fst) routes"
proof -
  have "map fst (fold (\<lambda>(p, h) m. HandleFunc p h m) routes mux) =
      map fst mux @ map (parse_pattern \<circ> fst) routes"
    by (induction routes arbitrary: mux) (auto simp: HandleFunc_def)
  then show ?thesis by (simp add: register_def)
qed

text \<open>The patterns of a server with every port, in the order \<open>New\<close> registers them.\<close>

definition all_patterns :: "string list" where
  "all_patterns =
     [''GET /healthz''] @
     [''POST /api/v1/auth/otp/request'', ''POST /api/v1/auth/otp/verify'', ''POST /api/v1/auth/login'',
      ''POST /api/v1/auth/token/refresh''] @
     [''POST /api/v1/auth/signup'', ''POST /api/v1/auth/signup/verify''] @
     [''GET /api/v1/flags''] @
     [''GET /api/v1/orgs'', ''POST /api/v1/orgs'', ''GET /api/v1/orgs/{org_id}/members'',
      ''POST /api/v1/orgs/{org_id}/members'', ''DELETE /api/v1/orgs/{org_id}/members/{user_id}'',
      ''POST /api/v1/orgs/{org_id}/members/{user_id}/suspend'',
      ''PUT /api/v1/orgs/{org_id}/members/{user_id}/role'', ''PUT /api/v1/orgs/{org_id}/slug'',
      ''POST /api/v1/orgs/{org_id}/invites'', ''GET /api/v1/orgs/{org_id}/invites'',
      ''DELETE /api/v1/orgs/{org_id}/invites/{invite_id}'', ''POST /api/v1/invites/accept'',
      ''POST /api/v1/session/org''] @
     [''GET /api/v1/public/tenants/{slug}''] @
     [''POST /api/v1/system/ownership/challenge'', ''POST /api/v1/system/ownership/verify'',
      ''POST /api/v1/dev/onboard/claim'', ''POST /api/v1/admin/challenge'',
      ''POST /api/v1/admin/verify'', ''POST /api/v1/onboard/claim'', ''POST /v1/onboard/claim'',
      ''GET /''] @
     [''GET /api/v1/openapi/gateway.yaml'', ''GET /api/v1/openapi/manifest.json''] @
     [''GET /.well-known/jwks.json'']"

lemma all_patterns_conflict_free: "conflict_free (map parse_pattern all_patterns)"
  by code_simp

lemma routes_subseq:
  "subseq (map fst (gateway_routes h) @ [''GET /.well-known/jwks.json'']) all_patterns"
  unfolding gateway_routes_def all_patterns_def map_append append_assoc
  by (intro list_emb_append_mono)
    (simp_all add: auth_routes_def signup_routes_def flag_routes_def org_routes_def tenant_routes_def
       platform_routes_def registerOpenAPIRoutes_def routeFlags_def routeTenantResolve_def)

subsection \<open>Disjoint patterns\<close>

lemma combine_Disjoint: "combineRelationships a b = Disjoint \<longleftrightarrow> a = Disjoint \<or> b = Disjoint"
  by (cases a; cases b) auto

lemma compareSegments_Disjoint:
  "compareSegments s t = Disjoint \<Longrightarrow> seg_matches (s # ss) (x # xs) \<Longrightarrow> \<not> seg_matches (t # ts) (x # xs)"
  by (cases s; cases t) (auto split: if_splits)

lemma seg_matches_tail:
  "seg_matches (s # ss) (x # xs) \<Longrightarrow> Multi \<notin> set (s # ss) \<Longrightarrow> seg_matches ss xs"
  by (cases s) auto

lemma seg_matches_length: "seg_matches ss segs \<Longrightarrow> Multi \<notin> set ss \<Longrightarrow> length ss = length segs"
  by (induction ss segs rule: seg_matches.induct) auto

lemma compare_from_Disjoint:
  assumes "compare_from False False rel ss ts = Disjoint" and "rel \<noteq> Disjoint"
    and "Multi \<notin> set ss" "Multi \<notin> set ts" and "seg_matches ss segs" "seg_matches ts segs"
  shows False
  using assms
proof (induction ss arbitrary: rel ts segs)
  case Nil
  then show ?case by (cases segs; cases ts) auto
next
  case (Cons s ss)
  obtain x xs where segs: "segs = x # xs" using Cons.prems(5) by (cases segs) auto
  obtain t ts' where ts: "ts = t # ts'" using Cons.prems(6) segs by (cases ts) auto
  have agree: "compareSegments s t \<noteq> Disjoint"
    using compareSegments_Disjoint [of s t] Cons.prems(5,6) unfolding segs ts by blast
  then have rel: "combineRelationships rel (compareSegments s t) \<noteq> Disjoint"
    using Cons.prems(2) by (simp add: combine_Disjoint)
  show False
    using Cons.IH [of "combineRelationships rel (compareSegments s t)" ts' xs]
      seg_matches_tail [of s ss x xs] seg_matches_tail [of t ts' x xs] Cons.prems rel
    unfolding segs ts by (simp add: Let_def)
qed

lemma comparePaths_Disjoint:
  assumes "comparePaths ss ts = Disjoint" and "Multi \<notin> set ss" "Multi \<notin> set ts"
  shows "\<not> (seg_matches ss segs \<and> seg_matches ts segs)"
proof
  assume both: "seg_matches ss segs \<and> seg_matches ts segs"
  have multi: "\<not> ends_multi ss" "\<not> ends_multi ts"
    using assms(2,3) last_in_set unfolding ends_multi_def by metis+
  have "length ss = length ts" using both seg_matches_length assms(2,3) by metis
  then have "compare_from False False Equivalent ss ts = Disjoint"
    using assms(1) multi by (simp add: comparePaths_def)
  then show False using compare_from_Disjoint assms(2,3) both by blast
qed

subsection \<open>The only candidate wins\<close>

lemma match_path_only:
  assumes "(ss, b, h) \<in> set cs" and "seg_matches ss segs" and "ss \<noteq> [Multi]"
    and only: "\<And>ss' b' h'. (ss', b', h') \<in> set cs \<Longrightarrow> seg_matches ss' segs \<Longrightarrow>
      ss' = [Multi] \<or> (ss', b', h') = (ss, b, h)"
  shows "match_path cs segs = Some (wild_values ss segs b, h)"
proof (cases segs)
  case Nil
  then have "ss = []" using assms(2) by (cases ss rule: list.exhaust) (auto elim: seg_matches.elims)
  then obtain b' h' where found: "find_end [] cs = Some (b', h')"
    using assms(1) find_end_None [of "[]" cs] by (cases "find_end [] cs") auto
  then show ?thesis using only [of "[]" b' h'] Nil \<open>ss = []\<close> find_end_Some [OF found] by simp
next
  case (Cons x xs)
  have cs: "cs \<noteq> []" using assms(1) by auto
  have lit: "ss = Lit x # tl ss \<and> b' = wild_values (tl ss) xs b \<and> h' = h"
    if found: "match_path (step_literal x cs) xs = Some (b', h')" for b' h'
  proof -
    from match_path_Some [OF found] obtain qs b0 where
      qs: "(Lit x # qs, b0, h') \<in> set cs" "seg_matches qs xs" "b' = wild_values qs xs b0"
      unfolding set_step_literal by blast
    with only [of "Lit x # qs" b0 h'] Cons show ?thesis by auto
  qed
  show ?thesis
  proof (cases "match_path (step_literal x cs) xs")
    case (Some m)
    then obtain b' h' where found: "match_path (step_literal x cs) xs = Some (b', h')" by (cases m) auto
    from lit [OF found] obtain ps where "ss = Lit x # ps" "b' = wild_values ps xs b" "h' = h" by (cases ss) auto
    then show ?thesis using found cs Cons by simp
  next
    case None
    then have "ss \<noteq> Lit x # tl ss"
      using match_path_None [OF None, of "tl ss" b h] assms(1,2) Cons
      by (cases ss) (auto simp: set_step_literal)
    then obtain n ps where ss: "ss = Wild n # ps" "x \<noteq> ''/''" "seg_matches ps xs"
      using assms(2,3) Cons by (auto elim: seg_matches.elims)
    then have "(ps, b(n \<mapsto> x), h) \<in> set (step_wild x cs)"
      using assms(1) unfolding set_step_wild by blast
    then have "match_path (step_wild x cs) xs \<noteq> None"
      using match_path_None [of "step_wild x cs" xs ps "b(n \<mapsto> x)" h] ss(3) by blast
    then obtain b' h' where wild: "match_path (step_wild x cs) xs = Some (b', h')" by auto
    from match_path_Some [OF this] obtain qs b0 where
      "(qs, b0, h') \<in> set (step_wild x cs)" "seg_matches qs xs" "b' = wild_values qs xs b0" by blast
    moreover from this(1) obtain m b1 where "(Wild m # qs, b1, h') \<in> set cs" "b0 = b1(m \<mapsto> x)"
      by (auto simp: set_step_wild)
    ultimately have "b' = wild_values ss segs b \<and> h' = h"
      using only [of "Wild m # qs" b1 h'] ss Cons by auto
    then show ?thesis using None wild ss(2) cs Cons by simp
  qed
qed

lemma match_path_empty [simp]: "match_path [] segs = None"
  by (cases segs) auto

lemma first_match_skip:
  "(\<And>m. m \<in> set ms \<Longrightarrow> candidates m mux = []) \<Longrightarrow> first_match mux segs (ms @ ns) = first_match mux segs ns"
  by (induction ms) auto

lemma mux_match_only:
  assumes "(p, h) \<in> set mux" and "method_serves (mp_Method p) method"
    and "seg_matches (mp_Segments p) segs" and "mp_Segments p \<noteq> [Multi]"
    and same: "\<And>q g. (q, g) \<in> set mux \<Longrightarrow> method_serves (mp_Method q) method \<Longrightarrow> mp_Method q = mp_Method p"
    and only: "\<And>q g. (q, g) \<in> set mux \<Longrightarrow> mp_Method q = mp_Method p \<Longrightarrow>
      seg_matches (mp_Segments q) segs \<Longrightarrow> mp_Segments q = [Multi] \<or> (q, g) = (p, h)"
  shows "mux_match mux method segs = Some (wild_values (mp_Segments p) segs Map.empty, h)"
proof -
  let ?ms = "[Some method] @ (if method = ''HEAD'' then [Some ''GET''] else []) @ [None]"
  have match: "match_path (candidates (mp_Method p) mux) segs =
      Some (wild_values (mp_Segments p) segs Map.empty, h)"
    by (rule match_path_only) (use assms(1,3,4) only in \<open>auto simp: set_candidates\<close>)
  have "mp_Method p \<in> set ?ms" using assms(2) mux_methods by blast
  then obtain ms ns where ms: "?ms = ms @ mp_Method p # ns" "mp_Method p \<notin> set ms"
    by (meson split_list_first)
  have "candidates m mux = []" if "m \<in> set ms" for m
  proof -
    have "method_serves m method" using that ms(1) mux_methods [of m "method"] by auto
    then have "\<forall>(q, g) \<in> set mux. mp_Method q \<noteq> m" using same that ms(2) by auto
    then show ?thesis by (auto simp: candidates_def filter_empty_conv)
  qed
  then show ?thesis unfolding mux_match_def ms(1) using match by (simp add: first_match_skip)
qed

subsection \<open>The gateway's table\<close>

definition catch_all :: "segment list" where
  "catch_all = [Multi]"

text \<open>Every pattern of the table is the catch-all or made of literals and wildcards, and is disjoint
  from the later patterns of its method.\<close>

definition plain_segments :: "segment list \<Rightarrow> bool" where
  "plain_segments ss \<longleftrightarrow> list_all (\<lambda>s. s \<noteq> Multi \<and> s \<noteq> Lit ''/'') ss"

definition plain_pattern :: "mux_pattern \<Rightarrow> bool" where
  "plain_pattern p \<longleftrightarrow>
     mp_Method p \<in> {Some ''GET'', Some ''POST'', Some ''PUT'', Some ''DELETE''} \<and>
     (mp_Segments p = catch_all \<and> mp_Method p = Some ''GET'' \<or> plain_segments (mp_Segments p))"

definition apart :: "mux_pattern \<Rightarrow> mux_pattern \<Rightarrow> bool" where
  "apart p q \<longleftrightarrow>
     (if mp_Method p \<noteq> mp_Method q \<or> mp_Segments p = catch_all \<or> mp_Segments q = catch_all then True
      else comparePaths (mp_Segments p) (mp_Segments q) = Disjoint)"

fun plain_table :: "mux_pattern list \<Rightarrow> bool" where
  "plain_table [] = True"
| "plain_table (p # ps) \<longleftrightarrow> plain_pattern p \<and> list_all (apart p) ps \<and> plain_table ps"

lemma plain_table_subseq: "subseq ps qs \<Longrightarrow> plain_table qs \<Longrightarrow> plain_table ps"
proof (induction rule: list_emb.induct)
  case (list_emb_Cons2 p q ps qs)
  then have "set ps \<subseteq> set qs" by (auto dest: list_emb_set)
  with list_emb_Cons2 show ?case by (auto simp: list_all_iff)
qed (auto simp: list_all_iff)

lemma all_patterns_plain: "plain_table (map parse_pattern all_patterns)"
  by code_simp

lemma plain_table_member: "plain_table (map fst mux) \<Longrightarrow> (p, h) \<in> set mux \<Longrightarrow> plain_pattern p"
  by (induction mux) auto

lemma plain_table_apart:
  "plain_table (map fst mux) \<Longrightarrow> (p, h) \<in> set mux \<Longrightarrow> (q, g) \<in> set mux \<Longrightarrow>
     (q, g) = (p, h) \<or> apart p q \<or> apart q p"
  by (induction mux) (auto simp: list_all_iff)

lemma plain_table_mux_match:
  assumes table: "plain_table (map fst mux)" and in_mux: "(p, h) \<in> set mux"
    and serves: "method_serves (mp_Method p) method" and hit: "seg_matches (mp_Segments p) segs"
    and not_all: "mp_Segments p \<noteq> catch_all"
  shows "mux_match mux method segs = Some (wild_values (mp_Segments p) segs Map.empty, h)"
proof (rule mux_match_only [OF in_mux serves hit])
  show "mp_Segments p \<noteq> [Multi]" using not_all by (simp add: catch_all_def)
next
  fix q g assume q: "(q, g) \<in> set mux" "method_serves (mp_Method q) method"
  then show "mp_Method q = mp_Method p"
    using serves plain_table_member [OF table in_mux] plain_table_member [OF table q(1)]
    by (auto simp: method_serves_def plain_pattern_def)
next
  fix q g assume q: "(q, g) \<in> set mux" "mp_Method q = mp_Method p" "seg_matches (mp_Segments q) segs"
  show "mp_Segments q = [Multi] \<or> (q, g) = (p, h)"
  proof (rule ccontr)
    assume other: "\<not> ?thesis"
    then have "plain_segments (mp_Segments p)" "plain_segments (mp_Segments q)"
      using plain_table_member [OF table in_mux] plain_table_member [OF table q(1)] not_all
      by (auto simp: plain_pattern_def catch_all_def)
    then have single: "Multi \<notin> set (mp_Segments p)" "Multi \<notin> set (mp_Segments q)"
      by (auto simp: plain_segments_def list_all_iff)
    have "comparePaths (mp_Segments p) (mp_Segments q) = Disjoint \<or>
        comparePaths (mp_Segments q) (mp_Segments p) = Disjoint"
      using plain_table_apart [OF table in_mux q(1)] other not_all q(2)
      by (auto simp: apart_def catch_all_def)
    then show False using comparePaths_Disjoint single hit q(3) by blast
  qed
qed

subsection \<open>Requests no route serves\<close>

lemma match_path_hit:
  "match_path cs segs \<noteq> None \<longleftrightarrow> (\<exists>ss b h. (ss, b, h) \<in> set cs \<and> seg_matches ss segs)"
proof (cases "match_path cs segs")
  case None
  then show ?thesis using match_path_None [OF None] by auto
next
  case (Some m)
  then show ?thesis using match_path_Some [of cs segs "fst m" "snd m"] by auto
qed

lemma candidates_hit:
  "match_path (candidates m mux) segs \<noteq> None \<longleftrightarrow>
     (\<exists>(p, h) \<in> set mux. mp_Method p = m \<and> seg_matches (mp_Segments p) segs)"
  unfolding match_path_hit set_candidates by auto

lemma slash_last_not_empty: "xs \<noteq> [] \<Longrightarrow> slash_last xs \<noteq> []"
  by (induction xs rule: slash_last.induct) auto

lemma path_segments_not_empty: "path_segments path \<noteq> []"
  by (simp add: path_segments_def slash_last_not_empty)

lemma slash_last_snoc: "slash_last (xs @ [[]]) = xs @ [''/'']"
  by (induction xs rule: slash_last.induct) (auto simp: neq_Nil_conv)

lemma plain_no_trailing_slash: "plain_segments ss \<Longrightarrow> \<not> seg_matches ss (segs @ [''/''])"
proof (induction segs arbitrary: ss)
  case Nil
  then show ?case by (cases ss rule: list.exhaust; cases "hd ss") (auto simp: plain_segments_def)
next
  case (Cons x xs)
  then show ?case
  proof (cases ss)
    case (Cons s ss')
    then show ?thesis using Cons.IH [of ss'] Cons.prems by (cases s) (auto simp: plain_segments_def)
  qed simp
qed

lemma split_on_snoc: "split_on c (s @ [c]) = split_on c s @ [[]]"
  by (induction s) (auto split: list.splits)

lemma path_segments_slash: "\<exists>xs. path_segments (path @ ''/'') = xs @ [''/'']"
proof (cases path)
  case Nil
  then show ?thesis by (simp add: path_segments_def)
next
  case (Cons c cs)
  then show ?thesis by (simp add: path_segments_def split_on_snoc slash_last_snoc)
qed

lemma plain_table_offers:
  assumes table: "plain_table (map fst mux)" and "m \<noteq> ''GET''"
  shows "offers mux path m \<longleftrightarrow>
    (\<exists>(p, h) \<in> set mux. mp_Method p = Some m \<and> seg_matches (mp_Segments p) (path_segments path))"
proof -
  obtain xs where slash: "path_segments (path @ ''/'') = xs @ [''/'']" using path_segments_slash by blast
  have "\<not> seg_matches (mp_Segments p) (xs @ [''/''])" if "(p, h) \<in> set mux" "mp_Method p = Some m" for p h
    using plain_table_member [OF table that(1)] that(2) assms(2) plain_no_trailing_slash
    by (auto simp: plain_pattern_def)
  then have "match_path (candidates (Some m) mux) (path_segments (path @ ''/'')) = None"
    using candidates_hit [of "Some m" mux "path_segments (path @ ''/'')"] slash by auto
  then show ?thesis using candidates_hit [of "Some m" mux "path_segments path"] by (simp add: offers_def)
qed

end
