(* ===== verification/Server_Dispatch.thy ===== *)
theory Server_Dispatch
  imports Mux_Dispatch
begin

text \<open>
  Which handler a server built by \<open>New\<close> runs: the mux holds the route table in order, a request that
  matches one pattern besides the catch-all is answered by that pattern's handler, and a \<open>POST\<close> to a
  route without wildcards by a handler that sees the request as it came.
\<close>

subsection \<open>The mux of a server\<close>

lemma New_patterns_subseq:
  "subseq (map fst (srv_mux (New rt lib middleware svc opts))) (map parse_pattern all_patterns)"
proof -
  let ?h = "server_handlers rt lib svc opts"
  have "map fst (srv_mux (New rt lib middleware svc opts)) = map parse_pattern (map fst (gateway_routes ?h))"
    by (simp add: New_def newServer_def patterns_register Let_def)
  moreover have "subseq (map fst (gateway_routes ?h)) all_patterns"
    by (rule subseq_order.trans [OF _ routes_subseq [of ?h]]) (simp add: prefix_imp_subseq)
  ultimately show ?thesis by (simp add: subseq_map del: map_map)
qed

lemmas New_table_plain = plain_table_subseq [OF New_patterns_subseq all_patterns_plain]

lemmas New_conflict_free = conflict_free_subseq [OF New_patterns_subseq all_patterns_conflict_free]

lemma register_map:
  "register routes mux = mux @ map (\<lambda>(pattern, h). (parse_pattern pattern, h)) routes"
proof -
  have "fold (\<lambda>(p, h) m. HandleFunc p h m) routes mux = mux @ map (\<lambda>(p, h). (parse_pattern p, h)) routes"
    by (induction routes arbitrary: mux) (auto simp: HandleFunc_def)
  then show ?thesis by (simp add: register_def)
qed

lemma New_mux:
  "srv_mux (New rt lib middleware svc opts) =
     map (\<lambda>(pattern, h). (parse_pattern pattern, h)) (gateway_routes (server_handlers rt lib svc opts))"
  by (simp add: New_def newServer_def Let_def register_map)

lemma New_serves:
  assumes "(pattern, h) \<in> set (gateway_routes (server_handlers rt lib svc opts))"
    and "mp_Segments (parse_pattern pattern) \<noteq> catch_all"
    and "method_serves (mp_Method (parse_pattern pattern)) (req_Method r)"
    and "seg_matches (mp_Segments (parse_pattern pattern)) (path_segments (req_Path r))"
  shows "mux_serve (srv_mux (New rt lib middleware svc opts)) r w =
    h (r\<lparr>req_PathValues :=
         wild_values (mp_Segments (parse_pattern pattern)) (path_segments (req_Path r)) Map.empty\<rparr>) w"
proof -
  have "(parse_pattern pattern, h) \<in> set (srv_mux (New rt lib middleware svc opts))"
    using assms(1) by (force simp: New_mux)
  from plain_table_mux_match [OF New_table_plain this assms(3,4,2)]
  show ?thesis by (simp add: mux_serve_def)
qed

subsection \<open>What the handlers read of a request\<close>

text \<open>A handler that reads neither the path nor the values bound from it.\<close>

definition path_blind :: "'w handler \<Rightarrow> bool" where
  "path_blind f \<longleftrightarrow> (\<forall>r p v w. f (r\<lparr>req_Path := p, req_PathValues := v\<rparr>) w = f r w)"

lemma path_blindD: "path_blind f \<Longrightarrow> f (r\<lparr>req_Path := p, req_PathValues := v\<rparr>) w = f r w"
  by (simp add: path_blind_def)

lemma reads_no_path [simp]:
  "decodeJSONBody dec (r\<lparr>req_Path := p, req_PathValues := v\<rparr>) w = decodeJSONBody dec r w"
  "Header_Get (r\<lparr>req_Path := p, req_PathValues := v\<rparr>) k = Header_Get r k"
  "clientIP (r\<lparr>req_Path := p, req_PathValues := v\<rparr>) trust = clientIP r trust"
  by (simp_all add: decodeJSONBody_def Header_Get_def clientIP_def split: option.split)

lemma aliased_handlers_path_blind:
  "path_blind (challenge_handler h)" "path_blind (verifyChallenge h)" "path_blind (claim_handler h)"
  by (simp_all add: path_blind_def challenge_handler_def verifyChallenge_def claim_handler_def with_body_def)

lemma wrap_path_blind: "path_blind f \<Longrightarrow> path_blind (wrap h c f)"
  by (simp add: path_blind_def wrap_def)

subsection \<open>Literal routes\<close>

definition literal_route :: "string \<Rightarrow> bool" where
  "literal_route path \<longleftrightarrow> mp_Method (parse_pattern (''POST '' @ path)) = Some ''POST'' \<and>
     mp_Segments (parse_pattern (''POST '' @ path)) = map Lit (path_segments path)"

lemma literal_matches [simp]: "seg_matches (map Lit segs) segs"
  by (induction segs) auto

lemma literal_binds_nothing [simp]: "wild_values (map Lit segs) segs b = b"
  by (induction segs) auto

lemma literal_served:
  assumes "(''POST '' @ req_Path r, f) \<in> set (gateway_routes (server_handlers rt lib svc opts))"
    and "literal_route (req_Path r)" and "req_Method r = ''POST''" and "path_blind f"
  shows "mux_serve (srv_mux (New rt lib middleware svc opts)) r w = f r w"
proof -
  let ?p = "parse_pattern (''POST '' @ req_Path r)"
  have segs: "mp_Segments ?p = map Lit (path_segments (req_Path r))" and m: "mp_Method ?p = Some ''POST''"
    using assms(2) by (simp_all add: literal_route_def)
  have "mux_serve (srv_mux (New rt lib middleware svc opts)) r w =
      f (r\<lparr>req_PathValues := wild_values (mp_Segments ?p) (path_segments (req_Path r)) Map.empty\<rparr>) w"
    by (rule New_serves [OF assms(1)])
       (use segs m assms(3) in \<open>auto simp: catch_all_def method_serves_def\<close>)
  also have "\<dots> = f (r\<lparr>req_Path := req_Path r, req_PathValues := Map.empty\<rparr>) w"
    by (simp only: segs literal_binds_nothing) simp
  finally show ?thesis by (simp only: path_blindD [OF assms(4)])
qed

end
