(* ===== verification/Gateway_Process.thy ===== *)
theory Gateway_Process
  imports Samples Server_Dispatch
begin

text \<open>
  The running gateway as a state machine over \<open>gw_world\<close>: a step serves one request through the mux
  of the server \<open>main\<close> builds, or lets the world outside the process change.  Each Go handler reaches
  the stores through single locked calls; a step here runs a whole handler, so it is the sequential
  behaviour (\<open>Claim_Race\<close> has the interleavings of the one handler with two calls).
\<close>

inductive gw_step ::
    "('x, 'k) externals \<Rightarrow> 'x client \<Rightarrow> 'x limiter_port option \<Rightarrow> 'x gw_world \<Rightarrow> 'x gw_world \<Rightarrow> bool"
  for e c l where
  serves: "run_state (mux_serve (srv_mux (gateway_server e c l)) r empty_response) w = (response, w') \<Longrightarrow>
     gw_step e c l w w'"
| outside: "gw_step e c l w (w\<lparr>w_ext := x\<rparr>)"

inductive gw_reachable ::
    "('x, 'k) externals \<Rightarrow> 'x client \<Rightarrow> 'x limiter_port option \<Rightarrow> 'x gw_world \<Rightarrow> bool"
  for e c l where
  starts: "gw_reachable e c l (new_world x)"
| steps: "gw_reachable e c l w \<Longrightarrow> gw_step e c l w w' \<Longrightarrow> gw_reachable e c l w'"

inductive_cases gw_stepE: "gw_step e c l w w'"
inductive_simps gw_step_iff: "gw_step e c l w w'"

abbreviation gw_steps ::
    "('x, 'k) externals \<Rightarrow> 'x client \<Rightarrow> 'x limiter_port option \<Rightarrow> 'x gw_world \<Rightarrow> 'x gw_world \<Rightarrow> bool" where
  "gw_steps e c l \<equiv> (gw_step e c l)\<^sup>*\<^sup>*"

subsection \<open>Invariants of steps\<close>

lemma srv_mux_gateway:
  "srv_mux (gateway_server e c l) = register (gateway_routes (gateway_handlers e c l)) []"
  by (simp add: gateway_server_def New_def newServer_def)

lemma gw_step_keeps:
  assumes "gw_step e c l w w'" and "I w" and "store_invariant I"
    and "\<And>email. keeps I (Challenge (gateway_runtime e) (gateway_service e c l) email)"
    and "\<And>email code. keeps I (VerifyChallenge (gateway_runtime e) (gateway_service e c l) email code)"
    and "\<And>inp k. keeps I (Claim (gateway_runtime e) (gateway_service e c l) inp k)"
  shows "I w'"
  using assms(1)
proof (cases rule: gw_step.cases)
  case (serves r response)
  have "keeps I (mux_serve (srv_mux (gateway_server e c l)) r empty_response)"
    unfolding srv_mux_gateway
    by (rule keeps_mux_serve) (auto simp: set_register intro: keeps_gateway_routes [OF assms(3-6)])
  from keeps_run [OF this serves assms(2)] show ?thesis .
next
  case (outside x)
  then show ?thesis using assms(2,3) by (simp add: store_invariant_def)
qed

lemma gw_steps_keep:
  assumes "gw_steps e c l w w'" and "I w" and "\<And>w w'. gw_step e c l w w' \<Longrightarrow> I w \<Longrightarrow> I w'"
  shows "I w'"
  using assms by (induction rule: rtranclp_induct) auto

subsubsection \<open>Which use case touches which store\<close>

lemma keeps_challenge_other:
  assumes "store_invariant I" and "\<And>w v. I w \<Longrightarrow> I (w\<lparr>w_challenges := v\<rparr>)"
  shows "keeps I (Challenge (gateway_runtime e) (gateway_service e c l) email)"
    and "keeps I (VerifyChallenge (gateway_runtime e) (gateway_service e c l) email code)"
  unfolding Challenge_def VerifyChallenge_def Let_def gateway_service_ports on_port_simps
    outside_defs memory_challenges_def clock_port.select_convs code_port.select_convs
    challenge_port.select_convs
  by (intro keep_intros keeps_limits(3) keeps_on_store(1) assms; assumption?)+

lemma keeps_claim_other:
  assumes "store_invariant I" and "\<And>w v. I w \<Longrightarrow> I (w\<lparr>w_claims := v\<rparr>)"
  shows "keeps I (Claim (gateway_runtime e) (gateway_service e c l) inp k)"
  unfolding Claim_def Let_def gateway_service_ports on_port_simps memory_claims_def
    claim_port.select_convs
  by (intro keep_intros keeps_on_store(2) assms; assumption?)+

subsection \<open>What is stored in a running gateway\<close>

text \<open>
  Every pending challenge is under a trimmed address with an at sign and holds six digits; every
  cached claim is a first answer with the credentials of its own token and UID.
\<close>

definition challenges_ok :: "'x gw_world \<Rightarrow> bool" where
  "challenges_ok w \<longleftrightarrow> (\<forall>a ch. w_challenges w a = Some ch \<longrightarrow>
     TrimSpace a = a \<and> CHR ''@'' \<in> set a \<and> length (ch_Code ch) = 6 \<and> is_decimal (ch_Code ch))"

definition claims_ok :: "'x gw_world \<Rightarrow> bool" where
  "claims_ok w \<longleftrightarrow> (\<forall>r \<in> ran (w_claims w). first_answer r)"

lemma NewCode_digits:
  "length (result_of (NewCode rand) u) = 6 \<and> is_decimal (result_of (NewCode rand) u)"
  by (simp add: NewCode_def six_digits split: prod.splits)

lemma gateway_now [simp]: "result_of (clk_Now (gateway_clock e)) w = result_of (ext_Now e) (w_ext w)"
  by (simp add: outside_defs system_clock_def Clock_Now_def on_ext_def split: prod.splits)

lemma gateway_code [simp]:
  "result_of (cgp_NewCode (gateway_codes e)) w = result_of (NewCode (ext_Rand e)) (w_ext w)"
  by (simp add: outside_defs system_code_def on_ext_def split: prod.splits)

lemma keeps_challenges_ok:
  "keeps challenges_ok (Challenge (gateway_runtime e) (gateway_service e c l) email)"
  "keeps challenges_ok (VerifyChallenge (gateway_runtime e) (gateway_service e c l) email code)"
proof -
  show "keeps challenges_ok (VerifyChallenge (gateway_runtime e) (gateway_service e c l) email code)"
    by (rule keepsI) (auto simp: challenges_ok_def gw_ownership.verify_effect)
  show "keeps challenges_ok (Challenge (gateway_runtime e) (gateway_service e c l) email)"
  proof (rule keepsI)
    fix w :: "'a gw_world" assume ok: "challenges_ok w"
    let ?m = "Challenge (gateway_runtime e) (gateway_service e c l) email"
    obtain r w' where run: "run_state ?m w = (r, w')" by (cases "run_state ?m w")
    show "challenges_ok (world_after ?m w)"
    proof (cases r)
      case (Inl err)
      with run have "w_challenges w' = w_challenges w" by (auto intro: gw_ownership.issue_failure)
      with ok run show ?thesis by (simp add: challenges_ok_def)
    next
      case (Inr receipt)
      with gw_ownership.issue_success [of e c l email w receipt w'] run obtain u v
        where at: "CHR ''@'' \<in> set (ownership_email (gateway_runtime e) email)"
          and w': "w_challenges w' = (w_challenges w)(ownership_email (gateway_runtime e) email \<mapsto>
            \<lparr>ch_Code = result_of (NewCode (ext_Rand e)) u, ch_ExpiresAt = v + ChallengeTTL\<rparr>)"
        by auto
      show ?thesis using ok run at
        by (auto simp: challenges_ok_def w' NewCode_digits ownership_email_trimmed)
    qed
  qed
qed

lemma gw_step_challenges_ok: "gw_step e c l w w' \<Longrightarrow> challenges_ok w \<Longrightarrow> challenges_ok w'"
proof (erule gw_step_keeps)
  show "store_invariant challenges_ok" by (simp add: store_invariant_def challenges_ok_def)
  then show "keeps challenges_ok (Claim (gateway_runtime e) (gateway_service e c l) inp k)" for inp k
    by (rule keeps_claim_other) (simp add: challenges_ok_def)
qed (assumption | rule keeps_challenges_ok)+

lemma gw_step_claims_ok: "gw_step e c l w w' \<Longrightarrow> claims_ok w \<Longrightarrow> claims_ok w'"
proof (erule gw_step_keeps)
  show "keeps claims_ok (Claim (gateway_runtime e) (gateway_service e c l) inp k)" for inp k
    unfolding claims_ok_def by (rule keepsI) (rule gw_onboarding.first_answers_kept)
  show inv: "store_invariant claims_ok" by (simp add: store_invariant_def claims_ok_def)
  show "keeps claims_ok (Challenge (gateway_runtime e) (gateway_service e c l) email)"
    "keeps claims_ok (VerifyChallenge (gateway_runtime e) (gateway_service e c l) email code)"
    for email code
    by (rule keeps_challenge_other [OF inv]; simp add: claims_ok_def)+
qed

lemma gw_step_claims_grow: "gw_step e c l w w' \<Longrightarrow> w_claims w \<subseteq>\<^sub>m w_claims w'"
proof -
  assume step: "gw_step e c l w w'"
  have "w_claims w \<subseteq>\<^sub>m w_claims w'"
  proof (rule gw_step_keeps [OF step, of "\<lambda>v. w_claims w \<subseteq>\<^sub>m w_claims v"])
    show "keeps (\<lambda>v. w_claims w \<subseteq>\<^sub>m w_claims v) (Claim (gateway_runtime e) (gateway_service e c l) inp k)"
      for inp k
      by (rule keepsI) (blast intro: map_le_trans gw_onboarding.cache_grows)
  qed (auto simp: store_invariant_def intro!: keeps_challenge_other)
  then show ?thesis .
qed

lemma gw_step_audit: "gw_step e c l w w' \<Longrightarrow> w_audit w' = w_audit w"
  by (rule gw_step_keeps [of e c l w w' "\<lambda>v. w_audit v = w_audit w"])
     (auto simp: store_invariant_def intro!: keeps_challenge_other keeps_claim_other)

lemma gw_steps_claims_grow: "gw_steps e c l w w' \<Longrightarrow> w_claims w \<subseteq>\<^sub>m w_claims w'"
  by (induction rule: rtranclp_induct) (auto intro: map_le_trans gw_step_claims_grow)

subsection \<open>Properties\<close>

text \<open>C1 [one proof per challenge]. In every sequence of challenge and verify operations on the wired
  gateway, from any state of the stores and of the outside world, an address is proved at most as
  often as a challenge was issued for it (plus the one that may have been pending at the start):
  a code is good for one proof.\<close>

theorem one_proof_per_challenge:
  "proofs_of (gateway_runtime e) a
     (result_of (run_ops (gateway_runtime e) (gateway_service e c l) ops) w)
   \<le> issues_of (gateway_runtime e) a
       (result_of (run_ops (gateway_runtime e) (gateway_service e c l) ops) w)
     + (if w_challenges w a = None then 0 else 1)"
  using gw_ownership.proofs_bounded [of e a c l ops w] by (simp add: gw_ownership.pending_def)

text \<open>C2 [verification]. \<open>VerifyChallenge\<close> on every branch: which error, when a proof and with which
  content, and what remains stored (only a proof consumes the challenge, so a wrong or late code
  leaves everything as it was).\<close>

theorem VerifyChallenge_refines:
  "map_prod id w_challenges
     (run_state (VerifyChallenge (gateway_runtime e) (gateway_service e c l) email code) w) =
   abs_verify (ownership_email (gateway_runtime e) email) (TrimSpace code)
     (result_of (ext_Now e) (w_ext w)) (w_challenges w)"
  using gw_ownership.verify_refines [of e c l email code w] by simp

text \<open>What a challenge issued in a world is: the code drawn once the limiter has answered, and the clock
  read right after the draw.\<close>

definition issue_world :: "('x, 'k) externals \<Rightarrow> 'x client \<Rightarrow> 'x limiter_port option \<Rightarrow> string \<Rightarrow> 'x gw_world \<Rightarrow> 'x" where
  "issue_world e c l email w = w_ext (world_after
     (checkIdentifierLimit (gateway_runtime e) (gateway_service e c l) (ownership_email (gateway_runtime e) email)) w)"

definition issued_code :: "('x, 'k) externals \<Rightarrow> 'x client \<Rightarrow> 'x limiter_port option \<Rightarrow> string \<Rightarrow> 'x gw_world \<Rightarrow> string" where
  "issued_code e c l email w = result_of (NewCode (ext_Rand e)) (issue_world e c l email w)"

definition issued_at :: "('x, 'k) externals \<Rightarrow> 'x client \<Rightarrow> 'x limiter_port option \<Rightarrow> string \<Rightarrow> 'x gw_world \<Rightarrow> go_time" where
  "issued_at e c l email w =
     result_of (ext_Now e) (world_after (NewCode (ext_Rand e)) (issue_world e c l email w))"

text \<open>C3 [the window of a challenge]. Once a challenge was issued for an address and as long as its
  entry is the one stored, a code is accepted exactly when it is (up to surrounding blanks) the code drawn
  in that very issue, and the clock shows at most ten minutes (600 * 10^9 ns) after what it showed then.\<close>

theorem challenge_window:
  assumes "run_state (Challenge (gateway_runtime e) (gateway_service e c l) email) w = (Inr receipt, w1)"
    and "w_challenges w2 (ownership_email (gateway_runtime e) email) =
         w_challenges w1 (ownership_email (gateway_runtime e) email)"
  shows "succeeded (result_of (VerifyChallenge (gateway_runtime e) (gateway_service e c l) email code) w2) \<longleftrightarrow>
    TrimSpace code = issued_code e c l email w \<and>
    result_of (ext_Now e) (w_ext w2) \<le> issued_at e c l email w + 600 * 10 ^ 9"
proof -
  have ttl: "ChallengeTTL = 600 * 10 ^ 9" by (simp add: ChallengeTTL_def minute_def second_def)
  have some: "result_of (NewCode (ext_Rand e)) u \<noteq> []" for u
    using NewCode_digits [of "ext_Rand e" u] by auto
  have drawn: "w_ext (world_after (cgp_NewCode (gateway_codes e)) u) = world_after (NewCode (ext_Rand e)) (w_ext u)"
    for u by (simp add: outside_defs system_code_def on_ext_def split: prod.splits)
  show ?thesis
    using some [THEN not_sym]
    by (auto simp: gw_ownership.issued_window [OF assms refl refl] ttl drawn issued_code_def issued_at_def
        issue_world_def)
qed

text \<open>A concrete run for the witnesses: a challenge for \<open>a@b\<close> at time 0.\<close>

definition challenged :: "go_time gw_world" where
  "challenged = (new_world 0)\<lparr>w_challenges :=
     [''a@b'' \<mapsto> \<lparr>ch_Code = ''066051'', ch_ExpiresAt = ChallengeTTL\<rparr>]\<rparr>"

lemma sample_code: "run_state (NewCode (ret (1, 2, 3))) x = (''066051'', x)"
  by (simp add: NewCode_def code_number_value show_nat_step show_nat_small pad_zeros_def
        digit_char_def hex_chars_def)

lemma run_sample_ports:
  "run_state (clk_Now (outside_clock (system_clock (read_state id)))) w = (w_ext w, w)"
  "run_state (cgp_NewCode (outside_codes (system_code (ret (1, 2, 3))))) w = (''066051'', w)"
  by (simp_all add: outside_defs system_clock_def Clock_Now_def system_code_def on_ext_def sample_code)

lemma run_sample_save:
  "run_state (cp_Save memory_challenges ''a@b'' ch) w =
     ((), w\<lparr>w_challenges := (w_challenges w)(''a@b'' \<mapsto> ch)\<rparr>)"
  by (simp add: memory_challenges_def on_challenges_def)

definition sample_pending :: "go_time gw_world \<Rightarrow> go_time gw_world" where
  "sample_pending w = w\<lparr>w_challenges := (w_challenges w)(''a@b'' \<mapsto>
     \<lparr>ch_Code = ''066051'', ch_ExpiresAt = w_ext w + ChallengeTTL\<rparr>)\<rparr>"

lemma sample_pending_simps [simp]:
  "w_claims (sample_pending w) = w_claims w" "w_audit (sample_pending w) = w_audit w"
  "w_ext (sample_pending w) = w_ext w" "sample_pending (new_world 0) = challenged"
  by (simp_all add: sample_pending_def challenged_def)

lemma run_sample_challenge:
  "run_state (Challenge sample_rt sample_service ''a@b'') w =
     (Inr \<lparr>chr_Grant = \<lparr>cg_Status = ChallengeStatusDispatched, cg_ExpiresIn = ChallengeExpiresIn\<rparr>,
           chr_IdentifierLimit = None\<rparr>, sample_pending w)"
  by (simp add: Challenge_def Let_def sample_normalized checkIdentifierLimit_def run_sample_ports
        run_sample_save sample_pending_def)

text \<open>The same challenge over HTTP, as a step of the gateway.\<close>

definition challenge_request :: request where
  "challenge_request = \<lparr>req_Method = ''POST'', req_Path = ''/api/v1/system/ownership/challenge'',
     req_Header = Map.empty, req_PathValues = Map.empty, req_RemoteAddr = ''10.0.0.1:80'',
     req_Body = json_encode (JObj [(''email'', JStr ''a@b'')]), req_Context = Background\<rparr>"

lemma challenge_body:
  "decodeJSONBody AdminChallengeRequest challenge_request w = Inr ''a@b''"
proof -
  let ?v = "JObj [(''email'', JStr ''a@b'')]"
  have "length (json_encode ?v) = 15" by code_simp
  then have "read_json_body (json_encode ?v @ []) = Some (json_valid ?v)"
    by (intro read_json_body_encode) (simp_all only:, simp_all add: max_nesting_depth_def maxAuthBody_def)
  moreover have "json_valid ?v = ?v" by code_simp
  moreover have "AdminChallengeRequest ?v = Some ''a@b''" by code_simp
  ultimately show ?thesis by (simp add: decodeJSONBody_def challenge_request_def)
qed

lemma challenge_route_literal: "literal_route ''/api/v1/system/ownership/challenge''"
  by code_simp

lemma challenge_request_step:
  "gw_step sample_externals sample_client None w (sample_pending w)"
proof (rule gw_step.serves)
  let ?h = "gateway_handlers sample_externals sample_client None"
  have "mux_serve (srv_mux (gateway_server sample_externals sample_client None)) challenge_request empty_response =
      wrap ?h ClassOwnershipChallenge (challenge_handler ?h) challenge_request empty_response"
    unfolding gateway_server_def
    by (rule literal_served)
       (simp_all add: challenge_request_def challenge_route_literal gateway_routes_def platform_routes_def
          aliased_handlers_path_blind wrap_path_blind)
  moreover have "\<not> HasLimiter (h_svc ?h)" "h_svc ?h = sample_service" "h_rt ?h = sample_rt"
    by (simp_all add: server_handlers_def HasLimiter_def)
  ultimately show "run_state (mux_serve (srv_mux (gateway_server sample_externals sample_client None))
      challenge_request empty_response) w =
      (writeJSON 200 (AdminChallengeResponse \<lparr>cg_Status = ChallengeStatusDispatched,
         cg_ExpiresIn = ChallengeExpiresIn\<rparr>) empty_response, sample_pending w)"
    by (simp add: wrap_def challenge_handler_def with_body_def challenge_body run_sample_challenge
          with_limit_headers_def)
qed

lemma sample_issue:
  "issued_code sample_externals sample_client None ''a@b'' (new_world 0) = ''066051''"
  "issued_at sample_externals sample_client None ''a@b'' (new_world 0) = 0"
  by (simp_all add: issued_code_def issued_at_def issue_world_def checkIdentifierLimit_def sample_code)

text \<open>The code of the sample, entered at any later instant.\<close>

theorem challenge_window_witness:
  "\<forall>t code. succeeded (result_of (VerifyChallenge sample_rt sample_service ''a@b'' code) (challenged\<lparr>w_ext := t\<rparr>)) \<longleftrightarrow>
     TrimSpace code = ''066051'' \<and> t \<le> 600 * 10 ^ 9"
  using challenge_window [OF run_sample_challenge [of "new_world 0", unfolded sample_pending_simps],
      of "challenged\<lparr>w_ext := t\<rparr>" for t] by (simp add: sample_issue)

text \<open>C4 [claims]. \<open>Claim\<close> is its specification on the cache: a claim without token or UID is refused
  and changes nothing, a cached key is replayed from the cache, a new key is provisioned and cached.\<close>

theorem Claim_refines:
  "map_prod id w_claims (run_state (Claim (gateway_runtime e) (gateway_service e c l) inp k) w) =
     (if claim_rejected (gateway_runtime e) inp
      then (Inl (NewError KindInvalidArgument ''invite_token and desired_uid are required''), w_claims w)
      else map_prod Inr id
             (abs_claim (cache_key (gateway_runtime e) inp k) (provisioned (gateway_runtime e) inp)
                (w_claims w)))"
  by (rule gw_onboarding.claim_refines)

text \<open>C5 [idempotent histories]. In every sequence of claims, from any state of the cache, the answers
  given under one key are a first answer (possibly itself a replay) and after it only replays of
  that answer: a key is provisioned at most once, and always answered alike.\<close>

theorem claims_idempotent:
  "case answers_for (gateway_runtime e) k
          (result_of (run_claims (gateway_runtime e) (gateway_service e c l) qs) w) of
     [] \<Rightarrow> True
   | a # as \<Rightarrow> set as \<subseteq> {as_replay a}"
proof -
  obtain r where "case answers_for (gateway_runtime e) k
          (result_of (run_claims (gateway_runtime e) (gateway_service e c l) qs) w) of
     [] \<Rightarrow> True | a # as \<Rightarrow> as_replay a = as_replay r \<and> set as \<subseteq> {as_replay r}"
    using gw_onboarding.history_idempotent by blast
  then show ?thesis by (auto split: list.splits)
qed

text \<open>Whatever requests the gateway serves after a claim was answered, a
  later valid claim under the same key is answered with that answer, marked as a replay, and changes
  no claim.\<close>

lemma replay_survives_traffic:
  assumes "result_of (Claim (gateway_runtime e) (gateway_service e c l) inp k) w = Inr a"
    and "gw_steps e c l (world_after (Claim (gateway_runtime e) (gateway_service e c l) inp k) w) w2"
    and "\<not> claim_rejected (gateway_runtime e) inp2"
    and "cache_key (gateway_runtime e) inp2 k2 = cache_key (gateway_runtime e) inp k"
  shows "result_of (Claim (gateway_runtime e) (gateway_service e c l) inp2 k2) w2 = Inr (as_replay a) \<and>
    w_claims (world_after (Claim (gateway_runtime e) (gateway_service e c l) inp2 k2) w2) = w_claims w2"
  using gw_onboarding.replayed_later [OF assms(1) gw_steps_claims_grow [OF assms(2)] assms(3,4)] by blast

text \<open>C7 [whose claim an answer is]. A claim is answered with another claimant's user and credentials exactly when
  its cache key meets that claimant's: it repeats the \<open>Idempotency-Key\<close>, or spells \<open>token:uid\<close> of a claim
  without one as its own key, or it has no key and its \<open>token:uid\<close> spells the other's key.  Nothing binds
  a key to the claimant, and \<open>token:uid\<close> does not say where the token ends.\<close>

theorem answered_for_another_claimant:
  assumes "\<not> claim_rejected (gateway_runtime e) inp1" and "\<not> claim_rejected (gateway_runtime e) inp2"
    and "claim_uid (gateway_runtime e) inp1 \<noteq> claim_uid (gateway_runtime e) inp2"
    and "w_claims w (cache_key (gateway_runtime e) inp1 k1) = None"
    and "w_claims w (cache_key (gateway_runtime e) inp2 k2) = None"
  shows "(\<exists>a. result_of (Claim (gateway_runtime e) (gateway_service e c l) inp2 k2)
        (world_after (Claim (gateway_runtime e) (gateway_service e c l) inp1 k1) w) = Inr a \<and>
      cu_UID (cr_User a) = claim_uid (gateway_runtime e) inp1 \<and>
      cr_Credentials a = ClaimCredentialsFor (claim_token inp1) (claim_uid (gateway_runtime e) inp1)) \<longleftrightarrow>
    (let spelled = (\<lambda>inp. claim_token inp @ '':'' @ claim_uid (gateway_runtime e) inp)
     in if k1 = [] then k2 = spelled inp1 \<or> k2 = [] \<and> spelled inp2 = spelled inp1
        else k2 = k1 \<or> k2 = [] \<and> spelled inp2 = k1)"
proof (cases "cache_key (gateway_runtime e) inp2 k2 = cache_key (gateway_runtime e) inp1 k1")
  case True
  then have "result_of (Claim (gateway_runtime e) (gateway_service e c l) inp2 k2)
      (world_after (Claim (gateway_runtime e) (gateway_service e c l) inp1 k1) w) =
      Inr (as_replay (provisioned (gateway_runtime e) inp1))"
    using assms by (simp add: gw_onboarding.claim_result_spec gw_onboarding.claim_effect)
  then show ?thesis using True
    by (auto simp: provisioned_def cache_key_def claim_key_def Let_def split: if_splits)
next
  case False
  then have "result_of (Claim (gateway_runtime e) (gateway_service e c l) inp2 k2)
      (world_after (Claim (gateway_runtime e) (gateway_service e c l) inp1 k1) w) =
      Inr (provisioned (gateway_runtime e) inp2)"
    using assms by (simp add: gw_onboarding.claim_result_spec gw_onboarding.claim_effect)
  then show ?thesis using False assms(3)
    by (auto simp: provisioned_def cache_key_def claim_key_def Let_def split: if_splits)
qed

theorem answered_for_another_claimant_witness:
  "\<exists>a. result_of (Claim sample_rt sample_service bob ''tok:alice'')
      (world_after (Claim sample_rt sample_service alice []) (new_world 0)) = Inr a \<and>
    cu_UID (cr_User a) = ''alice'' \<and> cr_Credentials a = ClaimCredentialsFor ''tok'' ''alice''"
  using answered_for_another_claimant [of sample_externals alice bob "new_world 0" "[]" "''tok:alice''"
      sample_client None] by (simp add: Let_def)

text \<open>C8 [what a running gateway stores]. In every reachable state, each pending challenge is under a
  trimmed address with an at sign and holds a six-digit code, and each cached claim is a first answer
  whose credentials are those of its own token and UID.\<close>

theorem reachable_stores:
  assumes "gw_reachable e c l w"
  shows "challenges_ok w \<and> claims_ok w"
  using assms
proof (induction rule: gw_reachable.induct)
  case (starts x)
  show ?case by (simp add: challenges_ok_def claims_ok_def)
next
  case (steps w w')
  then show ?case using gw_step_challenges_ok gw_step_claims_ok by blast
qed

theorem reachable_stores_witness:
  "challenges_ok challenged \<and> claims_ok challenged \<and> w_challenges challenged ''a@b'' \<noteq> None"
proof -
  have "gw_reachable sample_externals sample_client None challenged"
    using gw_reachable.steps [OF gw_reachable.starts challenge_request_step [of "new_world 0"]] by simp
  from reachable_stores [OF this] show ?thesis by (simp add: challenged_def)
qed

end
