(* ===== verification/Gateway_Access.thy ===== *)
theory Gateway_Access
  imports Samples
begin

text \<open>
  Who gets past the token middleware and what the staff handlers leave in the audit log, for the
  middleware a deployment mounts on the wired gateway.
\<close>

subsection \<open>Samples\<close>

text \<open>A JWT library that knows one token, signed with \<open>s3cret\<close>.\<close>

definition sample_claims :: jwt_claims where
  "sample_claims = [''sub'' \<mapsto> JStr ''u1'', ''is_staff'' \<mapsto> JBool True, ''reason'' \<mapsto> JStr ''incident 7'',
     ''break_glass'' \<mapsto> JBool False]"

definition sample_jwt :: "'w jwt_parser" where
  "sample_jwt tok key_of algs =
     ret (if tok = ''h.c.s'' \<and> key_of ''HS256'' = Some ''s3cret'' then Some (sample_claims, True) else None)"

definition sample_auth :: "go_time gw_world token_auth" where
  "sample_auth = WithStaffSecret ''staff'' (NewTokenAuth sample_rt sample_jwt (Some sample_service) ''s3cret'')"

definition sample_request :: "string \<Rightarrow> request" where
  "sample_request token = \<lparr>req_Method = ''GET'', req_Path = ''/ops'',
     req_Header = [''Authorization'' \<mapsto> ''Bearer '' @ token], req_PathValues = Map.empty,
     req_RemoteAddr = ''10.0.0.1:80'', req_Body = [], req_Context = Background\<rparr>"

lemma sample_auth_simps [simp]:
  "ta_svc sample_auth = Some sample_service" "ta_secret sample_auth = ''s3cret''"
  "ta_staffSecret sample_auth = ''staff''" "ta_rt sample_auth = sample_rt"
  "ta_ParseWithClaims sample_auth = sample_jwt" "\<not> misconfigured sample_auth"
  by (simp_all add: sample_auth_def WithStaffSecret_def NewTokenAuth_def misconfigured_def)

lemma sample_request_simps [simp]:
  "bearer_token (sample_request token) = Some token" "req_Context (sample_request token) = Background"
  by (simp_all add: sample_request_def bearer_token_def Header_Get_def Let_def HasPrefix_def TrimPrefix_def)

lemma Background_simps [simp]:
  "UserIDFromContext Background = []" "\<not> IsStaffFromContext Background"
  by (simp_all add: Background_def context_getters)

subsection \<open>Properties\<close>

text \<open>C10 [Dual]. On a writer without a status, \<open>Dual\<close> either refuses the request (401, 403, 500 or a
  dead goroutine), the same way whatever the next handler is; or it runs the next handler on a request
  whose identity is that of an \<open>oat_\<close> token orbit-auth validated and whose scopes allow the method
  (never a staff identity), or of a JWT that verified under HS256 with a configured, non-empty secret.\<close>

theorem Dual_gate:
  assumes "rw_Status w = None"
  shows "refused (Dual a) {401, 403, 500} u r w \<or>
    admitted (Dual a) (\<lambda>r'. jwt_admits a r r' \<or> api_admits a u r r') u r w"
proof -
  have g: "guard (Dual a) (dual_verdict a)" by unfold_locales
  from dual_verdict_cases [OF assms, of a r u] show ?thesis
    by (elim disjE exE conjE) (blast intro: refusedI [OF g] admittedI [OF g])+
qed

theorem Dual_gate_witness:
  "refused (Dual sample_auth) {401, 403, 500} (new_world 0) (sample_request ''oat_1'') empty_response \<or>
   admitted (Dual sample_auth)
     (\<lambda>r'. jwt_admits sample_auth (sample_request ''oat_1'') r' \<or>
           api_admits sample_auth (new_world 0) (sample_request ''oat_1'') r')
     (new_world 0) (sample_request ''oat_1'') empty_response"
  by (rule Dual_gate) simp

text \<open>C11 [RequireStaff]. On a writer without a status, \<open>RequireStaff\<close> either refuses the request, the
  same way whatever the next handler is, or runs the next handler on a request whose context is
  staff: because it was so already, or because a JWT that verified under a configured secret carries a
  non-empty \<open>staff_subject\<close> or \<open>is_staff: true\<close>, and no other identity was attached before.\<close>

theorem RequireStaff_gate:
  assumes "rw_Status w = None"
  shows "refused (RequireStaff a) {401, 403, 500} u r w \<or>
    admitted (RequireStaff a) (staff_admits a r) u r w"
proof -
  have g: "guard (RequireStaff a) (staff_verdict a)" by unfold_locales
  from staff_verdict_cases [OF assms, of a r u] show ?thesis
    by (elim disjE exE conjE) (blast intro: refusedI [OF g] admittedI [OF g])+
qed

theorem RequireStaff_gate_witness:
  "refused (RequireStaff sample_auth) {401, 403, 500} (new_world 0) (sample_request ''x'') empty_response \<or>
   admitted (RequireStaff sample_auth) (staff_admits sample_auth (sample_request ''x''))
     (new_world 0) (sample_request ''x'') empty_response"
  by (rule RequireStaff_gate) simp

definition not_a_jwt :: "'w token_auth \<Rightarrow> string \<Rightarrow> bool" where
  "not_a_jwt a tok \<longleftrightarrow> (\<forall>key_of algs u. result_of (ta_ParseWithClaims a tok key_of algs) u = None)"

text \<open>C12 [API tokens are never staff]. Behind \<open>Dual\<close>, \<open>RequireStaff\<close> refuses every request with an
  \<open>oat_\<close> token: \<open>Dual\<close> marks its identity as not staff, and the JWT library does not accept such a
  token under any key (an \<open>oat_\<close> string is not a JWT).\<close>

theorem api_token_never_staff:
  assumes "rw_Status w = None" and "bearer_token r = Some tok" and "HasPrefix tok ''oat_''"
    and "not_a_jwt b tok"
  shows "refused (\<lambda>next. Dual a (RequireStaff b next)) {401, 403, 500} u r w"
proof -
  have g: "guard (\<lambda>next. Dual a (RequireStaff b next)) (guard_pair.both (dual_verdict a) (staff_verdict b))"
    by unfold_locales
  obtain v u1 where run: "run_state (dual_verdict a r w) u = (v, u1)"
    by (cases "run_state (dual_verdict a r w) u")
  show ?thesis
  proof (cases v)
    case (Inl w')
    with dual_verdict_cases [OF assms(1), of a r u] run
    have "rw_Panic w' \<or> (\<exists>c \<in> {401, 403, 500}. rw_Status w' = Some c)" by auto
    moreover have "run_state (guard_pair.both (dual_verdict a) (staff_verdict b) r w) u = (Inl w', u1)"
      using run Inl by (simp add: dual_staff.both_def)
    ultimately show ?thesis by (rule refusedI [OF g, rotated])
  next
    case (Inr p)
    obtain r' w1 where p: "p = (r', w1)" by (cases p)
    have next_is: "w1 = w" "req_Header r' ''Authorization'' = req_Header r ''Authorization''"
      "\<not> IsStaffFromContext (req_Context r')"
      using run assms(2,3) unfolding Inr p
      by (auto simp: dual_verdict_def Let_def bearer_cases req_Header_Set_def context_getters
            split: if_splits sum.splits prod.splits)
    have tok': "bearer_token r' = Some tok"
      using assms(2) next_is(2) by (simp add: bearer_token_def Header_Get_def)
    have "\<not> staff_admits b r' r''" for r''
      using next_is(3) tok' assms(4)
      by (auto simp: staff_admits_def accepts_token_def not_a_jwt_def)
    with staff_verdict_cases [OF assms(1), of b r' u1] obtain w' u' c
      where "run_state (staff_verdict b r' w) u1 = (Inl w', u')" "c \<in> {401, 403, 500}"
        "rw_Status w' = Some c" by blast
    moreover from this(1) have
      "run_state (guard_pair.both (dual_verdict a) (staff_verdict b) r w) u = (Inl w', u')"
      using run by (simp add: Inr p next_is dual_staff.both_def)
    ultimately show ?thesis by (blast intro: refusedI [OF g])
  qed
qed

theorem api_token_never_staff_witness:
  "refused (\<lambda>next. Dual sample_auth (RequireStaff sample_auth next)) {401, 403, 500}
     (new_world 0) (sample_request ''oat_1'') empty_response"
  by (rule api_token_never_staff [where tok = "''oat_1''"])
     (simp_all add: HasPrefix_def not_a_jwt_def sample_jwt_def)

text \<open>C13 [the ordinary secret signs staff tokens]. Also with a distinct staff secret configured, a token
  the JWT library accepts under the ordinary secret whose claims say \<open>is_staff: true\<close> passes
  \<open>RequireStaff\<close> as staff, with the claims of its own making.\<close>

theorem staff_claims_under_ordinary_secret:
  assumes "ta_secret a \<noteq> []" and "ta_staffSecret a \<noteq> ta_secret a" and "bearer_token r = Some tok"
    and "run_state (ta_ParseWithClaims a tok (hs256_key (ta_secret a)) [''HS256'']) u = (Some (claims, True), u')"
    and "claims ''is_staff'' = Some (JBool True)"
    and "\<not> IsStaffFromContext (req_Context r)" and "UserIDFromContext (req_Context r) = []"
  shows "\<exists>r'. IsStaffFromContext (req_Context r') \<and>
    (\<forall>next. run_state (RequireStaff a next r w) u = run_state (next r' w) u')"
proof -
  let ?r = "WithContext (enrichContext (req_Context r) claims (staff_subject_of claims)) r"
  have staff: "staff_claims claims" using assms(5) by (simp add: staff_claims_iff)
  have "run_state (parseToken a tok) u = (Some claims, u')"
    using assms(1,4) by (simp add: parseToken_def parse_secrets_def)
  then have "run_state (staff_verdict a r w) u = (Inr (?r, w), u')"
    using assms(1,3,6,7) staff
    by (simp add: staff_verdict_def Let_def bearer_cases misconfigured_def staff_claims_def)
  then have "run_state (RequireStaff a next r w) u = run_state (next ?r w) u'" for "next"
    by (rule staff_guard.passed)
  then show ?thesis using staff by (intro exI [of _ ?r]) simp
qed

theorem staff_claims_under_ordinary_secret_witness:
  "\<exists>r'. IsStaffFromContext (req_Context r') \<and>
    (\<forall>next. run_state (RequireStaff sample_auth next (sample_request ''h.c.s'') empty_response) (new_world 0) =
       run_state (next r' empty_response) (new_world 0))"
  by (rule staff_claims_under_ordinary_secret [where tok = "''h.c.s''" and claims = sample_claims])
     (simp_all add: sample_jwt_def hs256_key_def sample_claims_def)

text \<open>C14 [break-glass leaves its trace]. On the wired gateway \<open>HandleStaffBreakGlass\<close> answers 403
  without a staff context and 400 without a reason, changing nothing; otherwise it grants, and before
  the answer exactly one entry with the staff subject, the organization, the reason and
  the break-glass mark was appended to the audit log.\<close>

theorem break_glass_audited:
  assumes "ta_svc a = Some (gateway_service e c l)" and "ta_rt a = gateway_runtime e"
    and "\<not> rw_Panic w"
  shows "if \<not> IsStaffFromContext (req_Context r)
     then run_state (HandleStaffBreakGlass a r w) u =
            (writeJSON 403 (error_body ''staff access required'') w, u)
     else if BreakGlassReasonFromContext (req_Context r) = []
     then run_state (HandleStaffBreakGlass a r w) u =
            (writeJSON 400 (error_body ''break-glass reason required'') w, u)
     else \<exists>entry u'. run_state (HandleStaffBreakGlass a r w) u =
            (writeJSON 200 (break_glass_granted r) w, u') \<and>
          w_audit u' = w_audit u @ [entry] \<and>
          ae_Actor entry = StaffSubjectFromContext (req_Context r) \<and> ae_ActorType entry = ''staff'' \<and>
          ae_IsStaff entry \<and> ae_BreakGlass entry \<and>
          ae_Reason entry = BreakGlassReasonFromContext (req_Context r) \<and>
          ae_OrgID entry = audit_org r \<and> ae_Action entry = ''break_glass.access'' \<and>
          ae_Resource entry = req_Path r \<and> ae_ID entry \<noteq> []"
proof (cases "IsStaffFromContext (req_Context r) \<and> BreakGlassReasonFromContext (req_Context r) \<noteq> []")
  case True
  then have staff: "IsStaffFromContext (req_Context r)"
    and reason: "BreakGlassReasonFromContext (req_Context r) \<noteq> []" by auto
  obtain entry u' where
    "run_state (HandleStaffBreakGlass a r w) u = (writeJSON 200 (break_glass_granted r) w, u')"
    "w_audit u' = w_audit u @ [entry]" "audit_facts entry = break_glass_entry r" "ae_ID entry \<noteq> []"
    using gw_auditing.break_glass_granted_audited [OF assms staff reason] by blast
  moreover from this(3) have "audit_facts entry = audit_facts (break_glass_entry r)"
    by (simp add: audit_facts_def break_glass_entry_def)
  note audit_facts_fields [OF this]
  ultimately show ?thesis using staff reason by (auto simp: break_glass_entry_def)
next
  case False
  then show ?thesis by (auto simp: HandleStaffBreakGlass_def)
qed

definition staff_request :: request where
  "staff_request = WithContext (enrichContext Background sample_claims ''u1'') (sample_request ''h.c.s'')"

lemma staff_context [simp]:
  "req_Context staff_request = enrichContext Background sample_claims ''u1''"
  "BreakGlassReasonFromContext (enrichContext Background sample_claims ''u1'') = ''incident 7''"
  "StaffSubjectFromContext (enrichContext Background sample_claims ''u1'') = ''u1''"
  "staff_claims sample_claims"
  by (simp_all add: staff_request_def enrichContext_def extractStaffIdentity_def Let_def sample_claims_def
        nonempty_claim_def context_getters Background_def staff_claims_iff target_org_claim_def)

theorem break_glass_audited_witness:
  "\<exists>entry u'. run_state (HandleStaffBreakGlass sample_auth staff_request empty_response) (new_world 0) =
      (writeJSON 200 (break_glass_granted staff_request) empty_response, u') \<and>
    w_audit u' = [entry] \<and> ae_Actor entry = ''u1'' \<and> ae_Reason entry = ''incident 7''"
  using break_glass_audited [of sample_auth sample_externals sample_client None empty_response
      staff_request "new_world 0"]
  by auto

text \<open>C15 [the break_glass claim does not matter]. Break-glass is granted, and recorded as such, also to
  a staff token whose \<open>break_glass\<close> claim is absent or false: the handler asks for a reason only.\<close>

theorem break_glass_claim_ignored:
  assumes "ta_svc a = Some (gateway_service e c l)" and "ta_rt a = gateway_runtime e"
    and "req_Context r = enrichContext Background claims subject"
    and "staff_claims claims" and "claims ''break_glass'' \<noteq> Some (JBool True)"
    and "claims ''reason'' = Some (JStr reason)" and "reason \<noteq> []"
  shows "\<not> BreakGlassFromContext (req_Context r) \<and>
    (\<exists>entry u'. run_state (HandleStaffBreakGlass a r empty_response) u =
        (writeJSON 200 (break_glass_granted r) empty_response, u') \<and>
      w_audit u' = w_audit u @ [entry] \<and> ae_BreakGlass entry)"
proof -
  have "as_bool (claims ''break_glass'') \<noteq> Some True"
    using assms(5) by (cases "claims ''break_glass''" rule: as_bool.cases) auto
  then have "\<not> BreakGlassFromContext (req_Context r)"
    "BreakGlassReasonFromContext (req_Context r) = reason"
    using assms(4,6)
    by (simp_all add: assms(3) enrichContext_def extractStaffIdentity_def Let_def context_getters
          staff_claims_def Background_def)
  moreover have staff: "IsStaffFromContext (req_Context r)" using assms(4) by (simp add: assms(3))
  ultimately obtain entry u' where
    "run_state (HandleStaffBreakGlass a r empty_response) u =
      (writeJSON 200 (break_glass_granted r) empty_response, u')"
    "w_audit u' = w_audit u @ [entry]" "audit_facts entry = break_glass_entry r"
    using gw_auditing.break_glass_granted_audited [OF assms(1,2) _ staff, of empty_response] assms(7)
    by (metis empty_response_simps(4))
  moreover from this(3) have "ae_BreakGlass entry"
    by (cases entry) (simp add: audit_facts_def break_glass_entry_def)
  ultimately show ?thesis using \<open>\<not> BreakGlassFromContext (req_Context r)\<close> by blast
qed

theorem break_glass_claim_ignored_witness:
  "\<exists>entry u'. run_state (HandleStaffBreakGlass sample_auth staff_request empty_response) (new_world 0) =
      (writeJSON 200 (break_glass_granted staff_request) empty_response, u') \<and>
    w_audit u' = w_audit (new_world (0 :: go_time)) @ [entry] \<and> ae_BreakGlass entry"
proof -
  have claims: "sample_claims ''break_glass'' \<noteq> Some (JBool True)"
    "sample_claims ''reason'' = Some (JStr ''incident 7'')"
    by (simp_all add: sample_claims_def)
  show ?thesis
    using break_glass_claim_ignored [of sample_auth sample_externals sample_client None staff_request
        sample_claims "''u1''" "''incident 7''" "new_world 0", OF _ _ _ _ claims] by simp
qed

text \<open>C17 [the audit hook records]. On a request whose context names a caller, and a handler that
  answers, the hook of the wired gateway keeps the answer and appends exactly one entry: staff under
  the staff subject (or the user where there is none), others under the user, with method and path.\<close>

theorem audit_hook_records:
  assumes "ta_svc a = Some (gateway_service e c l)" and "ta_rt a = gateway_runtime e"
    and "run_state (next r w) u = (w', u')" and "\<not> rw_Panic w'"
    and "UserIDFromContext (req_Context r) \<noteq> []"
  shows "\<exists>entry u''. run_state (AuditHook a next r w) u = (w', u'') \<and>
    w_audit u'' = w_audit u' @ [entry] \<and>
    ae_Actor entry =
      (if IsStaffFromContext (req_Context r) \<and> StaffSubjectFromContext (req_Context r) \<noteq> []
       then StaffSubjectFromContext (req_Context r) else UserIDFromContext (req_Context r)) \<and>
    ae_IsStaff entry = IsStaffFromContext (req_Context r) \<and>
    ae_BreakGlass entry = BreakGlassFromContext (req_Context r) \<and>
    ae_Action entry = req_Method r @ '' '' @ req_Path r"
proof -
  obtain f where f: "hook_entry r = Some f" using assms(5) by (cases "hook_entry r") (auto simp: hook_entry_None_iff)
  obtain entry u'' where "run_state (AuditHook a next r w) u = (w', u'')"
    "w_audit u'' = w_audit u' @ [entry]" "audit_facts entry = audit_facts f"
    using gw_auditing.hook_records [of a e c l "next" r w u w' u' f, OF assms(1-4) f] by blast
  moreover note audit_facts_fields [OF this(3)]
  ultimately show ?thesis using f by (auto simp: hook_entry_def Let_def split: if_splits)
qed

theorem audit_hook_records_witness:
  "\<exists>entry u''. run_state (AuditHook sample_auth health staff_request empty_response) (new_world 0) =
      (fst (run_state (health staff_request empty_response) (new_world (0 :: go_time))), u'') \<and>
    w_audit u'' = [entry] \<and> ae_Actor entry = ''u1''"
proof -
  have run: "run_state (health staff_request empty_response) (new_world 0) =
      (fst (run_state (health staff_request empty_response) (new_world 0)), new_world (0 :: go_time))"
    by (simp add: health_def)
  have "\<not> rw_Panic (fst (run_state (health staff_request empty_response) (new_world (0 :: go_time))))"
    by (simp add: health_def)
  from audit_hook_records [of sample_auth sample_externals sample_client None health staff_request
      empty_response "new_world 0", OF _ _ run this]
  show ?thesis by auto
qed

end
