(* ===== verification/Audit_Trail.thy ===== *)
theory Audit_Trail
  imports Gateway_Access
begin

text \<open>
  The audit log over time.  A deployment mounts \<open>HandleStaffBreakGlass\<close> behind \<open>RequireStaff\<close>; over any
  sequence of requests to it the log is a complete and ordered record of what was granted.  The audit
  hook's place in the chain decides what it sees.
\<close>

subsection \<open>The token checks leave the log alone\<close>

text \<open>The JWT library parses: it does not write to the gateway's memory.\<close>

definition parses_only :: "'x gw_world token_auth \<Rightarrow> bool" where
  "parses_only a \<longleftrightarrow> (\<forall>tok key_of algs. preserves w_audit (ta_ParseWithClaims a tok key_of algs))"

lemma preserves_try_secrets:
  "(\<And>tok key_of algs. preserves f (jwt tok key_of algs)) \<Longrightarrow> preserves f (try_secrets jwt tok secs)"
  by (induction secs) (auto intro!: frame_intros split: option.splits)

lemma preserves_staff_verdict:
  assumes "parses_only a"
  shows "preserves w_audit (staff_verdict a r w)"
  using assms
  by (auto simp: staff_verdict_def parseToken_def parses_only_def Let_def
        intro!: frame_intros preserves_try_secrets)

subsection \<open>Histories of break-glass requests\<close>

fun run_break_glass :: "'w token_auth \<Rightarrow> request list \<Rightarrow> ('w, (request \<times> response) list) state" where
  "run_break_glass a [] = ret []"
| "run_break_glass a (r # rs) =
     RequireStaff a (HandleStaffBreakGlass a) r empty_response \<bind> (\<lambda>w.
       run_break_glass a rs \<bind> (\<lambda>h. ret ((r, w) # h)))"

definition granted :: "(request \<times> response) list \<Rightarrow> response list" where
  "granted h = filter (\<lambda>w. rw_Status w = Some 200) (map snd h)"

text \<open>An entry records a grant: the answer names the subject, organization and reason of the entry.\<close>

definition records :: "response \<Rightarrow> audit_entry \<Rightarrow> bool" where
  "records w entry \<longleftrightarrow>
     ae_BreakGlass entry \<and> ae_IsStaff entry \<and> ae_Action entry = ''break_glass.access'' \<and>
     ae_Reason entry \<noteq> [] \<and> ae_ID entry \<noteq> [] \<and>
     w = writeJSON 200 (JObj
       [(''org_id'', JStr (ae_OrgID entry)), (''reason'', JStr (ae_Reason entry)),
        (''staff_subject'', JStr (ae_Actor entry)), (''status'', JStr ''break_glass_granted'')]) empty_response"

lemma break_glass_once:
  assumes "ta_svc a = Some (gateway_service e c l)" and "ta_rt a = gateway_runtime e" and "parses_only a"
    and "run_state (RequireStaff a (HandleStaffBreakGlass a) r empty_response) u = (w, u')"
  shows "(rw_Status w \<noteq> Some 200 \<and> w_audit u' = w_audit u) \<or>
    (rw_Status w = Some 200 \<and> (\<exists>entry. w_audit u' = w_audit u @ [entry] \<and> records w entry))"
proof -
  obtain v u1 where verdict: "run_state (staff_verdict a r empty_response) u = (v, u1)"
    by (cases "run_state (staff_verdict a r empty_response) u")
  have log: "w_audit u1 = w_audit u"
    using preserves_run [OF preserves_staff_verdict [OF assms(3)] verdict] .
  from staff_verdict_cases [of empty_response a r u] verdict consider
      (refused) w1 code where "v = Inl w1" "code \<in> {401, 403, 500}" "rw_Status w1 = Some code"
    | (admitted) r1 where "v = Inr (r1, empty_response)"
    by auto
  then show ?thesis
  proof cases
    case refused
    then show ?thesis using staff_guard.denied verdict assms(4) log by fastforce
  next
    case admitted
    then have run: "run_state (HandleStaffBreakGlass a r1 empty_response) u1 = (w, u')"
      using staff_guard.passed [of a r empty_response u r1 empty_response u1 "HandleStaffBreakGlass a"]
        verdict assms(4) by simp
    show ?thesis
    proof (cases "IsStaffFromContext (req_Context r1) \<and> BreakGlassReasonFromContext (req_Context r1) \<noteq> []")
      case True
      then obtain entry where "w = writeJSON 200 (break_glass_granted r1) empty_response"
        "w_audit u' = w_audit u1 @ [entry]" and facts: "audit_facts entry = break_glass_entry r1" "ae_ID entry \<noteq> []"
        using gw_auditing.break_glass_granted_audited [OF assms(1,2), of empty_response r1 u1] run by auto
      moreover have "records w entry" if "w = writeJSON 200 (break_glass_granted r1) empty_response"
        using facts that True
        by (cases entry) (auto simp: records_def audit_facts_def break_glass_entry_def break_glass_granted_def)
      ultimately show ?thesis using log by simp
    next
      case False
      then show ?thesis using run log by (auto simp: HandleStaffBreakGlass_def split: if_splits)
    qed
  qed
qed

text \<open>C16 [the break-glass trail]. Over any sequence of requests to a break-glass route mounted behind
  \<open>RequireStaff\<close> on the wired gateway, the audit log grows by exactly one entry per granted request, in
  the order of the grants, each with the subject, organization and reason its answer names; nothing
  already in the log is changed and a refused request leaves no entry.\<close>

theorem break_glass_trail:
  assumes "ta_svc a = Some (gateway_service e c l)" and "ta_rt a = gateway_runtime e" and "parses_only a"
    and "run_state (run_break_glass a rs) u = (h, u')"
  shows "\<exists>entries. w_audit u' = w_audit u @ entries \<and> list_all2 records (granted h) entries"
  using assms(4)
proof (induction rs arbitrary: u h)
  case Nil
  then show ?case by (simp add: granted_def)
next
  case (Cons r rs)
  obtain w u1 where one: "run_state (RequireStaff a (HandleStaffBreakGlass a) r empty_response) u = (w, u1)"
    by (cases "run_state (RequireStaff a (HandleStaffBreakGlass a) r empty_response) u")
  obtain h1 u2 where rest: "run_state (run_break_glass a rs) u1 = (h1, u2)"
    by (cases "run_state (run_break_glass a rs) u1")
  have h: "h = (r, w) # h1" "u2 = u'" using Cons.prems one rest by auto
  obtain entries where entries: "w_audit u' = w_audit u1 @ entries" "list_all2 records (granted h1) entries"
    using Cons.IH [of u1 h1] rest h(2) by blast
  from break_glass_once [OF assms(1-3) one] show ?case
    using entries h by (auto simp: granted_def intro: exI [of _ "_ # entries"])
qed

lemma sample_staff_check:
  "run_state (RequireStaff sample_auth next (sample_request ''h.c.s'') w) u = run_state (next staff_request w) u"
  "run_state (RequireStaff sample_auth next (sample_request ''forged'') w) u =
     (writeJSON 401 (error_body ''invalid token'') w, u)"
proof -
  have parse: "run_state (parseToken sample_auth ''h.c.s'') u = (Some sample_claims, u)"
    "run_state (parseToken sample_auth ''forged'') u = (None, u)" for u
    by (simp_all add: parseToken_def parse_secrets_def sample_jwt_def hs256_key_def)
  have bearer: "Header_Get (sample_request tok) ''Authorization'' = ''Bearer '' @ tok" for tok
    by (simp add: sample_request_def Header_Get_def)
  have subject: "or_zero (as_str (sample_claims ''sub'')) = ''u1''"
    by (simp add: sample_claims_def or_zero_def)
  have "staff_claims sample_claims" by (rule staff_context)
  then obtain who where staff: "extractStaffIdentity sample_claims = (who, True)"
    using extractStaffIdentity_snd [of sample_claims]
    by (cases "extractStaffIdentity sample_claims") (simp add: staff_claims_def)
  show "run_state (RequireStaff sample_auth next (sample_request ''h.c.s'') w) u = run_state (next staff_request w) u"
    by (subst staff_request_def)
       (simp add: RequireStaff_def Let_def bearer parse HasPrefix_def TrimPrefix_def staff subject)
  show "run_state (RequireStaff sample_auth next (sample_request ''forged'') w) u =
      (writeJSON 401 (error_body ''invalid token'') w, u)"
    by (simp add: RequireStaff_def Let_def bearer parse HasPrefix_def TrimPrefix_def)
qed

theorem break_glass_trail_witness:
  "\<exists>h u' entry. run_state (run_break_glass sample_auth [sample_request ''h.c.s'', sample_request ''forged''])
      (new_world 0) = (h, u') \<and> length h = 2 \<and> w_audit u' = [entry] \<and> ae_BreakGlass entry"
proof -
  have only: "parses_only sample_auth" by (simp add: parses_only_def sample_jwt_def)
  obtain u1 where glass: "run_state (HandleStaffBreakGlass sample_auth staff_request empty_response) (new_world 0) =
      (writeJSON 200 (break_glass_granted staff_request) empty_response, u1)"
    by (rule gw_auditing.break_glass_granted_audited [of sample_auth sample_externals sample_client None
          empty_response staff_request "new_world 0"]) simp_all
  let ?h = "[(sample_request ''h.c.s'', writeJSON 200 (break_glass_granted staff_request) empty_response),
    (sample_request ''forged'', writeJSON 401 (error_body ''invalid token'') empty_response)]"
  have run: "run_state (run_break_glass sample_auth [sample_request ''h.c.s'', sample_request ''forged''])
      (new_world 0) = (?h, u1)"
    by (simp add: sample_staff_check glass)
  from break_glass_trail [of sample_auth sample_externals sample_client None, OF _ _ only run]
  show ?thesis unfolding run by (auto simp: granted_def list_all2_Cons1 records_def)
qed


subsection \<open>Grants without a name\<close>

text \<open>C6 [break-glass without a name]. A staff token that carries neither \<open>sub\<close> nor \<open>staff_subject\<close> passes
  \<open>RequireStaff\<close>, and break-glass is granted to it: the one audit entry of the grant has no actor, though
  the audit hook drops every entry without one.\<close>

theorem anonymous_break_glass:
  assumes "ta_svc a = Some (gateway_service e c l)" and "ta_rt a = gateway_runtime e" and "ta_secret a \<noteq> []"
    and "bearer_token r = Some tok" and "req_Context r = Background"
    and "run_state (ta_ParseWithClaims a tok (hs256_key (ta_secret a)) [''HS256'']) u = (Some (claims, True), u1)"
    and "claims ''is_staff'' = Some (JBool True)" and "claims ''sub'' = None" and "claims ''staff_subject'' = None"
    and "claims ''reason'' = Some (JStr reason)" and "reason \<noteq> []"
  shows "\<exists>w u' entry. run_state (RequireStaff a (HandleStaffBreakGlass a) r empty_response) u = (w, u') \<and>
    rw_Status w = Some 200 \<and> w_audit u' = w_audit u1 @ [entry] \<and>
    ae_Action entry = ''break_glass.access'' \<and> ae_Reason entry = reason \<and> ae_Actor entry = [] \<and>
    hook_entry (WithContext (enrichContext Background claims []) r) = None"
proof -
  let ?r = "WithContext (enrichContext Background claims []) r"
  have staff: "staff_claims claims" using assms(7) by (simp add: staff_claims_iff)
  have "nonempty_claim claims ''staff_subject'' = None" "as_str (claims ''sub'') = None"
    using assms(8,9) by (simp_all add: nonempty_claim_def)
  then have subject: "staff_subject_of claims = []"
      and actor: "StaffSubjectFromContext (req_Context ?r) = []" "UserIDFromContext (req_Context ?r) = []"
      and reason: "BreakGlassReasonFromContext (req_Context ?r) = reason"
    using staff assms(10)
    by (simp_all add: staff_subject_of_def or_zero_def extractStaffIdentity_def Let_def enrichContext_def
        WithContext_def context_getters Background_def staff_claims_def)
  have "run_state (parseToken a tok) u = (Some claims, u1)"
    using assms(3,6) by (simp add: parseToken_def parse_secrets_def)
  then have "run_state (staff_verdict a r empty_response) u = (Inr (?r, empty_response), u1)"
    using assms(3,4,5) staff subject
    by (simp add: staff_verdict_def Let_def bearer_cases misconfigured_def staff_claims_def)
  then have run: "run_state (RequireStaff a (HandleStaffBreakGlass a) r empty_response) u =
      run_state (HandleStaffBreakGlass a ?r empty_response) u1"
    by (rule staff_guard.passed)
  have is_staff: "IsStaffFromContext (req_Context ?r)" using staff by (simp add: WithContext_def)
  obtain entry u' where granted: "run_state (HandleStaffBreakGlass a ?r empty_response) u1 =
      (writeJSON 200 (break_glass_granted ?r) empty_response, u')"
    and entry: "w_audit u' = w_audit u1 @ [entry]" "audit_facts entry = break_glass_entry ?r"
    by (rule gw_auditing.break_glass_granted_audited [where a = a and r = ?r and w = empty_response and u = u1,
          OF assms(1,2) _ is_staff]) (use reason assms(11) in auto)
  have "ae_Action entry = ''break_glass.access''" "ae_Reason entry = reason" "ae_Actor entry = []"
    using entry(2) actor(1) reason by (cases entry; simp add: audit_facts_def break_glass_entry_def)+
  moreover have "hook_entry ?r = None" using actor by (simp add: hook_entry_None_iff)
  ultimately show ?thesis using run granted entry(1) by simp
qed

definition nameless_claims :: jwt_claims where
  "nameless_claims = [''is_staff'' \<mapsto> JBool True, ''reason'' \<mapsto> JStr ''incident 7'']"

definition nameless_auth :: "go_time gw_world token_auth" where
  "nameless_auth = sample_auth\<lparr>ta_ParseWithClaims := (\<lambda>tok key_of algs. ret (Some (nameless_claims, True)))\<rparr>"

theorem anonymous_break_glass_witness:
  "\<exists>w u' entry. run_state (RequireStaff nameless_auth (HandleStaffBreakGlass nameless_auth)
       (sample_request ''h.c.s'') empty_response) (new_world 0) = (w, u') \<and>
     rw_Status w = Some 200 \<and> w_audit u' = [entry] \<and> ae_Actor entry = []"
  using anonymous_break_glass [of nameless_auth sample_externals sample_client None "sample_request ''h.c.s''"
      "''h.c.s''" "new_world 0" nameless_claims "new_world 0" "''incident 7''"]
  by (auto simp: nameless_auth_def nameless_claims_def)

end
