(* ===== verification/Deployment.thy ===== *)
theory Deployment
  imports Gateway_Process Gateway_Access
begin

text \<open>
  The gateway in a deployment binary.  Besides the platform's routes such a binary mounts handlers of its
  own behind the server's token middleware (\<open>Server.TokenAuth\<close>, \<open>Server.StaffAuth\<close>): product handlers, which
  live outside the gateway's stores, and the staff handler, under any nesting of the checks and the audit
  hook.  A step of the deployed process serves a platform request or one to a mounted handler.
\<close>

subsection \<open>Mounted handlers\<close>

text \<open>The middleware of the wired server; the JWT library works outside the gateway's memory.\<close>

definition deployed_auth ::
    "('x, 'k) externals \<Rightarrow> 'x client \<Rightarrow> 'x limiter_port option \<Rightarrow> 'x jwt_parser \<Rightarrow> 'x gw_world token_auth" where
  "deployed_auth e c l jwt =
     Server_TokenAuth (gateway_runtime e) (\<lambda>tok key_of algs. on_ext (jwt tok key_of algs)) (gateway_server e c l)"

inductive mountable :: "'x gw_world token_auth \<Rightarrow> 'x gw_world handler \<Rightarrow> bool" for a where
  product: "mountable a (\<lambda>r w. on_ext (f r w))"
| break_glass: "mountable a (HandleStaffBreakGlass a)"
| dual_check: "mountable a h \<Longrightarrow> mountable a (Dual a h)"
| jwt_check: "mountable a h \<Longrightarrow> mountable a (JWT a h)"
| staff_check: "mountable a h \<Longrightarrow> mountable a (RequireStaff a h)"
| hook: "mountable a h \<Longrightarrow> mountable a (AuditHook a h)"

inductive deployed_step ::
    "('x, 'k) externals \<Rightarrow> 'x client \<Rightarrow> 'x limiter_port option \<Rightarrow> 'x jwt_parser \<Rightarrow>
       'x gw_world \<Rightarrow> 'x gw_world \<Rightarrow> bool"
  for e c l jwt where
  platform: "gw_step e c l w w' \<Longrightarrow> deployed_step e c l jwt w w'"
| mounted: "mountable (deployed_auth e c l jwt) h \<Longrightarrow> run_state (h r empty_response) w = (response, w') \<Longrightarrow>
     deployed_step e c l jwt w w'"

inductive_cases deployed_stepE: "deployed_step e c l jwt w w'"

abbreviation deployed_steps ::
    "('x, 'k) externals \<Rightarrow> 'x client \<Rightarrow> 'x limiter_port option \<Rightarrow> 'x jwt_parser \<Rightarrow>
       'x gw_world \<Rightarrow> 'x gw_world \<Rightarrow> bool" where
  "deployed_steps e c l jwt \<equiv> (deployed_step e c l jwt)\<^sup>*\<^sup>*"

lemma deployed_auth_simps [simp]:
  "ta_svc (deployed_auth e c l jwt) = Some (gateway_service e c l)"
  "ta_rt (deployed_auth e c l jwt) = gateway_runtime e"
  "ta_ParseWithClaims (deployed_auth e c l jwt) = (\<lambda>tok key_of algs. on_ext (jwt tok key_of algs))"
  by (simp_all add: deployed_auth_def Server_TokenAuth_def NewTokenAuth_def WithStaffSecret_def Let_def
      gateway_server_def New_def newServer_def)

subsection \<open>What a mounted handler may do to the stores\<close>

text \<open>An entry with an identifier, from the hook with its actor or from break-glass with its reason.\<close>

definition attributed :: "audit_entry \<Rightarrow> bool" where
  "attributed e \<longleftrightarrow> ae_ID e \<noteq> [] \<and>
     (ae_Actor e \<noteq> [] \<or>
      ae_Action e = ''break_glass.access'' \<and> ae_IsStaff e \<and> ae_BreakGlass e \<and> ae_Reason e \<noteq> [])"

definition extends_log :: "'x gw_world \<Rightarrow> 'x gw_world \<Rightarrow> bool" where
  "extends_log w w' \<longleftrightarrow> w_challenges w' = w_challenges w \<and> w_claims w' = w_claims w \<and>
     (\<exists>es. w_audit w' = w_audit w @ es \<and> list_all attributed es)"

lemma extends_log_trans: "extends_log u v \<Longrightarrow> extends_log v w \<Longrightarrow> extends_log u w"
  by (auto simp: extends_log_def)

lemma extends_log_refl [simp]: "extends_log w w"
  by (simp add: extends_log_def)

lemma keeps_extends:
  assumes "\<And>w. extends_log w (world_after m w)"
  shows "keeps (extends_log u) m"
  using assms by (auto intro!: keepsI intro: extends_log_trans)

lemma keeps_outside [keep_intros]: "keeps (extends_log u) (on_ext m)"
  by (rule keeps_extends) (simp add: extends_log_def on_ext_def split: prod.splits)

lemma keeps_try_secrets:
  "(\<And>tok key_of algs. keeps I (jwt tok key_of algs)) \<Longrightarrow> keeps I (try_secrets jwt tok secs)"
  by (induction secs) (auto intro!: keep_intros split: option.splits)

lemma keeps_parse: "keeps (extends_log u) (parseToken (deployed_auth e c l jwt) tok)"
  unfolding parseToken_def by (rule keeps_try_secrets) (simp add: keeps_outside)

lemma keeps_verdicts_deployed:
  "keeps (extends_log u) (dual_verdict (deployed_auth e c l jwt) r w)"
  "keeps (extends_log u) (jwt_verdict (deployed_auth e c l jwt) r w)"
  "keeps (extends_log u) (staff_verdict (deployed_auth e c l jwt) r w)"
  by (auto simp: dual_verdict_def jwt_verdict_def staff_verdict_def jwtSubject_def Let_def
      ValidateAPIToken_def outside_auth_def intro!: keep_intros keeps_parse)

lemma RecordAudit_stores:
  "preserves w_challenges (RecordAudit (gateway_runtime e) (gateway_service e c l) entry)"
  "preserves w_claims (RecordAudit (gateway_runtime e) (gateway_service e c l) entry)"
  unfolding RecordAudit_def gateway_service_ports option.case
  by (auto simp: outside_defs memory_audit_def intro!: frame_intros)

text \<open>What the two writers of the log make attributed.\<close>

definition names_actor :: "audit_entry \<Rightarrow> bool" where
  "names_actor e \<longleftrightarrow> ae_Actor e \<noteq> [] \<or>
     ae_Action e = ''break_glass.access'' \<and> ae_IsStaff e \<and> ae_BreakGlass e \<and> ae_Reason e \<noteq> []"

lemma preserves_recording:
  "preserves f (RecordAudit (ta_rt a) svc entry) \<Longrightarrow> preserves f (record_and_forget a svc entry w)"
  unfolding record_and_forget_def by (intro frame_intros)

lemma keeps_recording:
  assumes "names_actor entry"
  shows "keeps (extends_log u) (record_and_forget (deployed_auth e c l jwt) (gateway_service e c l) entry w)"
proof (rule keeps_extends)
  fix v
  let ?rec = "record_and_forget (deployed_auth e c l jwt) (gateway_service e c l) entry w"
  have "w_challenges (world_after ?rec v) = w_challenges v" "w_claims (world_after ?rec v) = w_claims v"
    by (rule preservesD, rule preserves_recording, simp add: RecordAudit_stores)+
  moreover obtain entry' v' where "run_state ?rec v = (w, v')" and "w_audit v' = w_audit v @ [entry']"
      and facts: "audit_facts entry' = audit_facts entry" "ae_ID entry' \<noteq> []"
    by (rule gw_auditing.run_record_and_forget [where a = "deployed_auth e c l jwt" and u = v and e = entry and w = w])
       (rule deployed_auth_simps)
  moreover have "attributed entry'"
    using audit_facts_fields [OF facts(1)] assms facts(2) by (simp add: attributed_def names_actor_def)
  ultimately show "extends_log v (world_after ?rec v)"
    by (simp add: extends_log_def)
qed

lemma mountable_extends: "mountable (deployed_auth e c l jwt) h \<Longrightarrow> keeps (extends_log u) (h r w)"
proof (induction arbitrary: r w rule: mountable.induct)
  case (product f)
  show ?case by (rule keeps_outside)
next
  case break_glass
  have "names_actor (break_glass_entry r)" if "BreakGlassReasonFromContext (req_Context r) \<noteq> []" for r
    using that by (simp add: names_actor_def break_glass_entry_def)
  then show ?case
    by (auto simp: HandleStaffBreakGlass_def intro!: keep_intros keeps_recording)
next
  case (dual_check h)
  then show ?case by (intro dual_guard.keeps_guarded keeps_verdicts_deployed)
next
  case (jwt_check h)
  then show ?case by (intro jwt_guard.keeps_guarded keeps_verdicts_deployed)
next
  case (staff_check h)
  then show ?case by (intro staff_guard.keeps_guarded keeps_verdicts_deployed)
next
  case (hook h)
  have "names_actor entry" if "hook_entry r = Some entry" for entry
    using that by (auto simp: hook_entry_def names_actor_def Let_def split: if_splits)
  with hook.IH show ?case
    by (auto simp: AuditHook_def intro!: keep_intros keeps_recording split: option.splits)
qed

subsection \<open>The stores of a deployed gateway\<close>

lemma deployed_step_stores:
  assumes "deployed_step e c l jwt w w'"
  shows "w_claims w \<subseteq>\<^sub>m w_claims w' \<and> (\<exists>es. w_audit w' = w_audit w @ es \<and> list_all attributed es) \<and>
    (challenges_ok w \<longrightarrow> challenges_ok w')"
  using assms
proof (cases rule: deployed_step.cases)
  case platform
  then show ?thesis using gw_step_claims_grow gw_step_audit gw_step_challenges_ok by fastforce
next
  case (mounted h r response)
  have "extends_log w w'" by (rule keeps_run [OF mountable_extends [OF mounted(1)] mounted(2)]) simp
  then show ?thesis by (auto simp: extends_log_def challenges_ok_def)
qed

text \<open>C9 [the stores of a deployment]. In a deployment binary that mounts product handlers and the staff handler under
  any nesting of the token checks and the audit hook, no sequence of platform and mounted requests
  drops or changes a cached claim, spoils the pending challenges, or removes or rewrites an audit
  entry; every entry added has an identifier and names its actor or is a break-glass grant with its reason.\<close>

theorem deployment_stores:
  assumes "deployed_steps e c l jwt w w'"
  shows "w_claims w \<subseteq>\<^sub>m w_claims w' \<and> (\<exists>es. w_audit w' = w_audit w @ es \<and> list_all attributed es) \<and>
    (challenges_ok w \<longrightarrow> challenges_ok w')"
  using assms
proof (induction rule: rtranclp_induct)
  case (step v w')
  from deployed_step_stores [OF step.hyps(2)] step.IH show ?case
    by (auto intro: map_le_trans)
qed simp


abbreviation sample_deployed :: "go_time gw_world token_auth" where
  "sample_deployed \<equiv> deployed_auth sample_externals sample_client None sample_jwt"

lemma sample_deployed_configured: "\<not> misconfigured sample_deployed"
  by (simp add: misconfigured_def deployed_auth_def Server_TokenAuth_def NewTokenAuth_def WithStaffSecret_def Let_def
      gateway_server_def New_def newServer_def gateway_options_def resolveJWTSecret_def sample_env_def)

lemma sample_break_glass_step:
  obtains w' entry where "deployed_step sample_externals sample_client None sample_jwt challenged w'"
    and "w_audit w' = [entry]" and "ae_Reason entry = ''incident 7''"
proof -
  obtain entry w' where run: "run_state (HandleStaffBreakGlass sample_deployed staff_request empty_response) challenged =
      (writeJSON 200 (break_glass_granted staff_request) empty_response, w')"
    and entry: "w_audit w' = w_audit challenged @ [entry]" "audit_facts entry = break_glass_entry staff_request"
    by (rule gw_auditing.break_glass_granted_audited [where a = sample_deployed and r = staff_request
          and w = empty_response and u = challenged]) (simp_all add: empty_response_def)
  have "run_state (RequireStaff sample_deployed (HandleStaffBreakGlass sample_deployed) staff_request empty_response)
      challenged = (writeJSON 200 (break_glass_granted staff_request) empty_response, w')"
    using run by (simp add: RequireStaff_def sample_deployed_configured)
  with mountable.staff_check [OF mountable.break_glass]
  have "deployed_step sample_externals sample_client None sample_jwt challenged w'"
    by (rule deployed_step.mounted)
  moreover have "ae_Reason entry = ''incident 7''"
    using entry(2) by (cases entry) (simp add: audit_facts_def break_glass_entry_def)
  moreover have "w_audit w' = [entry]" using entry(1) by (simp add: challenged_def)
  ultimately show ?thesis using that by blast
qed

theorem deployment_stores_witness:
  "\<exists>w' entry. deployed_steps sample_externals sample_client None sample_jwt (new_world 0) w' \<and>
     w_audit w' = [entry] \<and> attributed entry \<and> ae_Reason entry = ''incident 7''"
proof -
  obtain w' entry where last: "deployed_step sample_externals sample_client None sample_jwt challenged w'"
      and entry: "w_audit w' = [entry]" "ae_Reason entry = ''incident 7''"
    by (rule sample_break_glass_step)
  have "deployed_step sample_externals sample_client None sample_jwt (new_world 0) challenged"
    using challenge_request_step [of "new_world 0"] by (auto intro: deployed_step.platform)
  with last have steps: "deployed_steps sample_externals sample_client None sample_jwt (new_world 0) w'" by auto
  from deployment_stores [OF this] entry(1) have "attributed entry" by simp
  with steps entry show ?thesis by blast
qed

end
