(* ===== verification/Limit_Properties.thy ===== *)
theory Limit_Properties
  imports Samples
begin

text \<open>
  Rate limiting end to end: what a limit check means for a request at the class and route limiters
  and for a one-time password, which clients share a bucket, and what a nil limiter does.
\<close>

subsection \<open>Samples\<close>

definition denial :: decision where
  "denial = \<lparr>Allowed = False, Limit = 5, Remaining = 0, ResetAt = 60 * 10 ^ 9, RetryAfter = 10 ^ 8\<rparr>"

definition deny_all :: "'w limiter_port" where
  "deny_all = \<lparr>lp_Allow = (\<lambda>key policy. ok denial)\<rparr>"

definition guarded_service :: "go_time gw_world service" where
  "guarded_service = sample_service\<lparr>svc_limiter := Some deny_all\<rparr>"

definition guarded_handlers :: "go_time gw_world handlers" where
  "guarded_handlers = \<lparr>h_svc = guarded_service, h_trustProxy = True, h_rt = sample_rt,
     h_lib = ext_RateKeys sample_externals\<rparr>"

definition plain_request :: request where
  "plain_request = \<lparr>req_Method = ''POST'', req_Path = ''/'', req_Header = Map.empty,
     req_PathValues = Map.empty, req_RemoteAddr = ''10.0.0.1:80'', req_Body = [], req_Context = Background\<rparr>"

lemma guarded_simps [simp]:
  "h_svc guarded_handlers = guarded_service" "svc_limiter guarded_service = Some deny_all"
  "run_state (lp_Allow deny_all key policy) u = (Inr denial, u)"
  by (simp_all add: guarded_handlers_def guarded_service_def deny_all_def)

subsection \<open>Properties\<close>

text \<open>What the client of a denied, an unmetered and an admitted request sees, whatever it asked for.\<close>

definition outcome_seen ::
    "(go_error + decision) \<Rightarrow> 'w handler \<Rightarrow> request \<Rightarrow> response \<Rightarrow> 'w \<Rightarrow> response \<times> 'w \<Rightarrow> bool" where
  "outcome_seen outcome next r w u' run =
     (case outcome of
        Inl e \<Rightarrow> snd run = u' \<and> rw_Status (fst run) = Some 503 \<and>
          rw_Header (fst run) ''Retry-After'' = Some ''5''
      | Inr d \<Rightarrow>
          if Allowed d then run = run_state (next r (setRateLimitHeaders d w)) u'
          else snd run = u' \<and> rw_Status (fst run) = Some 429 \<and>
            (\<exists>k \<ge> 1. k = max 1 (whole_seconds (RetryAfter d)) \<and>
               rw_Header (fst run) ''Retry-After'' = Some (show_int k)) \<and>
            rw_Header (fst run) ''X-Ratelimit-Limit'' = Some (show_int (Limit d)) \<and>
            rw_Header (fst run) ''X-Ratelimit-Remaining'' = Some (show_int (Remaining d)) \<and>
            rw_Header (fst run) ''X-Ratelimit-Reset'' = Some (show_int (time_Unix (ResetAt d))))"

lemma retry_seconds_max: "retry_seconds d = max 1 (whole_seconds (RetryAfter d))"
  by (simp add: retry_seconds_def Let_def max_def)

lemma outcome_seen_verdict:
  assumes "svc_limiter s = Some l" and "run_state (lp_Allow l key policy) u = (outcome, u')"
    and "outcome \<noteq> Inl NilDeref" and "rw_Status w = None"
    and "run = run_state (limit_verdict (allow s key policy) r w \<bind>
           (\<lambda>v. case v of Inl w' \<Rightarrow> ret w' | Inr (r', w') \<Rightarrow> next r' w')) u"
  shows "outcome_seen outcome next r w u' run"
proof (cases outcome)
  case (Inl e)
  with limit_verdict_outcomes [OF assms(1-3), of r w] assms(4,5) show ?thesis
    by (simp add: outcome_seen_def)
next
  case (Inr d)
  with limit_verdict_outcomes [OF assms(1-3), of r w] assms(4,5) show ?thesis
    by (cases "Allowed d")
       (auto simp: outcome_seen_def retry_seconds_max intro!: exI [of _ "max 1 (whole_seconds (RetryAfter d))"])
qed

text \<open>C18 [the class limiter]. On a route behind \<open>wrap\<close> with a wired limiter: an error of the limiter
  is answered 503 with \<open>Retry-After: 5\<close>, a denial 429 with the three rate headers and a \<open>Retry-After\<close>
  of at least one second, in both cases without running the handler; an admitted request runs the
  handler on the writer with the rate headers set.\<close>

theorem wrap_outcomes:
  assumes "svc_limiter (h_svc h) = Some l" and "rw_Status w = None" and "outcome \<noteq> Inl NilDeref"
    and "run_state (lp_Allow l (ClientKey cls (clientIP r (h_trustProxy h))) (PolicyFor cls)) u = (outcome, u')"
  shows "outcome_seen outcome next r w u' (run_state (wrap h cls next r w) u)"
  by (rule outcome_seen_verdict [OF assms(1,4,3,2)])
     (simp add: class_guard.guarded class_verdict_def HasLimiter_def assms(1) CheckClassLimit_def)

theorem wrap_outcomes_witness:
  "outcome_seen (Inr denial) health plain_request empty_response (new_world 0)
     (run_state (wrap guarded_handlers ClassAuthPassword health plain_request empty_response) (new_world 0))"
  by (rule wrap_outcomes [of guarded_handlers deny_all]) simp_all

text \<open>The same for the address and organization limiters, which check the key
  the library made of the address or the organization: an empty key is not metered at all.\<close>

lemma applyRouteLimit_outcomes:
  assumes "svc_limiter (h_svc h) = Some l" and "rw_Status w = None" and "outcome \<noteq> Inl NilDeref"
    and "run_state (lp_Allow l key policy) u = (outcome, u')"
  shows "if key = [] then run_state (applyRouteLimit h key policy next r w) u = run_state (next r w) u
    else outcome_seen outcome next r w u' (run_state (applyRouteLimit h key policy next r w) u)"
proof (cases "key = []")
  case True
  then show ?thesis by (simp add: applyRouteLimit_def)
next
  case False
  have "outcome_seen outcome next r w u' (run_state (applyRouteLimit h key policy next r w) u)"
    by (rule outcome_seen_verdict [OF assms(1,4,3,2)])
       (auto simp: applyRouteLimit_def False limit_verdict_def CheckKeyLimit_def split: prod.splits sum.splits)
  with False show ?thesis by simp
qed

text \<open>The identifier budget comes first: when the limiter denies the identifier of a one-time
  password request (its \<open>identifier\<close>, or its \<open>email\<close> where that is empty), the request ends with the
  limit error in the limiter's world, whatever the authentication port: no password is asked for.\<close>

lemma RequestOTP_denied:
  assumes "svc_limiter s = Some l"
    and "ident = (if otpr_Identifier inp = [] then otpr_Email inp else otpr_Identifier inp)"
    and "TrimSpace ident \<noteq> []"
    and "run_state (lp_Allow l (IdentifierKey (rt_ToLower rt) ident) OTPRequestIdentifierPolicy) u = (Inr d, u')"
    and "\<not> Allowed d"
  shows "run_state (RequestOTP rt (s\<lparr>svc_auth := port\<rparr>) inp) u =
    (Inl (LimitErr \<lparr>le_Decision = d, Unavailable = False\<rparr>), u')"
proof -
  have "svc_limiter (s\<lparr>svc_auth := port\<rparr>) = Some l" using assms(1) by simp
  from run_allow [OF this] have
    "run_state (allow (s\<lparr>svc_auth := port\<rparr>) (IdentifierKey (rt_ToLower rt) ident) OTPRequestIdentifierPolicy) u =
      (Inl (LimitErr \<lparr>le_Decision = d, Unavailable = False\<rparr>), u')"
    using assms(4,5) by simp
  then have "run_state (checkIdentifierLimit rt (s\<lparr>svc_auth := port\<rparr>) ident) u =
      (Inl (LimitErr \<lparr>le_Decision = d, Unavailable = False\<rparr>), u')"
    using assms(1,3) by (simp add: checkIdentifierLimit_def)
  then show ?thesis unfolding RequestOTP_def Let_def assms(2) by simp
qed

lemma hex_graph: "list_all is_graph hex_chars" "CHR '','' \<notin> set hex_chars"
  by (simp_all add: hex_chars_def is_graph_def)

text \<open>Behind a trusted proxy that passes the
  client's own \<open>X-Forwarded-For\<close> through, a client that writes \<open>id:\<close> and the hash of somebody's
  identifier there spends, on the one-time password route, that identifier's budget.\<close>

lemma forwarded_address_reaches_identifier_bucket:
  assumes "Header_Get r ''X-Forwarded-For'' = ''id:'' @ HashIdentifier uni ident"
  shows "ClientKey ClassAuthOTPRequest (clientIP r True) = IdentifierKey uni ident"
proof -
  let ?a = "''id:'' @ HashIdentifier uni ident"
  have hash: "list_all is_graph (HashIdentifier uni ident)"
    using HashIdentifier_hex [of uni ident] hex_graph(1) by (auto simp: list_all_iff)
  have comma: "CHR '','' \<notin> set ?a"
    using HashIdentifier_hex [of uni ident] hex_graph(2) by auto
  have "list_all is_graph ?a" using hash by (simp add: is_graph_def)
  then have "TrimSpace ?a = ?a" by (rule TrimSpace_graph)
  moreover have "hd (split_on CHR '','' ?a) = ?a" unfolding hd_split_on takeWhile_eq_all_conv using comma by auto
  ultimately have "clientIP r True = ?a" unfolding clientIP_def assms by simp
  then show ?thesis by (simp add: ClientKey_IdentifierKey)
qed

text \<open>C22 [a nil limiter is not a disabled one]. \<open>ratelimit.New(nil)\<close> is a nil adapter, but the
  interface value \<open>main\<close> builds from it is not nil: the service believes it has a limiter, and every
  request to a class-limited route kills its goroutine on the nil adapter.\<close>

theorem nil_adapter_not_disabled:
  "HasLimiter (NewService (d\<lparr>dep_Limiter := limiter_iface (New_adapter None)\<rparr>)) \<and>
   (h_svc h = NewService (d\<lparr>dep_Limiter := limiter_iface (New_adapter None)\<rparr>) \<longrightarrow>
      run_state (wrap h cls next r w) u = (abort w, u))"
  by (auto simp: NewService_def HasLimiter_def limiter_iface_def New_adapter_def wrap_def CheckClassLimit_def
        allow_def Adapter_Allow_def writeLimitError_def writeAppError_def)

theorem nil_adapter_not_disabled_witness:
  "run_state (wrap (guarded_handlers\<lparr>h_svc := NewService ((gateway_deps sample_externals sample_client None)
       \<lparr>dep_Limiter := limiter_iface (New_adapter None)\<rparr>)\<rparr>) ClassAuthPassword health plain_request
       empty_response) (new_world 0) = (abort empty_response, new_world 0)"
  using nil_adapter_not_disabled [of "gateway_deps sample_externals sample_client None"
      "guarded_handlers\<lparr>h_svc := NewService ((gateway_deps sample_externals sample_client None)
       \<lparr>dep_Limiter := limiter_iface (New_adapter None)\<rparr>)\<rparr>" ClassAuthPassword health plain_request
      empty_response "new_world 0"] by simp

definition route_classes :: "string list" where
  "route_classes =
     [ClassAuthOTPRequest, ClassAuthOTPVerify, ClassAuthPassword, ClassAuthRefresh,
      ClassOwnershipChallenge, ClassOwnershipVerify, ClassDevOnboardClaim, ClassAdminChallenge,
      ClassAdminVerify, ClassOnboardClaim]"

text \<open>Two requests to class-limited routes share a bucket only with the same class and the same address.\<close>

lemma class_buckets_apart:
  assumes "c1 \<in> set route_classes" and "c2 \<in> set route_classes"
    and "ClientKey c1 ip1 = ClientKey c2 ip2"
  shows "c1 = c2 \<and> ip1 = ip2"
proof -
  have "list_all (\<lambda>c. CHR '':'' \<notin> set c) route_classes"
    by (simp add: route_classes_def class_defs)
  then show ?thesis using ClientKey_inj [of c1 c2 ip1 ip2] assms by (simp add: list_all_iff)
qed

end
