(* ===== verification/Code_Distribution.thy ===== *)
theory Code_Distribution
  imports Infra_Adapters
begin

text \<open>
  How likely each challenge code is: the codes are the residues modulo a million of the \<open>2\<^sup>2\<^sup>4\<close> byte
  triples the random source can answer.
\<close>

subsection \<open>The code determines the number\<close>

definition dec_value :: "string \<Rightarrow> nat" where
  "dec_value s = foldl (\<lambda>a c. a * 10 + (of_char c - 48)) 0 s"

lemma dec_value_snoc: "dec_value (s @ [c]) = dec_value s * 10 + (of_char c - 48)"
  by (simp add: dec_value_def)

lemma digit_char_value: "d < 10 \<Longrightarrow> of_char (digit_char d) - 48 = (d :: nat)"
proof -
  assume "d < 10"
  then have "d \<in> {0, 1, 2, 3, 4, 5, 6, 7, 8, 9}" by auto
  then show ?thesis by (auto simp: digit_char_def hex_chars_def)
qed

lemma dec_value_show_nat: "dec_value (show_nat n) = n"
proof (induction n rule: less_induct)
  case (less n)
  show ?case
  proof (cases "n < 10")
    case True
    then show ?thesis using digit_char_value by (simp add: show_nat_small dec_value_def)
  next
    case False
    then have "dec_value (show_nat (n div 10)) = n div 10" by (intro less.IH) auto
    then show ?thesis using digit_char_value [of "n mod 10"]
      by (simp add: show_nat_step [OF False] dec_value_snoc)
  qed
qed

lemma dec_value_pad: "dec_value (pad_zeros k s) = dec_value s"
proof -
  have "foldl (\<lambda>a c. a * 10 + (of_char c - 48)) 0 (replicate m CHR ''0'') = (0 :: nat)" for m
    by (induction m) auto
  then show ?thesis by (simp add: dec_value_def pad_zeros_def)
qed

lemma code_text_inj: "pad_zeros k (show_nat m) = pad_zeros k (show_nat n) \<Longrightarrow> m = n"
  by (metis dec_value_pad dec_value_show_nat)

subsection \<open>The byte triples are the numbers below \<open>2\<^sup>2\<^sup>4\<close>\<close>

lemma byte_bound: "unat (b :: byte) < 256"
  using unsigned_less [of b, where ?'a = nat] by simp

lemma base_256_unique:
  assumes "b < 256" "c < 256" "b' < 256" "c' < (256 :: nat)"
    and "a * 65536 + b * 256 + c = a' * 65536 + b' * 256 + c'"
  shows "a = a' \<and> b = b' \<and> c = c'"
proof -
  have split: "N mod 256 = c \<and> N div 256 mod 256 = b \<and> N div 256 div 256 = a"
    if "N = a * 65536 + b * 256 + c" "b < 256" "c < 256" for N a b c :: nat
  proof -
    define M where "M = b + a * 256"
    have "N = c + M * 256" using that(1) by (simp add: M_def)
    then have "N mod 256 = c" "N div 256 = M" using that(3) by simp_all
    moreover have "M mod 256 = b" "M div 256 = a" unfolding M_def using that(2) by simp_all
    ultimately show ?thesis by simp
  qed
  show ?thesis using split [OF refl assms(1,2), of a] split [OF assms(5) assms(3,4)] by simp
qed

lemma code_number_inj: "inj code_number"
proof (rule injI)
  fix x y :: "byte \<times> byte \<times> byte"
  assume eq: "code_number x = code_number y"
  obtain a b c where x: "x = (a, b, c)" by (cases x)
  obtain a' b' c' where y: "y = (a', b', c')" by (cases y)
  from eq have "unat a * 65536 + unat b * 256 + unat c = unat a' * 65536 + unat b' * 256 + unat c'"
    by (simp add: x y code_number_value)
  then have "unat a = unat a'" "unat b = unat b'" "unat c = unat c'"
    using base_256_unique [of "unat b" "unat c" "unat b'" "unat c'"] byte_bound by blast+
  then show "x = y" by (simp add: x y word_unat_eq_iff)
qed

lemma code_number_range: "range code_number = {..<2 ^ 24}"
proof (rule card_subset_eq)
  have "card (UNIV :: (byte \<times> byte \<times> byte) set) = 2 ^ 24"
    by (simp add: card_prod card_word flip: UNIV_Times_UNIV)
  then show "card (range code_number) = card {..<2 ^ 24 :: nat}"
    using card_image [OF code_number_inj] by simp
qed (use code_number_bound in auto)

lemma residues_counted:
  assumes "n < 1000000"
  shows "card {m :: nat. m < 2 ^ 24 \<and> m mod 1000000 = n} = (if n < 777216 then 17 else 16)"
proof -
  let ?k = "if n < 777216 then 17 else 16 :: nat"
  have "{m. m < 2 ^ 24 \<and> m mod 1000000 = n} = (\<lambda>i. i * 1000000 + n) ` {..<?k}"
  proof (intro set_eqI iffI)
    fix m assume "m \<in> {m. m < 2 ^ 24 \<and> m mod 1000000 = n}"
    then have "m < 16777216" "m mod 1000000 = n" by auto
    then have m: "m = m div 1000000 * 1000000 + n" by (metis div_mult_mod_eq)
    with \<open>m < 16777216\<close> have "m div 1000000 < ?k" by (auto split: if_splits)
    with m have "m = m div 1000000 * 1000000 + n \<and> m div 1000000 < ?k" by blast
    then show "m \<in> (\<lambda>i. i * 1000000 + n) ` {..<?k}" by blast
  next
    fix m assume "m \<in> (\<lambda>i. i * 1000000 + n) ` {..<?k}"
    then obtain i where "i < ?k" "m = i * 1000000 + n" by blast
    then show "m \<in> {m. m < 2 ^ 24 \<and> m mod 1000000 = n}" using assms by (auto split: if_splits)
  qed
  moreover have "inj_on (\<lambda>i. i * 1000000 + n) {..<?k}" by (auto simp: inj_on_def)
  ultimately show ?thesis by (simp add: card_image)
qed

text \<open>C23 [codes are nearly uniform]. Each of the million codes \<open>NewCode\<close> can draw is six digits and comes from 16 or
  17 of the \<open>2\<^sup>2\<^sup>4\<close> byte triples of the random source: from 17 exactly for the codes below 777216.\<close>

theorem NewCode_nearly_uniform:
  assumes "n < 1000000"
  shows "card {b. result_of (NewCode (ret b)) () = pad_zeros 6 (show_nat n)} =
      (if n < 777216 then 17 else 16) \<and>
    length (pad_zeros 6 (show_nat n)) = 6 \<and> is_decimal (pad_zeros 6 (show_nat n))"
proof -
  have "{b. result_of (NewCode (ret b)) () = pad_zeros 6 (show_nat n)} = {b. code_number b mod 1000000 = n}"
    by (auto simp: NewCode_def dest: code_text_inj)
  also have "\<dots> = code_number -` {m. m < 2 ^ 24 \<and> m mod 1000000 = n}" using code_number_bound by auto
  finally have "card {b. result_of (NewCode (ret b)) () = pad_zeros 6 (show_nat n)} =
      card {m. m < 2 ^ 24 \<and> m mod 1000000 = n}"
    using card_vimage_inj [OF code_number_inj, of "{m. m < 2 ^ 24 \<and> m mod 1000000 = n}"]
    by (auto simp: code_number_range)
  then show ?thesis using residues_counted [OF assms] six_digits [of n] assms by simp
qed

theorem NewCode_nearly_uniform_witness:
  "card {b. result_of (NewCode (ret b)) () = pad_zeros 6 (show_nat 66051)} = 17"
  using NewCode_nearly_uniform [of 66051] by simp

end
