(* ===== verification/Edge_Properties.thy ===== *)
theory Edge_Properties
  imports Samples
begin

text \<open>
  The edge end to end on the wired gateway: what the client sees when orbit-auth fails, what reaches
  orbit-auth, which requests are refused before it, and how request bodies are read.
\<close>

subsection \<open>Samples\<close>

abbreviation sample_handlers :: "go_time gw_world handlers" where
  "sample_handlers \<equiv> gateway_handlers sample_externals sample_client None"

definition login_request :: request where
  "login_request = \<lparr>req_Method = ''POST'', req_Path = ''/api/v1/auth/login'', req_Header = Map.empty,
     req_PathValues = Map.empty, req_RemoteAddr = ''10.0.0.1:80'', req_Body = ''{}'', req_Context = Background\<rparr>"

lemma run_on_ext:
  "run_state m (w_ext u) = (a, x) \<Longrightarrow> run_state (on_ext m) u = (a, u\<lparr>w_ext := x\<rparr>)"
  by (simp add: on_ext_def)

subsection \<open>Failures of orbit-auth\<close>

text \<open>A password login with a readable body whose upstream call fails: the status
  follows the gRPC code, the upstream message is shown for the five codes meant for clients only, and
  any other failure (also not-found and already-exists) is a 500 with a fixed text.\<close>

lemma login_upstream_failure:
  assumes "decodeJSONBody loginBody r w = Inr body"
    and "run_state (rpc_LoginWithPassword (cl_api c)
           (if pl_Identifier body = [] then pl_Email body else pl_Identifier body) (pl_Password body))
           (w_ext u) = (Inl err, x)"
  shows "run_state (login (gateway_handlers e c l) r w) u =
    ((case err of
        GrpcStatus InvalidArgument m \<Rightarrow> writeJSON 400 (error_body m) w
      | GrpcStatus Unauthenticated m \<Rightarrow> writeJSON 401 (error_body m) w
      | GrpcStatus PermissionDenied m \<Rightarrow> writeJSON 403 (error_body m) w
      | GrpcStatus FailedPrecondition m \<Rightarrow> writeJSON 412 (error_body m) w
      | GrpcStatus ResourceExhausted m \<Rightarrow> writeJSON 429 (error_body m) w
      | _ \<Rightarrow> writeJSON 500 (error_body ''upstream error'') w), u\<lparr>w_ext := x\<rparr>)"
proof -
  have "run_state (Login (gateway_service e c l) body) u = (Inl (upstreamError err), u\<lparr>w_ext := x\<rparr>)"
    using assms(2)
    by (auto simp: Login_def Let_def outside_auth_def client_auth_def Client_LoginWithPassword_def
          intro!: run_on_ext)
  then show ?thesis
    by (simp add: login_def with_body_accepted [OF assms(1)])
       (simp add: upstreamError_def writeAppError_def split: rpc_error.splits grpc_code.splits)
qed

lemma read_empty_object: "read_json_body ''{}'' = Some (JObj [])"
  using read_json_body_encode [of "JObj []" "[]"] by (simp add: maxAuthBody_def max_nesting_depth_def)

lemma sample_login_body: "decodeJSONBody loginBody login_request empty_response =
    Inr \<lparr>pl_Identifier = [], pl_Email = [], pl_Password = []\<rparr>"
  by (simp add: decodeJSONBody_def login_request_def read_empty_object loginBody_def str_field_def)

lemma login_upstream_failure_witness:
  "run_state (login sample_handlers login_request empty_response) (new_world 7) =
    (writeJSON 500 (error_body ''upstream error'') empty_response, (new_world 7)\<lparr>w_ext := 7\<rparr>)"
  using login_upstream_failure [OF sample_login_body, of sample_client "new_world 7"
      "NotAStatus ''connection refused''" 7 sample_externals None]
  by (simp add: sample_client_def sample_stubs_def down_def)

definition org_failure :: "rpc_error \<Rightarrow> response \<Rightarrow> response" where
  "org_failure err w =
     (case err of
        GrpcStatus InvalidArgument m \<Rightarrow> writeJSON 400 (error_body m) w
      | GrpcStatus Unauthenticated m \<Rightarrow> writeJSON 401 (error_body m) w
      | GrpcStatus PermissionDenied m \<Rightarrow> writeJSON 403 (error_body m) w
      | GrpcStatus NotFound m \<Rightarrow> writeJSON 404 (error_body m) w
      | GrpcStatus FailedPrecondition m \<Rightarrow> writeJSON 409 (error_body m) w
      | GrpcStatus AlreadyExists m \<Rightarrow> writeJSON 409 (error_body m) w
      | GrpcStatus ResourceExhausted m \<Rightarrow> writeJSON 429 (error_body m) w
      | _ \<Rightarrow> writeJSON 502 (error_body ''upstream error'') w)"

lemma writeAppError_org: "writeAppError (orgUpstreamError err) w = org_failure err w"
  by (simp add: orgUpstreamError_def writeAppError_def org_failure_def split: rpc_error.splits grpc_code.splits)

text \<open>When orbit-auth refuses a registration with a failed
  precondition (sign-up is closed), the answer is the 404 of an unknown resource, the same whatever
  the upstream message; a success is 202; other failures are those of the organization calls.\<close>

lemma signup_hidden_when_closed:
  assumes "decodeJSONBody signupBody r w = Inr body"
    and "run_state (rpc_RegisterWithEmail (cl_api c) body) (w_ext u) = (outcome, x)"
  shows "run_state (signup (gateway_handlers e c l) r w) u =
    ((case outcome of
        Inl (GrpcStatus FailedPrecondition m) \<Rightarrow> writeJSON 404 (error_body ''not found'') w
      | Inl err \<Rightarrow> org_failure err w
      | Inr _ \<Rightarrow> writeJSON 202 (JObj [(''status'', JStr ''verification_sent'')]) w), u\<lparr>w_ext := x\<rparr>)"
proof -
  have "run_state (RegisterWithEmail (gateway_service e c l) body) u =
      (case outcome of Inl err \<Rightarrow> Inl (signupUpstreamError err) | Inr y \<Rightarrow> Inr y, u\<lparr>w_ext := x\<rparr>)"
    using assms(2)
    by (auto simp: RegisterWithEmail_def outside_signup_def client_signup_def Client_RegisterWithEmail_def
          intro!: run_on_ext split: sum.splits)
  moreover have "writeAppError (signupUpstreamError err) w =
      (case err of GrpcStatus FailedPrecondition m \<Rightarrow> writeJSON 404 (error_body ''not found'') w
       | _ \<Rightarrow> org_failure err w)" for err
    by (cases err)
       (auto simp: signupUpstreamError_def writeAppError_org [symmetric] writeAppError_def
          split: grpc_code.splits)
  ultimately show ?thesis
    by (simp add: signup_def with_body_accepted [OF assms(1)] signupAcceptedResponse_def
          signupStatusVerificationSent_def split: sum.splits rpc_error.splits grpc_code.splits)
qed

lemma sample_signup_body: "decodeJSONBody signupBody login_request empty_response =
    Inr \<lparr>sr_Email = [], sr_Password = [], sr_DisplayName = [], sr_Locale = [], sr_OrgName = [],
         sr_InviteToken = []\<rparr>"
  by (simp add: decodeJSONBody_def login_request_def read_empty_object signupBody_def str_field_def)

definition closed_client :: "go_time client" where
  "closed_client = sample_client\<lparr>cl_api := sample_stubs\<lparr>rpc_RegisterWithEmail :=
     (\<lambda>_. ret (Inl (GrpcStatus FailedPrecondition ''signup is closed for tenant 42'')))\<rparr>\<rparr>"

lemma signup_hidden_when_closed_witness:
  "run_state (signup (gateway_handlers sample_externals closed_client None) login_request empty_response)
      (new_world 7) =
    (writeJSON 404 (error_body ''not found'') empty_response, (new_world 7)\<lparr>w_ext := 7\<rparr>)"
  using signup_hidden_when_closed [OF sample_signup_body, of closed_client "new_world 7"
      "Inl (GrpcStatus FailedPrecondition ''signup is closed for tenant 42'')" 7 sample_externals None]
  by (simp add: closed_client_def)

subsection \<open>Requests refused at the edge\<close>

definition bearer_handlers :: "'w handlers \<Rightarrow> 'w handler list" where
  "bearer_handlers h =
     [listOrgs h, createOrg h, setOrgSlug h, listMembers h, addMember h, removeMember h, suspendMember h,
      setMemberRole h, createInvite h, listInvites h, revokeInvite h, acceptInvite h, selectOrg h]"

text \<open>A request without \<open>Authorization: Bearer\<close> and a token that
  is more than blanks is answered 401 by each of the organization handlers, and nothing else happens:
  no upstream call, no limiter call, whatever is wired.\<close>

lemma org_handlers_need_bearer:
  assumes "\<not> HasPrefix (Header_Get r ''Authorization'') ''Bearer '' \<or>
      TrimSpace (TrimPrefix (Header_Get r ''Authorization'') ''Bearer '') = []"
    and "H \<in> set (bearer_handlers h)"
  shows "run_state (H r w) u = (writeJSON 401 (error_body ''missing bearer token'') w, u)"
proof -
  have "requireBearer r w = Inl (writeJSON 401 (error_body ''missing bearer token'') w)"
    using assms(1) by (auto simp: requireBearer_def Let_def)
  then have "with_bearer r w f = ret (writeJSON 401 (error_body ''missing bearer token'') w)"
    for f :: "string \<Rightarrow> ('a, response) state"
    by (simp add: with_bearer_def)
  then show ?thesis using assms(2)
    by (auto simp: bearer_handlers_def listOrgs_def createOrg_def setOrgSlug_def listMembers_def
          addMember_def removeMember_def suspendMember_def setMemberRole_def createInvite_def
          listInvites_def revokeInvite_def acceptInvite_def selectOrg_def)
qed

lemma org_handlers_need_bearer_witness:
  "run_state (selectOrg sample_handlers login_request empty_response) (new_world 7) =
    (writeJSON 401 (error_body ''missing bearer token'') empty_response, new_world 7)"
  by (rule org_handlers_need_bearer [of _ _ sample_handlers])
     (simp_all add: bearer_handlers_def login_request_def Header_Get_def HasPrefix_def)

subsection \<open>Request bodies\<close>

text \<open>A body the JSON encoder wrote for an object or array of at most 64 KiB
  and the decoder's nesting depth is decoded to that value (with its strings made valid UTF-8),
  whatever bytes follow it.\<close>

lemma decodeJSONBody_reads_back:
  assumes "json_no_num v" and "json_depth v \<le> max_nesting_depth" and "is_composite v"
    and "length (json_encode v) \<le> maxAuthBody" and "dec (json_valid v) = Some y"
  shows "decodeJSONBody dec (r\<lparr>req_Body := json_encode v @ rest\<rparr>) w = Inr y"
  by (simp add: decodeJSONBody_def read_json_body_encode [OF assms(1-4)] assms(5))

lemma sample_slug:
  "length (json_encode (JObj [(''slug'', JStr ''acme'')])) = 15"
  "setOrgSlugBody (json_valid (JObj [(''slug'', JStr ''acme'')])) = Some ''acme''"
  by code_simp+

lemma decodeJSONBody_reads_back_witness:
  "decodeJSONBody setOrgSlugBody
     (login_request\<lparr>req_Body := json_encode (JObj [(''slug'', JStr ''acme'')]) @ ''} junk''\<rparr>) empty_response =
   Inr ''acme''"
proof (rule decodeJSONBody_reads_back)
  show "length (json_encode (JObj [(''slug'', JStr ''acme'')])) \<le> maxAuthBody"
    unfolding sample_slug by (simp add: maxAuthBody_def)
  show "setOrgSlugBody (json_valid (JObj [(''slug'', JStr ''acme'')])) = Some ''acme''"
    by (rule sample_slug)
qed (simp_all add: max_nesting_depth_def)

text \<open>Of a body longer than 64 KiB only the first 64 KiB count.\<close>

lemma body_beyond_cap_ignored:
  assumes "take maxAuthBody b = take maxAuthBody b'" and "maxAuthBody < length b" and "maxAuthBody < length b'"
  shows "decodeJSONBody dec (r\<lparr>req_Body := b\<rparr>) w = decodeJSONBody dec (r\<lparr>req_Body := b'\<rparr>) w"
proof -
  have "read_json_body b = read_json_body b'"
    unfolding read_json_body_def assms(1) using assms(2,3) by (auto split: option.splits)
  then show ?thesis by (simp add: decodeJSONBody_def)
qed

text \<open>The flag document orbit-auth serves, if the client is configured and it serves one that decodes.\<close>

definition served_flags :: "'x client \<Rightarrow> 'x \<Rightarrow> flag_set option" where
  "served_flags c x =
     (if TrimSpace (AuthHTTPURL c) = [] then None
      else case result_of (cl_http_get c (TrimRight_char CHR ''/'' (AuthHTTPURL c) @ ''/v1/flags'')) x of
        TransportError m \<Rightarrow> None
      | HttpResponse code body \<Rightarrow>
          if code = 200 then Option.bind (map_option fst (decode_value body)) flagDocument else None)"

lemma Client_ListFlags_result:
  "result_of (Client_ListFlags c) x =
     (case served_flags c x of None \<Rightarrow> Inl bad_gateway | Some fs \<Rightarrow> Inr fs)"
  by (auto simp: Client_ListFlags_def served_flags_def flagsPath_def
        split: prod.splits http_outcome.splits option.splits)

text \<open>The flag route answers 200 with the flag document orbit-auth served, and
  in every other case (no address, transport error, another status, malformed document) 502 with a
  fixed text; the answer is never cached.\<close>

lemma flags_answer:
  "result_of (flags_handler (gateway_handlers e c l) r w) u =
     (let w1 = Header_Set ''Cache-Control'' ''no-cache'' w in
      case served_flags c (w_ext u) of
        None \<Rightarrow> writeJSON 502 (error_body ''flags unavailable'') w1
      | Some fs \<Rightarrow> writeJSON 200 (flagSetJSON fs) w1)"
proof -
  have flags: "ListFlags (gateway_service e c l) = on_ext (Client_ListFlags c)"
    by (simp add: ListFlags_def outside_flags_def client_flags_def)
  obtain x where "run_state (Client_ListFlags c) (w_ext u) =
      (case served_flags c (w_ext u) of None \<Rightarrow> Inl bad_gateway | Some fs \<Rightarrow> Inr fs, x)"
    using Client_ListFlags_result [of c "w_ext u"] by (cases "run_state (Client_ListFlags c) (w_ext u)") auto
  from run_on_ext [OF this] show ?thesis
    by (simp add: flags_handler_def Let_def flags flags_error_def bad_gateway_def split: option.splits)
qed

end
