(* ===== verification/Org_Proxy.thy ===== *)
theory Org_Proxy
  imports Edge_Properties
begin

text \<open>
  What the README promises of the organization routes: each is a proxy to one method of orbit-auth's
  \<open>OrgService\<close>.  The proxy is stated here once, from a table of the calls, and every handler of
  \<open>orgs.go\<close>, through the use case and the client below it, is shown to be that proxy.
\<close>

subsection \<open>The table of calls\<close>

datatype org_op =
  OpListOrgs | OpCreateOrg | OpSetOrgSlug | OpListMembers | OpAddMember | OpRemoveMember
| OpSuspendMember | OpSetMemberRole | OpCreateInvite | OpListInvites | OpRevokeInvite | OpAcceptInvite

datatype org_call =
  CallListMyOrgs
| CallCreateOrg string string
| CallSetOrgSlug string string
| CallListMembers string
| CallAddMember string string
| CallRemoveMember string string
| CallSuspendMember string string
| CallSetMemberRole string string string
| CallInviteMember string string
| CallListInvites string
| CallRevokeInvite string string
| CallAcceptInvite string

fun org_handler :: "'w handlers \<Rightarrow> org_op \<Rightarrow> 'w handler" where
  "org_handler h OpListOrgs = listOrgs h"
| "org_handler h OpCreateOrg = createOrg h"
| "org_handler h OpSetOrgSlug = setOrgSlug h"
| "org_handler h OpListMembers = listMembers h"
| "org_handler h OpAddMember = addMember h"
| "org_handler h OpRemoveMember = removeMember h"
| "org_handler h OpSuspendMember = suspendMember h"
| "org_handler h OpSetMemberRole = setMemberRole h"
| "org_handler h OpCreateInvite = createInvite h"
| "org_handler h OpListInvites = listInvites h"
| "org_handler h OpRevokeInvite = revokeInvite h"
| "org_handler h OpAcceptInvite = acceptInvite h"

definition body_field :: "(json \<Rightarrow> 'a option) \<Rightarrow> request \<Rightarrow> 'a option" where
  "body_field dec r = Option.bind (read_json_body (req_Body r)) dec"

text \<open>The call a request asks for; \<^const>\<open>None\<close> where its body cannot be read.\<close>

fun requested_call :: "org_op \<Rightarrow> request \<Rightarrow> org_call option" where
  "requested_call OpListOrgs r = Some CallListMyOrgs"
| "requested_call OpCreateOrg r =
     map_option (\<lambda>(name, slug). CallCreateOrg name (TrimSpace slug)) (body_field createOrgBody r)"
| "requested_call OpSetOrgSlug r =
     map_option (\<lambda>slug. CallSetOrgSlug (PathValue r ''org_id'') (TrimSpace slug)) (body_field setOrgSlugBody r)"
| "requested_call OpListMembers r = Some (CallListMembers (PathValue r ''org_id''))"
| "requested_call OpAddMember r =
     map_option (CallAddMember (PathValue r ''org_id'')) (body_field addMemberBody r)"
| "requested_call OpRemoveMember r = Some (CallRemoveMember (PathValue r ''org_id'') (PathValue r ''user_id''))"
| "requested_call OpSuspendMember r = Some (CallSuspendMember (PathValue r ''org_id'') (PathValue r ''user_id''))"
| "requested_call OpSetMemberRole r =
     map_option (\<lambda>role. CallSetMemberRole (PathValue r ''org_id'') (PathValue r ''user_id'') (TrimSpace role))
       (body_field setMemberRoleBody r)"
| "requested_call OpCreateInvite r =
     map_option (CallInviteMember (PathValue r ''org_id'')) (body_field inviteMemberBody r)"
| "requested_call OpListInvites r = Some (CallListInvites (PathValue r ''org_id''))"
| "requested_call OpRevokeInvite r = Some (CallRevokeInvite (PathValue r ''org_id'') (PathValue r ''invite_id''))"
| "requested_call OpAcceptInvite r = map_option CallAcceptInvite (body_field acceptInviteBody r)"

text \<open>The stub of a call, and how its answer is rendered.\<close>

definition rendered :: "('a \<Rightarrow> json) \<Rightarrow> ('x, 'a) rpc \<Rightarrow> ('x, json) rpc" where
  "rendered f m = m \<bind> (\<lambda>res. ret (map_sum id f res))"

abbreviation organization_json :: "pb_organization option \<Rightarrow> organizationJSON" where
  "organization_json p \<equiv> organizationJSONFrom (organization_of p)"

abbreviation membership_json :: "pb_membership option \<Rightarrow> membershipJSON" where
  "membership_json p \<equiv> membershipJSONFrom (membership_of p)"

abbreviation invite_json :: "pb_invite option \<Rightarrow> inviteJSON" where
  "invite_json p \<equiv> inviteJSONFrom (invite_of p)"

fun org_rpc :: "'x grpc_stubs \<Rightarrow> metadata \<Rightarrow> org_call \<Rightarrow> ('x, json) rpc" where
  "org_rpc s md CallListMyOrgs = rendered (\<lambda>ps. organizationList (map organization_json ps)) (rpc_ListMyOrgs s md)"
| "org_rpc s md (CallCreateOrg name slug) =
     rendered (\<lambda>p. organizationEnvelope (organization_json p)) (rpc_CreateOrg s md name slug)"
| "org_rpc s md (CallSetOrgSlug org slug) =
     rendered (\<lambda>p. organizationEnvelope (organization_json p)) (rpc_SetOrgSlug s md org slug)"
| "org_rpc s md (CallListMembers org) =
     rendered (\<lambda>ps. membershipList (map membership_json ps)) (rpc_ListMembers s md org)"
| "org_rpc s md (CallAddMember org user) =
     rendered (\<lambda>_. JObj [(''status'', JStr ''added'')]) (rpc_AddMember s md org user)"
| "org_rpc s md (CallRemoveMember org user) =
     rendered (\<lambda>_. JObj [(''status'', JStr ''removed'')]) (rpc_RemoveMember s md org user)"
| "org_rpc s md (CallSuspendMember org user) =
     rendered (\<lambda>_. JObj [(''status'', JStr ''suspended'')]) (rpc_SuspendMember s md org user)"
| "org_rpc s md (CallSetMemberRole org user role) =
     rendered (\<lambda>p. membershipEnvelope (membership_json p)) (rpc_SetMemberRole s md org user role)"
| "org_rpc s md (CallInviteMember org email) =
     rendered (\<lambda>p. inviteEnvelope (invite_json p)) (rpc_InviteMember s md org email)"
| "org_rpc s md (CallListInvites org) =
     rendered (\<lambda>ps. inviteList (map invite_json ps)) (rpc_ListInvites s md org)"
| "org_rpc s md (CallRevokeInvite org i) =
     rendered (\<lambda>_. JObj [(''status'', JStr ''revoked'')]) (rpc_RevokeInvite s md org i)"
| "org_rpc s md (CallAcceptInvite token) =
     rendered (\<lambda>p. inviteEnvelope (invite_json p)) (rpc_AcceptInvite s md token)"

text \<open>The token of \<open>Authorization: Bearer <token>\<close>, which is more than blanks.\<close>

definition bearer_of :: "request \<Rightarrow> string option" where
  "bearer_of r =
     (let header = Header_Get r ''Authorization''; tok = TrimSpace (drop 7 header)
      in if take 7 header = ''Bearer '' \<and> tok \<noteq> [] then Some tok else None)"

text \<open>The proxy: the caller's token, the call, one upstream call under that token, its answer.\<close>

definition org_proxy :: "'x client \<Rightarrow> org_op \<Rightarrow> 'x gw_world handler" where
  "org_proxy c op r w =
     (case bearer_of r of
        None \<Rightarrow> ret (writeJSON 401 (error_body ''missing bearer token'') w)
      | Some tok \<Rightarrow>
          (case requested_call op r of
             None \<Rightarrow> ret (writeJSON 400 (error_body ''invalid json'') w)
           | Some call \<Rightarrow>
               on_ext (org_rpc (cl_api c) [(''authorization'', ''Bearer '' @ tok)] call) \<bind> (\<lambda>res.
                 ret (case res of Inl err \<Rightarrow> org_failure err w | Inr v \<Rightarrow> writeJSON 200 v w))))"

subsection \<open>The handlers are the proxy\<close>

lemma rendered_lists:
  "organizationsJSON (organizations ps) = map organization_json ps"
  "membershipsJSON (memberships ms) = map membership_json ms"
  "invitesJSON (invites ivs) = map invite_json ivs"
proof -
  show "organizationsJSON (organizations ps) = map organization_json ps" by (induction ps) simp_all
  show "membershipsJSON (memberships ms) = map membership_json ms" by (induction ms) simp_all
  show "invitesJSON (invites ivs) = map invite_json ivs" by (induction ivs) simp_all
qed

lemma with_bearer_of:
  "with_bearer r w f = (case bearer_of r of
     None \<Rightarrow> ret (writeJSON 401 (error_body ''missing bearer token'') w) | Some tok \<Rightarrow> f tok)"
proof -
  have strip: "strip_prefix ''Bearer '' h = (if take 7 h = ''Bearer '' then Some (drop 7 h) else None)" for h
  proof (cases "strip_prefix ''Bearer '' h")
    case None
    have "take 7 h = ''Bearer '' \<Longrightarrow> h = ''Bearer '' @ drop 7 h" by (metis append_take_drop_id)
    with None show ?thesis by (metis option.distinct(1) strip_prefix_Some)
  qed (auto simp del: append.simps)
  show ?thesis
    by (auto simp: with_bearer_def requireBearer_def bearer_of_def Let_def HasPrefix_def TrimPrefix_def strip)
qed

lemma with_body_field:
  "with_body dec r w f = (case body_field dec r of
     None \<Rightarrow> ret (writeJSON 400 (error_body ''invalid json'') w) | Some x \<Rightarrow> f x)"
  by (simp add: with_body_def decodeJSONBody_def body_field_def split: option.splits)

text \<open>An answer that is one mapped upstream call.\<close>

lemma answer_upstream:
  "answer writeAppError (on_ext (via orgUpstreamError conv m)) w (\<lambda>x. writeJSON 200 (enc x) w) =
     on_ext (rendered (\<lambda>p. enc (conv p)) m) \<bind> (\<lambda>res.
       ret (case res of Inl err \<Rightarrow> org_failure err w | Inr v \<Rightarrow> writeJSON 200 v w))"
  by (rule state_ext)
     (auto simp: on_ext_def rendered_def writeAppError_org split: prod.splits sum.splits)

lemmas org_use_cases =
  ListMyOrgs_def CreateOrg_def SetOrgSlug_def ListMembers_def AddMember_def RemoveMember_def SuspendMember_def
  SetMemberRole_def InviteMember_def ListInvites_def RevokeInvite_def AcceptInvite_def

lemmas org_client =
  Client_ListMyOrgs_def Client_CreateOrg_def Client_SetOrgSlug_def Client_ListMembers_def Client_AddMember_def
  Client_RemoveMember_def Client_SuspendMember_def Client_SetMemberRole_def Client_InviteMember_def
  Client_ListInvites_def Client_RevokeInvite_def Client_AcceptInvite_def

lemmas org_handler_bodies =
  listOrgs_def createOrg_def setOrgSlug_def listMembers_def addMember_def removeMember_def suspendMember_def
  setMemberRole_def createInvite_def listInvites_def revokeInvite_def acceptInvite_def

text \<open>Each of the twelve organization handlers of the wired gateway is
  the proxy of the table: 401 without a usable bearer token, 400 for an unreadable body, otherwise one
  upstream call with the path's and body's values under \<open>authorization: Bearer <token>\<close> of the caller,
  whose answer is rendered with 200 and whose failure with the status of its code.\<close>

lemma org_handlers_are_proxies:
  "org_handler (gateway_handlers e c l) op r w = org_proxy c op r w"
proof -
  have calls: "callerContext [] tok = [(''authorization'', ''Bearer '' @ tok)]" for tok
    by (simp add: callerContext_def)
  show ?thesis
    unfolding org_proxy_def
    by (cases op)
       (simp_all add: org_handler_bodies with_bearer_of with_body_field org_use_cases outside_orgs_def
          client_orgs_def org_client calls answer_upstream rendered_lists revokeResponse_def revokeStatus_def
          split: sum.split option.split prod.split)
qed

end
