(* ===== verification/Auth_Proxy.thy ===== *)
theory Auth_Proxy
  imports Org_Proxy
begin

text \<open>
  The routes that need no token, and the change of the session's organization, as proxies of
  orbit-auth: a table says which call a request asks for, which bucket it spends before the call, how
  the answer is rendered and how each failure looks.  The handlers of \<open>handlers.go\<close> and \<open>orgs.go\<close>,
  through the use cases and the client below them, are shown to be these proxies.
\<close>

subsection \<open>Spending a bucket\<close>

text \<open>What a request that spends a bucket sees: a failing limiter is 503, a denial 429 with the state of
  the bucket, and an admitted request goes on with the state of the bucket in its headers.\<close>

definition rate_headers :: "decision \<Rightarrow> response \<Rightarrow> response" where
  "rate_headers d w =
     Header_Set ''X-RateLimit-Reset'' (show_int (time_Unix (ResetAt d)))
       (Header_Set ''X-RateLimit-Remaining'' (show_int (Remaining d))
         (Header_Set ''X-RateLimit-Limit'' (show_int (Limit d)) w))"

definition metered ::
    "'x limiter_port option \<Rightarrow> (string \<times> policy) option \<Rightarrow> response \<Rightarrow>
       (response \<Rightarrow> ('x gw_world, response) state) \<Rightarrow> ('x gw_world, response) state" where
  "metered l bucket w go =
     (case (l, bucket) of
        (Some p, Some (key, policy)) \<Rightarrow>
          on_ext (lp_Allow p key policy) \<bind> (\<lambda>outcome.
            case outcome of
              Inl e \<Rightarrow>
                ret (if e = NilDeref then abort w
                     else writeJSON 503 (error_body ''rate limiter unavailable'') (Header_Set ''Retry-After'' ''5'' w))
            | Inr d \<Rightarrow>
                if Allowed d then go (rate_headers d w)
                else ret (writeJSON 429 (error_body ''rate limit exceeded'')
                  (Header_Set ''Retry-After'' (show_int (max 1 (whole_seconds (RetryAfter d)))) (rate_headers d w))))
      | _ \<Rightarrow> go w)"

lemma rate_headers_eq: "setRateLimitHeaders d w = rate_headers d w"
  by (simp add: setRateLimitHeaders_def rate_headers_def)

lemma denial_eq:
  "writeLimitError (LimitErr \<lparr>le_Decision = d, Unavailable = False\<rparr>) w =
     writeJSON 429 (error_body ''rate limit exceeded'')
       (Header_Set ''Retry-After'' (show_int (max 1 (whole_seconds (RetryAfter d)))) (rate_headers d w))"
  by (simp add: writeLimitError_def rate_headers_eq retry_seconds_def Let_def max_def)

lemma unavailable_eq:
  "writeLimitError (LimitErr \<lparr>le_Decision = d, Unavailable = True\<rparr>) w =
     writeJSON 503 (error_body ''rate limiter unavailable'') (Header_Set ''Retry-After'' ''5'' w)"
  "writeLimitError NilDeref w = abort w"
  by (simp_all add: writeLimitError_def writeAppError_def)

subsection \<open>The table of calls\<close>

datatype auth_op =
  OpRequestOTP | OpVerifyOTP | OpLogin | OpRefreshToken | OpSignup | OpSignupVerify | OpResolveTenant

datatype auth_call =
  CallRequestOTP otp_request
| CallVerifyOTP otp_verification
| CallLogin string string
| CallRefreshToken string
| CallRegister signup_registration
| CallVerifySignup signup_verification
| CallResolveTenant string

fun auth_handler :: "'w handlers \<Rightarrow> auth_op \<Rightarrow> 'w handler" where
  "auth_handler h OpRequestOTP = requestOTP h"
| "auth_handler h OpVerifyOTP = verifyOTP h"
| "auth_handler h OpLogin = login h"
| "auth_handler h OpRefreshToken = refreshToken h"
| "auth_handler h OpSignup = signup h"
| "auth_handler h OpSignupVerify = signupVerify h"
| "auth_handler h OpResolveTenant = resolveTenant h"

definition first_given :: "string \<Rightarrow> string \<Rightarrow> string" where
  "first_given a b = (if a = [] then b else a)"

fun asked_call :: "auth_op \<Rightarrow> request \<Rightarrow> auth_call option" where
  "asked_call OpRequestOTP r = map_option CallRequestOTP (body_field otpRequestBody r)"
| "asked_call OpVerifyOTP r = map_option CallVerifyOTP (body_field otpVerifyBody r)"
| "asked_call OpLogin r =
     map_option (\<lambda>b. CallLogin (first_given (pl_Identifier b) (pl_Email b)) (pl_Password b)) (body_field loginBody r)"
| "asked_call OpRefreshToken r = map_option CallRefreshToken (body_field refreshBody r)"
| "asked_call OpSignup r = map_option CallRegister (body_field signupBody r)"
| "asked_call OpSignupVerify r = map_option CallVerifySignup (body_field signupVerifyBody r)"
| "asked_call OpResolveTenant r = Some (CallResolveTenant (TrimSpace (PathValue r ''slug'')))"

text \<open>Only a one-time password spends a bucket of its own, that of the identifier it is sent to.\<close>

fun call_bucket :: "(string \<Rightarrow> string) \<Rightarrow> auth_call \<Rightarrow> (string \<times> policy) option" where
  "call_bucket lower (CallRequestOTP b) =
     (let identifier = first_given (otpr_Identifier b) (otpr_Email b)
      in if TrimSpace identifier = [] then None
         else Some (IdentifierKey lower identifier, OTPRequestIdentifierPolicy))"
| "call_bucket lower _ = None"

abbreviation tokens_json :: "pb_token option \<Rightarrow> json" where
  "tokens_json t \<equiv> token_body (tokenPair t)"

fun auth_rpc :: "'x grpc_stubs \<Rightarrow> auth_call \<Rightarrow> ('x, json) rpc" where
  "auth_rpc s (CallRequestOTP b) = rendered (\<lambda>at. JObj [(''expires_at'', JStr at)]) (rpc_RequestOTP s b)"
| "auth_rpc s (CallVerifyOTP b) = rendered tokens_json (rpc_VerifyOTP s b)"
| "auth_rpc s (CallLogin identifier password) =
     rendered tokens_json (rpc_LoginWithPassword s identifier password)"
| "auth_rpc s (CallRefreshToken token) = rendered tokens_json (rpc_RefreshToken s token)"
| "auth_rpc s (CallRegister b) =
     rendered (\<lambda>_. JObj [(''status'', JStr ''verification_sent'')]) (rpc_RegisterWithEmail s b)"
| "auth_rpc s (CallVerifySignup b) = rendered tokens_json (rpc_VerifySignup s b)"
| "auth_rpc s (CallResolveTenant slug) = rendered (\<lambda>t. tenantJSON (tenant_of t)) (rpc_ResolveTenant s slug)"

fun call_success :: "auth_call \<Rightarrow> json \<Rightarrow> response \<Rightarrow> response" where
  "call_success (CallRegister b) v w = writeJSON 202 v w"
| "call_success (CallResolveTenant slug) v w =
     writeJSON 200 v (Header_Set ''Cache-Control'' ''public, max-age=30'' w)"
| "call_success _ v w = writeJSON 200 v w"

text \<open>The failures: five codes with their message for an authentication call, nothing but 404 for a closed
  sign-up, and one of two fixed texts for a tenant.\<close>

definition login_failure :: "rpc_error \<Rightarrow> response \<Rightarrow> response" where
  "login_failure err w =
     (case err of
        GrpcStatus InvalidArgument m \<Rightarrow> writeJSON 400 (error_body m) w
      | GrpcStatus Unauthenticated m \<Rightarrow> writeJSON 401 (error_body m) w
      | GrpcStatus PermissionDenied m \<Rightarrow> writeJSON 403 (error_body m) w
      | GrpcStatus FailedPrecondition m \<Rightarrow> writeJSON 412 (error_body m) w
      | GrpcStatus ResourceExhausted m \<Rightarrow> writeJSON 429 (error_body m) w
      | _ \<Rightarrow> writeJSON 500 (error_body ''upstream error'') w)"

definition signup_failure :: "rpc_error \<Rightarrow> response \<Rightarrow> response" where
  "signup_failure err w =
     (case err of
        GrpcStatus FailedPrecondition m \<Rightarrow> writeJSON 404 (error_body ''not found'') w
      | _ \<Rightarrow> org_failure err w)"

definition tenant_failure :: "rpc_error \<Rightarrow> response \<Rightarrow> response" where
  "tenant_failure err w =
     (case err of
        GrpcStatus NotFound m \<Rightarrow> writeJSON 404 (error_body ''tenant not found'') w
      | _ \<Rightarrow> writeJSON 502 (error_body ''upstream error'') w)"

fun call_failure :: "auth_call \<Rightarrow> rpc_error \<Rightarrow> response \<Rightarrow> response" where
  "call_failure (CallRegister b) = signup_failure"
| "call_failure (CallVerifySignup b) = signup_failure"
| "call_failure (CallResolveTenant slug) = tenant_failure"
| "call_failure _ = login_failure"

text \<open>A failure is written on the writer the handler was given, without the state of the bucket.\<close>

definition auth_proxy ::
    "(string \<Rightarrow> string) \<Rightarrow> 'x client \<Rightarrow> 'x limiter_port option \<Rightarrow> auth_op \<Rightarrow> 'x gw_world handler" where
  "auth_proxy lower c l op r w =
     (case asked_call op r of
        None \<Rightarrow> ret (writeJSON 400 (error_body ''invalid json'') w)
      | Some call \<Rightarrow>
          metered l (call_bucket lower call) w (\<lambda>w'.
            on_ext (auth_rpc (cl_api c) call) \<bind> (\<lambda>res.
              ret (case res of Inl err \<Rightarrow> call_failure call err w | Inr v \<Rightarrow> call_success call v w'))))"

subsection \<open>The handlers are the proxies\<close>

lemma writeAppError_upstream:
  "writeAppError (upstreamError err) w = login_failure err w"
  "writeLimitError (upstreamError err) w = login_failure err w"
  "writeAppError (signupUpstreamError err) w = signup_failure err w"
  "writeAppError (tenantUpstreamError err) w = tenant_failure err w"
proof -
  show app: "writeAppError (upstreamError err) w = login_failure err w"
    by (simp add: upstreamError_def writeAppError_def login_failure_def split: rpc_error.splits grpc_code.splits)
  have "\<exists>k m. upstreamError err = NewError k m" by (rule upstream_errors_are_domain_errors)
  then show "writeLimitError (upstreamError err) w = login_failure err w"
    unfolding app [symmetric] by (auto simp: writeLimitError_def NewError_def)
  show "writeAppError (tenantUpstreamError err) w = tenant_failure err w"
    by (simp add: tenantUpstreamError_def writeAppError_def tenant_failure_def split: rpc_error.splits grpc_code.splits)
  show "writeAppError (signupUpstreamError err) w = signup_failure err w"
    by (cases err)
       (auto simp: signupUpstreamError_def writeAppError_org [symmetric] writeAppError_def signup_failure_def
          split: grpc_code.splits)
qed

text \<open>Both sides of a proxy as the one call below them and a case on its outcome.\<close>

lemma answer_via:
  assumes "\<And>err. on_error (map_err err) w = failure err w"
  shows "answer on_error (on_ext (via map_err conv m)) w f =
    on_ext m \<bind> (\<lambda>res. ret (case res of Inl err \<Rightarrow> failure err w | Inr p \<Rightarrow> f (conv p)))"
  by (rule state_ext) (auto simp: on_ext_def assms split: prod.splits sum.splits)

lemma rendered_outcome:
  "on_ext (rendered enc m) \<bind> (\<lambda>res. ret (case res of Inl err \<Rightarrow> failure err | Inr v \<Rightarrow> success v)) =
     on_ext m \<bind> (\<lambda>res. ret (case res of Inl err \<Rightarrow> failure err | Inr p \<Rightarrow> success (enc p)))"
  by (rule state_ext) (auto simp: on_ext_def rendered_def split: prod.splits sum.splits)

lemmas auth_use_cases =
  RequestOTP_def VerifyOTP_def Login_def RefreshTokenOp_def RegisterWithEmail_def VerifySignup_def
  ResolveTenant_def

lemmas auth_client_calls =
  Client_RequestOTP_def Client_VerifyOTP_def Client_LoginWithPassword_def Client_RefreshToken_def
  Client_RegisterWithEmail_def Client_VerifySignup_def Client_ResolveTenant_def

text \<open>The use case behind a one-time password, as its handler answers it: check, call, answer.\<close>

lemma answer_checked:
  "answer on_error (try_bind m (\<lambda>limit. try_bind (k limit) (\<lambda>x. ok (mk x limit)))) w f =
     m \<bind> (\<lambda>r. case r of Inl err \<Rightarrow> ret (on_error err w)
       | Inr limit \<Rightarrow> answer on_error (k limit) w (\<lambda>x. f (mk x limit)))"
  by (rule state_ext) (auto split: prod.splits sum.splits)

lemma identifier_metered:
  "checkIdentifierLimit (gateway_runtime e) (gateway_service e c l) identifier \<bind> (\<lambda>r.
     case r of Inl err \<Rightarrow> ret (writeLimitError err w) | Inr limit \<Rightarrow> go (with_limit_headers limit w)) =
   metered l (if TrimSpace identifier = [] then None
     else Some (IdentifierKey (ext_ToLower e) identifier, OTPRequestIdentifierPolicy)) w go"
proof -
  have lower: "rt_ToLower (gateway_runtime e) = ext_ToLower e" by (simp add: gateway_runtime_def)
  show ?thesis
    by (rule state_ext)
       (cases l, auto simp: checkIdentifierLimit_def metered_def with_limit_headers_def lower run_allow
          outside_limiter_def on_ext_def unavailable_eq denial_eq rate_headers_eq
          split: prod.splits sum.splits)
qed

lemma requestOTP_is_proxy:
  "requestOTP (gateway_handlers e c l) r w = auth_proxy (ext_ToLower e) c l OpRequestOTP r w"
proof -
  note call = answer_via [of writeLimitError upstreamError w login_failure, OF writeAppError_upstream(2)]
  have "answer writeLimitError (RequestOTP (gateway_runtime e) (gateway_service e c l) b) w
      (\<lambda>receipt. writeJSON 200 (JObj [(''expires_at'', JStr (otpr_ExpiresAt receipt))])
        (with_limit_headers (otpr_IdentifierLimit receipt) w)) =
    metered l (call_bucket (ext_ToLower e) (CallRequestOTP b)) w (\<lambda>w'.
      on_ext (auth_rpc (cl_api c) (CallRequestOTP b)) \<bind> (\<lambda>res.
        ret (case res of Inl err \<Rightarrow> login_failure err w | Inr v \<Rightarrow> writeJSON 200 v w')))" for b
    using identifier_metered [of e c l "first_given (otpr_Identifier b) (otpr_Email b)" w "\<lambda>w'.
      on_ext (rpc_RequestOTP (cl_api c) b) \<bind> (\<lambda>res. ret (case res of Inl err \<Rightarrow> login_failure err w
        | Inr at \<Rightarrow> writeJSON 200 (JObj [(''expires_at'', JStr at)]) w'))"]
    by (simp add: RequestOTP_def Let_def answer_checked first_given_def [symmetric] outside_auth_def client_auth_def
          Client_RequestOTP_def call rendered_outcome cong: sum.case_cong split del: if_split)
  then show ?thesis
    by (simp add: requestOTP_def auth_proxy_def with_body_field split: option.split cong: sum.case_cong)
qed

text \<open>Each of the seven handlers for requests without a token is the proxy of the
  table, on every wired gateway: 400 for an unreadable body, otherwise one call of orbit-auth with the
  values of body or path, after the identifier's bucket for a one-time password only; the answer is
  rendered with its status, and a failure shows no more than the table of its call lets through.\<close>

lemma auth_handlers_are_proxies:
  "auth_handler (gateway_handlers e c l) op r w = auth_proxy (ext_ToLower e) c l op r w"
proof (cases "op = OpRequestOTP")
  case True
  then show ?thesis by (simp add: requestOTP_is_proxy)
next
  case False
  have unmetered: "metered l None w' go = go w'" for w' go
    by (simp add: metered_def split: option.split)
  note render = answer_via [of writeAppError upstreamError w login_failure, OF writeAppError_upstream(1)]
    answer_via [of writeAppError signupUpstreamError w signup_failure, OF writeAppError_upstream(3)]
    answer_via [of writeAppError tenantUpstreamError w tenant_failure, OF writeAppError_upstream(4)]
  show ?thesis using False
    by (cases op)
       (simp_all add: auth_proxy_def unmetered first_given_def verifyOTP_def login_def refreshToken_def signup_def
          signupVerify_def resolveTenant_def with_body_field writeTokens_def auth_use_cases outside_auth_def
          outside_signup_def outside_tenants_def client_auth_def client_signup_def client_tenants_def
          auth_client_calls render rendered_outcome signupAcceptedResponse_def signupStatusVerificationSent_def
          split: option.split cong: sum.case_cong)
qed

subsection \<open>The session's organization\<close>

definition select_proxy :: "rate_library \<Rightarrow> 'x client \<Rightarrow> 'x limiter_port option \<Rightarrow> 'x gw_world handler" where
  "select_proxy lib c l r w =
     (case bearer_of r of
        None \<Rightarrow> ret (writeJSON 401 (error_body ''missing bearer token'') w)
      | Some tok \<Rightarrow>
          (case body_field selectOrgBody r of
             None \<Rightarrow> ret (writeJSON 400 (error_body ''invalid json'') w)
           | Some (org, refresh) \<Rightarrow>
               let key = lib_KeyForOrg lib org ''/api/v1/session/org''
               in metered l (if key = [] then None else Some (key, OrgRoutePolicy ''/api/v1/session/org'')) w (\<lambda>w'.
                 on_ext (rendered tokens_json
                     (rpc_SelectOrg (cl_api c) [(''authorization'', ''Bearer '' @ tok)] org refresh)) \<bind> (\<lambda>res.
                   ret (case res of Inl err \<Rightarrow> org_failure err w' | Inr v \<Rightarrow> writeJSON 200 v w')))))"

text \<open>What the limit of the chosen organization lets through.\<close>

lemma org_limit_metered:
  "checkOrgLimit (gateway_handlers e c l) org route w \<bind> (\<lambda>limited.
     case limited of Inl w' \<Rightarrow> ret w' | Inr w' \<Rightarrow> go w') =
   metered l (if KeyForOrg (ext_RateKeys e) org route = [] then None
     else Some (KeyForOrg (ext_RateKeys e) org route, OrgRoutePolicy route)) w go"
  by (rule state_ext)
     (cases l, auto simp: checkOrgLimit_def HasLimiter_def CheckKeyLimit_def metered_def run_allow
        outside_limiter_def on_ext_def unavailable_eq denial_eq rate_headers_eq Let_def
        split: prod.splits sum.splits)

text \<open>The handler is, on every wired gateway, the proxy above: 401 without
  a usable bearer token, 400 for an unreadable body, then one unit of the bucket of the organization
  asked for (not of the one the caller is in), and only for an admitted request the call of
  orbit-auth under the caller's token, whose new tokens or mapped failure come back with the state of
  that bucket.\<close>

lemma selectOrg_is_proxy:
  "selectOrg (gateway_handlers e c l) r w = select_proxy (ext_RateKeys e) c l r w"
proof -
  note call = answer_via [of writeAppError orgUpstreamError _ org_failure, OF writeAppError_org]
  have token: "callerContext [] tok = [(''authorization'', ''Bearer '' @ tok)]" for tok
    by (simp add: callerContext_def)
  show ?thesis
    by (simp add: selectOrg_def select_proxy_def with_bearer_of with_body_field org_limit_metered SelectOrg_def
          outside_orgs_def client_orgs_def Client_SelectOrg_def call rendered_outcome writeTokens_def token
          KeyForOrg_def routeSessionOrg_def Let_def split: sum.split option.split prod.split
          cong: sum.case_cong)
qed

end
