(* ===== verification/Http_Calm.thy ===== *)
theory Http_Calm
  imports Gateway_Wiring
begin

text \<open>
  No request makes the wired gateway panic.  \<open>gives P m\<close> states that every run of \<open>m\<close> ends in a
  result that satisfies \<open>P\<close>; a call is calm if it never ends in a nil dereference, a handler answers
  if it leaves a status on a writer whose goroutine is alive.  The ports \<open>main\<close> wires are calm, so are
  the use cases on them, and every route of the table answers.
\<close>

named_theorems calm_intros \<open>rules that show what an operation's results satisfy\<close>

definition gives :: "('a \<Rightarrow> bool) \<Rightarrow> ('w, 'a) state \<Rightarrow> bool" where
  "gives P m \<longleftrightarrow> (\<forall>w. P (result_of m w))"

definition calm_result :: "go_error + 'a \<Rightarrow> bool" where
  "calm_result r \<longleftrightarrow> r \<noteq> Inl NilDeref"

abbreviation calm :: "('w, 'a) call \<Rightarrow> bool" where
  "calm m \<equiv> gives calm_result m"

definition answered :: "response \<Rightarrow> bool" where
  "answered w \<longleftrightarrow> \<not> rw_Panic w \<and> rw_Status w \<noteq> None"

abbreviation answers :: "('w, response) state \<Rightarrow> bool" where
  "answers m \<equiv> gives answered m"

subsection \<open>The calculus\<close>

lemma gives_ret [calm_intros]: "P a \<Longrightarrow> gives P (ret a)"
  by (simp add: gives_def)

lemma gives_bind:
  assumes "gives Q m" and "\<And>a. Q a \<Longrightarrow> gives P (k a)"
  shows "gives P (m \<bind> k)"
  using assms by (auto simp: gives_def split: prod.splits) (metis fst_conv)

lemma gives_any: "gives (\<lambda>_. True) m"
  by (simp add: gives_def)

lemma calm_fail [calm_intros]: "e \<noteq> NilDeref \<Longrightarrow> calm (fail e)"
  by (simp add: gives_def calm_result_def)

lemma calm_ok [calm_intros]: "calm (ok a)"
  by (simp add: gives_def calm_result_def)

lemma calm_lift_ok [calm_intros]: "calm (lift_ok m)"
  by (simp add: gives_def calm_result_def)

lemma calm_try_bind [calm_intros]: "calm m \<Longrightarrow> (\<And>a. calm (k a)) \<Longrightarrow> calm (try_bind m k)"
  unfolding try_bind_def
  by (erule gives_bind) (auto simp: calm_result_def intro!: gives_ret split: sum.splits)

lemma calm_on_port [calm_intros]: "port \<noteq> None \<Longrightarrow> (\<And>p. port = Some p \<Longrightarrow> calm (m p)) \<Longrightarrow> calm (on_port port m)"
  by (cases port) auto

lemma gives_on_ext [calm_intros]: "gives P m \<Longrightarrow> gives P (on_ext m)"
  by (auto simp: gives_def on_ext_def split: prod.splits) (metis fst_conv)

lemma gives_if [calm_intros]:
  "(b \<Longrightarrow> gives P m) \<Longrightarrow> (\<not> b \<Longrightarrow> gives P n) \<Longrightarrow> gives P (if b then m else n)"
  by simp

lemma gives_case_option [calm_intros]:
  "(r = None \<Longrightarrow> gives P m) \<Longrightarrow> (\<And>y. r = Some y \<Longrightarrow> gives P (n y)) \<Longrightarrow>
     gives P (case r of None \<Rightarrow> m | Some y \<Rightarrow> n y)"
  by (cases r) auto

lemma calm_via [calm_intros]: "(\<And>e. map_err e \<noteq> NilDeref) \<Longrightarrow> calm (via map_err conv m)"
  by (auto simp: gives_def calm_result_def split: prod.splits sum.splits)

subsection \<open>Answering handlers\<close>

lemma answered_writeJSON [calm_intros]: "\<not> rw_Panic w \<Longrightarrow> answered (writeJSON n b w)"
  by (simp add: answered_def split: option.splits)

lemma answered_Write [calm_intros]: "\<not> rw_Panic w \<Longrightarrow> answered (Write b w)"
  by (simp add: answered_def split: option.splits)

lemma answered_errors:
  "\<not> rw_Panic w \<Longrightarrow> e \<noteq> NilDeref \<Longrightarrow> answered (writeAppError e w)"
  "\<not> rw_Panic w \<Longrightarrow> e \<noteq> NilDeref \<Longrightarrow> answered (writeLimitError e w)"
  "\<not> rw_Panic w \<Longrightarrow> e \<noteq> NilDeref \<Longrightarrow> answered (flags_error e w)"
  "\<not> rw_Panic w \<Longrightarrow> e \<noteq> NilDeref \<Longrightarrow> answered (asset_error e w)"
  by (auto simp: answered_def writeAppError_def writeLimitError_def flags_error_def asset_error_def
        http_Error_def split: option.splits go_error.splits)

lemma gives_answer [calm_intros]:
  assumes "calm m" and "\<And>e. e \<noteq> NilDeref \<Longrightarrow> P (on_error e w)" and "\<And>x. P (f x)"
  shows "gives P (answer on_error m w f)"
  unfolding answer_def
  by (rule gives_bind [OF assms(1)]) (auto simp: calm_result_def intro!: gives_ret assms(2,3) split: sum.splits)

lemma answers_or_abort [calm_intros]:
  "(\<And>x. answers (f x)) \<Longrightarrow> answers (or_abort (lift_ok k) w f)"
  by (auto simp: gives_def or_abort_def split: prod.splits)

lemma gives_with_body [calm_intros]:
  "P (writeJSON 400 (error_body ''invalid json'') w) \<Longrightarrow> (\<And>x. gives P (f x)) \<Longrightarrow> gives P (with_body dec r w f)"
  by (auto simp: with_body_def decodeJSONBody_def intro!: gives_ret split: option.splits)

lemma gives_with_bearer [calm_intros]:
  "P (writeJSON 401 (error_body ''missing bearer token'') w) \<Longrightarrow> (\<And>x. gives P (f x)) \<Longrightarrow>
     gives P (with_bearer r w f)"
  by (auto simp: with_bearer_def requireBearer_def Let_def intro!: gives_ret)

lemma answered_simps [simp]:
  "\<not> rw_Panic w \<Longrightarrow> \<not> rw_Panic (with_limit_headers d w)"
  by (auto simp: with_limit_headers_def split: option.splits)

subsection \<open>The wired ports\<close>

lemma mapped_errors [simp]:
  "upstreamError e \<noteq> NilDeref" "orgUpstreamError e \<noteq> NilDeref"
  "signupUpstreamError e \<noteq> NilDeref" "tenantUpstreamError e \<noteq> NilDeref"
  using upstream_errors_are_domain_errors [of e] by (metis NewError_neq(1))+

lemmas client_defs =
  client_auth_def client_orgs_def client_signup_def client_tenants_def client_flags_def
  Client_RequestOTP_def Client_VerifyOTP_def Client_LoginWithPassword_def Client_RefreshToken_def
  Client_ValidateAPIToken_def Client_RegisterWithEmail_def Client_VerifySignup_def
  Client_ResolveTenant_def Client_CreateOrg_def Client_SetOrgSlug_def Client_ListMyOrgs_def
  Client_ListMembers_def Client_AddMember_def Client_RemoveMember_def Client_SuspendMember_def
  Client_SetMemberRole_def Client_InviteMember_def Client_AcceptInvite_def Client_RevokeInvite_def
  Client_ListInvites_def Client_SelectOrg_def

lemma calm_ListFlags [calm_intros]: "calm (Client_ListFlags c)"
  unfolding Client_ListFlags_def
  by (intro calm_intros gives_bind [OF gives_any])
     (auto simp: bad_gateway_def intro!: calm_intros split: http_outcome.splits option.splits)

lemma calm_ReadFile [calm_intros]: "calm (ReadFile_call f name)"
  unfolding ReadFile_call_def
  by (intro gives_bind [OF gives_any]) (auto intro!: calm_intros split: sum.splits)

text \<open>The limiters \<open>main\<close> can wire: none, or the adapter around a library limiter.\<close>

definition proper_limiter :: "'x limiter_port option \<Rightarrow> bool" where
  "proper_limiter l \<longleftrightarrow> (\<forall>p key policy. l = Some p \<longrightarrow> calm (lp_Allow p key policy))"

lemma proper_None: "proper_limiter None"
  by (simp add: proper_limiter_def)

lemma proper_adapter: "proper_limiter (limiter_iface (New_adapter (Some lib)))"
  unfolding proper_limiter_def limiter_iface_def New_adapter_def Adapter_Allow_def
  by (auto intro!: gives_bind [OF gives_any] calm_intros split: sum.splits)

lemma calm_allow:
  assumes "proper_limiter l" and "l \<noteq> None"
  shows "calm (allow (gateway_service e c l) key policy)"
proof -
  obtain p where l: "l = Some p" using assms(2) by auto
  then have "calm (on_ext (lp_Allow p key policy))"
    using assms(1) by (auto simp: proper_limiter_def intro: gives_on_ext)
  then show ?thesis
    unfolding allow_def l
    by (auto simp: outside_limiter_def calm_result_def intro!: calm_intros elim!: gives_bind
          split: sum.splits go_error.splits)
qed

lemma calm_use_cases:
  assumes "proper_limiter l"
  shows "calm (RequestOTP rt (gateway_service e c l) i1)"
    and "calm (VerifyOTP (gateway_service e c l) i2)"
    and "calm (Login (gateway_service e c l) i3)"
    and "calm (RefreshTokenOp (gateway_service e c l) a)"
    and "calm (RegisterWithEmail (gateway_service e c l) i4)"
    and "calm (VerifySignup (gateway_service e c l) i5)"
    and "calm (CreateOrg (gateway_service e c l) a b d)"
    and "calm (SetOrgSlug (gateway_service e c l) a b d)"
    and "calm (ResolveTenant (gateway_service e c l) a)"
    and "calm (ListMyOrgs (gateway_service e c l) a)"
    and "calm (ListMembers (gateway_service e c l) a b)"
    and "calm (AddMember (gateway_service e c l) a b d)"
    and "calm (RemoveMember (gateway_service e c l) a b d)"
    and "calm (SuspendMember (gateway_service e c l) a b d)"
    and "calm (SetMemberRole (gateway_service e c l) a b d f)"
    and "calm (InviteMember (gateway_service e c l) a b d)"
    and "calm (AcceptInvite (gateway_service e c l) a b)"
    and "calm (RevokeInvite (gateway_service e c l) a b d)"
    and "calm (ListInvites (gateway_service e c l) a b)"
    and "calm (SelectOrg (gateway_service e c l) a b d)"
    and "calm (ListFlags (gateway_service e c l))"
    and "calm (OpenAPISpec (gateway_service e c l))"
    and "calm (Manifest (gateway_service e c l))"
    and "calm (Challenge rt (gateway_service e c l) a)"
    and "calm (VerifyChallenge rt (gateway_service e c l) a b)"
    and "calm (Claim rt (gateway_service e c l) i6 a)"
proof -
  have ident: "calm (checkIdentifierLimit rt (gateway_service e c l) i)" for i
    using calm_allow [OF assms] by (auto simp: checkIdentifierLimit_def intro!: calm_intros)
  show "calm (RequestOTP rt (gateway_service e c l) i1)"
    by (auto simp: RequestOTP_def Let_def outside_defs client_defs intro!: calm_intros ident)
  show "calm (Challenge rt (gateway_service e c l) a)"
    by (auto simp: Challenge_def Let_def intro!: calm_intros ident)
  show "calm (VerifyChallenge rt (gateway_service e c l) a b)"
    by (auto simp: VerifyChallenge_def Let_def intro!: calm_intros split: option.splits)
  show "calm (Claim rt (gateway_service e c l) i6 a)"
    by (auto simp: Claim_def Let_def intro!: calm_intros split: option.splits)
qed (auto simp: use_case_defs outside_defs client_defs file_assets_def Files_OpenAPISpec_def
       Files_Manifest_def Let_def intro!: calm_intros)

subsection \<open>The handlers and the limiters around them\<close>

lemma answers_upstream_handlers:
  assumes "proper_limiter l" and "\<not> rw_Panic w"
  shows "answers (requestOTP (gateway_handlers e c l) r w)"
    and "answers (verifyOTP (gateway_handlers e c l) r w)"
    and "answers (login (gateway_handlers e c l) r w)"
    and "answers (refreshToken (gateway_handlers e c l) r w)"
    and "answers (signup (gateway_handlers e c l) r w)"
    and "answers (signupVerify (gateway_handlers e c l) r w)"
    and "answers (flags_handler (gateway_handlers e c l) r w)"
    and "answers (listOrgs (gateway_handlers e c l) r w)"
    and "answers (createOrg (gateway_handlers e c l) r w)"
    and "answers (setOrgSlug (gateway_handlers e c l) r w)"
    and "answers (resolveTenant (gateway_handlers e c l) r w)"
    and "answers (listMembers (gateway_handlers e c l) r w)"
    and "answers (addMember (gateway_handlers e c l) r w)"
    and "answers (removeMember (gateway_handlers e c l) r w)"
    and "answers (suspendMember (gateway_handlers e c l) r w)"
    and "answers (setMemberRole (gateway_handlers e c l) r w)"
    and "answers (createInvite (gateway_handlers e c l) r w)"
    and "answers (listInvites (gateway_handlers e c l) r w)"
    and "answers (revokeInvite (gateway_handlers e c l) r w)"
    and "answers (acceptInvite (gateway_handlers e c l) r w)"
    and "answers (health r w)"
    and "answers (serveAsset (OpenAPISpec (gateway_service e c l)) ct r w)"
    and "answers (serveAsset (Manifest (gateway_service e c l)) ct r w)"
    and "answers (challenge_handler (gateway_handlers e c l) r w)"
    and "answers (verifyChallenge (gateway_handlers e c l) r w)"
    and "answers (claim_handler (gateway_handlers e c l) r w)"
  using assms(2)
  by (auto simp: upstream_handler_defs challenge_handler_def verifyChallenge_def claim_handler_def
        writeTokens_def Let_def intro!: calm_intros answered_errors calm_use_cases [OF assms(1)])

lemma answers_install: "\<not> rw_Panic w \<Longrightarrow> answers (install (gateway_handlers e c l) r w)"
  by (auto simp: install_def InstallScript_def http_NotFound_def http_Error_def Let_def intro!: calm_intros)

lemma calm_limits:
  assumes "proper_limiter l" and "HasLimiter (gateway_service e c l)"
  shows "calm (CheckClassLimit (gateway_service e c l) cl ip)"
    and "calm (CheckKeyLimit (gateway_service e c l) key policy)"
  using calm_allow [OF assms(1)] assms(2)
  by (auto simp: HasLimiter_def CheckClassLimit_def CheckKeyLimit_def)

lemma gives_checked:
  assumes "calm m" and "\<And>e. e \<noteq> NilDeref \<Longrightarrow> P (writeLimitError e w)"
    and "\<And>d. gives P (next r (setRateLimitHeaders d w))"
  shows "gives P (m \<bind> (\<lambda>checked. case checked of
    Inl err \<Rightarrow> ret (writeLimitError err w) | Inr d \<Rightarrow> next r (setRateLimitHeaders d w)))"
  by (rule gives_bind [OF assms(1)])
     (auto simp: calm_result_def intro!: gives_ret assms(2,3) split: sum.splits)

lemma answers_guards:
  assumes "proper_limiter l" and "\<not> rw_Panic w" and "\<And>r w. \<not> rw_Panic w \<Longrightarrow> answers (next r w)"
  shows "answers (wrap (gateway_handlers e c l) cl next r w)"
    and "answers (wrapIP (gateway_handlers e c l) route limit next r w)"
    and "answers (wrapOrg (gateway_handlers e c l) route next r w)"
  using calm_limits [OF assms(1)] assms(2,3)
  by (auto simp: wrap_def wrapIP_def wrapOrg_def applyRouteLimit_def intro!: gives_checked answered_errors)

text \<open>A limit check inside a handler: it answered, or the handler goes on with the writer.\<close>

definition check_gives :: "(response \<Rightarrow> bool) \<Rightarrow> (response \<Rightarrow> bool) \<Rightarrow> response + response \<Rightarrow> bool" where
  "check_gives P Q v = (case v of Inl w \<Rightarrow> P w | Inr w \<Rightarrow> Q w)"

lemma check_gives_checked:
  assumes "calm m" and "\<And>e. e \<noteq> NilDeref \<Longrightarrow> P (writeLimitError e w)" and "\<And>d. Q (setRateLimitHeaders d w)"
  shows "gives (check_gives P Q) (m \<bind> (\<lambda>checked. case checked of
    Inl err \<Rightarrow> ret (Inl (writeLimitError err w)) | Inr d \<Rightarrow> ret (Inr (setRateLimitHeaders d w))))"
  by (rule gives_bind [OF assms(1)])
     (auto simp: calm_result_def check_gives_def intro!: gives_ret assms(2,3) split: sum.splits)

lemma gives_checkOrgLimit:
  assumes "proper_limiter l" and "\<And>e. e \<noteq> NilDeref \<Longrightarrow> P (writeLimitError e w)"
    and "Q w" and "\<And>d. Q (setRateLimitHeaders d w)"
  shows "gives (check_gives P Q) (checkOrgLimit (gateway_handlers e c l) org route w)"
  using calm_limits(2) [OF assms(1)] assms(3)
  by (auto simp: checkOrgLimit_def Let_def intro!: check_gives_checked assms(2,4))
     (auto simp: check_gives_def intro!: gives_ret)

lemma answers_selectOrg:
  assumes "proper_limiter l" and "\<not> rw_Panic w"
  shows "answers (selectOrg (gateway_handlers e c l) r w)"
proof -
  have checked: "gives (check_gives answered (\<lambda>w. \<not> rw_Panic w)) (checkOrgLimit (gateway_handlers e c l) org route w)"
    for org route
    using assms(2) by (intro gives_checkOrgLimit [OF assms(1)]) (auto intro: answered_errors)
  show ?thesis
    unfolding selectOrg_def
    by (intro calm_intros assms(2) gives_bind [OF checked])
       (auto simp: check_gives_def writeTokens_def split: sum.splits
          intro!: calm_intros answered_errors calm_use_cases [OF assms(1)])
qed

subsection \<open>The table\<close>

lemma gateway_routes_answer:
  assumes l: "proper_limiter l" and w: "\<not> rw_Panic w"
    and h: "h \<in> snd ` set (gateway_routes (gateway_handlers e c l))"
  shows "answers (h r w)"
proof -
  note handlers = answers_upstream_handlers [OF l] answers_install answers_selectOrg [OF l]
  have "list_all (\<lambda>(p, h). answers (h r w)) (gateway_routes (gateway_handlers e c l))"
    unfolding gateway_routes_def list_all_append
    by (intro conjI)
       (auto simp: auth_routes_def signup_routes_def flag_routes_def org_routes_def tenant_routes_def
          platform_routes_def registerOpenAPIRoutes_def w intro!: answers_guards [OF l w] handlers)
  then show ?thesis using h by (auto simp: list_all_iff)
qed

end
