(* ===== verification/Server_Properties.thy ===== *)
theory Server_Properties
  imports Samples Server_Dispatch Http_Calm
begin

text \<open>
  The server as the process starts it: the route table registers without a conflict, which handler a
  request reaches, what an unknown path answers, and what startup guarantees of the server that
  listens.
\<close>

subsection \<open>Registration\<close>

text \<open>C31 [registration]. Whatever ports the service has, the patterns \<open>New\<close> registers, with the key set's route
  after them, contain no conflicting pair: \<open>HandleFunc\<close> never panics at startup.\<close>

theorem New_registers_without_conflict:
  "conflict_free (map fst (srv_mux (ServeJWKS body (New rt lib middleware svc opts))))"
proof -
  let ?h = "server_handlers rt lib svc opts"
  have "map fst (srv_mux (ServeJWKS body (New rt lib middleware svc opts))) =
      map parse_pattern (map fst (gateway_routes ?h) @ [''GET /.well-known/jwks.json''])"
    by (simp add: ServeJWKS_def New_def newServer_def HandleFunc_def patterns_register Let_def)
  then show ?thesis
    using conflict_free_subseq [OF subseq_map [OF routes_subseq] all_patterns_conflict_free] by simp
qed

subsection \<open>Dispatch\<close>

text \<open>C32 [dispatch]. A request that matches a registered pattern other than the catch-all \<open>GET /\<close>, by its method
  (a \<open>HEAD\<close> counts as a \<open>GET\<close>) and segment by segment, is answered by the handler registered for that
  pattern, with the pattern's wildcards bound to the segments of the path.\<close>

theorem New_dispatches:
  assumes "(pattern, h) \<in> set (gateway_routes (server_handlers rt lib svc opts))"
    and "mp_Segments (parse_pattern pattern) \<noteq> catch_all"
    and "method_serves (mp_Method (parse_pattern pattern)) (req_Method r)"
    and "seg_matches (mp_Segments (parse_pattern pattern)) (path_segments (req_Path r))"
  shows "mux_serve (srv_mux (New rt lib middleware svc opts)) r w =
    h (r\<lparr>req_PathValues :=
         wild_values (mp_Segments (parse_pattern pattern)) (path_segments (req_Path r)) Map.empty\<rparr>) w"
  using assms by (rule New_serves)

definition suspend_request :: request where
  "suspend_request = \<lparr>req_Method = ''POST'', req_Path = ''/api/v1/orgs/acme/members/u7/suspend'',
     req_Header = Map.empty, req_PathValues = Map.empty, req_RemoteAddr = ''10.0.0.1:80'', req_Body = [],
     req_Context = Background\<rparr>"

lemma suspend_segments:
  "path_segments (req_Path suspend_request) =
     [''api'', ''v1'', ''orgs'', ''acme'', ''members'', ''u7'', ''suspend'']"
  by code_simp

lemma suspend_pattern:
  "parse_pattern ''POST /api/v1/orgs/{org_id}/members/{user_id}/suspend'' =
     \<lparr>mp_Method = Some ''POST'', mp_Segments = [Lit ''api'', Lit ''v1'', Lit ''orgs'', Wild ''org_id'',
        Lit ''members'', Wild ''user_id'', Lit ''suspend'']\<rparr>"
  by code_simp

theorem New_dispatches_witness:
  "mux_serve (srv_mux (gateway_server sample_externals sample_client None)) suspend_request empty_response =
     wrapOrg (gateway_handlers sample_externals sample_client None) routeOrgMembers
       (suspendMember (gateway_handlers sample_externals sample_client None))
       (suspend_request\<lparr>req_PathValues := [''org_id'' \<mapsto> ''acme'', ''user_id'' \<mapsto> ''u7'']\<rparr>) empty_response"
proof -
  have route: "(''POST /api/v1/orgs/{org_id}/members/{user_id}/suspend'',
      wrapOrg (gateway_handlers sample_externals sample_client None) routeOrgMembers
        (suspendMember (gateway_handlers sample_externals sample_client None)))
    \<in> set (gateway_routes (gateway_handlers sample_externals sample_client None))"
    by (simp add: gateway_routes_def org_routes_def HasOrgs_def)
  show ?thesis
    unfolding gateway_server_def
    by (subst New_dispatches [OF route])
       (simp_all add: suspend_pattern suspend_segments catch_all_def method_serves_def,
        simp_all add: suspend_request_def)
qed

subsection \<open>Requests no route serves\<close>

lemma catch_all_registered:
  "(parse_pattern ''GET /'', install (server_handlers rt lib svc opts))
     \<in> set (srv_mux (New rt lib middleware svc opts))"
  by (simp add: New_mux gateway_routes_def platform_routes_def)

lemma parse_catch_all: "parse_pattern ''GET /'' = \<lparr>mp_Method = Some ''GET'', mp_Segments = catch_all\<rparr>"
  by code_simp

lemma catch_all_matches: "seg_matches catch_all (path_segments path)"
  using path_segments_not_empty [of path] by (cases "path_segments path") (auto simp: catch_all_def)

lemma New_only_catch_all:
  assumes "(q, g) \<in> set (srv_mux (New rt lib middleware svc opts))" and "mp_Segments q = catch_all"
  shows "q = parse_pattern ''GET /'' \<and> g = install (server_handlers rt lib svc opts)"
proof -
  have "mp_Method q = Some ''GET''"
    using plain_table_member [OF New_table_plain assms(1)] assms(2)
    by (auto simp: plain_pattern_def plain_segments_def catch_all_def)
  with assms(2) have q: "q = parse_pattern ''GET /''" by (simp add: parse_catch_all)
  moreover have "conflicts (parse_pattern ''GET /'') (parse_pattern ''GET /'')" by code_simp
  ultimately show ?thesis
    using conflict_free_unique [OF New_conflict_free _ assms(1)] catch_all_registered by metis
qed

text \<open>The methods offered at a path: \<open>GET\<close> and \<open>HEAD\<close> through the catch-all, the others by a route.\<close>

definition served_methods :: "'w server \<Rightarrow> string \<Rightarrow> string list" where
  "served_methods s path =
     filter (\<lambda>m. m = ''GET'' \<or> m = ''HEAD'' \<or>
         list_ex (\<lambda>(p, h). mp_Method p = Some m \<and> seg_matches (mp_Segments p) (path_segments path)) (srv_mux s))
       [''DELETE'', ''GET'', ''HEAD'', ''POST'', ''PUT'']"

lemma New_matchingMethods:
  "matchingMethods (srv_mux (New rt lib middleware svc opts)) path =
     served_methods (New rt lib middleware svc opts) path"
proof -
  let ?mux = "srv_mux (New rt lib middleware svc opts)"
  have get: "offers ?mux path ''GET''"
    unfolding offers_def candidates_hit using catch_all_registered catch_all_matches parse_catch_all
    by (fastforce intro: bexI [OF _ catch_all_registered])
  have "list_ex (\<lambda>(p, h). mp_Method p = Some m \<and> seg_matches (mp_Segments p) (path_segments path)) ?mux
      \<longleftrightarrow> offers ?mux path m" if "m \<noteq> ''GET''" for m
    unfolding plain_table_offers [OF New_table_plain that] list_ex_iff by simp
  then show ?thesis
    unfolding matchingMethods_def served_methods_def Let_def using get by (auto intro!: filter_cong)
qed

text \<open>C33 [unserved requests]. A request that no route but the catch-all serves changes nothing but what the
  installer at the root does: a \<open>GET\<close> or \<open>HEAD\<close> of the root is the installer's, of any other path, also one
  that other methods serve, a 404; any other method is a 405 with an \<open>Allow\<close> header that lists \<open>GET\<close>,
  \<open>HEAD\<close> and the methods of the path's routes.\<close>

theorem New_unserved:
  assumes "\<forall>(q, g) \<in> set (srv_mux (New rt lib middleware svc opts)).
      method_serves (mp_Method q) (req_Method r) \<longrightarrow> mp_Segments q \<noteq> catch_all \<longrightarrow>
      \<not> seg_matches (mp_Segments q) (path_segments (req_Path r))"
  shows "mux_serve (srv_mux (New rt lib middleware svc opts)) r w =
    (if req_Method r = ''GET'' \<or> req_Method r = ''HEAD'' then
       if req_Path r = ''/'' then install (server_handlers rt lib svc opts) r w else ret (http_NotFound w)
     else ret (http_Error ''Method Not Allowed'' 405
                (Header_Set ''Allow''
                  (comma_join (served_methods (New rt lib middleware svc opts) (req_Path r))) w)))"
proof (cases "mux_match (srv_mux (New rt lib middleware svc opts)) (req_Method r) (path_segments (req_Path r))")
  case None
  then have "\<not> method_serves (Some ''GET'') (req_Method r)"
    using catch_all_registered catch_all_matches parse_catch_all
    by (fastforce simp: mux_match_None)
  moreover have "served_methods (New rt lib middleware svc opts) (req_Path r) \<noteq> []"
    by (simp add: served_methods_def)
  ultimately show ?thesis
    using None by (auto simp: mux_serve_def New_matchingMethods method_serves_def)
next
  case (Some m)
  obtain b h where m: "m = (b, h)" by (cases m)
  from mux_match_Some [OF Some [unfolded m]] obtain p where
    p: "(p, h) \<in> set (srv_mux (New rt lib middleware svc opts))" "method_serves (mp_Method p) (req_Method r)"
       "seg_matches (mp_Segments p) (path_segments (req_Path r))"
    by blast
  with assms(1) have "mp_Segments p = catch_all" by blast
  from New_only_catch_all [OF p(1) this] p(2) have "req_Method r = ''GET'' \<or> req_Method r = ''HEAD''"
      and "h = install (server_handlers rt lib svc opts)"
    by (auto simp: parse_catch_all method_serves_def)
  then show ?thesis using Some m by (simp add: mux_serve_def install_def)
qed

definition get_login :: request where
  "get_login = \<lparr>req_Method = ''GET'', req_Path = ''/api/v1/auth/login'', req_Header = Map.empty,
     req_PathValues = Map.empty, req_RemoteAddr = ''10.0.0.1:80'', req_Body = [], req_Context = Background\<rparr>"

lemma get_login_unserved:
  "list_all (\<lambda>q. if method_serves (mp_Method q) (req_Method get_login) then mp_Segments q = catch_all \<or>
       \<not> seg_matches (mp_Segments q) (path_segments (req_Path get_login)) else True)
     (map parse_pattern all_patterns)"
  by code_simp

theorem New_unserved_witness:
  "mux_serve (srv_mux (gateway_server sample_externals sample_client None)) get_login empty_response = ret (http_NotFound empty_response)"
proof -
  have "q \<in> set (map parse_pattern all_patterns)"
    if "(q, g) \<in> set (srv_mux (gateway_server sample_externals sample_client None))" for q g
    using that list_emb_set [OF New_patterns_subseq] unfolding gateway_server_def by (metis fst_conv image_eqI set_map)
  then have "\<forall>(q, g) \<in> set (srv_mux (gateway_server sample_externals sample_client None)).
      method_serves (mp_Method q) (req_Method get_login) \<longrightarrow> mp_Segments q \<noteq> catch_all \<longrightarrow>
      \<not> seg_matches (mp_Segments q) (path_segments (req_Path get_login))"
    using get_login_unserved unfolding list_all_iff by fastforce
  from New_unserved [OF this [unfolded gateway_server_def]] show ?thesis
    by (simp add: gateway_server_def get_login_def)
qed

subsection \<open>Every request is answered\<close>

text \<open>C34 [no panic]. On the gateway as \<open>main\<close> wires it, with no limiter or with an adapter around any library
  limiter, every request at any path and in any state gets an answer with a status and no goroutine
  panics, whatever orbit-auth, the limiter and the file system answer.\<close>

theorem gateway_always_answers:
  assumes "l = None \<or> (\<exists>lib. l = limiter_iface (New_adapter (Some lib)))"
  shows "\<not> rw_Panic (result_of (mux_serve (srv_mux (gateway_server e c l)) r empty_response) u) \<and>
    rw_Status (result_of (mux_serve (srv_mux (gateway_server e c l)) r empty_response) u) \<noteq> None"
proof -
  have l: "proper_limiter l" using assms proper_adapter proper_None by auto
  have "answers (mux_serve (srv_mux (gateway_server e c l)) r empty_response)"
  proof (cases "mux_match (srv_mux (gateway_server e c l)) (req_Method r) (path_segments (req_Path r))")
    case None
    then show ?thesis
      by (auto simp: mux_serve_def http_NotFound_def http_Error_def Let_def intro!: calm_intros)
  next
    case (Some m)
    obtain b h where m: "m = (b, h)" by (cases m)
    have "h \<in> snd ` set (gateway_routes (gateway_handlers e c l))"
      using mux_match_sound [OF Some [unfolded m]] by (force simp: gateway_server_def New_mux)
    from gateway_routes_answer [OF l _ this, of empty_response "r\<lparr>req_PathValues := b\<rparr>"]
    show ?thesis using Some m by (simp add: mux_serve_def)
  qed
  then show ?thesis by (simp add: gives_def answered_def)
qed

theorem gateway_always_answers_witness:
  "\<not> rw_Panic (result_of (mux_serve
       (srv_mux (gateway_server sample_externals sample_client (limiter_iface (New_adapter (Some sample_limiter)))))
       suspend_request empty_response) (new_world 7))"
  using gateway_always_answers [of "limiter_iface (New_adapter (Some sample_limiter))"] by blast

subsection \<open>Startup\<close>

lemma run_choose_limiter:
  assumes "run_state (choose_limiter e) x = (Some l, x')"
  shows "(ext_Getenv e ''REDIS_ADDR'' \<noteq> [] \<and>
      l = limiter_iface (New_adapter (Some (ext_RedisLimiter e (ext_Getenv e ''REDIS_ADDR''))))) \<or>
    (ext_Getenv e ''REDIS_ADDR'' = [] \<and> is_dev e \<and> l = limiter_iface (New_adapter (Some (ext_MemoryLimiter e))))"
  using assms
  by (auto simp: choose_limiter_def exit_with_def Let_def split: if_splits prod.splits option.splits)

lemma run_publish_keys:
  assumes "run_state (publish_keys e s) x = (Some srv, x')"
  shows "(ext_Getenv e ''JWT_PUBLIC_KEYS_DIR'' \<noteq> [] \<and> (\<exists>body. srv = ServeJWKS body s)) \<or>
    (ext_Getenv e ''JWT_PUBLIC_KEYS_DIR'' = [] \<and> is_dev e \<and> srv = s)"
  using assms
  by (auto simp: publish_keys_def exit_with_def Let_def split: if_splits prod.splits option.splits sum.splits)

text \<open>C35 [startup]. A process that comes up listening serves the gateway with a limiter adapter around a library
  limiter, the one on \<open>REDIS_ADDR\<close> unless that is empty, and with a signing secret that is not empty;
  outside development the secret is \<open>JWT_SECRET\<close> itself (never the built-in one in its place),
  \<open>REDIS_ADDR\<close> is set and the key set is published.\<close>

theorem gateway_main_requirements:
  assumes "run_state (gateway_main e) x = (Listening p, x')" and "srv = run_srv p"
  shows "\<exists>c lib s. s = gateway_server e c (limiter_iface (New_adapter (Some lib))) \<and>
    lib = (if ext_Getenv e ''REDIS_ADDR'' = [] then ext_MemoryLimiter e
           else ext_RedisLimiter e (ext_Getenv e ''REDIS_ADDR'')) \<and>
    (srv = s \<or> (\<exists>body. srv = ServeJWKS body s)) \<and> srv_jwtSecret srv \<noteq> [] \<and>
    (\<not> is_dev e \<longrightarrow> srv_jwtSecret srv = ext_Getenv e ''JWT_SECRET'' \<and> ext_Getenv e ''REDIS_ADDR'' \<noteq> [] \<and>
       (\<exists>body. srv = ServeJWKS body s))"
proof -
  from assms obtain c l y y' z where
    configured: "ext_Getenv e ''JWT_SECRET'' \<noteq> [] \<or> is_dev e"
    and chosen: "run_state (choose_limiter e) y = (Some l, y')"
    and published: "run_state (publish_keys e (gateway_server e c l)) y' = (Some srv, z)"
    by (auto simp: gateway_main_def exit_with_def Let_def split: option.splits prod.splits if_splits sum.splits)
  define lib where "lib = (if ext_Getenv e ''REDIS_ADDR'' = [] then ext_MemoryLimiter e
      else ext_RedisLimiter e (ext_Getenv e ''REDIS_ADDR''))"
  have l: "l = limiter_iface (New_adapter (Some lib))" "\<not> is_dev e \<longrightarrow> ext_Getenv e ''REDIS_ADDR'' \<noteq> []"
    using run_choose_limiter [OF chosen] by (auto simp: lib_def)
  have secret: "srv_jwtSecret (gateway_server e c l) = resolveJWTSecret (ext_Getenv e ''JWT_SECRET'') (is_dev e)"
    by (simp add: gateway_server_def New_def newServer_def gateway_options_def Let_def)
  have srv: "srv = gateway_server e c l \<and> is_dev e \<or> (\<exists>body. srv = ServeJWKS body (gateway_server e c l))"
    using run_publish_keys [OF published] by auto
  then have "srv_jwtSecret srv = resolveJWTSecret (ext_Getenv e ''JWT_SECRET'') (is_dev e)"
    using secret by (auto simp: ServeJWKS_def)
  moreover from this configured have "srv_jwtSecret srv \<noteq> []"
      and "\<not> is_dev e \<longrightarrow> srv_jwtSecret srv = ext_Getenv e ''JWT_SECRET''"
    by (auto simp: resolveJWTSecret_def devInsecureJWTSecret_def)
  ultimately show ?thesis using srv l
    by (intro exI [of _ c] exI [of _ lib] exI [of _ "gateway_server e c l"]) (auto simp: lib_def)
qed

lemma sample_starts: "\<exists>p. run_state (gateway_main sample_externals) 7 = (Listening p, 7) \<and> run_httpPort p = ''10001''"
  by (simp add: gateway_main_def choose_limiter_def publish_keys_def is_dev_def NewClient_def envOr_def Let_def
        sample_externals_def sample_env_def)

theorem gateway_main_requirements_witness:
  "\<exists>p. run_state (gateway_main sample_externals) 7 = (Listening p, 7) \<and> srv_jwtSecret (run_srv p) \<noteq> []"
  using sample_starts gateway_main_requirements [of sample_externals 7] by blast

subsection \<open>Header names on the wire\<close>

lemma show_int_not_empty [simp]: "show_int i \<noteq> []"
  by (simp add: show_int_def)

text \<open>
  The three rate-limit headers a handler sets through \<open>net/http\<close>, which folds their names, leave the
  server under the documented spelling with the values of the decision, the folded names are gone,
  and every other header is as the handler left it.
\<close>

lemma limit_headers_on_the_wire:
  "restore_spellings (rw_Header (setRateLimitHeaders d w)) =
     (rw_Header w)(''X-Ratelimit-Limit'' := None, ''X-Ratelimit-Remaining'' := None, ''X-Ratelimit-Reset'' := None,
       ''X-RateLimit-Limit'' \<mapsto> show_int (Limit d), ''X-RateLimit-Remaining'' \<mapsto> show_int (Remaining d),
       ''X-RateLimit-Reset'' \<mapsto> show_int (time_Unix (ResetAt d)))"
  by (rule ext) (simp add: restore_spellings_def rateLimitHeaderSpellings_def restore_spelling_def)

subsection \<open>Onboarding credentials\<close>

text \<open>C37 [the address pool]. The tunnel address of a claim is one of the two hundred \<open>10.42.0.10\<close> to
  \<open>10.42.0.209\<close>, chosen by the first digest byte alone: among any 201 different claimants two are
  handed the same configuration.\<close>

theorem wireguard_pool_exhausted:
  assumes "finite S" and "200 < card S"
  shows "\<exists>t u t' u'. (t, u) \<in> S \<and> (t', u') \<in> S \<and> (t, u) \<noteq> (t', u') \<and>
    WireGuardConfig (ClaimCredentialsFor t u) = WireGuardConfig (ClaimCredentialsFor t' u') \<and>
    (\<exists>n. 10 \<le> n \<and> n \<le> 209 \<and> WireGuardConfig (ClaimCredentialsFor t u) = wireGuardConfig n)"
proof -
  let ?octet = "\<lambda>(t, u). claim_octet (claim_digest t u)"
  have "?octet ` S \<subseteq> {10..209}" using claim_octet_range by auto
  then have "card (?octet ` S) \<le> 200" using card_mono [of "{10..209::nat}" "?octet ` S"] by simp
  with assms have "\<not> inj_on ?octet S" by (metis card_image not_le)
  then obtain t u t' u' where "(t, u) \<in> S" "(t', u') \<in> S" "(t, u) \<noteq> (t', u')"
      "claim_octet (claim_digest t u) = claim_octet (claim_digest t' u')"
    by (fastforce simp: inj_on_def)
  then show ?thesis
    using claim_octet_range [of "claim_digest t u"]
    by (intro exI [of _ t] exI [of _ u] exI [of _ t'] exI [of _ u'])
       (auto simp: ClaimCredentialsFor_def Let_def)
qed

definition many_claimants :: "(string \<times> string) set" where
  "many_claimants = (\<lambda>n. (''tok'', replicate n CHR ''a'')) ` {..200}"

theorem wireguard_pool_exhausted_witness:
  "\<exists>t u t' u'. (t, u) \<in> many_claimants \<and> (t', u') \<in> many_claimants \<and> (t, u) \<noteq> (t', u') \<and>
    WireGuardConfig (ClaimCredentialsFor t u) = WireGuardConfig (ClaimCredentialsFor t' u')"
proof -
  have "card many_claimants = 201"
    unfolding many_claimants_def by (subst card_image) (auto simp: inj_on_def)
  moreover have "finite many_claimants" by (simp add: many_claimants_def)
  ultimately show ?thesis using wireguard_pool_exhausted [of many_claimants] by fastforce
qed

end
