(* ===== verification/Http_Answers.thy ===== *)
theory Http_Answers
  imports Samples Http_Calm Server_Dispatch
begin

text \<open>
  The shape of the gateway's answers.  Every API route (all but health, the installer and the OpenAPI
  documents) answers with one JSON object and a newline under \<open>application/json\<close>: a success with its
  payload, a failure with the error object.
\<close>

subsection \<open>Payloads\<close>

definition error_statuses :: "nat list" where
  "error_statuses = [400, 401, 403, 404, 409, 412, 429, 500, 502, 503]"

definition typed_answer :: "response \<Rightarrow> bool" where
  "typed_answer w \<longleftrightarrow> \<not> rw_Panic w \<and> rw_Header w ''Content-Type'' = Some ''application/json'' \<and>
     (case rw_Status w of None \<Rightarrow> False | Some n \<Rightarrow>
        (case decode_value (rw_Body w) of
           Some (JObj ms, rest) \<Rightarrow> rest = [CHR 0x0A] \<and>
             (if n \<in> set error_statuses then map fst ms = [''error''] else n \<in> {200, 202} \<and> ''error'' \<notin> fst ` set ms)
         | _ \<Rightarrow> False))"

definition fresh :: "response \<Rightarrow> bool" where
  "fresh w \<longleftrightarrow> \<not> rw_Panic w \<and> rw_Status w = None \<and> rw_Body w = []"

text \<open>An object without numbers, shallow enough for the decoder, with ASCII member names.\<close>

definition payload :: "json \<Rightarrow> string list \<Rightarrow> bool" where
  "payload v names \<longleftrightarrow> (\<exists>ms. json_valid v = JObj ms \<and> map fst ms = names) \<and> json_no_num v \<and>
     json_depth v \<le> max_nesting_depth"

lemma fresh_simps [simp]:
  "fresh (Header_Set k v w) \<longleftrightarrow> fresh w" "fresh empty_response"
  "fresh (setRateLimitHeaders d w) \<longleftrightarrow> fresh w" "fresh (with_limit_headers lim w) \<longleftrightarrow> fresh w"
  by (auto simp: fresh_def empty_response_def setRateLimitHeaders_def with_limit_headers_def split: option.splits)

lemma payload_decodes: "payload v names \<Longrightarrow>
    \<exists>ms. decode_value (json_encode v @ [CHR 0x0A]) = Some (JObj ms, [CHR 0x0A]) \<and> map fst ms = names"
  unfolding payload_def using decode_value_encode by metis

lemma typed_success:
  assumes "fresh w" and "payload v names" and "n \<in> {200, 202}" and "''error'' \<notin> set names"
  shows "typed_answer (writeJSON n v w)"
proof -
  obtain ms where ms: "decode_value (json_encode v @ [CHR 0x0A]) = Some (JObj ms, [CHR 0x0A])" "map fst ms = names"
    using payload_decodes [OF assms(2)] by blast
  have "(n \<in> set error_statuses) = False" using assms(3) by (auto simp: error_statuses_def)
  moreover have "(''error'' \<notin> fst ` set ms) = True" using assms(4) ms(2) by (metis set_map)
  ultimately show ?thesis using assms(1,3) ms(1)
    by (simp only: typed_answer_def writeJSON_simps fresh_def option.case prod.case json.case if_False) simp
qed

lemma typed_failure:
  assumes "fresh w" and "n \<in> set error_statuses"
  shows "typed_answer (writeJSON n (error_body m) w)"
proof -
  have "to_valid_utf8 ''error'' = ''error''" by code_simp
  then have "payload (error_body m) [''error'']"
    by (simp add: payload_def error_body_def max_nesting_depth_def)
  from payload_decodes [OF this] assms show ?thesis
    by (auto simp: typed_answer_def fresh_def)
qed

lemma typed_errors:
  assumes "fresh w" and "e \<noteq> NilDeref"
  shows "typed_answer (writeAppError e w)" "typed_answer (writeLimitError e w)" "typed_answer (flags_error e w)"
proof -
  have kind: "status_of_kind k \<in> set error_statuses" for k by (cases k) (simp_all add: error_statuses_def)
  have codes: "429 \<in> set error_statuses" "500 \<in> set error_statuses" "502 \<in> set error_statuses" "503 \<in> set error_statuses"
    by (simp_all add: error_statuses_def)
  show app: "typed_answer (writeAppError e w)"
    using assms kind codes by (auto simp: writeAppError_def intro!: typed_failure split: option.splits)
  show "typed_answer (writeLimitError e w)"
    using assms app codes by (auto simp: writeLimitError_def intro!: typed_failure split: go_error.splits)
  show "typed_answer (flags_error e w)"
    using assms codes by (auto simp: flags_error_def intro!: typed_failure)
qed


subsection \<open>The payloads of the handlers\<close>

lemma fold_max_le: "(\<forall>x \<in> set xs. x \<le> b) \<Longrightarrow> a \<le> b \<Longrightarrow> fold max xs a \<le> (b :: nat)"
  by (induction xs arbitrary: a) auto

lemma json_depth_JArr: "(\<And>v. v \<in> set vs \<Longrightarrow> json_depth v \<le> d) \<Longrightarrow> json_depth (JArr vs) \<le> Suc d"
  by (auto intro!: fold_max_le)

definition member_names :: "string list" where
  "member_names = [''access_token'', ''credentials'', ''email'', ''expires_at'', ''expires_in'', ''flags'',
     ''idempotent_replay'', ''invite'', ''invites'', ''key_fingerprint'', ''members'', ''membership'', ''name'',
     ''org_id'', ''organization'', ''organizations'', ''refresh_token'', ''retired'', ''slug'', ''status'', ''user'',
     ''verified_at'', ''version'', ''workspace'', ''display_name'']"

lemma member_names_valid: "list_all (\<lambda>k. to_valid_utf8 k = k) member_names"
  by code_simp

lemmas member_name_simps [simp] = member_names_valid [unfolded member_names_def list.pred_inject]

lemma organization_payload:
  "json_no_num (encode_organization o') \<and> json_depth (encode_organization o') \<le> 1"
  "json_no_num (encode_membership m) \<and> json_depth (encode_membership m) \<le> 1"
  "json_no_num (encode_invite i) \<and> json_depth (encode_invite i) \<le> 1"
  by (simp_all add: encode_organization_def encode_membership_def encode_invite_def omit_empty_def)

lemma payload_wrapped:
  assumes "to_valid_utf8 k = k" and "json_no_num v" and "json_depth v \<le> 9"
  shows "payload (JObj [(k, v)]) [k]"
  using assms by (simp add: payload_def max_nesting_depth_def)

lemma payload_list:
  assumes "to_valid_utf8 k = k" and "\<And>v. v \<in> set vs \<Longrightarrow> json_no_num v \<and> json_depth v \<le> 8"
  shows "payload (JObj [(k, JArr vs)]) [k]"
proof (rule payload_wrapped [OF assms(1)])
  show "json_no_num (JArr vs)" using assms(2) by (simp add: list_all_iff)
  show "json_depth (JArr vs) \<le> 9" using json_depth_JArr [of vs 8] assms(2) by simp
qed

lemma organization_payloads:
  "payload (organizationEnvelope o') [''organization'']" "payload (membershipEnvelope m) [''membership'']"
  "payload (inviteEnvelope i) [''invite'']" "payload (organizationList os) [''organizations'']"
  "payload (membershipList ms) [''members'']" "payload (inviteList is) [''invites'']"
  unfolding organizationEnvelope_def membershipEnvelope_def inviteEnvelope_def organizationList_def
    membershipList_def inviteList_def
  using organization_payload
  by (auto intro!: payload_wrapped payload_list simp: order_trans [of _ 1])

lemma flag_payload:
  "payload (flagSetJSON fs) [''version'', ''flags'']"
proof -
  have "v \<in> set (featureFlagsJSON xs) \<Longrightarrow> json_no_num v \<and> json_depth v \<le> 1" for v xs
    by (induction xs) auto
  then have "json_no_num (JArr (featureFlagsJSON xs)) \<and> json_depth (JArr (featureFlagsJSON xs)) \<le> 2" for xs
    using json_depth_JArr [of "featureFlagsJSON xs" 1] by (auto simp: list_all_iff numeral_2_eq_2)
  from this [of "fs_Flags fs"] show ?thesis by (simp add: payload_def flagSetJSON_def max_nesting_depth_def)
qed

lemma scalar_payloads:
  "payload (token_body t) [''access_token'', ''expires_at'', ''refresh_token'']"
  "payload (JObj [(''expires_at'', JStr e)]) [''expires_at'']"
  "payload (AdminChallengeResponse g) [''status'', ''expires_in'']"
  "payload (signupAcceptedResponse s) [''status'']" "payload (revokeResponse s) [''status'']"
  "payload (tenantJSON ten) [''org_id'', ''slug'', ''name'', ''retired'']"
  by (simp_all add: payload_def token_body_def AdminChallengeResponse_def signupAcceptedResponse_def
      revokeResponse_def tenantJSON_def max_nesting_depth_def)

lemma onboard_payload:
  "payload (OnboardClaimResponse res) [''status'', ''idempotent_replay'', ''user'', ''credentials'', ''workspace'']"
proof -
  have "fold max (map (json_depth \<circ> JStr) gs) 0 \<le> 0" for gs by (rule fold_max_le) auto
  then show ?thesis
    by (simp add: payload_def OnboardClaimResponse_def OnboardUser_def OnboardCredentials_def
        OnboardWorkspaceInfo_def list_all_iff max_nesting_depth_def)
qed

lemma verify_payload:
  "\<exists>names. payload (AdminVerifyResponse p) names \<and> ''error'' \<notin> set names"
  by (cases "op_DisplayName p = []")
     (auto simp: payload_def AdminVerifyResponse_def omit_empty_def max_nesting_depth_def intro!: exI)


subsection \<open>The handlers and the limiters around them\<close>

lemma typed_receipts:
  "fresh w \<Longrightarrow> typed_answer (writeTokens t w)"
  "fresh w \<Longrightarrow> typed_answer (writeJSON 200 (AdminVerifyResponse p) w)"
  using verify_payload [of p] by (auto simp: writeTokens_def intro!: typed_success scalar_payloads)

lemma typed_handlers:
  assumes "proper_limiter l" and "fresh w"
  shows "gives typed_answer (requestOTP (gateway_handlers e c l) r w)"
    and "gives typed_answer (verifyOTP (gateway_handlers e c l) r w)"
    and "gives typed_answer (login (gateway_handlers e c l) r w)"
    and "gives typed_answer (refreshToken (gateway_handlers e c l) r w)"
    and "gives typed_answer (signup (gateway_handlers e c l) r w)"
    and "gives typed_answer (signupVerify (gateway_handlers e c l) r w)"
    and "gives typed_answer (flags_handler (gateway_handlers e c l) r w)"
    and "gives typed_answer (listOrgs (gateway_handlers e c l) r w)"
    and "gives typed_answer (createOrg (gateway_handlers e c l) r w)"
    and "gives typed_answer (setOrgSlug (gateway_handlers e c l) r w)"
    and "gives typed_answer (resolveTenant (gateway_handlers e c l) r w)"
    and "gives typed_answer (listMembers (gateway_handlers e c l) r w)"
    and "gives typed_answer (addMember (gateway_handlers e c l) r w)"
    and "gives typed_answer (removeMember (gateway_handlers e c l) r w)"
    and "gives typed_answer (suspendMember (gateway_handlers e c l) r w)"
    and "gives typed_answer (setMemberRole (gateway_handlers e c l) r w)"
    and "gives typed_answer (createInvite (gateway_handlers e c l) r w)"
    and "gives typed_answer (listInvites (gateway_handlers e c l) r w)"
    and "gives typed_answer (revokeInvite (gateway_handlers e c l) r w)"
    and "gives typed_answer (acceptInvite (gateway_handlers e c l) r w)"
    and "gives typed_answer (challenge_handler (gateway_handlers e c l) r w)"
    and "gives typed_answer (verifyChallenge (gateway_handlers e c l) r w)"
    and "gives typed_answer (claim_handler (gateway_handlers e c l) r w)"
  using assms(2)
  by (auto simp: upstream_handler_defs challenge_handler_def verifyChallenge_def claim_handler_def
        Let_def error_statuses_def intro!: gives_answer gives_with_body gives_with_bearer typed_errors
        typed_failure typed_success typed_receipts scalar_payloads organization_payloads flag_payload
        onboard_payload calm_use_cases [OF assms(1)])

lemma typed_selectOrg:
  assumes "proper_limiter l" and "fresh w"
  shows "gives typed_answer (selectOrg (gateway_handlers e c l) r w)"
proof -
  have checked: "gives (check_gives typed_answer fresh) (checkOrgLimit (gateway_handlers e c l) org route w)"
    for org route
    using assms(2) by (intro gives_checkOrgLimit [OF assms(1)]) (auto intro: typed_errors)
  show ?thesis
    unfolding selectOrg_def using assms(2)
    by (intro gives_with_body gives_with_bearer gives_bind [OF checked])
       (auto simp: check_gives_def error_statuses_def split: sum.splits
          intro!: typed_failure gives_ret gives_answer typed_receipts typed_errors calm_use_cases [OF assms(1)])
qed

lemma typed_guards:
  assumes "proper_limiter l" and "fresh w" and "\<And>r w. fresh w \<Longrightarrow> gives typed_answer (next r w)"
  shows "gives typed_answer (wrap (gateway_handlers e c l) cl next r w)"
    and "gives typed_answer (wrapIP (gateway_handlers e c l) route limit next r w)"
    and "gives typed_answer (wrapOrg (gateway_handlers e c l) route next r w)"
  using calm_limits [OF assms(1)] assms(2,3)
  by (auto simp: wrap_def wrapIP_def wrapOrg_def applyRouteLimit_def intro!: gives_checked typed_errors)

subsection \<open>The API routes\<close>

definition api_routes :: "'w handlers \<Rightarrow> 'w route_table" where
  "api_routes h = auth_routes h @ signup_routes h @ flag_routes h @ org_routes h @ tenant_routes h @
     filter (\<lambda>(pattern, f). pattern \<noteq> ''GET /'') (platform_routes h)"

lemma api_routes_typed:
  assumes l: "proper_limiter l" and w: "fresh w" and h: "(pattern, h) \<in> set (api_routes (gateway_handlers e c l))"
  shows "gives typed_answer (h r w)"
proof -
  note handlers = typed_handlers [OF l] typed_selectOrg [OF l]
  have "list_all (\<lambda>(p, h). gives typed_answer (h r w)) (api_routes (gateway_handlers e c l))"
    unfolding api_routes_def list_all_append
    by (intro conjI)
       (auto simp: auth_routes_def signup_routes_def flag_routes_def org_routes_def tenant_routes_def
          platform_routes_def w intro!: typed_guards [OF l w] handlers)
  then show ?thesis using h by (auto simp: list_all_iff)
qed

lemma api_patterns_served:
  "list_all (\<lambda>p. p = ''GET /'' \<or> mp_Segments (parse_pattern p) \<noteq> catch_all) all_patterns"
  by code_simp

lemma api_route_registered:
  assumes "(pattern, h) \<in> set (api_routes hs)"
  shows "(pattern, h) \<in> set (gateway_routes hs)" and "mp_Segments (parse_pattern pattern) \<noteq> catch_all"
proof -
  show r: "(pattern, h) \<in> set (gateway_routes hs)"
    using assms by (auto simp: api_routes_def gateway_routes_def)
  have "pattern \<noteq> ''GET /''"
    using assms by (auto simp: api_routes_def auth_routes_def signup_routes_def flag_routes_def org_routes_def
        tenant_routes_def routeFlags_def routeTenantResolve_def split: if_splits)
  moreover have "pattern \<in> set all_patterns"
    using list_emb_set [OF routes_subseq [of hs], of pattern] r by force
  ultimately show "mp_Segments (parse_pattern pattern) \<noteq> catch_all"
    using api_patterns_served by (auto simp: list_all_iff)
qed


text \<open>C20 [the shape of every answer]. Whatever orbit-auth, the limiter and the stores answer, a request that matches
  an API route of the gateway is answered with \<open>application/json\<close> and a body that decodes to one object
  and a newline: the error object and nothing else under one of the ten failure statuses, a payload
  without an \<open>error\<close> member under 200 or 202.\<close>

theorem api_answers_typed:
  assumes "l = None \<or> (\<exists>lib. l = limiter_iface (New_adapter (Some lib)))"
    and "(pattern, h) \<in> set (api_routes (gateway_handlers e c l))"
    and "method_serves (mp_Method (parse_pattern pattern)) (req_Method r)"
    and "seg_matches (mp_Segments (parse_pattern pattern)) (path_segments (req_Path r))"
  shows "typed_answer (result_of (mux_serve (srv_mux (gateway_server e c l)) r empty_response) u)"
proof -
  have l: "proper_limiter l" using assms(1) proper_adapter proper_None by auto
  have "mux_serve (srv_mux (gateway_server e c l)) r empty_response =
      h (r\<lparr>req_PathValues :=
          wild_values (mp_Segments (parse_pattern pattern)) (path_segments (req_Path r)) Map.empty\<rparr>) empty_response"
    unfolding gateway_server_def by (rule New_serves [OF api_route_registered [OF assms(2)] assms(3,4)])
  then show ?thesis using api_routes_typed [OF l _ assms(2), of empty_response] by (simp add: gives_def)
qed

definition slug_request :: request where
  "slug_request = \<lparr>req_Method = ''PUT'', req_Path = ''/api/v1/orgs/acme/slug'', req_Header = Map.empty,
     req_PathValues = Map.empty, req_RemoteAddr = ''10.0.0.1:80'', req_Body = [], req_Context = Background\<rparr>"

lemma slug_route:
  "method_serves (mp_Method (parse_pattern ''PUT /api/v1/orgs/{org_id}/slug'')) (req_Method slug_request)"
  "seg_matches (mp_Segments (parse_pattern ''PUT /api/v1/orgs/{org_id}/slug''))
     (path_segments (req_Path slug_request))"
  by code_simp+

theorem api_answers_typed_witness:
  "typed_answer (result_of (mux_serve
     (srv_mux (gateway_server sample_externals sample_client (limiter_iface (New_adapter (Some sample_limiter)))))
     slug_request empty_response) (new_world 0))"
proof (rule api_answers_typed [OF _ _ slug_route])
  let ?h = "gateway_handlers sample_externals sample_client (limiter_iface (New_adapter (Some sample_limiter)))"
  show "(''PUT /api/v1/orgs/{org_id}/slug'', wrapOrg ?h routeOrgSlug (setOrgSlug ?h)) \<in> set (api_routes ?h)"
    by (simp add: api_routes_def org_routes_def HasOrgs_def)
qed blast

end
