(* ===== verification/Route_Proxies.thy ===== *)
theory Route_Proxies
  imports Auth_Proxy Server_Properties Limit_Properties Http_Answers
begin

text \<open>
  The proxied routes from the request to orbit-auth: which request each of the twenty-one routes stands
  for, which bucket it spends first, and which proxy answers it.  The server built by \<open>New\<close>, its
  route table, the dispatch of the mux and the limiters are shown to be this table.  Two consequences: the
  flag answer is a flag document itself, and a forged address spends somebody else's bucket.
\<close>

subsection \<open>The table of routes\<close>

fun org_pattern :: "org_op \<Rightarrow> string" where
  "org_pattern OpListOrgs = ''GET /api/v1/orgs''"
| "org_pattern OpCreateOrg = ''POST /api/v1/orgs''"
| "org_pattern OpSetOrgSlug = ''PUT /api/v1/orgs/{org_id}/slug''"
| "org_pattern OpListMembers = ''GET /api/v1/orgs/{org_id}/members''"
| "org_pattern OpAddMember = ''POST /api/v1/orgs/{org_id}/members''"
| "org_pattern OpRemoveMember = ''DELETE /api/v1/orgs/{org_id}/members/{user_id}''"
| "org_pattern OpSuspendMember = ''POST /api/v1/orgs/{org_id}/members/{user_id}/suspend''"
| "org_pattern OpSetMemberRole = ''PUT /api/v1/orgs/{org_id}/members/{user_id}/role''"
| "org_pattern OpCreateInvite = ''POST /api/v1/orgs/{org_id}/invites''"
| "org_pattern OpListInvites = ''GET /api/v1/orgs/{org_id}/invites''"
| "org_pattern OpRevokeInvite = ''DELETE /api/v1/orgs/{org_id}/invites/{invite_id}''"
| "org_pattern OpAcceptInvite = ''POST /api/v1/invites/accept''"

fun auth_pattern :: "auth_op \<Rightarrow> string" where
  "auth_pattern OpRequestOTP = ''POST /api/v1/auth/otp/request''"
| "auth_pattern OpVerifyOTP = ''POST /api/v1/auth/otp/verify''"
| "auth_pattern OpLogin = ''POST /api/v1/auth/login''"
| "auth_pattern OpRefreshToken = ''POST /api/v1/auth/token/refresh''"
| "auth_pattern OpSignup = ''POST /api/v1/auth/signup''"
| "auth_pattern OpSignupVerify = ''POST /api/v1/auth/signup/verify''"
| "auth_pattern OpResolveTenant = ''GET /api/v1/public/tenants/{slug}''"

text \<open>A request asks for a pattern by its method and path; the wildcards take the segments of the path.\<close>

definition asks_for :: "string \<Rightarrow> request \<Rightarrow> bool" where
  "asks_for pattern r \<longleftrightarrow>
     method_serves (mp_Method (parse_pattern pattern)) (req_Method r) \<and>
     seg_matches (mp_Segments (parse_pattern pattern)) (path_segments (req_Path r))"

definition bound_to :: "string \<Rightarrow> request \<Rightarrow> request" where
  "bound_to pattern r = r\<lparr>req_PathValues :=
     wild_values (mp_Segments (parse_pattern pattern)) (path_segments (req_Path r)) Map.empty\<rparr>"

subsection \<open>The table of buckets\<close>

definition per_minute :: "string \<Rightarrow> int \<Rightarrow> policy" where
  "per_minute template n = \<lparr>pol_Class = template, pol_Limit = n, pol_Window = 60 * 10 ^ 9\<rparr>"

definition unless_empty :: "string \<Rightarrow> policy \<Rightarrow> (string \<times> policy) option" where
  "unless_empty key policy = (if key = [] then None else Some (key, policy))"

definition address_bucket :: "rate_library \<Rightarrow> string \<Rightarrow> string \<Rightarrow> int \<Rightarrow> (string \<times> policy) option" where
  "address_bucket lib ip template n = unless_empty (lib_KeyForIP lib ip template) (per_minute template n)"

definition organization_bucket :: "rate_library \<Rightarrow> request \<Rightarrow> string \<Rightarrow> (string \<times> policy) option" where
  "organization_bucket lib r template =
     unless_empty (lib_KeyForOrg lib (PathValue r ''org_id'') template) (per_minute template 60)"

definition class_bucket :: "string \<Rightarrow> string \<Rightarrow> (string \<times> policy) option" where
  "class_bucket cls ip = Some (ClientKey cls ip, PolicyFor cls)"

text \<open>Listing and creating organizations share an address's bucket; everything done to the members of an
  organization but a change of role shares one of that organization, as do its invitations.\<close>

fun org_bucket :: "rate_library \<Rightarrow> bool \<Rightarrow> org_op \<Rightarrow> request \<Rightarrow> (string \<times> policy) option" where
  "org_bucket lib trust OpListOrgs r = address_bucket lib (clientIP r trust) ''/api/v1/orgs'' 60"
| "org_bucket lib trust OpCreateOrg r = address_bucket lib (clientIP r trust) ''/api/v1/orgs'' 60"
| "org_bucket lib trust OpSetOrgSlug r = organization_bucket lib r ''/api/v1/orgs/{org_id}/slug''"
| "org_bucket lib trust OpListMembers r = organization_bucket lib r ''/api/v1/orgs/{org_id}/members''"
| "org_bucket lib trust OpAddMember r = organization_bucket lib r ''/api/v1/orgs/{org_id}/members''"
| "org_bucket lib trust OpRemoveMember r = organization_bucket lib r ''/api/v1/orgs/{org_id}/members''"
| "org_bucket lib trust OpSuspendMember r = organization_bucket lib r ''/api/v1/orgs/{org_id}/members''"
| "org_bucket lib trust OpSetMemberRole r =
     organization_bucket lib r ''/api/v1/orgs/{org_id}/members/{user_id}/role''"
| "org_bucket lib trust OpCreateInvite r = organization_bucket lib r ''/api/v1/orgs/{org_id}/invites''"
| "org_bucket lib trust OpListInvites r = organization_bucket lib r ''/api/v1/orgs/{org_id}/invites''"
| "org_bucket lib trust OpRevokeInvite r =
     organization_bucket lib r ''/api/v1/orgs/{org_id}/invites/{invite_id}''"
| "org_bucket lib trust OpAcceptInvite r = address_bucket lib (clientIP r trust) ''/api/v1/invites/accept'' 5"

fun auth_bucket :: "rate_library \<Rightarrow> bool \<Rightarrow> auth_op \<Rightarrow> request \<Rightarrow> (string \<times> policy) option" where
  "auth_bucket lib trust OpRequestOTP r = class_bucket ClassAuthOTPRequest (clientIP r trust)"
| "auth_bucket lib trust OpVerifyOTP r = class_bucket ClassAuthOTPVerify (clientIP r trust)"
| "auth_bucket lib trust OpLogin r = class_bucket ClassAuthPassword (clientIP r trust)"
| "auth_bucket lib trust OpRefreshToken r = class_bucket ClassAuthRefresh (clientIP r trust)"
| "auth_bucket lib trust OpSignup r = address_bucket lib (clientIP r trust) ''/api/v1/auth/signup'' 5"
| "auth_bucket lib trust OpSignupVerify r =
     address_bucket lib (clientIP r trust) ''/api/v1/auth/signup/verify'' 5"
| "auth_bucket lib trust OpResolveTenant r =
     address_bucket lib (clientIP r trust) ''/api/v1/public/tenants/{slug}'' 600"

subsection \<open>The limiters spend the buckets\<close>

lemma limiters_metered:
  "wrap (gateway_handlers e c l) cls next r w =
     metered l (class_bucket cls (clientIP r (TrustProxy (gateway_options e)))) w (next r)"
  "wrapIP (gateway_handlers e c l) route limit next r w =
     metered l (unless_empty (lib_KeyForIP (ext_RateKeys e) (clientIP r (TrustProxy (gateway_options e))) route)
       (IPRoutePolicy route limit)) w (next r)"
  "wrapOrg (gateway_handlers e c l) route next r w =
     metered l (unless_empty (lib_KeyForOrg (ext_RateKeys e) (PathValue r ''org_id'') route)
       (OrgRoutePolicy route)) w (next r)"
  by (rule state_ext, cases l,
      auto simp: wrap_def wrapIP_def wrapOrg_def applyRouteLimit_def HasLimiter_def CheckClassLimit_def
        CheckKeyLimit_def metered_def class_bucket_def unless_empty_def KeyForIP_def KeyForOrg_def run_allow
        outside_limiter_def on_ext_def unavailable_eq denial_eq rate_headers_eq
      split: prod.splits sum.splits)+

lemma route_policies:
  "IPRoutePolicy template n = per_minute template n" "OrgRoutePolicy template = per_minute template 60"
  by (simp_all add: IPRoutePolicy_def OrgRoutePolicy_def per_minute_def OrgRouteLimit_def RouteWindow_def
        minute_def second_def)

subsection \<open>The routes are the proxies\<close>

lemma patterns_not_catch_all:
  "mp_Segments (parse_pattern (org_pattern op)) \<noteq> catch_all"
  "mp_Segments (parse_pattern (auth_pattern op')) \<noteq> catch_all"
  "mp_Segments (parse_pattern ''POST /api/v1/session/org'') \<noteq> catch_all"
  subgoal by (cases op; hypsubst; code_simp)
  subgoal by (cases op'; hypsubst; code_simp)
  subgoal by code_simp
  done

lemma served_route:
  assumes "(pattern, h) \<in> set (gateway_routes (gateway_handlers e c l))"
    and "mp_Segments (parse_pattern pattern) \<noteq> catch_all" and "asks_for pattern r"
  shows "mux_serve (srv_mux (gateway_server e c l)) r w = h (bound_to pattern r) w"
  using New_serves [OF assms(1,2)] assms(3) by (simp add: gateway_server_def asks_for_def bound_to_def)

text \<open>The handlers of the two tables behind their limiters.\<close>

fun org_route :: "'w handlers \<Rightarrow> org_op \<Rightarrow> 'w handler" where
  "org_route h OpListOrgs = wrapIP h routeOrgList OrgRouteLimit (listOrgs h)"
| "org_route h OpCreateOrg = wrapIP h routeOrgCreate OrgRouteLimit (createOrg h)"
| "org_route h OpAcceptInvite = wrapIP h routeInviteAccept InviteAcceptIPLimit (acceptInvite h)"
| "org_route h OpSetOrgSlug = wrapOrg h routeOrgSlug (setOrgSlug h)"
| "org_route h OpSetMemberRole = wrapOrg h routeOrgMemberRole (setMemberRole h)"
| "org_route h OpCreateInvite = wrapOrg h routeOrgInvites (createInvite h)"
| "org_route h OpListInvites = wrapOrg h routeOrgInvites (listInvites h)"
| "org_route h OpRevokeInvite = wrapOrg h routeOrgInviteRev (revokeInvite h)"
| "org_route h op = wrapOrg h routeOrgMembers (org_handler h op)"

fun auth_route :: "'w handlers \<Rightarrow> auth_op \<Rightarrow> 'w handler" where
  "auth_route h OpRequestOTP = wrap h ClassAuthOTPRequest (requestOTP h)"
| "auth_route h OpVerifyOTP = wrap h ClassAuthOTPVerify (verifyOTP h)"
| "auth_route h OpLogin = wrap h ClassAuthPassword (login h)"
| "auth_route h OpRefreshToken = wrap h ClassAuthRefresh (refreshToken h)"
| "auth_route h OpSignup = wrapIP h routeSignup SignupIPLimit (signup h)"
| "auth_route h OpSignupVerify = wrapIP h routeSignupVerify SignupIPLimit (signupVerify h)"
| "auth_route h OpResolveTenant = wrapIP h routeTenantResolve TenantResolveIPLimit (resolveTenant h)"

lemma routes_registered:
  "(org_pattern op, org_route (gateway_handlers e c l) op) \<in> set (gateway_routes (gateway_handlers e c l))"
  "(auth_pattern op', auth_route (gateway_handlers e c l) op') \<in> set (gateway_routes (gateway_handlers e c l))"
  "(''POST /api/v1/session/org'', selectOrg (gateway_handlers e c l)) \<in> set (gateway_routes (gateway_handlers e c l))"
  subgoal by (cases op) (simp_all add: gateway_routes_def org_routes_def HasOrgs_def)
  subgoal by (cases op')
    (simp_all add: gateway_routes_def auth_routes_def signup_routes_def tenant_routes_def Has_defs
       routeTenantResolve_def)
  subgoal by (simp add: gateway_routes_def org_routes_def HasOrgs_def)
  done

lemmas route_templates =
  routeSignup_def routeSignupVerify_def routeOrgList_def routeOrgCreate_def routeOrgMembers_def
  routeOrgMemberRole_def routeOrgSlug_def routeTenantResolve_def routeOrgInvites_def routeOrgInviteRev_def
  routeInviteAccept_def OrgRouteLimit_def SignupIPLimit_def InviteAcceptIPLimit_def TenantResolveIPLimit_def

lemma org_route_metered:
  "org_route (gateway_handlers e c l) op r w =
     metered l (org_bucket (ext_RateKeys e) (TrustProxy (gateway_options e)) op r) w
       (org_handler (gateway_handlers e c l) op r)"
  by (cases op)
     (simp_all only: org_route.simps org_bucket.simps org_handler.simps limiters_metered route_policies
        route_templates address_bucket_def organization_bucket_def)

lemma auth_route_metered:
  "auth_route (gateway_handlers e c l) op r w =
     metered l (auth_bucket (ext_RateKeys e) (TrustProxy (gateway_options e)) op r) w
       (auth_handler (gateway_handlers e c l) op r)"
  by (cases op)
     (simp_all only: auth_route.simps auth_bucket.simps auth_handler.simps limiters_metered route_policies
        route_templates address_bucket_def)

text \<open>C24 [the routes without a token, from the request on]. On every wired gateway a request for one of
  the seven routes that need no token is exactly this: one unit of its bucket (503, 429 and the rate
  headers by the limiter's answer), then 400 for an unreadable body, the identifier's own bucket for a
  one-time password, one call of orbit-auth with the values of body or path, and the answer of that
  call rendered by the table, no failure showing more than its row lets through.\<close>

theorem auth_routes_are_proxies:
  assumes "asks_for (auth_pattern op) r"
  shows "mux_serve (srv_mux (gateway_server e c l)) r w =
    metered l (auth_bucket (ext_RateKeys e) (TrustProxy (gateway_options e)) op (bound_to (auth_pattern op) r)) w
      (auth_proxy (ext_ToLower e) c l op (bound_to (auth_pattern op) r))"
proof -
  have handler: "auth_handler (gateway_handlers e c l) op r' = auth_proxy (ext_ToLower e) c l op r'" for r'
    by (rule ext) (rule auth_handlers_are_proxies)
  show ?thesis
    by (simp only: served_route [OF routes_registered(2) patterns_not_catch_all(2) assms] auth_route_metered handler)
qed

lemma login_asks: "asks_for (auth_pattern OpLogin) login_request"
proof -
  have "parse_pattern (auth_pattern OpLogin) =
      \<lparr>mp_Method = Some ''POST'', mp_Segments = [Lit ''api'', Lit ''v1'', Lit ''auth'', Lit ''login'']\<rparr>"
    "path_segments (req_Path login_request) = [''api'', ''v1'', ''auth'', ''login'']"
    by code_simp+
  then show ?thesis by (simp add: asks_for_def method_serves_def login_request_def)
qed

theorem auth_routes_are_proxies_witness:
  "run_state (mux_serve (srv_mux (gateway_server sample_externals sample_client None)) login_request empty_response)
      (new_world 7) =
    (writeJSON 500 (error_body ''upstream error'') empty_response, new_world 7)"
  by (subst auth_routes_are_proxies [OF login_asks])
     (simp add: metered_def auth_proxy_def body_field_def bound_to_def login_request_def read_empty_object
        loginBody_def str_field_def on_ext_def rendered_def sample_client_def sample_stubs_def down_def
        login_failure_def)

text \<open>C25 [the organization routes, from the request on]. On every wired gateway a request for one of
  the twelve organization and invitation routes is exactly this: one unit of the bucket of the address or
  of the organization in the path, then 401 without a bearer token of more than blanks, 400 for an
  unreadable body, otherwise one call of orbit-auth with the values of path and body under
  \<open>authorization: Bearer <token>\<close> of the caller, whose answer is rendered with 200 and whose failure
  with the status of its code.\<close>

theorem org_routes_are_proxies:
  assumes "asks_for (org_pattern op) r"
  shows "mux_serve (srv_mux (gateway_server e c l)) r w =
    metered l (org_bucket (ext_RateKeys e) (TrustProxy (gateway_options e)) op (bound_to (org_pattern op) r)) w
      (org_proxy c op (bound_to (org_pattern op) r))"
proof -
  have handler: "org_handler (gateway_handlers e c l) op r' = org_proxy c op r'" for r'
    by (rule ext) (rule org_handlers_are_proxies)
  show ?thesis
    by (simp only: served_route [OF routes_registered(1) patterns_not_catch_all(1) assms] org_route_metered handler)
qed

text \<open>The suspension of a member without a token, and with one while orbit-auth is down.\<close>

lemma suspend_asks: "asks_for (org_pattern OpSuspendMember) (suspend_request\<lparr>req_Header := hs\<rparr>)"
  using suspend_pattern suspend_segments by (simp add: asks_for_def method_serves_def suspend_request_def)

theorem org_routes_are_proxies_witness:
  "run_state (mux_serve (srv_mux (gateway_server sample_externals sample_client None))
      (suspend_request\<lparr>req_Header := [''Authorization'' \<mapsto> ''Bearer t0k'']\<rparr>) empty_response) (new_world 7) =
    (writeJSON 502 (error_body ''upstream error'') empty_response, new_world 7)"
proof -
  have "TrimSpace ''t0k'' = ''t0k''" by (simp add: TrimSpace_graph is_graph_def)
  then show ?thesis
    by (subst org_routes_are_proxies [OF suspend_asks])
       (simp add: metered_def org_proxy_def bearer_of_def Header_Get_def bound_to_def suspend_request_def
          on_ext_def rendered_def sample_client_def sample_stubs_def down_def org_failure_def)
qed

text \<open>C27 [changing the session's organization]. On every wired gateway a request to change the
  session's organization is exactly this: 401 without a bearer token of more than blanks, 400 for an
  unreadable body, then one unit of the bucket of the organization asked for, whichever the caller is in
  and from whatever address, and only then the call of orbit-auth under the caller's token, whose new
  tokens or mapped failure come back with the state of that bucket.\<close>

theorem session_route_is_proxy:
  assumes "asks_for ''POST /api/v1/session/org'' r"
  shows "mux_serve (srv_mux (gateway_server e c l)) r w =
    select_proxy (ext_RateKeys e) c l (bound_to ''POST /api/v1/session/org'' r) w"
  by (simp only: served_route [OF routes_registered(3) patterns_not_catch_all(3) assms] selectOrg_is_proxy)

definition session_request :: request where
  "session_request = login_request\<lparr>req_Path := ''/api/v1/session/org'',
     req_Header := [''Authorization'' \<mapsto> ''Bearer t0k'']\<rparr>"

lemma session_asks: "asks_for ''POST /api/v1/session/org'' session_request"
proof -
  have "parse_pattern ''POST /api/v1/session/org'' =
      \<lparr>mp_Method = Some ''POST'', mp_Segments = [Lit ''api'', Lit ''v1'', Lit ''session'', Lit ''org'']\<rparr>"
    "path_segments (req_Path session_request) = [''api'', ''v1'', ''session'', ''org'']"
    by code_simp+
  then show ?thesis by (simp add: asks_for_def method_serves_def session_request_def login_request_def)
qed

theorem session_route_is_proxy_witness:
  "run_state (mux_serve (srv_mux (gateway_server sample_externals sample_client None)) session_request empty_response)
      (new_world 7) =
    (writeJSON 502 (error_body ''upstream error'') empty_response, new_world 7)"
proof -
  have "TrimSpace ''t0k'' = ''t0k''" by (simp add: TrimSpace_graph is_graph_def)
  then show ?thesis
    by (subst session_route_is_proxy [OF session_asks])
       (simp add: metered_def select_proxy_def bearer_of_def Header_Get_def bound_to_def session_request_def
          login_request_def body_field_def read_empty_object selectOrgBody_def str_field_def on_ext_def
          rendered_def sample_client_def sample_stubs_def down_def org_failure_def)
qed

subsection \<open>Flags\<close>

text \<open>The document at orbit-auth's HTTP address, asked for once, and only with a configured address.\<close>

definition flags_url :: "'x client \<Rightarrow> string" where
  "flags_url c = TrimRight_char CHR ''/'' (AuthHTTPURL c) @ ''/v1/flags''"

definition document_flags :: "http_outcome \<Rightarrow> flag_set option" where
  "document_flags outcome =
     (case outcome of
        HttpResponse code body \<Rightarrow>
          if code = 200 then Option.bind (map_option fst (decode_value body)) flagDocument else None
      | TransportError m \<Rightarrow> None)"

definition flags_proxy :: "'x client \<Rightarrow> response \<Rightarrow> ('x gw_world, response) state" where
  "flags_proxy c w =
     (let w1 = Header_Set ''Cache-Control'' ''no-cache'' w;
          unavailable = writeJSON 502 (error_body ''flags unavailable'') w1
      in if TrimSpace (AuthHTTPURL c) = [] then ret unavailable
         else on_ext (cl_http_get c (flags_url c)) \<bind> (\<lambda>outcome.
           ret (case document_flags outcome of
                  None \<Rightarrow> unavailable | Some fs \<Rightarrow> writeJSON 200 (flagSetJSON fs) w1)))"

lemma flags_handler_is_proxy: "flags_handler (gateway_handlers e c l) r w = flags_proxy c w"
  by (rule state_ext)
     (auto simp: flags_handler_def flags_proxy_def Let_def ListFlags_def outside_flags_def client_flags_def
        Client_ListFlags_def flagsPath_def flags_url_def document_flags_def on_ext_def bad_gateway_def
        flags_error_def split: prod.splits sum.splits http_outcome.splits option.splits)

lemma flags_registered:
  "(''GET /api/v1/flags'', wrapIP (gateway_handlers e c l) routeFlags OrgRouteLimit (flags_handler (gateway_handlers e c l)))
     \<in> set (gateway_routes (gateway_handlers e c l))"
  "mp_Segments (parse_pattern ''GET /api/v1/flags'') \<noteq> catch_all"
  subgoal by (simp add: gateway_routes_def flag_routes_def HasFlags_def routeFlags_def)
  subgoal by code_simp
  done

text \<open>C30 [flags never break]. On every wired gateway a request for the flags is one unit of the address's
  bucket and then one GET of orbit-auth's flag document, if an address is configured: 200 with the
  document where one with status 200 decodes, and in every other case (no address, transport error, another
  status, malformed document) 502 with one fixed text; neither answer may be cached.\<close>

theorem flags_route_is_proxy:
  assumes "asks_for ''GET /api/v1/flags'' r"
  shows "mux_serve (srv_mux (gateway_server e c l)) r w =
    metered l (address_bucket (ext_RateKeys e)
        (clientIP (bound_to ''GET /api/v1/flags'' r) (TrustProxy (gateway_options e))) ''/api/v1/flags'' 60) w
      (flags_proxy c)"
proof -
  have handler: "flags_handler (gateway_handlers e c l) r' = flags_proxy c" for r'
    by (rule ext) (rule flags_handler_is_proxy)
  show ?thesis
    by (simp only: served_route [OF flags_registered assms] limiters_metered handler address_bucket_def
          route_policies routeFlags_def OrgRouteLimit_def)
qed

definition flags_request :: request where
  "flags_request = login_request\<lparr>req_Method := ''HEAD'', req_Path := ''/api/v1/flags''\<rparr>"

lemma flags_asks: "asks_for ''GET /api/v1/flags'' flags_request"
proof -
  have "parse_pattern ''GET /api/v1/flags'' =
      \<lparr>mp_Method = Some ''GET'', mp_Segments = [Lit ''api'', Lit ''v1'', Lit ''flags'']\<rparr>"
    "path_segments (req_Path flags_request) = [''api'', ''v1'', ''flags'']"
    by code_simp+
  then show ?thesis by (simp add: asks_for_def method_serves_def flags_request_def)
qed

theorem flags_route_is_proxy_witness:
  "run_state (mux_serve (srv_mux (gateway_server sample_externals (sample_client\<lparr>AuthHTTPURL := []\<rparr>) None))
      flags_request empty_response) (new_world 7) =
    (writeJSON 502 (error_body ''flags unavailable'') (Header_Set ''Cache-Control'' ''no-cache'' empty_response),
     new_world 7)"
proof -
  have "TrimSpace [] = []" by code_simp
  then show ?thesis
    by (subst flags_route_is_proxy [OF flags_asks]) (simp add: metered_def flags_proxy_def)
qed

text \<open>What reading a document makes of a string: valid UTF-8 stays as it is.\<close>

definition valid_flags :: "flag_set \<Rightarrow> flag_set" where
  "valid_flags fs = \<lparr>fs_Version = to_valid_utf8 (fs_Version fs),
     fs_Flags = map (\<lambda>f. \<lparr>flag_Name = to_valid_utf8 (flag_Name f), flag_Enabled = flag_Enabled f,
       flag_Description = to_valid_utf8 (flag_Description f)\<rparr>) (fs_Flags fs)\<rparr>"

lemma featureFlagsJSON_map:
  "featureFlagsJSON fs = map (\<lambda>f. JObj [(''name'', JStr (flag_Name f)), (''enabled'', JBool (flag_Enabled f)),
     (''description'', JStr (flag_Description f))]) fs"
  by (induction fs) simp_all

lemma json_valid_flags: "json_valid (flagSetJSON fs) = flagSetJSON (valid_flags fs)"
  by (simp add: flagSetJSON_def valid_flags_def featureFlagsJSON_map)

lemma decode_flags_encoded: "decode_flags [] (featureFlagsJSON fs) = Some fs"
proof -
  have keys: "fold_key ''name'' = ''name''" "fold_key ''enabled'' = ''enabled''"
      "fold_key ''description'' = ''description''" by code_simp+
  show ?thesis
    by (induction fs) (simp_all add: decode_flag_def zero_flag_def str_field_def keys del: fold_key.simps)
qed

lemma flagDocument_encoded: "flagDocument (flagSetJSON fs) = Some fs"
proof -
  have keys: "fold_key ''version'' = ''version''" "fold_key ''flags'' = ''flags''" by code_simp+
  show ?thesis
    by (simp add: flagDocument_def flagSetJSON_def str_field_def keys decode_flags_encoded del: fold_key.simps)
qed

text \<open>C28 [flags are read back]. The body of the flag answer, as the edge's response struct encodes it, is
  itself a flag document to the client of orbit-auth: read by \<open>ListFlags\<close>'s decoder it gives the same
  version and the same flags in the same order, each with its name, switch and description (strings
  made valid UTF-8, which leaves valid ones alone).\<close>

theorem flags_read_back:
  "document_flags (HttpResponse 200 (rw_Body (writeJSON 200 (flagSetJSON fs) empty_response))) =
     Some (valid_flags fs)"
proof -
  have "json_no_num (flagSetJSON fs)" "json_depth (flagSetJSON fs) \<le> max_nesting_depth"
    using flag_payload [of fs] by (simp_all add: payload_def)
  then have "decode_value (json_encode (flagSetJSON fs) @ [CHR 0x0A]) = Some (flagSetJSON (valid_flags fs), [CHR 0x0A])"
    by (simp add: decode_value_encode json_valid_flags)
  then show ?thesis
    by (simp add: document_flags_def writeJSON_def empty_response_def flagDocument_encoded)
qed

subsection \<open>A forwarded address\<close>

text \<open>C21 [a forwarded address can be an identifier's bucket]. On a gateway that trusts its proxy, a request
  for a one-time password whose \<open>X-Forwarded-For\<close> is \<open>id:\<close> and the hash of somebody's identifier makes
  its class check on the very key of that identifier's own bucket, whatever its body asks for: it
  asks the limiter for one unit of it and goes on with the answer.  And when the limiter denies that key,
  the identifier's owner is refused a one-time password before orbit-auth is called.\<close>

theorem forwarded_address_spends_identifier_bucket:
  assumes "asks_for (auth_pattern OpRequestOTP) r" and "TrustProxy (gateway_options e)"
    and "Header_Get r ''X-Forwarded-For'' = ''id:'' @ HashIdentifier (ext_ToLower e) ident"
    and "ident = (if otpr_Identifier b = [] then otpr_Email b else otpr_Identifier b)" and "TrimSpace ident \<noteq> []"
    and "run_state (lp_Allow p (IdentifierKey (ext_ToLower e) ident) OTPRequestIdentifierPolicy) (w_ext v) = (Inr d, y)"
    and "\<not> Allowed d"
  shows "mux_serve (srv_mux (gateway_server e c (Some p))) r w =
      metered (Some p) (Some (IdentifierKey (ext_ToLower e) ident, PolicyFor ClassAuthOTPRequest)) w
        (requestOTP (gateway_handlers e c (Some p)) (bound_to (auth_pattern OpRequestOTP) r)) \<and>
    run_state (RequestOTP (gateway_runtime e) (gateway_service e c (Some p)) b) v =
      (Inl (LimitErr \<lparr>le_Decision = d, Unavailable = False\<rparr>), v\<lparr>w_ext := y\<rparr>)"
proof
  have "Header_Get (bound_to (auth_pattern OpRequestOTP) r) ''X-Forwarded-For'' =
      ''id:'' @ HashIdentifier (ext_ToLower e) ident"
    using assms(3) by (simp add: bound_to_def Header_Get_def)
  then have key: "ClientKey ClassAuthOTPRequest (clientIP (bound_to (auth_pattern OpRequestOTP) r) True) =
      IdentifierKey (ext_ToLower e) ident"
    by (rule forwarded_address_reaches_identifier_bucket)
  show "mux_serve (srv_mux (gateway_server e c (Some p))) r w =
      metered (Some p) (Some (IdentifierKey (ext_ToLower e) ident, PolicyFor ClassAuthOTPRequest)) w
        (requestOTP (gateway_handlers e c (Some p)) (bound_to (auth_pattern OpRequestOTP) r))"
    using assms(2) key by (simp add: served_route [OF routes_registered(2) patterns_not_catch_all(2) assms(1)]
        auth_route_metered class_bucket_def del: auth_route.simps auth_pattern.simps)
  have lower: "rt_ToLower (gateway_runtime e) = ext_ToLower e" by (simp add: gateway_runtime_def)
  have wired: "svc_limiter (gateway_service e c (Some p)) = Some (outside_limiter p)" by simp
  have same: "s\<lparr>svc_auth := svc_auth s\<rparr> = s" for s :: "'x gw_world service" by (cases s) simp
  have asked: "run_state (lp_Allow (outside_limiter p) (IdentifierKey (rt_ToLower (gateway_runtime e)) ident)
      OTPRequestIdentifierPolicy) v = (Inr d, v\<lparr>w_ext := y\<rparr>)"
    using assms(6) by (simp add: lower outside_limiter_def on_ext_def)
  show "run_state (RequestOTP (gateway_runtime e) (gateway_service e c (Some p)) b) v =
      (Inl (LimitErr \<lparr>le_Decision = d, Unavailable = False\<rparr>), v\<lparr>w_ext := y\<rparr>)"
    using RequestOTP_denied [OF wired assms(4,5) asked assms(7), of "svc_auth (gateway_service e c (Some p))"]
    unfolding same .
qed

text \<open>A forged request, whoever it asks for, and the owner of \<open>a@b\<close>, under a limiter that denies.\<close>

definition trusting_externals :: "(go_time, unit) externals" where
  "trusting_externals = sample_externals\<lparr>ext_Getenv := (sample_env(''RATE_LIMIT_TRUST_PROXY'' := ''true''))\<rparr>"

definition forged_request :: request where
  "forged_request = login_request\<lparr>req_Path := ''/api/v1/auth/otp/request'',
     req_Header := [''X-Forwarded-For'' \<mapsto> ''id:'' @ HashIdentifier id ''a@b'']\<rparr>"

definition owner_request :: otp_request where
  "owner_request = \<lparr>otpr_Identifier = ''a@b'', otpr_Channel = ''email'', otpr_Email = [], otpr_CorrelationID = []\<rparr>"

lemma forged_asks: "asks_for (auth_pattern OpRequestOTP) forged_request"
proof -
  have "parse_pattern (auth_pattern OpRequestOTP) =
      \<lparr>mp_Method = Some ''POST'', mp_Segments = [Lit ''api'', Lit ''v1'', Lit ''auth'', Lit ''otp'', Lit ''request'']\<rparr>"
    "path_segments ''/api/v1/auth/otp/request'' = [''api'', ''v1'', ''auth'', ''otp'', ''request'']"
    by code_simp+
  then show ?thesis by (simp add: asks_for_def method_serves_def forged_request_def login_request_def)
qed

lemma trusting_lower: "ext_ToLower trusting_externals = id"
  by (simp add: trusting_externals_def sample_externals_def)

theorem forwarded_address_spends_identifier_bucket_witness:
  "mux_serve (srv_mux (gateway_server trusting_externals sample_client (Some deny_all))) forged_request empty_response =
     metered (Some deny_all) (Some (IdentifierKey id ''a@b'', PolicyFor ClassAuthOTPRequest)) empty_response
       (requestOTP (gateway_handlers trusting_externals sample_client (Some deny_all))
         (bound_to (auth_pattern OpRequestOTP) forged_request)) \<and>
   run_state (RequestOTP (gateway_runtime trusting_externals)
       (gateway_service trusting_externals sample_client (Some deny_all)) owner_request) (new_world 7) =
     (Inl (LimitErr \<lparr>le_Decision = denial, Unavailable = False\<rparr>), (new_world 7)\<lparr>w_ext := 7\<rparr>)"
proof -
  have trust: "TrustProxy (gateway_options trusting_externals)"
    by (simp add: gateway_options_def trusting_externals_def EqualFold_ascii_def)
  have header: "Header_Get forged_request ''X-Forwarded-For'' =
      ''id:'' @ HashIdentifier (ext_ToLower trusting_externals) ''a@b''"
    by (simp add: trusting_lower forged_request_def Header_Get_def)
  have owner: "''a@b'' = (if otpr_Identifier owner_request = [] then otpr_Email owner_request
      else otpr_Identifier owner_request)" "TrimSpace ''a@b'' \<noteq> []"
    by (simp_all add: owner_request_def TrimSpace_graph is_graph_def)
  have deny: "run_state (lp_Allow deny_all (IdentifierKey (ext_ToLower trusting_externals) ''a@b'')
      OTPRequestIdentifierPolicy) (w_ext (new_world 7)) = (Inr denial, 7)" "\<not> Allowed denial"
    by (simp_all add: denial_def)
  from forwarded_address_spends_identifier_bucket [OF forged_asks trust header owner deny] show ?thesis
    by (simp only: trusting_lower)
qed

end
