(* ===== verification/Server_Front.thy ===== *)
theory Server_Front
  imports Samples Server_Dispatch
begin

text \<open>
  Fiber in front of the \<open>net/http\<close> chain (\<open>newServer\<close>): what leaves the server against what Fiber's
  adaptor made of the chain.  Header names are compared the way HTTP compares them, by their canonical form.
\<close>

subsection \<open>Header names up to case\<close>














subsection \<open>The server as its clients see it\<close>



abbreviation limited_handlers :: "go_time gw_world handlers" where
  "limited_handlers \<equiv>
     gateway_handlers sample_externals sample_client (limiter_iface (New_adapter (Some sample_limiter)))"

























end
