(* ===== verification/Route_Aliases.thy ===== *)
theory Route_Aliases
  imports Server_Properties
begin

text \<open>
  The aliases of the ownership and onboarding routes in \<open>server.go\<close>: the README documents them as
  other names of the canonical routes.  Each alias is registered on its own with its own rate-limit
  class; this theory shows that nothing but the class's bucket tells the two apart.
\<close>

record route_alias =
  ra_Path :: string
  ra_Class :: string
  ra_Canonical :: string
  ra_CanonicalClass :: string

definition route_aliases :: "route_alias list" where
  "route_aliases =
     [\<lparr>ra_Path = ''/api/v1/admin/challenge'', ra_Class = ClassAdminChallenge,
       ra_Canonical = ''/api/v1/system/ownership/challenge'', ra_CanonicalClass = ClassOwnershipChallenge\<rparr>,
      \<lparr>ra_Path = ''/api/v1/admin/verify'', ra_Class = ClassAdminVerify,
       ra_Canonical = ''/api/v1/system/ownership/verify'', ra_CanonicalClass = ClassOwnershipVerify\<rparr>,
      \<lparr>ra_Path = ''/api/v1/onboard/claim'', ra_Class = ClassOnboardClaim,
       ra_Canonical = ''/api/v1/dev/onboard/claim'', ra_CanonicalClass = ClassDevOnboardClaim\<rparr>,
      \<lparr>ra_Path = ''/v1/onboard/claim'', ra_Class = ClassOnboardClaim,
       ra_Canonical = ''/api/v1/dev/onboard/claim'', ra_CanonicalClass = ClassDevOnboardClaim\<rparr>]"

lemma wrap_class_cong:
  assumes "HasLimiter (h_svc h) \<Longrightarrow>
      run_state (CheckClassLimit (h_svc h) c (clientIP r (h_trustProxy h))) u =
      run_state (CheckClassLimit (h_svc h) d (clientIP r (h_trustProxy h))) u"
  shows "run_state (wrap h c f r w) u = run_state (wrap h d f r w) u"
  using assms by (simp add: wrap_def split: prod.splits)

lemma alias_paths_literal:
  "list_all (\<lambda>a. literal_route (ra_Path a) \<and> literal_route (ra_Canonical a)) route_aliases"
  by code_simp

lemma alias_registered:
  assumes "a \<in> set route_aliases"
  obtains f where "path_blind f"
    and "(''POST '' @ ra_Path a, wrap h (ra_Class a) f) \<in> set (gateway_routes h)"
    and "(''POST '' @ ra_Canonical a, wrap h (ra_CanonicalClass a) f) \<in> set (gateway_routes h)"
  using assms aliased_handlers_path_blind [of h]
  by (auto simp: route_aliases_def gateway_routes_def platform_routes_def)

text \<open>C29 [route aliases]. A \<open>POST\<close> to an alias of an ownership or onboarding route runs exactly as the same \<open>POST\<close>
  to the canonical route, answer and state alike, where the limiter, if there is one, answers the
  buckets of the two classes alike; and the two classes have the same policy.\<close>

theorem alias_serves_canonical:
  assumes "a \<in> set route_aliases" and "req_Method r = ''POST''" and "req_Path r = ra_Path a"
    and "HasLimiter svc \<Longrightarrow>
      run_state (CheckClassLimit svc (ra_Class a) (clientIP r (TrustProxy opts))) u =
      run_state (CheckClassLimit svc (ra_CanonicalClass a) (clientIP r (TrustProxy opts))) u"
  shows "run_state (mux_serve (srv_mux (New rt lib middleware svc opts)) r w) u =
      run_state (mux_serve (srv_mux (New rt lib middleware svc opts)) (r\<lparr>req_Path := ra_Canonical a\<rparr>) w) u \<and>
    PolicyFor (ra_Class a) = PolicyFor (ra_CanonicalClass a)"
proof -
  let ?h = "server_handlers rt lib svc opts"
  let ?c = "r\<lparr>req_Path := ra_Canonical a\<rparr>"
  obtain f where f: "path_blind f"
      and registered: "(''POST '' @ ra_Path a, wrap ?h (ra_Class a) f) \<in> set (gateway_routes ?h)"
      and canonical: "(''POST '' @ ra_Canonical a, wrap ?h (ra_CanonicalClass a) f) \<in> set (gateway_routes ?h)"
    using alias_registered [OF assms(1)] by blast
  have lit: "literal_route (ra_Path a)" "literal_route (ra_Canonical a)"
    using alias_paths_literal assms(1) by (auto simp: list_all_iff)
  have "mux_serve (srv_mux (New rt lib middleware svc opts)) r w = wrap ?h (ra_Class a) f r w"
    by (rule literal_served) (use assms(2,3) lit registered wrap_path_blind [OF f] in simp_all)
  moreover have "mux_serve (srv_mux (New rt lib middleware svc opts)) ?c w = wrap ?h (ra_CanonicalClass a) f ?c w"
    by (rule literal_served) (use assms(2) lit canonical wrap_path_blind [OF f] in simp_all)
  moreover have "wrap ?h (ra_CanonicalClass a) f ?c w = wrap ?h (ra_CanonicalClass a) f r w"
    using path_blindD [OF wrap_path_blind [OF f], where r = r and p = "ra_Canonical a" and v = "req_PathValues r"] by simp
  moreover have "run_state (wrap ?h (ra_Class a) f r w) u = run_state (wrap ?h (ra_CanonicalClass a) f r w) u"
    by (rule wrap_class_cong) (simp add: server_handlers_def assms(4))
  moreover have "PolicyFor (ra_Class a) = PolicyFor (ra_CanonicalClass a)"
    using assms(1) by (auto simp: route_aliases_def PolicyFor_other class_defs)
  ultimately show ?thesis by simp
qed

definition admin_challenge :: request where
  "admin_challenge = \<lparr>req_Method = ''POST'', req_Path = ''/api/v1/admin/challenge'', req_Header = Map.empty,
     req_PathValues = Map.empty, req_RemoteAddr = ''10.0.0.1:80'', req_Body = ''{}'', req_Context = Background\<rparr>"

theorem alias_serves_canonical_witness:
  "run_state (mux_serve (srv_mux (gateway_server sample_externals sample_client
       (limiter_iface (New_adapter (Some sample_limiter))))) admin_challenge empty_response) (new_world 7) =
   run_state (mux_serve (srv_mux (gateway_server sample_externals sample_client
       (limiter_iface (New_adapter (Some sample_limiter)))))
     (admin_challenge\<lparr>req_Path := ''/api/v1/system/ownership/challenge''\<rparr>) empty_response) (new_world 7)"
proof -
  let ?svc = "gateway_service sample_externals sample_client (limiter_iface (New_adapter (Some sample_limiter)))"
  let ?a = "\<lparr>ra_Path = ''/api/v1/admin/challenge'', ra_Class = ClassAdminChallenge,
    ra_Canonical = ''/api/v1/system/ownership/challenge'', ra_CanonicalClass = ClassOwnershipChallenge\<rparr>"
  have "run_state (CheckClassLimit ?svc c ip) (new_world 7) = run_state (CheckClassLimit ?svc d ip) (new_world 7)"
    if "PolicyFor c = PolicyFor d" for c d ip
    using that
    by (simp add: CheckClassLimit_def allow_def gateway_service_def NewService_def gateway_deps_def
        limiter_iface_def New_adapter_def Adapter_Allow_def outside_limiter_def sample_limiter_def split: prod.splits)
  moreover have "PolicyFor ClassAdminChallenge = PolicyFor ClassOwnershipChallenge"
    by (simp add: PolicyFor_other class_defs)
  ultimately have "run_state (CheckClassLimit ?svc ClassAdminChallenge ip) (new_world 7) =
      run_state (CheckClassLimit ?svc ClassOwnershipChallenge ip) (new_world 7)" for ip
    by blast
  moreover have "?a \<in> set route_aliases" by (simp add: route_aliases_def)
  moreover have "req_Method admin_challenge = ''POST''" "req_Path admin_challenge = ra_Path ?a"
    by (simp_all add: admin_challenge_def)
  ultimately show ?thesis
    using alias_serves_canonical [of ?a admin_challenge ?svc "gateway_options sample_externals" "new_world 7"]
    unfolding gateway_server_def by (simp del: fun_upd_apply)
qed

end
