(* ===== verification/Claim_Race.thy ===== *)
theory Claim_Race
  imports Samples
begin

text \<open>
  Concurrent claims.  Every method of the claim cache runs under its mutex, but \<open>Claim\<close> calls two of
  them, \<open>Get\<close> and then \<open>Put\<close>, so the requests of several clients interleave between the two.  A state
  is the cache with one entry per accepted request, a step one call of a cache method.
\<close>

datatype claim_thread =
    Arrived claim_input string
  | Missed claim_input string
  | Answered claim_input string claim_result

record race =
  rc_claims :: claims
  rc_threads :: "claim_thread list"

definition no_claims :: race where
  "no_claims = \<lparr>rc_claims = NewClaims, rc_threads = []\<rparr>"

inductive race_step :: "'w go_runtime \<Rightarrow> race \<Rightarrow> race \<Rightarrow> bool" for rt where
  arrive: "\<not> claim_rejected rt inp \<Longrightarrow>
    race_step rt s (s\<lparr>rc_threads := rc_threads s @ [Arrived inp k]\<rparr>)"
| hit: "i < length (rc_threads s) \<Longrightarrow> rc_threads s ! i = Arrived inp k \<Longrightarrow>
    run_state (Claims_Get (cache_key rt inp k)) (rc_claims s) = (Some r, items) \<Longrightarrow>
    race_step rt s \<lparr>rc_claims = items, rc_threads = (rc_threads s)[i := Answered inp k (as_replay r)]\<rparr>"
| miss: "i < length (rc_threads s) \<Longrightarrow> rc_threads s ! i = Arrived inp k \<Longrightarrow>
    run_state (Claims_Get (cache_key rt inp k)) (rc_claims s) = (None, items) \<Longrightarrow>
    race_step rt s \<lparr>rc_claims = items, rc_threads = (rc_threads s)[i := Missed inp k]\<rparr>"
| put: "i < length (rc_threads s) \<Longrightarrow> rc_threads s ! i = Missed inp k \<Longrightarrow>
    run_state (Claims_Put (cache_key rt inp k) (provisioned rt inp)) (rc_claims s) = ((), items) \<Longrightarrow>
    race_step rt s \<lparr>rc_claims = items, rc_threads = (rc_threads s)[i := Answered inp k (provisioned rt inp)]\<rparr>"

abbreviation race_steps :: "'w go_runtime \<Rightarrow> race \<Rightarrow> race \<Rightarrow> bool" where
  "race_steps rt \<equiv> (race_step rt)\<^sup>*\<^sup>*"

lemma run_Claims [simp]:
  "run_state (Claims_Get k) items = (items k, items)"
  "run_state (Claims_Put k r) items = ((), items(k \<mapsto> r))"
  by (simp_all add: Claims_Get_def Claims_Put_def)

subsection \<open>A request on its own\<close>

text \<open>The steps of one request with no step of another in between are \<open>Claim\<close> itself.\<close>

lemma claim_alone:
  assumes "\<not> claim_rejected (gateway_runtime e) inp"
    and "run_state (Claim (gateway_runtime e) (gateway_service e c l) inp k) u = (Inr a, u')"
  shows "race_steps (gateway_runtime e) \<lparr>rc_claims = w_claims u, rc_threads = ts @ [Arrived inp k]\<rparr>
    \<lparr>rc_claims = w_claims u', rc_threads = ts @ [Answered inp k a]\<rparr>"
proof -
  let ?rt = "gateway_runtime e" and ?key = "cache_key (gateway_runtime e) inp k"
  let ?s = "\<lparr>rc_claims = w_claims u, rc_threads = ts @ [Arrived inp k]\<rparr>"
  have spec: "a = (case w_claims u ?key of Some r \<Rightarrow> as_replay r | None \<Rightarrow> provisioned ?rt inp)"
    using gw_onboarding.claim_result_spec [of e c l inp k u] assms by (simp split: option.splits)
  have effect: "w_claims u' = (if w_claims u ?key \<noteq> None then w_claims u
      else (w_claims u)(?key \<mapsto> provisioned ?rt inp))"
    using gw_onboarding.claim_effect [of e c l inp k u] assms by simp
  show ?thesis
  proof (cases "w_claims u ?key")
    case (Some r)
    have "race_step ?rt ?s
      \<lparr>rc_claims = w_claims u, rc_threads = (rc_threads ?s)[length ts := Answered inp k (as_replay r)]\<rparr>"
      by (rule hit) (simp_all add: Some)
    then show ?thesis using Some spec effect by (auto simp: list_update_append)
  next
    case None
    have "race_step ?rt ?s \<lparr>rc_claims = w_claims u, rc_threads = (rc_threads ?s)[length ts := Missed inp k]\<rparr>"
      by (rule miss) (simp_all add: None)
    then have first: "race_step ?rt ?s \<lparr>rc_claims = w_claims u, rc_threads = ts @ [Missed inp k]\<rparr>"
      by (simp add: list_update_append)
    have "race_step ?rt \<lparr>rc_claims = w_claims u, rc_threads = ts @ [Missed inp k]\<rparr>
      \<lparr>rc_claims = (w_claims u)(?key \<mapsto> provisioned ?rt inp),
       rc_threads = (ts @ [Missed inp k])[length ts := Answered inp k (provisioned ?rt inp)]\<rparr>"
      using put [of "length ts" "\<lparr>rc_claims = w_claims u, rc_threads = ts @ [Missed inp k]\<rparr>" inp k ?rt] by simp
    with first show ?thesis using None spec effect
      by (auto simp: list_update_append intro: converse_rtranclp_into_rtranclp)
  qed
qed

subsection \<open>Invariants of every interleaving\<close>

text \<open>A first answer given to some claim under a key.\<close>

definition given :: "'w go_runtime \<Rightarrow> claim_thread list \<Rightarrow> string \<Rightarrow> claim_result \<Rightarrow> bool" where
  "given rt ts key r \<longleftrightarrow>
     (\<exists>inp k. Answered inp k r \<in> set ts \<and> r = provisioned rt inp \<and> cache_key rt inp k = key)"

lemma given_update:
  assumes "given rt ts key r" and "i < length ts" and "\<And>inp k a. ts ! i \<noteq> Answered inp k a"
  shows "given rt (ts[i := t]) key r"
proof -
  from assms(1) obtain inp k where g: "Answered inp k r \<in> set ts" "r = provisioned rt inp" "cache_key rt inp k = key"
    by (auto simp: given_def)
  from g(1) obtain j where "j < length ts" "ts ! j = Answered inp k r" by (auto simp: in_set_conv_nth)
  with assms(2,3) have "Answered inp k r \<in> set (ts[i := t])"
    by (metis length_list_update nth_list_update_neq nth_mem)
  with g show ?thesis by (auto simp: given_def)
qed

lemma given_mono: "given rt ts key r \<Longrightarrow> set ts \<subseteq> set ts' \<Longrightarrow> given rt ts' key r"
  by (auto simp: given_def)

text \<open>One request moves on: the others' answers stay good if the cache only grows by answers given.\<close>

definition good_thread :: "'w go_runtime \<Rightarrow> claims \<Rightarrow> claim_thread list \<Rightarrow> claim_thread \<Rightarrow> bool" where
  "good_thread rt items ts t \<longleftrightarrow>
     (case t of
        Answered inp k a \<Rightarrow>
          items (cache_key rt inp k) \<noteq> None \<and>
          (a = provisioned rt inp \<or> (\<exists>r. given rt ts (cache_key rt inp k) r \<and> a = as_replay r))
      | _ \<Rightarrow> True)"

definition race_inv :: "'w go_runtime \<Rightarrow> race \<Rightarrow> bool" where
  "race_inv rt s \<longleftrightarrow>
     (\<forall>key r. rc_claims s key = Some r \<longrightarrow> given rt (rc_threads s) key r) \<and>
     (\<forall>t \<in> set (rc_threads s). good_thread rt (rc_claims s) (rc_threads s) t)"

lemma good_thread_mono:
  assumes "good_thread rt items ts t" and "\<And>key r. given rt ts key r \<Longrightarrow> given rt ts' key r"
    and "dom items \<subseteq> dom items'"
  shows "good_thread rt items' ts' t"
  using assms by (cases t) (auto simp: good_thread_def dom_def)

lemma race_inv_move:
  assumes inv: "race_inv rt s" and i: "i < length (rc_threads s)" "\<forall>inp k a. rc_threads s ! i \<noteq> Answered inp k a"
    and t: "good_thread rt items ((rc_threads s)[i := t]) t"
    and items: "\<forall>key r. items key = Some r \<longrightarrow> rc_claims s key = Some r \<or> given rt ((rc_threads s)[i := t]) key r"
    and grows: "dom (rc_claims s) \<subseteq> dom items"
  shows "race_inv rt \<lparr>rc_claims = items, rc_threads = (rc_threads s)[i := t]\<rparr>"
proof -
  have keep: "given rt (rc_threads s) key r \<Longrightarrow> given rt ((rc_threads s)[i := t]) key r" for key r
    using given_update i by blast
  have "given rt ((rc_threads s)[i := t]) key r" if "items key = Some r" for key r
    using inv items that keep unfolding race_inv_def by blast
  moreover have "good_thread rt items ((rc_threads s)[i := t]) t'" if "t' \<in> set ((rc_threads s)[i := t])" for t'
  proof (cases "t' = t")
    case False
    with that have "t' \<in> set (rc_threads s)" using set_update_subset_insert by fastforce
    with inv have "good_thread rt (rc_claims s) (rc_threads s) t'" by (simp add: race_inv_def)
    then show ?thesis using keep grows by (rule good_thread_mono)
  qed (simp add: t)
  ultimately show ?thesis by (simp add: race_inv_def)
qed

lemma race_step_inv:
  assumes "race_step rt s s'" and inv: "race_inv rt s"
  shows "race_inv rt s'"
  using assms(1)
proof cases
  case (arrive inp k)
  have "given rt (rc_threads s) key r \<Longrightarrow> given rt (rc_threads s @ [Arrived inp k]) key r" for key r
    by (auto simp: given_def)
  with inv arrive show ?thesis
    by (auto simp: race_inv_def good_thread_def [of _ _ _ "Arrived inp k"] intro: good_thread_mono)
next
  case (hit i inp k r items)
  from hit(4) inv have "given rt (rc_threads s) (cache_key rt inp k) r" by (auto simp: race_inv_def)
  then have "given rt ((rc_threads s)[i := Answered inp k (as_replay r)]) (cache_key rt inp k) r"
    using hit(2,3) by (intro given_update) auto
  then have "good_thread rt items ((rc_threads s)[i := Answered inp k (as_replay r)]) (Answered inp k (as_replay r))"
    using hit(4) by (auto simp: good_thread_def)
  then show ?thesis unfolding hit(1) using hit by (intro race_inv_move [OF inv]) simp_all
next
  case (miss i inp k items)
  then show ?thesis unfolding miss(1) by (intro race_inv_move [OF inv]) (simp_all add: good_thread_def)
next
  case (put i inp k items)
  let ?t = "Answered inp k (provisioned rt inp)"
  have "given rt ((rc_threads s)[i := ?t]) (cache_key rt inp k) (provisioned rt inp)"
    using put(2) by (auto simp: given_def intro: set_update_memI)
  moreover have "good_thread rt items ((rc_threads s)[i := ?t]) ?t" using put(4) by (auto simp: good_thread_def)
  ultimately show ?thesis
    unfolding put(1) using put by (intro race_inv_move [OF inv]) (auto split: if_splits)
qed

lemma race_steps_inv: "race_steps rt s s' \<Longrightarrow> race_inv rt s \<Longrightarrow> race_inv rt s'"
  by (induction rule: rtranclp_induct) (auto intro: race_step_inv)

lemma race_inv_start: "race_inv rt no_claims"
  by (simp add: race_inv_def no_claims_def NewClaims_def)

subsection \<open>What clients see\<close>

text \<open>C38 [concurrent claims]. However the cache calls of concurrent claims interleave, every answered claim was
  answered with its own provisioning or with the replay of a first answer that a claim under the same
  key was given, and its key is cached from then on.\<close>

theorem race_answers:
  assumes "race_steps rt no_claims s" and "Answered inp k a \<in> set (rc_threads s)"
  shows "(a = provisioned rt inp \<or>
      (\<exists>inp' k'. Answered inp' k' (provisioned rt inp') \<in> set (rc_threads s) \<and>
         cache_key rt inp' k' = cache_key rt inp k \<and> a = as_replay (provisioned rt inp'))) \<and>
    rc_claims s (cache_key rt inp k) \<noteq> None"
proof -
  have "good_thread rt (rc_claims s) (rc_threads s) (Answered inp k a)"
    using race_steps_inv [OF assms(1) race_inv_start] assms(2) by (simp add: race_inv_def)
  then show ?thesis by (auto simp: good_thread_def given_def)
qed

text \<open>Two claims of alice and bob under one \<open>Idempotency-Key\<close>, both past \<open>Get\<close> before either \<open>Put\<close>.\<close>

definition both_first :: race where
  "both_first =
     \<lparr>rc_claims = [''idem'' \<mapsto> provisioned sample_rt bob],
      rc_threads = [Answered alice ''idem'' (provisioned sample_rt alice),
                    Answered bob ''idem'' (provisioned sample_rt bob)]\<rparr>"

lemma both_first_reached: "race_steps sample_rt no_claims both_first"
proof -
  have key: "cache_key sample_rt inp ''idem'' = ''idem''" for inp by (simp add: cache_key_def claim_key_def)
  let ?state = "\<lambda>items ts. \<lparr>rc_claims = items, rc_threads = ts\<rparr>"
  let ?a = "provisioned sample_rt alice" and ?b = "provisioned sample_rt bob"
  note steps = arrive [of sample_rt alice no_claims "''idem''"]
    arrive [of sample_rt bob "?state Map.empty [Arrived alice ''idem'']" "''idem''"]
    miss [of 0 "?state Map.empty [Arrived alice ''idem'', Arrived bob ''idem'']" alice "''idem''" sample_rt Map.empty]
    miss [of 1 "?state Map.empty [Missed alice ''idem'', Arrived bob ''idem'']" bob "''idem''" sample_rt Map.empty]
    put [of 0 "?state Map.empty [Missed alice ''idem'', Missed bob ''idem'']" alice "''idem''" sample_rt "[''idem'' \<mapsto> ?a]"]
    put [of 1 "?state [''idem'' \<mapsto> ?a] [Answered alice ''idem'' ?a, Missed bob ''idem'']" bob "''idem''" sample_rt
      "[''idem'' \<mapsto> ?b]"]
  show ?thesis
    using steps unfolding both_first_def
    by (simp add: key no_claims_def NewClaims_def)
qed

theorem race_answers_witness:
  "Answered alice ''idem'' (provisioned sample_rt alice) \<in> set (rc_threads both_first) \<and>
   rc_claims both_first (cache_key sample_rt alice ''idem'') \<noteq> None"
proof -
  have "Answered alice ''idem'' (provisioned sample_rt alice) \<in> set (rc_threads both_first)"
    by (simp add: both_first_def)
  with race_answers [OF both_first_reached this] show ?thesis by blast
qed

definition late_ok :: "'w go_runtime \<Rightarrow> nat \<Rightarrow> string \<Rightarrow> race \<Rightarrow> bool" where
  "late_ok rt n key s \<longleftrightarrow> key \<in> dom (rc_claims s) \<and> n \<le> length (rc_threads s) \<and>
     (\<forall>i < length (rc_threads s). n \<le> i \<longrightarrow>
        (case rc_threads s ! i of
           Arrived inp k \<Rightarrow> True
         | Missed inp k \<Rightarrow> cache_key rt inp k \<noteq> key
         | Answered inp k a \<Rightarrow> cache_key rt inp k = key \<longrightarrow> IdempotentReplay a))"

lemma race_step_late:
  assumes "race_step rt s s'" and "late_ok rt n key s"
  shows "late_ok rt n key s'"
  using assms
proof cases
  case (arrive inp k)
  with assms(2) show ?thesis by (auto simp: late_ok_def nth_append)
next
  case (hit i inp k r items)
  with assms(2) show ?thesis by (auto simp: late_ok_def nth_list_update)
next
  case (miss i inp k items)
  with assms(2) show ?thesis by (auto simp: late_ok_def nth_list_update)
next
  case (put i inp k items)
  with assms(2) show ?thesis
    by (fastforce simp: late_ok_def nth_list_update split: claim_thread.splits)
qed

text \<open>C39 [late claims are replayed]. Once a claim was answered under a key, every claim under that key that arrives later is still
  waiting for its lookup or was answered with a replay: it is never provisioned again.\<close>

theorem late_claims_replayed:
  assumes "race_steps rt no_claims s" and "Answered inp k a \<in> set (rc_threads s)"
    and "race_steps rt s s'" and "length (rc_threads s) \<le> i" "i < length (rc_threads s')"
  shows "case rc_threads s' ! i of
      Arrived inp' k' \<Rightarrow> True
    | Missed inp' k' \<Rightarrow> cache_key rt inp' k' \<noteq> cache_key rt inp k
    | Answered inp' k' a' \<Rightarrow> cache_key rt inp' k' = cache_key rt inp k \<longrightarrow> IdempotentReplay a'"
proof -
  have "good_thread rt (rc_claims s) (rc_threads s) (Answered inp k a)"
    using race_steps_inv [OF assms(1) race_inv_start] assms(2) by (simp add: race_inv_def)
  then have "late_ok rt (length (rc_threads s)) (cache_key rt inp k) s"
    by (auto simp: late_ok_def good_thread_def)
  with assms(3) have "late_ok rt (length (rc_threads s)) (cache_key rt inp k) s'"
    by (induction rule: rtranclp_induct) (auto intro: race_step_late)
  then show ?thesis using assms(4,5) by (simp add: late_ok_def)
qed

definition third_claim :: race where
  "third_claim = both_first\<lparr>rc_threads := rc_threads both_first @
     [Answered alice ''idem'' (as_replay (provisioned sample_rt bob))]\<rparr>"

lemma third_claim_reached: "race_steps sample_rt both_first third_claim"
proof -
  let ?s = "both_first\<lparr>rc_threads := rc_threads both_first @ [Arrived alice ''idem'']\<rparr>"
  have "race_step sample_rt both_first ?s" by (rule arrive) simp
  moreover have "race_step sample_rt ?s third_claim"
    using hit [of 2 ?s alice "''idem''" sample_rt "provisioned sample_rt bob" "rc_claims both_first"]
    by (simp add: third_claim_def both_first_def cache_key_def claim_key_def)
  ultimately show ?thesis by simp
qed

theorem late_claims_replayed_witness:
  "rc_threads third_claim ! 2 = Answered alice ''idem'' (as_replay (provisioned sample_rt bob)) \<and>
   IdempotentReplay (as_replay (provisioned sample_rt bob))"
proof -
  have "Answered alice ''idem'' (provisioned sample_rt alice) \<in> set (rc_threads both_first)"
    by (simp add: both_first_def)
  from late_claims_replayed [OF both_first_reached this third_claim_reached, of 2] show ?thesis
    by (simp add: third_claim_def both_first_def)
qed

text \<open>C40 [the lookup and the store of a claim are not one step]. Two claims under one \<open>Idempotency-Key\<close> can
  both be answered as first answers, to different users with different credentials; the later store
  wins, so the first claimant's answer is lost and a retry gets the other user's.\<close>

theorem two_first_answers:
  "\<exists>s a b. race_steps sample_rt no_claims s \<and>
     rc_threads s = [Answered alice ''idem'' a, Answered bob ''idem'' b] \<and>
     \<not> IdempotentReplay a \<and> \<not> IdempotentReplay b \<and> cu_UID (cr_User a) \<noteq> cu_UID (cr_User b) \<and>
     cache_key sample_rt alice ''idem'' = cache_key sample_rt bob ''idem'' \<and>
     rc_claims s (cache_key sample_rt alice ''idem'') = Some b"
proof (intro exI conjI)
  show "race_steps sample_rt no_claims both_first" by (rule both_first_reached)
  show "rc_threads both_first = [Answered alice ''idem'' (provisioned sample_rt alice),
      Answered bob ''idem'' (provisioned sample_rt bob)]"
    by (simp add: both_first_def)
  show "rc_claims both_first (cache_key sample_rt alice ''idem'') = Some (provisioned sample_rt bob)"
    by (simp add: both_first_def cache_key_def claim_key_def)
qed (simp_all add: provisioned_def cache_key_def claim_key_def)

end
