(* ===== verification/Claim_Locks.thy ===== *)
theory Claim_Locks
  imports Claim_Race
begin

text \<open>
  The claim cache statement by statement.  \<open>Get\<close> and \<open>Put\<close> lock the \<open>sync.RWMutex\<close> of the cache, touch
  the map and unlock again; here every one of these is a step of its own, and the goroutines of any
  number of claims interleave between them.  What the atomic calls of \<open>Claim_Race\<close> abstract from is proved:
  the map is never accessed while it is written, no interleaving gets stuck, and each is one of the
  interleavings of whole calls.
\<close>

subsection \<open>Programs over a locked map\<close>

text \<open>
  The rest of a goroutine's program.  \<open>Acquire\<close> is a \<open>Lock\<close> that has announced itself and waits; the
  deferred unlock of a method comes after its return value was read.
\<close>

datatype claim_prog =
    Return claim_result
  | RLock claim_prog
  | RUnlock claim_prog
  | Lock claim_prog
  | Acquire claim_prog
  | Unlock claim_prog
  | Load string "claim_result option \<Rightarrow> claim_prog"
  | Store string claim_result claim_prog

definition Get_prog :: "string \<Rightarrow> (claim_result option \<Rightarrow> claim_prog) \<Rightarrow> claim_prog" where
  "Get_prog key k = RLock (Load key (\<lambda>result. RUnlock (k result)))"

definition Put_prog :: "string \<Rightarrow> claim_result \<Rightarrow> claim_prog \<Rightarrow> claim_prog" where
  "Put_prog key result k = Lock (Store key result (Unlock k))"

text \<open>\<open>Claim\<close> past its check of token and UID; logging does not touch the cache.\<close>

definition Claim_prog :: "'w go_runtime \<Rightarrow> claim_input \<Rightarrow> string \<Rightarrow> claim_prog" where
  "Claim_prog rt inp idempotencyKey =
     (let token = TrimSpace (ci_InviteToken inp); uid = NormalizeUID (rt_ToLower rt) (ci_DesiredUID inp);
          key = claim_key idempotencyKey token uid
      in Get_prog key (\<lambda>cached.
           case cached of
             Some r \<Rightarrow> Return (r\<lparr>IdempotentReplay := True\<rparr>)
           | None \<Rightarrow>
               let result = provision (rt_Title rt) inp token uid
               in Put_prog key result (Return result)))"

text \<open>
  \<open>sync.RWMutex\<close>: readers share, a writer excludes everybody, and a writer that waits keeps new readers
  out.  Unlocking a mutex that is not locked is a fatal error, a state without a step.
\<close>

record rwmutex =
  rw_readers :: nat
  rw_waiting :: nat
  rw_writing :: bool

definition unlocked :: rwmutex where
  "unlocked = \<lparr>rw_readers = 0, rw_waiting = 0, rw_writing = False\<rparr>"

fun exec :: "claim_prog \<Rightarrow> rwmutex \<Rightarrow> claims \<Rightarrow> (claim_prog \<times> rwmutex \<times> claims) option" where
  "exec (Return a) m items = None"
| "exec (RLock p) m items =
     (if rw_writing m \<or> 0 < rw_waiting m then None
      else Some (p, m\<lparr>rw_readers := Suc (rw_readers m)\<rparr>, items))"
| "exec (RUnlock p) m items =
     (if rw_readers m = 0 then None else Some (p, m\<lparr>rw_readers := rw_readers m - 1\<rparr>, items))"
| "exec (Lock p) m items = Some (Acquire p, m\<lparr>rw_waiting := Suc (rw_waiting m)\<rparr>, items)"
| "exec (Acquire p) m items =
     (if rw_writing m \<or> 0 < rw_readers m then None
      else Some (p, m\<lparr>rw_writing := True, rw_waiting := rw_waiting m - 1\<rparr>, items))"
| "exec (Unlock p) m items = (if rw_writing m then Some (p, m\<lparr>rw_writing := False\<rparr>, items) else None)"
| "exec (Load key k) m items = Some (k (items key), m, items)"
| "exec (Store key r p) m items = Some (p, m, items(key \<mapsto> r))"

text \<open>A number of statements of one program with nobody else running.\<close>

fun run_alone :: "nat \<Rightarrow> claim_prog \<times> rwmutex \<times> claims \<Rightarrow> (claim_prog \<times> rwmutex \<times> claims) option" where
  "run_alone 0 c = Some c"
| "run_alone (Suc n) (p, m, items) = Option.bind (exec p m items) (run_alone n)"

text \<open>The program of a claim, by its key and its own provisioning.\<close>

abbreviation after_miss :: "'w go_runtime \<Rightarrow> claim_input \<Rightarrow> string \<Rightarrow> claim_prog" where
  "after_miss rt inp k \<equiv>
     Store (cache_key rt inp k) (provisioned rt inp) (Unlock (Return (provisioned rt inp)))"

definition after_get :: "'w go_runtime \<Rightarrow> claim_input \<Rightarrow> string \<Rightarrow> claim_result option \<Rightarrow> claim_prog" where
  "after_get rt inp k cached =
     (case cached of Some r \<Rightarrow> Return (as_replay r) | None \<Rightarrow> Lock (after_miss rt inp k))"

lemma Claim_prog_eq:
  "Claim_prog rt inp k = RLock (Load (cache_key rt inp k) (\<lambda>cached. RUnlock (after_get rt inp k cached)))"
  by (simp add: Claim_prog_def Get_prog_def Put_prog_def after_get_def cache_key_def provisioned_def
      claim_token_def claim_uid_def as_replay_def Let_def fun_eq_iff split: option.split)

text \<open>Alone, the program is the use case: its answer, and what it leaves in the cache.\<close>

lemma Claim_prog_alone:
  assumes "\<not> claim_rejected (gateway_runtime e) inp"
    and "run_state (Claim (gateway_runtime e) (gateway_service e c l) inp k) u = (Inr a, u')"
  shows "\<exists>n \<le> 7. run_alone n (Claim_prog (gateway_runtime e) inp k, unlocked, w_claims u) =
    Some (Return a, unlocked, w_claims u')"
proof -
  let ?rt = "gateway_runtime e" and ?key = "cache_key (gateway_runtime e) inp k"
  have spec: "a = (case w_claims u ?key of Some r \<Rightarrow> as_replay r | None \<Rightarrow> provisioned ?rt inp)"
    using gw_onboarding.claim_result_spec [of e c l inp k u] assms by (simp split: option.splits)
  have effect: "w_claims u' = (if w_claims u ?key \<noteq> None then w_claims u
      else (w_claims u)(?key \<mapsto> provisioned ?rt inp))"
    using gw_onboarding.claim_effect [of e c l inp k u] assms by simp
  show ?thesis
  proof (cases "w_claims u ?key")
    case None
    then show ?thesis
      by (intro exI [of _ 7]) (simp add: spec effect Claim_prog_eq after_get_def unlocked_def eval_nat_numeral)
  next
    case (Some r)
    then show ?thesis
      by (intro exI [of _ 3]) (simp add: spec effect Claim_prog_eq after_get_def unlocked_def eval_nat_numeral)
  qed
qed

subsection \<open>Interleavings of statements\<close>

record locked =
  lk_mutex :: rwmutex
  lk_items :: claims
  lk_threads :: "(claim_input \<times> string \<times> claim_prog) list"

definition idle_cache :: locked where
  "idle_cache = \<lparr>lk_mutex = unlocked, lk_items = NewClaims, lk_threads = []\<rparr>"

inductive locked_step :: "'w go_runtime \<Rightarrow> locked \<Rightarrow> locked \<Rightarrow> bool" for rt where
  come: "\<not> claim_rejected rt inp \<Longrightarrow>
    locked_step rt s (s\<lparr>lk_threads := lk_threads s @ [(inp, k, Claim_prog rt inp k)]\<rparr>)"
| go: "i < length (lk_threads s) \<Longrightarrow> lk_threads s ! i = (inp, k, p) \<Longrightarrow>
    exec p (lk_mutex s) (lk_items s) = Some (p', m, items) \<Longrightarrow>
    locked_step rt s \<lparr>lk_mutex = m, lk_items = items, lk_threads = (lk_threads s)[i := (inp, k, p')]\<rparr>"

abbreviation locked_steps :: "'w go_runtime \<Rightarrow> locked \<Rightarrow> locked \<Rightarrow> bool" where
  "locked_steps rt \<equiv> (locked_step rt)\<^sup>*\<^sup>*"

text \<open>The places a claim's goroutine can be at.\<close>

definition placed :: "'w go_runtime \<Rightarrow> claim_input \<times> string \<times> claim_prog \<Rightarrow> bool" where
  "placed rt t \<longleftrightarrow> (case t of (inp, k, p) \<Rightarrow>
     p = Claim_prog rt inp k \<or>
     p = Load (cache_key rt inp k) (\<lambda>cached. RUnlock (after_get rt inp k cached)) \<or>
     (\<exists>cached. p = RUnlock (after_get rt inp k cached)) \<or> (\<exists>a. p = Return a) \<or>
     p = Lock (after_miss rt inp k) \<or> p = Acquire (after_miss rt inp k) \<or> p = after_miss rt inp k \<or>
     p = Unlock (Return (provisioned rt inp)))"

lemma placed_exec:
  assumes "placed rt (inp, k, p)" and "exec p m items = Some (p', m', items')"
  shows "placed rt (inp, k, p')"
  using assms by (auto simp: placed_def Claim_prog_eq after_get_def split: if_splits option.splits)

subsection \<open>Who holds the mutex\<close>

fun reads :: "claim_prog \<Rightarrow> bool" where
  "reads (Load key k) = True"
| "reads (RUnlock p) = True"
| "reads p = False"

fun writes :: "claim_prog \<Rightarrow> bool" where
  "writes (Store key r p) = True"
| "writes (Unlock p) = True"
| "writes p = False"

fun waits :: "claim_prog \<Rightarrow> bool" where
  "waits (Acquire p) = True"
| "waits p = False"

definition how_many :: "(claim_prog \<Rightarrow> bool) \<Rightarrow> (claim_input \<times> string \<times> claim_prog) list \<Rightarrow> nat" where
  "how_many P ts = sum_list (map (\<lambda>(inp, k, p). of_bool (P p)) ts)"

lemma how_many_simps [simp]:
  "how_many P [] = 0" "how_many P ((inp, k, p) # ts) = of_bool (P p) + how_many P ts"
  "how_many P (ts @ ts') = how_many P ts + how_many P ts'"
  by (simp_all add: how_many_def)

lemma how_many_update:
  assumes "i < length ts" and "ts ! i = (inp, k, p)"
  shows "how_many P (ts[i := (inp', k', p')]) + of_bool (P p) = how_many P ts + of_bool (P p')"
  using assms
proof (induction ts arbitrary: i)
  case (Cons t ts)
  then show ?case by (cases i; cases t) auto
qed simp

lemma how_many_at:
  assumes "i < length ts" and "ts ! i = (inp, k, p)" and "P p"
  shows "0 < how_many P ts"
  using how_many_update [OF assms(1,2), of P undefined undefined "Return undefined"] assms
  by (induction ts arbitrary: i) (auto simp: nth_Cons split: nat.splits)

lemma how_many_two:
  assumes "i < length ts" "j < length ts" "i \<noteq> j" and "ts ! i = (inp, k, p)" "ts ! j = (inp', k', p')"
    and "P p" "P p'"
  shows "1 < how_many P ts"
  using assms
proof (induction ts arbitrary: i j)
  case (Cons t ts)
  then show ?case
    using how_many_at [where P = P] by (cases i; cases j; cases t) fastforce+
qed simp

lemma how_many_none: "how_many P ts = 0 \<longleftrightarrow> (\<forall>(inp, k, p) \<in> set ts. \<not> P p)"
  by (induction ts) auto

definition locking_inv :: "'w go_runtime \<Rightarrow> locked \<Rightarrow> bool" where
  "locking_inv rt s \<longleftrightarrow>
     list_all (placed rt) (lk_threads s) \<and>
     rw_readers (lk_mutex s) = how_many reads (lk_threads s) \<and>
     rw_waiting (lk_mutex s) = how_many waits (lk_threads s) \<and>
     of_bool (rw_writing (lk_mutex s)) = how_many writes (lk_threads s) \<and>
     (rw_writing (lk_mutex s) \<longrightarrow> rw_readers (lk_mutex s) = 0)"

lemma locking_inv_start: "locking_inv rt idle_cache"
  by (simp add: locking_inv_def idle_cache_def unlocked_def)

text \<open>What a statement does to the mutex, by the place it leaves and the place it reaches.\<close>

lemma exec_mutex:
  assumes "placed rt (inp, k, p)" and "exec p m items = Some (p', m', items')"
  shows "rw_readers m' + of_bool (reads p) = rw_readers m + of_bool (reads p')"
    and "rw_waiting m' + of_bool (waits p) = rw_waiting m + (of_bool (waits p') :: nat) \<or> waits p \<and> rw_waiting m = 0"
    and "of_bool (writes p) \<le> (of_bool (rw_writing m) :: nat) \<Longrightarrow>
      of_bool (rw_writing m') + of_bool (writes p) = of_bool (rw_writing m) + (of_bool (writes p') :: nat)"
    and "rw_writing m \<longrightarrow> rw_readers m = 0 \<Longrightarrow> rw_writing m' \<longrightarrow> rw_readers m' = 0"
  using assms(1) unfolding placed_def prod.case Claim_prog_eq
  by (elim disjE exE; use assms(2) in \<open>auto simp: after_get_def split: if_splits option.splits\<close>)+

lemma locked_step_inv:
  assumes "locked_step rt s s'" and "locking_inv rt s"
  shows "locking_inv rt s'"
  using assms(1)
proof cases
  case (come inp k)
  have "placed rt (inp, k, Claim_prog rt inp k)" by (simp add: placed_def)
  with assms(2) come show ?thesis by (auto simp: locking_inv_def Claim_prog_eq)
next
  case (go i inp k p p' m items)
  note thread = go(2,3) and run = go(4)
  let ?ts = "lk_threads s" and ?m = "lk_mutex s"
  have inv: "list_all (placed rt) ?ts" "rw_readers ?m = how_many reads ?ts" "rw_waiting ?m = how_many waits ?ts"
      "of_bool (rw_writing ?m) = how_many writes ?ts" "rw_writing ?m \<longrightarrow> rw_readers ?m = 0"
    using assms(2) by (auto simp: locking_inv_def)
  have here: "placed rt (inp, k, p)" using inv(1) thread by (metis list_all_length)
  have count: "how_many P (?ts[i := (inp, k, p')]) + of_bool (P p) = how_many P ?ts + of_bool (P p')" for P
    using thread by (rule how_many_update)
  have held: "waits p \<Longrightarrow> 0 < rw_waiting ?m" "of_bool (writes p) \<le> (of_bool (rw_writing ?m) :: nat)"
    unfolding inv(3,4) using how_many_at [OF thread, of waits] how_many_at [OF thread, of writes]
    by (auto simp: Suc_le_eq)
  note mutex = exec_mutex [OF here run]
  have "list_all (placed rt) (?ts[i := (inp, k, p')])"
    using inv(1) placed_exec [OF here run] by (auto simp: list_all_iff dest!: set_update_subset_insert [THEN subsetD])
  moreover have "rw_readers m = how_many reads (?ts[i := (inp, k, p')])"
    using mutex(1) count [of reads] inv(2) by simp
  moreover have "rw_waiting m = how_many waits (?ts[i := (inp, k, p')])"
    using mutex(2) count [of waits] inv(3) held(1) by auto
  moreover have "of_bool (rw_writing m) = how_many writes (?ts[i := (inp, k, p')])"
    using mutex(3) [OF held(2)] count [of writes] inv(4) by simp
  moreover have "rw_writing m \<longrightarrow> rw_readers m = 0" using mutex(4) [OF inv(5)] .
  ultimately show ?thesis unfolding go(1) by (simp add: locking_inv_def)
qed

lemma locked_steps_inv: "locked_steps rt idle_cache s \<Longrightarrow> locking_inv rt s"
  by (induction rule: rtranclp_induct) (auto intro: locked_step_inv locking_inv_start)

subsection \<open>Interleavings of calls\<close>

text \<open>The claim of \<open>Claim_Race\<close> a goroutine is: a lookup has happened once the map was read, a store once
  the map was written.\<close>

fun seen :: "claim_input \<Rightarrow> string \<Rightarrow> claim_prog \<Rightarrow> claim_thread" where
  "seen inp k (Return a) = Answered inp k a"
| "seen inp k (RUnlock p) = seen inp k p"
| "seen inp k (Unlock p) = seen inp k p"
| "seen inp k (RLock p) = Arrived inp k"
| "seen inp k (Load key f) = Arrived inp k"
| "seen inp k p = Missed inp k"

definition calls_of :: "locked \<Rightarrow> race" where
  "calls_of s = \<lparr>rc_claims = lk_items s, rc_threads = map (\<lambda>(inp, k, p). seen inp k p) (lk_threads s)\<rparr>"

text \<open>A statement that shows to the other claims is the lookup or the store of its own key.\<close>

lemma exec_seen:
  assumes "placed rt (inp, k, p)" and "exec p m items = Some (p', m', items')"
  shows "seen inp k p' = seen inp k p \<and> items' = items \<or>
    (\<exists>f. p = Load (cache_key rt inp k) f \<and> p' = RUnlock (after_get rt inp k (items (cache_key rt inp k))) \<and> items' = items) \<or>
    p = after_miss rt inp k \<and> p' = Unlock (Return (provisioned rt inp)) \<and>
      items' = items(cache_key rt inp k \<mapsto> provisioned rt inp)"
  using assms(1) unfolding placed_def prod.case Claim_prog_eq
  by (elim disjE exE) (use assms(2) in \<open>auto split: if_splits\<close>)

lemma locked_simulates:
  assumes "locked_step rt s s'" and "locking_inv rt s"
  shows "race_step rt (calls_of s) (calls_of s') \<or> calls_of s' = calls_of s"
  using assms(1)
proof cases
  case (come inp k)
  then show ?thesis using arrive [of rt inp "calls_of s" k] by (simp add: calls_of_def Claim_prog_eq)
next
  case (go i inp k p p' m items)
  have placed: "placed rt (inp, k, p)" using assms(2) go(2,3) by (metis locking_inv_def list_all_length)
  have i: "i < length (rc_threads (calls_of s))" using go(2) by (simp add: calls_of_def)
  have at: "rc_threads (calls_of s) ! i = seen inp k p" using go(2,3) by (simp add: calls_of_def)
  have after: "calls_of s' = \<lparr>rc_claims = items, rc_threads = (rc_threads (calls_of s))[i := seen inp k p']\<rparr>"
    unfolding go(1) by (simp add: calls_of_def map_update)
  have same: "(rc_threads (calls_of s))[i := seen inp k p] = rc_threads (calls_of s)"
    using at by (metis list_update_id)
  have items: "rc_claims (calls_of s) = lk_items s" by (simp add: calls_of_def)
  from exec_seen [OF placed go(4)] consider
      "seen inp k p' = seen inp k p" "items = lk_items s"
    | f where "p = Load (cache_key rt inp k) f" "p' = RUnlock (after_get rt inp k (lk_items s (cache_key rt inp k)))"
        "items = lk_items s"
    | "p = after_miss rt inp k" "p' = Unlock (Return (provisioned rt inp))"
        "items = (lk_items s)(cache_key rt inp k \<mapsto> provisioned rt inp)"
    by blast
  then show ?thesis
  proof cases
    case 1
    then show ?thesis by (simp add: after same items [symmetric])
  next
    case (2 f)
    then have arrived: "rc_threads (calls_of s) ! i = Arrived inp k" using at by simp
    show ?thesis
    proof (cases "lk_items s (cache_key rt inp k)")
      case None
      with 2 show ?thesis using miss [OF i arrived, of rt "lk_items s"] by (simp add: after items after_get_def)
    next
      case (Some a)
      with 2 show ?thesis using hit [OF i arrived, of rt a "lk_items s"] by (simp add: after items after_get_def)
    qed
  next
    case 3
    then have missed: "rc_threads (calls_of s) ! i = Missed inp k" using at by simp
    from 3 show ?thesis using put [OF i missed, of rt items] by (simp add: after items)
  qed
qed

lemma locked_steps_simulate:
  assumes "locked_steps rt idle_cache s"
  shows "race_steps rt no_claims (calls_of s)"
  using assms
proof (induction rule: rtranclp_induct)
  case base
  then show ?case by (simp add: calls_of_def idle_cache_def no_claims_def)
next
  case (step s s')
  from locked_simulates [OF step.hyps(2) locked_steps_inv [OF step.hyps(1)]] step.IH
  show ?case by (auto intro: rtranclp.rtrancl_into_rtrancl)
qed

subsection \<open>Exclusion and progress\<close>

fun touches_map :: "claim_prog \<Rightarrow> bool" where
  "touches_map (Load key k) = True"
| "touches_map (Store key r p) = True"
| "touches_map p = False"

fun answered :: "claim_prog \<Rightarrow> bool" where
  "answered (Return a) = True"
| "answered p = False"

definition working :: "'w go_runtime \<Rightarrow> locked \<Rightarrow> locked \<Rightarrow> bool" where
  "working rt s s' \<longleftrightarrow> locked_step rt s s' \<and> length (lk_threads s') = length (lk_threads s)"

lemma exec_works:
  assumes "(inp, k, p) \<in> set (lk_threads s)" and "exec p (lk_mutex s) (lk_items s) \<noteq> None"
  shows "\<exists>s'. working rt s s'"
proof -
  obtain i where "i < length (lk_threads s)" "lk_threads s ! i = (inp, k, p)"
    using assms(1) by (auto simp: in_set_conv_nth)
  moreover obtain p' m items where "exec p (lk_mutex s) (lk_items s) = Some (p', m, items)" using assms(2) by auto
  ultimately show ?thesis using go [of i s inp k p p' m items rt] unfolding working_def by fastforce
qed

text \<open>Whoever holds the mutex can go on; with nobody in it a waiting writer can enter, and without one a reader.\<close>

lemma unanswered_can_work:
  assumes inv: "locking_inv rt s" and t: "(inp, k, p) \<in> set (lk_threads s)" and p: "\<not> answered p"
  shows "\<exists>s'. working rt s s'"
proof (rule ccontr)
  assume "\<nexists>s'. working rt s s'"
  then have stuck: "exec q (lk_mutex s) (lk_items s) = None" if "(inp', k', q) \<in> set (lk_threads s)" for inp' k' q
    using exec_works that by blast
  have reading: "rw_readers (lk_mutex s) = how_many reads (lk_threads s)"
    and waiting: "rw_waiting (lk_mutex s) = how_many waits (lk_threads s)"
    and writing: "of_bool (rw_writing (lk_mutex s)) = how_many writes (lk_threads s)"
    using inv by (auto simp: locking_inv_def)
  have unwriting: "\<not> writes q" if "(inp', k', q) \<in> set (lk_threads s)" for inp' k' q
    using stuck [OF that] that writing how_many_none [of writes "lk_threads s"]
    by (cases q) (auto split: if_splits)
  then have no_writer: "\<not> rw_writing (lk_mutex s)" using writing how_many_none [of writes "lk_threads s"] by auto
  have unreading: "\<not> reads q" if "(inp', k', q) \<in> set (lk_threads s)" for inp' k' q
    using stuck [OF that] that reading how_many_none [of reads "lk_threads s"]
    by (cases q) (auto split: if_splits)
  then have no_reader: "rw_readers (lk_mutex s) = 0" using reading how_many_none [of reads "lk_threads s"] by auto
  have "\<not> waits q" if "(inp', k', q) \<in> set (lk_threads s)" for inp' k' q
    using stuck [OF that] no_writer no_reader by (cases q) auto
  then have "rw_waiting (lk_mutex s) = 0" using waiting how_many_none [of waits "lk_threads s"] by auto
  with stuck [OF t] no_writer no_reader p unwriting [OF t] unreading [OF t] show False by (cases p) auto
qed

text \<open>C26 [the cache is locked as it must be]. In every interleaving of the statements of any number of concurrent
  claims the map of the cache is never written while another goroutine is reading or writing it (which
  Go answers with a crash), and the locking never blocks for good: as long as some claim is not answered,
  some claim can run its next statement.\<close>

theorem cache_locking:
  assumes "locked_steps rt idle_cache s"
  shows "(\<forall>i j inp k key r p inp' k' p'. i < length (lk_threads s) \<longrightarrow> j < length (lk_threads s) \<longrightarrow> i \<noteq> j \<longrightarrow>
      lk_threads s ! i = (inp, k, Store key r p) \<longrightarrow> lk_threads s ! j = (inp', k', p') \<longrightarrow> \<not> touches_map p') \<and>
    ((\<exists>(inp, k, p) \<in> set (lk_threads s). \<not> answered p) \<longrightarrow> (\<exists>s'. working rt s s'))"
proof -
  note inv = locked_steps_inv [OF assms]
  have "\<not> touches_map p'"
    if i: "i < length (lk_threads s)" "lk_threads s ! i = (inp, k, Store key r p)"
      and j: "j < length (lk_threads s)" "lk_threads s ! j = (inp', k', p')" and "i \<noteq> j"
    for i j inp k key r p inp' k' p'
  proof -
    have "0 < how_many writes (lk_threads s)" by (rule how_many_at [OF i]) simp
    with inv have "how_many writes (lk_threads s) = 1" "how_many reads (lk_threads s) = 0"
      by (cases "rw_writing (lk_mutex s)"; auto simp: locking_inv_def)+
    moreover have "\<not> writes p'"
      using how_many_two [where P = writes, OF i(1) j(1) that(5) i(2) j(2)] calculation(1) by auto
    moreover have "\<not> reads p'" using how_many_at [OF j, of reads] calculation(2) by auto
    ultimately show ?thesis by (cases p') auto
  qed
  then show ?thesis using unanswered_can_work [OF inv] by blast
qed

text \<open>Alice's claim about to write the map while Bob's has arrived.\<close>

lemma head_works:
  "run_alone n (p, m, items) = Some (p', m', items') \<Longrightarrow>
     (working rt ^^ n) \<lparr>lk_mutex = m, lk_items = items, lk_threads = (inp, k, p) # ts\<rparr>
       \<lparr>lk_mutex = m', lk_items = items', lk_threads = (inp, k, p') # ts\<rparr>"
proof (induction n arbitrary: p m items)
  case (Suc n)
  then obtain q m1 items1 where q: "exec p m items = Some (q, m1, items1)"
      "run_alone n (q, m1, items1) = Some (p', m', items')"
    by (auto simp: Option.bind_eq_Some_conv)
  have "working rt \<lparr>lk_mutex = m, lk_items = items, lk_threads = (inp, k, p) # ts\<rparr>
      \<lparr>lk_mutex = m1, lk_items = items1, lk_threads = (inp, k, q) # ts\<rparr>"
    using go [of 0 "\<lparr>lk_mutex = m, lk_items = items, lk_threads = (inp, k, p) # ts\<rparr>" inp k p q m1 items1 rt] q(1)
    by (simp add: working_def)
  with Suc.IH [OF q(2)] show ?case by (blast intro: relpowp_Suc_I2)
qed simp

lemma working_steps: "(working rt ^^ n) s s' \<Longrightarrow> locked_steps rt s s'"
proof (induction n arbitrary: s')
  case (Suc n)
  then obtain t where "(working rt ^^ n) s t" "working rt t s'" by auto
  then have "(working rt ^^ n) s t" "locked_step rt t s'" by (simp_all add: working_def)
  with Suc.IH show ?case by (blast intro: rtranclp.rtrancl_into_rtrancl)
qed simp

definition both_arrived :: locked where
  "both_arrived = idle_cache\<lparr>lk_threads :=
     [(alice, ''idem'', Claim_prog sample_rt alice ''idem''), (bob, ''idem'', Claim_prog sample_rt bob ''idem'')]\<rparr>"

lemma both_arrived_reached: "locked_steps sample_rt idle_cache both_arrived"
  using come [of sample_rt alice idle_cache "''idem''"]
    come [of sample_rt bob "idle_cache\<lparr>lk_threads := [(alice, ''idem'', Claim_prog sample_rt alice ''idem'')]\<rparr>" "''idem''"]
  by (simp add: both_arrived_def idle_cache_def)

definition alice_writes :: locked where
  "alice_writes = \<lparr>lk_mutex = unlocked\<lparr>rw_writing := True\<rparr>, lk_items = NewClaims, lk_threads =
     [(alice, ''idem'', after_miss sample_rt alice ''idem''), (bob, ''idem'', Claim_prog sample_rt bob ''idem'')]\<rparr>"

lemma alice_writes_reached: "locked_steps sample_rt idle_cache alice_writes"
proof -
  have "run_alone 5 (Claim_prog sample_rt alice ''idem'', unlocked, NewClaims) =
      Some (after_miss sample_rt alice ''idem'', unlocked\<lparr>rw_writing := True\<rparr>, NewClaims)"
    by (simp add: Claim_prog_eq after_get_def unlocked_def NewClaims_def eval_nat_numeral)
  then have "locked_steps sample_rt both_arrived alice_writes"
    unfolding both_arrived_def alice_writes_def idle_cache_def locked.update_convs
    by (rule working_steps [OF head_works])
  with both_arrived_reached show ?thesis by simp
qed

theorem cache_locking_witness:
  "\<not> touches_map (Claim_prog sample_rt bob ''idem'') \<and> (\<exists>s'. working sample_rt alice_writes s')"
proof -
  have threads: "lk_threads alice_writes =
      [(alice, ''idem'', after_miss sample_rt alice ''idem''), (bob, ''idem'', Claim_prog sample_rt bob ''idem'')]"
    by (simp add: alice_writes_def)
  note locking = cache_locking [OF alice_writes_reached, unfolded threads]
  have "\<not> touches_map (Claim_prog sample_rt bob ''idem'')"
    using conjunct1 [OF locking, rule_format, of 0 1] by simp
  moreover have "\<exists>s'. working sample_rt alice_writes s'"
    using conjunct2 [OF locking] by simp
  ultimately show ?thesis by blast
qed

subsection \<open>Termination\<close>

fun statements_left :: "claim_prog \<Rightarrow> nat" where
  "statements_left (Return a) = 0"
| "statements_left (Unlock p) = 1"
| "statements_left (Store key r p) = 2"
| "statements_left (Acquire p) = 3"
| "statements_left (Lock p) = 4"
| "statements_left (RUnlock p) = Suc (statements_left p)"
| "statements_left (Load key k) = 6"
| "statements_left (RLock p) = 7"

definition left_over :: "locked \<Rightarrow> nat" where
  "left_over s = sum_list (map (\<lambda>(inp, k, p). statements_left p) (lk_threads s))"

lemma placed_exec_left:
  assumes "placed rt (inp, k, p)" and "exec p m items = Some (p', m', items')"
  shows "statements_left p' < statements_left p"
  using assms(1) unfolding placed_def prod.case Claim_prog_eq
  by (elim disjE exE) (use assms(2) in \<open>auto simp: after_get_def split: if_splits option.splits\<close>)

lemma placed_left: "placed rt t \<Longrightarrow> (case t of (inp, k, p) \<Rightarrow> statements_left p) \<le> 7"
  by (auto simp: placed_def Claim_prog_eq after_get_def split: option.splits)

lemma sum_list_update_less:
  "i < length ts \<Longrightarrow> f t < (f (ts ! i) :: nat) \<Longrightarrow> sum_list (map f (ts[i := t])) < sum_list (map f ts)"
proof (induction ts arbitrary: i)
  case (Cons x xs)
  then show ?case by (cases i) auto
qed simp

lemma working_left:
  assumes "working rt s s'" and "locking_inv rt s"
  shows "left_over s' < left_over s \<and> locking_inv rt s' \<and> length (lk_threads s') = length (lk_threads s)"
proof -
  from assms(1) have step: "locked_step rt s s'" and len: "length (lk_threads s') = length (lk_threads s)"
    by (simp_all add: working_def)
  from step have "left_over s' < left_over s"
  proof cases
    case (come inp k)
    then show ?thesis using len by simp
  next
    case (go i inp k p p' m items)
    have "placed rt (inp, k, p)" using assms(2) go(2,3) by (metis locking_inv_def list_all_length)
    from placed_exec_left [OF this go(4)] show ?thesis
      unfolding go(1) left_over_def using go(2,3) by (simp add: sum_list_update_less)
  qed
  with locked_step_inv [OF step assms(2)] len show ?thesis by simp
qed

lemma working_bounded:
  "(working rt ^^ n) s s' \<Longrightarrow> locking_inv rt s \<Longrightarrow>
     n + left_over s' \<le> left_over s \<and> locking_inv rt s' \<and> length (lk_threads s') = length (lk_threads s)"
proof (induction n arbitrary: s')
  case (Suc n)
  then obtain t where "(working rt ^^ n) s t" "working rt t s'" by auto
  with Suc.IH [of t] Suc.prems(2) working_left [of rt t s'] show ?case by auto
qed simp

lemma left_over_bound: "locking_inv rt s \<Longrightarrow> left_over s \<le> 7 * length (lk_threads s)"
proof -
  have "list_all (placed rt) ts \<Longrightarrow>
      sum_list (map (\<lambda>(inp, k, p). statements_left p) ts) \<le> 7 * length ts" for ts
    by (induction ts) (auto dest: placed_left)
  then show "locking_inv rt s \<Longrightarrow> ?thesis" by (simp add: locking_inv_def left_over_def)
qed

text \<open>C36 [every claim is answered]. From any state the claims can reach, in whatever order their statements run on,
  at most seven statements per claim can run, and when no claim can run any further every claim is
  answered: with its own provisioning, or with the replay of the provisioning that another claim under
  its key was given; and its key is cached.\<close>

theorem claims_finish:
  assumes "locked_steps rt idle_cache s" and "(working rt ^^ n) s s'"
  shows "n \<le> 7 * length (lk_threads s) \<and>
    ((\<nexists>s''. working rt s' s'') \<longrightarrow> (\<forall>(inp, k, p) \<in> set (lk_threads s'). \<exists>a. p = Return a \<and>
       lk_items s' (cache_key rt inp k) \<noteq> None \<and>
       (a = provisioned rt inp \<or>
        (\<exists>inp' k'. (inp', k', Return (provisioned rt inp')) \<in> set (lk_threads s') \<and>
           cache_key rt inp' k' = cache_key rt inp k \<and> a = as_replay (provisioned rt inp')))))"
proof -
  note inv = locked_steps_inv [OF assms(1)]
  have "n \<le> 7 * length (lk_threads s)"
    using working_bounded [OF assms(2) inv] left_over_bound [OF inv] by simp
  moreover have "\<exists>a. p = Return a \<and> lk_items s' (cache_key rt inp k) \<noteq> None \<and>
       (a = provisioned rt inp \<or>
        (\<exists>inp' k'. (inp', k', Return (provisioned rt inp')) \<in> set (lk_threads s') \<and>
           cache_key rt inp' k' = cache_key rt inp k \<and> a = as_replay (provisioned rt inp')))"
    if stuck: "\<nexists>s''. working rt s' s''" and t: "(inp, k, p) \<in> set (lk_threads s')" for inp k p
  proof -
    have run: "locked_steps rt idle_cache s'" using assms(1) working_steps [OF assms(2)] by simp
    have finished: "\<exists>a. q = Return a" if "(inp', k', q) \<in> set (lk_threads s')" for inp' k' q
      using unanswered_can_work [OF locked_steps_inv [OF run] that] stuck by (cases q) auto
    obtain a where a: "p = Return a" using finished [OF t] by blast
    have "race_inv rt (calls_of s')"
      by (rule race_steps_inv [OF locked_steps_simulate [OF run] race_inv_start])
    moreover have "Answered inp k a \<in> set (rc_threads (calls_of s'))"
      using t a by (force simp: calls_of_def)
    ultimately have good: "good_thread rt (lk_items s') (rc_threads (calls_of s')) (Answered inp k a)"
      by (auto simp: race_inv_def calls_of_def)
    have returned: "(inp', k', Return b) \<in> set (lk_threads s')"
      if "Answered inp' k' b \<in> set (rc_threads (calls_of s'))" for inp' k' b
      using that finished by (fastforce simp: calls_of_def)
    from good have "lk_items s' (cache_key rt inp k) \<noteq> None \<and> (a = provisioned rt inp \<or>
        (\<exists>inp' k'. Answered inp' k' (provisioned rt inp') \<in> set (rc_threads (calls_of s')) \<and>
           cache_key rt inp' k' = cache_key rt inp k \<and> a = as_replay (provisioned rt inp')))"
      by (auto simp: good_thread_def given_def)
    with returned a show ?thesis by blast
  qed
  ultimately show ?thesis by fast
qed

text \<open>Alice's claim from its arrival to its answer, seven statements, with Bob's waiting.\<close>

theorem claims_finish_witness:
  "\<exists>s'. (working sample_rt ^^ 7) both_arrived s' \<and> (7::nat) \<le> 7 * length (lk_threads both_arrived) \<and>
     (\<exists>s''. working sample_rt s' s'')"
proof -
  let ?a = "provisioned sample_rt alice"
  let ?items = "[cache_key sample_rt alice ''idem'' \<mapsto> ?a]"
  let ?s' = "\<lparr>lk_mutex = unlocked, lk_items = ?items, lk_threads =
     [(alice, ''idem'', Return ?a), (bob, ''idem'', Claim_prog sample_rt bob ''idem'')]\<rparr>"
  have "run_alone 7 (Claim_prog sample_rt alice ''idem'', unlocked, NewClaims) = Some (Return ?a, unlocked, ?items)"
    by (simp add: Claim_prog_eq after_get_def unlocked_def NewClaims_def eval_nat_numeral)
  from head_works [OF this] have run: "(working sample_rt ^^ 7) both_arrived ?s'"
    unfolding both_arrived_def idle_cache_def by simp
  from claims_finish [OF both_arrived_reached run] run show ?thesis
    by (intro exI [of _ ?s']) (auto simp: Claim_prog_eq)
qed

end
