(* ===== verification/Spec2Isabelle.thy ===== *)
theory Spec2Isabelle
  imports Gateway_Process Gateway_Access Audit_Trail Deployment Limit_Properties Code_Distribution
    Edge_Properties Route_Proxies Http_Answers Server_Properties Server_Front Route_Aliases Claim_Locks
begin

text \<open>
  orbit-api-gateway: a verification of the platform's REST edge.

  The program.  The gateway is a Go service with one binary (\<^verbatim>\<open>cmd/gateway\<close>).  It takes HTTP requests on a
  \<open>net/http\<close> mux behind Fiber, meters them, checks their form, and answers them itself (ownership
  challenges, workstation onboarding, installer, OpenAPI documents) or by one call to orbit-auth over gRPC
  or HTTP (login, one-time passwords, sign-up, organizations, invitations, tenants, flags).  It keeps
  three stores in memory: pending ownership challenges, answered onboarding claims and audit entries.
  Its layers are \<^verbatim>\<open>internal/domain\<close> (types, policies, ports), \<^verbatim>\<open>internal/application\<close> (the service's
  use cases over the ports) and \<^verbatim>\<open>internal/infrastructure\<close> (the adapters that provide the ports, and
  the HTTP edge).

  How it is modelled.  A method that reads or changes anything outside its arguments is a value of
  \<open>('w, 'a) state\<close>; a Go pair of a value and an error is \<open>go_error + 'a\<close>; a nil dereference is the error
  \<open>NilDeref\<close>, and at the edge the mark \<open>rw_Panic\<close> of the response writer.  Integers that can wrap are
  words (the bytes of a challenge code, the 32-bit arithmetic of SHA-256); the other integers of the
  code stay far inside 64 bits and are \<open>int\<close> or \<open>nat\<close>.  Strings are byte strings.  What the process
  shares with the world is the record \<open>gw_world\<close>: the three stores and \<open>w_ext\<close>, everything outside.

  The theories, in the order of the code.
    \<^item> \<open>Gw_Prelude\<close>: results, early returns, frames (\<open>preserves\<close>) and invariants (\<open>keeps\<close>) of stateful
      operations.  \<open>Go_Strings\<close>, \<open>Go_Time\<close>, \<open>Go_Json\<close>, \<open>Go_Sha256\<close>, \<open>Go_Mux\<close>: what the sources use of
      Go's standard library (\<open>strings\<close>, \<open>strconv\<close>, \<open>time\<close>, \<open>encoding/json\<close>, \<open>crypto/sha256\<close>, \<open>ServeMux\<close>
      with its conflict check).
    \<^item> \<open>Domain_RateLimit\<close>, \<open>Domain_Errors\<close>, \<open>Domain_Types\<close>, \<open>Domain_Ownership\<close>, \<open>Domain_Onboarding\<close>,
      \<open>Domain_Ports\<close>: \<^verbatim>\<open>internal/domain\<close>, one record per struct, one record of operations per port.
    \<^item> \<open>Memory_Stores\<close>: \<^verbatim>\<open>internal/infrastructure/memory\<close> and the contracts of the three stores as the
      locales \<open>challenge_store\<close>, \<open>claim_cache\<close> and \<open>audit_store\<close>, interpreted on them.
    \<^item> \<open>App_Service\<close>: \<^verbatim>\<open>internal/application\<close>, the service and every use case.  \<open>App_Ownership\<close>,
      \<open>App_Onboarding\<close>, \<open>App_Audit\<close>: the locales \<open>ownership\<close>, \<open>onboarding\<close> and \<open>auditing\<close>, which extend the
      store contracts and prove the use cases against their specifications (\<open>abs_verify\<close>,
      \<open>abs_claim\<close>) and over histories of operations.
    \<^item> \<open>RateLimit_Adapter\<close>, \<open>Auth_Client\<close>, \<open>Infra_Adapters\<close>: the adapters \<^verbatim>\<open>ratelimit\<close>, \<^verbatim>\<open>auth\<close>,
      \<^verbatim>\<open>ids\<close>, \<^verbatim>\<open>clock\<close>, \<^verbatim>\<open>assets\<close> and \<^verbatim>\<open>jwks\<close>.
    \<^item> \<open>Http_Core\<close> (\<^verbatim>\<open>response.go\<close>), \<open>Http_Handlers\<close> (\<^verbatim>\<open>handlers.go\<close>, \<^verbatim>\<open>flags.go\<close>, \<^verbatim>\<open>openapi.go\<close>),
      \<open>Http_Orgs\<close> (\<^verbatim>\<open>orgs.go\<close>), \<open>Http_Middleware\<close> (\<^verbatim>\<open>middleware.go\<close>), \<open>Http_Server\<close> (\<^verbatim>\<open>server.go\<close>):
      the edge.  \<open>Http_Guards\<close> has the contract all its middlewares share as the locale \<open>guard\<close> (and
      \<open>guard_pair\<close> for two in a row), interpreted on the limiters and the token checks; \<open>Http_Access\<close>
      what the token checks admit; \<open>Mux_Dispatch\<close> the route table against the mux, \<open>Server_Dispatch\<close>
      the handler a server built by \<open>New\<close> runs; \<open>Http_Calm\<close> that the handlers answer without a panic.
    \<^item> \<open>Gateway_Main\<close>: \<^verbatim>\<open>cmd/gateway/main.go\<close>, startup and wiring.  \<open>Gateway_Wiring\<close>: the application
      locales interpreted on the wired service, and what each route may do to the stores.
      \<open>Samples\<close>: a concrete outside world for the witnesses.

  What is proved.
    \<^item> \<open>Gateway_Process\<close> (C1--C5, C7, C8): the process as a state machine whose steps serve one request
      or move the outside world.  A challenge proves its address at most once, with its own code and
      within ten minutes; a claim is answered once per key and replayed after that; when a claim is
      answered for somebody else; the stores keep their invariants in every reachable state.
    \<^item> \<open>Gateway_Access\<close> (C10--C15, C17): what passes the token checks, break-glass and the audit hook.
      \<open>Audit_Trail\<close> (C6, C16): over any sequence of break-glass requests the log is the list of the
      grants; a grant may have no name.  \<open>Deployment\<close> (C9): the stores of a process that mounts handlers
      of its own under the token middleware, as a step relation over platform and mounted requests.
    \<^item> \<open>Limit_Properties\<close> (C18, C22): what a limit decision, a limiter failure and a nil limiter do
      to a request, and which requests share a bucket.
    \<^item> \<open>Code_Distribution\<close> (C23): how many draws of the random source give each challenge code.
    \<^item> \<open>Edge_Properties\<close>: failures of orbit-auth as the client sees them, requests without a
      token, request bodies, flags.  \<open>Org_Proxy\<close> and \<open>Auth_Proxy\<close>: the handlers against tables of
      upstream calls (\<open>org_proxy\<close>, \<open>auth_proxy\<close>, \<open>select_proxy\<close>) and of spent buckets (\<open>metered\<close>).
      \<open>Route_Proxies\<close> (C24, C25, C27, C30): the twenty-one proxied routes end to end, from the request
      through mux, limiters, handler, use case and client to one upstream call; the flag answer read back
      by the gateway's own client (C28); the bucket a forged address spends (C21).  \<open>Http_Answers\<close> (C20):
      the shape of every answer of an API route.
    \<^item> \<open>Server_Properties\<close> (C31--C35, C37): registration without conflict, dispatch, unknown paths, no
      panic, what startup guarantees, the address pool.  \<open>Server_Front\<close> (C19): what the two
      middlewares the gateway installs in Fiber make of the adaptor's answer.  \<open>Route_Aliases\<close> (C29): the
      documented aliases run as the routes they stand for.
    \<^item> \<open>Claim_Race\<close> (C38--C40): the interleavings of the cache calls of concurrent claims.
      \<open>Claim_Locks\<close> (C26, C36): the same claims statement by statement, with the \<open>sync.RWMutex\<close> of the
      cache: no data race, no deadlock, every claim answered after at most seven statements each, and a
      simulation that makes each such run one of the interleavings of \<open>Claim_Race\<close>.

  Atomicity.  A step of \<open>Gateway_Process\<close> serves a whole request.  Every store method holds the store's
  mutex, and every handler but the claim handler changes at most one store by one method call after
  its reads of the world, so whole requests are the observable steps of the others; the claim handler
  makes two store calls and has its interleavings in \<open>Claim_Race\<close>, whose calls are atomic by
  \<open>Claim_Locks.locked_simulates\<close>.

  Parameters.  Code outside the repository is an argument of the model: the gRPC stubs and the HTTP client
  of orbit-auth, the orbit-rate-limiting library (its limiter and its two key functions), orbit-auth's
  key loader, the JWT parser, the observability middleware and health handlers, Fiber with its adaptor to
  \<open>net/http\<close> (the record \<open>fiber_front\<close>), Redis, the random source, the clock, the file system and the
  environment (the record \<open>externals\<close>), and the Unicode case tables behind \<open>strings.ToLower\<close> and \<open>cases.Title\<close> beyond ASCII (the record
  \<open>go_runtime\<close>).  Theorems that need something of them say so in a named hypothesis with a witness.

  Bounds.  All functions are total, there is no fuel.  The JSON decoder's recursion is bounded by the length of
  its input and by the nesting limit of \<open>encoding/json\<close> (\<open>max_nesting_depth\<close>); a request body is
  read up to \<open>maxAuthBody\<close>, 64 KiB.

  What is not modelled, and why.  Cancelled contexts and errors while a body is being read (they end the
  request in the library); Fiber's listener, its timeouts and the signal that ends the process (I/O:
  \<open>Server_Listen\<close>, \<open>Server_Shutdown\<close> and the goroutines of \<open>main\<close> are modelled over Fiber's two
  operations as parameters); \<open>ServeMux\<close>'s redirects of unclean paths and percent escapes (paths are
  clean and unescaped); that a middleware's header change on a request is visible to the middleware
  outside it; several values of one response header (every header of the edge is set once); instants
  outside the years 0 to 9999 and \<open>UnixNano\<close> beyond 64 bits; the backing array that a repeated
  \<open>flags\<close> member of one document would reuse beyond its length; numbers in JSON, which are parsed but
  never decoded into a field by this program.  The installer script, the OpenAPI documents and the
  deployment files are data.
\<close>

end
